(* ===== verification/Prelude.thy ===== *)
theory Prelude
  imports Main "HOL-Library.Word" "HOL-Library.Product_Lexorder" "HOL-Library.Option_ord"
    "HOL-Library.List_Lexorder" "HOL-Library.Char_ord"
begin

text \<open>
  Shared vocabulary of the development: the types every component uses (bytes, instants of
  time, HTTP responses), the ordering helpers that stand for SQL's \<open>ORDER BY\<close>, and the
  generic list lemmas. Nothing here models a particular function of the repository.

  Conventions:
  \<^item> an instant is an \<open>int\<close>, in nanoseconds since the Unix epoch (chrono's
    \<open>NaiveDateTime\<close> has nanosecond resolution); a clock reading is an argument of the
    handler that takes it;
  \<^item> a database id and every other \<open>i32\<close> column is an \<open>int\<close>; the overflow of a
    row counter past 2^31 is not modelled, arithmetic that the code itself performs on
    request data is;
  \<^item> SQL \<open>NULL\<close> is \<open>None\<close>; \<open>Option_ord\<close> puts it before every value, as SQLite does.
\<close>

named_theorems table_simps \<open>equations of the table operations\<close>
named_theorems wf_intros \<open>preservation of the database invariant\<close>
named_theorems frame_simps \<open>tables an operation leaves alone\<close>

type_synonym bytes = "8 word list"
type_synonym time = int

abbreviation ns_per_sec :: int where "ns_per_sec \<equiv> 1000000000"
abbreviation ns_per_day :: int where "ns_per_day \<equiv> 86400 * 1000000000"

definition seconds :: "int \<Rightarrow> int" where
  "seconds n = n * ns_per_sec"

definition sql_date :: "time \<Rightarrow> int" where
  "sql_date t = t div ns_per_day"

text \<open>SQLite's \<open>CURRENT_TIMESTAMP\<close> has a resolution of one second.\<close>

definition sql_now :: "time \<Rightarrow> time" where
  "sql_now t = t - t mod ns_per_sec"

lemma seconds_pos [simp]: "0 < n \<Longrightarrow> 0 < seconds n"
  by (simp add: seconds_def)

lemma sql_now_le: "sql_now t \<le> t"
  by (simp add: sql_now_def)

text \<open>The outcome of an HTTP handler: the status it answers with, and the body if it has one.\<close>

datatype 'a response =
    Ok200 'a
  | Accepted202
  | NoContent204
  | NotModified304
  | Forbidden403
  | NotFound404
  | Error500
  | NotImplemented501

text \<open>Errors that surface as \<open>Err\<close> values, and a panic, which ends the program as well.\<close>

datatype error =
    MissingHeader
  | UndecodableHeader
  | WrongAuthCookie
  | NotOnAllowList
  | NotRegistered
  | SignupMismatch
  | RowNotFound
  | BadStatusText string
  | InvalidSortField
  | NoSuchColumn
  | LibraryError
  | Panicked

type_synonym 'a result = "error + 'a"

lemma map_sum_Inr: "map_sum f g r = Inr y \<longleftrightarrow> (\<exists>x. r = Inr x \<and> y = g x)"
  by (cases r) auto

text \<open>\<open>write_all\<close> to a file that is empty: everything, or, when \<open>fault\<close> is given, an error after that many
  bytes.\<close>

definition write_all :: "nat option \<Rightarrow> 'a list \<Rightarrow> unit result \<times> 'a list" where
  "write_all fault data =
     (case fault of None \<Rightarrow> (Inr (), data) | Some n \<Rightarrow> (Inl LibraryError, take n data))"

text \<open>\<open>collect\<close> of results: the first error, or all values.\<close>

fun results :: "'a result list \<Rightarrow> 'a list result" where
  "results [] = Inr []"
| "results (Inl e # rs) = Inl e"
| "results (Inr x # rs) = map_sum id (Cons x) (results rs)"

text \<open>A loop whose body may fail with \<open>?\<close>: the first error ends it.\<close>

fun fold_result :: "('x \<Rightarrow> 's \<Rightarrow> 's result) \<Rightarrow> 'x list \<Rightarrow> 's \<Rightarrow> 's result" where
  "fold_result f [] s = Inr s"
| "fold_result f (x # xs) s = (case f x s of Inl e \<Rightarrow> Inl e | Inr s' \<Rightarrow> fold_result f xs s')"

lemma fold_result_invariant:
  assumes "P s" and "\<And>x s. x \<in> set xs \<Longrightarrow> P s \<Longrightarrow> \<exists>s'. f x s = Inr s' \<and> P s'"
  shows "\<exists>s'. fold_result f xs s = Inr s' \<and> P s'"
  using assms
proof (induction xs arbitrary: s)
  case Nil
  then show ?case by simp
next
  case (Cons x xs)
  from Cons.prems(2)[of x s] Cons.prems(1) obtain s1 where s1: "f x s = Inr s1" "P s1" by auto
  with Cons.IH[OF s1(2)] Cons.prems(2) show ?case by simp
qed

lemma fold_result_Inr_invariant:
  assumes "fold_result f xs s = Inr s'" and "P s"
    and "\<And>x s s'. x \<in> set xs \<Longrightarrow> P s \<Longrightarrow> f x s = Inr s' \<Longrightarrow> P s'"
  shows "P s'"
  using assms
proof (induction xs arbitrary: s)
  case Nil
  then show ?case by simp
next
  case (Cons x xs)
  then obtain s1 where s1: "f x s = Inr s1" by (auto split: sum.splits)
  with Cons.prems have "P s1" by auto
  with Cons s1 show ?case by auto
qed

section \<open>Ordering\<close>

text \<open>
  \<open>first_by\<close> is \<open>ORDER BY key LIMIT 1\<close>: the earliest row of the scan among those with the
  least key. \<open>first_by_desc\<close> is the same for a descending order.
\<close>

fun first_by :: "('a \<Rightarrow> 'k::linorder) \<Rightarrow> 'a list \<Rightarrow> 'a option" where
  "first_by key [] = None"
| "first_by key (x # xs) =
     (case first_by key xs of
        None \<Rightarrow> Some x
      | Some y \<Rightarrow> if key x \<le> key y then Some x else Some y)"

fun first_by_desc :: "('a \<Rightarrow> 'k::linorder) \<Rightarrow> 'a list \<Rightarrow> 'a option" where
  "first_by_desc key [] = None"
| "first_by_desc key (x # xs) =
     (case first_by_desc key xs of
        None \<Rightarrow> Some x
      | Some y \<Rightarrow> if key y \<le> key x then Some x else Some y)"

lemma first_by_None [simp]: "first_by key xs = None \<longleftrightarrow> xs = []"
  by (cases xs) (auto split: option.splits)

lemma first_by_desc_None [simp]: "first_by_desc key xs = None \<longleftrightarrow> xs = []"
  by (cases xs) (auto split: option.splits)

lemma first_by_Some:
  "first_by key xs = Some x \<Longrightarrow> x \<in> set xs \<and> (\<forall>y\<in>set xs. key x \<le> key y)"
proof (induction xs arbitrary: x)
  case Nil
  then show ?case by simp
next
  case (Cons a xs)
  show ?case
  proof (cases "first_by key xs")
    case None
    with Cons.prems show ?thesis by simp
  next
    case (Some y)
    with Cons.IH[of y] Cons.prems show ?thesis
      by (auto split: if_splits intro: order_trans)
  qed
qed

lemma first_by_desc_Some:
  "first_by_desc key xs = Some x \<Longrightarrow> x \<in> set xs \<and> (\<forall>y\<in>set xs. key y \<le> key x)"
proof (induction xs arbitrary: x)
  case Nil
  then show ?case by simp
next
  case (Cons a xs)
  show ?case
  proof (cases "first_by_desc key xs")
    case None
    with Cons.prems show ?thesis by simp
  next
    case (Some y)
    with Cons.IH[of y] Cons.prems show ?thesis
      by (auto split: if_splits intro: order_trans)
  qed
qed

lemma first_by_ex: "xs \<noteq> [] \<Longrightarrow> \<exists>x. first_by key xs = Some x"
  by (metis first_by_None not_None_eq)

section \<open>Lists\<close>

lemma sorted_wrt_map_filter:
  "sorted_wrt P (map f xs) \<Longrightarrow> sorted_wrt P (map f (filter q xs))"
  by (induction xs) auto

lemma distinct_map_filter_list: "distinct (map f xs) \<Longrightarrow> distinct (map f (filter q xs))"
  by (induction xs) auto

lemma map_cong_update:
  "(\<And>x. x \<in> set xs \<Longrightarrow> p x \<Longrightarrow> g (f x) = g x) \<Longrightarrow>
     map g (map (\<lambda>x. if p x then f x else x) xs) = map g xs"
  by (induction xs) auto

lemma find_Some_set: "find p xs = Some x \<Longrightarrow> x \<in> set xs \<and> p x"
  by (induction xs) (auto split: if_splits)

lemma find_None_set: "find p xs = None \<longleftrightarrow> (\<forall>x\<in>set xs. \<not> p x)"
  by (induction xs) auto

lemma distinct_map_eqD:
  "distinct (map f xs) \<Longrightarrow> x \<in> set xs \<Longrightarrow> y \<in> set xs \<Longrightarrow> f x = f y \<Longrightarrow> x = y"
  by (auto simp: distinct_map inj_on_def)

lemma filter_unique:
  "distinct (map f xs) \<Longrightarrow> x \<in> set xs \<Longrightarrow> filter (\<lambda>y. f y = f x) xs = [x]"
proof (induction xs)
  case Nil
  then show ?case by simp
next
  case (Cons a xs)
  then show ?case
    by (cases "x = a") (auto simp: filter_empty_conv image_iff)
qed

end
