(* ===== verification/Sql.thy ===== *)
theory Sql
  imports Prelude
begin

text \<open>
  Tables as the daemon's SQLite database has them: the rows in \<open>rowid\<close> order and the
  \<open>AUTOINCREMENT\<close> counter, which never goes back. The operations are the statements that
  diesel generates for the code: \<open>INSERT\<close>, \<open>UPDATE ... WHERE\<close>, \<open>DELETE ... WHERE\<close>,
  \<open>INSERT ... ON CONFLICT DO UPDATE\<close> and the joins. The locale \<open>keyed_table\<close> states what a
  table with a unique index promises to the code that upserts into it.
\<close>

record 'r table =
  rows :: "'r list"
  seq :: int

definition empty_table :: "'r table" where
  "empty_table = \<lparr>rows = [], seq = 0\<rparr>"

definition sql_insert :: "(int \<Rightarrow> 'r) \<Rightarrow> 'r table \<Rightarrow> 'r \<times> 'r table" where
  "sql_insert mk t =
     (mk (seq t + 1), \<lparr>rows = rows t @ [mk (seq t + 1)], seq = seq t + 1\<rparr>)"

definition sql_update :: "('r \<Rightarrow> bool) \<Rightarrow> ('r \<Rightarrow> 'r) \<Rightarrow> 'r table \<Rightarrow> 'r table" where
  "sql_update p f t = t\<lparr>rows := map (\<lambda>r. if p r then f r else r) (rows t)\<rparr>"

definition sql_delete :: "('r \<Rightarrow> bool) \<Rightarrow> 'r table \<Rightarrow> 'r table" where
  "sql_delete p t = t\<lparr>rows := filter (\<lambda>r. \<not> p r) (rows t)\<rparr>"

definition sql_count :: "('r \<Rightarrow> bool) \<Rightarrow> 'r table \<Rightarrow> nat" where
  "sql_count p t = length (filter p (rows t))"

definition sql_exists :: "('r \<Rightarrow> bool) \<Rightarrow> 'r table \<Rightarrow> bool" where
  "sql_exists p t = list_ex p (rows t)"

text \<open>\<open>INSERT ... ON CONFLICT DO UPDATE ... RETURNING\<close>: \<open>hit\<close> is the row that conflicts.\<close>

definition sql_upsert ::
  "('r \<Rightarrow> bool) \<Rightarrow> ('r \<Rightarrow> 'r) \<Rightarrow> (int \<Rightarrow> 'r) \<Rightarrow> 'r table \<Rightarrow> 'r \<times> 'r table" where
  "sql_upsert hit upd mk t =
     (case find hit (rows t) of
        Some r \<Rightarrow> (upd r, sql_update hit upd t)
      | None \<Rightarrow> sql_insert mk t)"

text \<open>Joins, in the order of the outer table.\<close>

definition inner_join :: "('a \<Rightarrow> 'b \<Rightarrow> bool) \<Rightarrow> 'a list \<Rightarrow> 'b list \<Rightarrow> ('a \<times> 'b) list" where
  "inner_join on xs ys = concat (map (\<lambda>x. map (Pair x) (filter (on x) ys)) xs)"

definition left_join :: "('a \<Rightarrow> 'b \<Rightarrow> bool) \<Rightarrow> 'a list \<Rightarrow> 'b list \<Rightarrow> ('a \<times> 'b option) list" where
  "left_join on xs ys =
     concat (map (\<lambda>x. case filter (on x) ys of
                        [] \<Rightarrow> [(x, None)]
                      | zs \<Rightarrow> map (\<lambda>y. (x, Some y)) zs) xs)"

text \<open>SQL's \<open>x < y\<close> and \<open>x = y\<close> on nullable columns, as a \<open>WHERE\<close> clause reads them.\<close>

fun null_less :: "'a::linorder option \<Rightarrow> 'a option \<Rightarrow> bool" where
  "null_less (Some x) (Some y) = (x < y)"
| "null_less _ _ = False"

fun null_eq :: "'a option \<Rightarrow> 'a option \<Rightarrow> bool" where
  "null_eq (Some x) (Some y) = (x = y)"
| "null_eq _ _ = False"

section \<open>What a table guarantees\<close>

definition wf_table :: "('r \<Rightarrow> int) \<Rightarrow> 'r table \<Rightarrow> bool" where
  "wf_table ident t \<longleftrightarrow>
     sorted_wrt (<) (map ident (rows t)) \<and>
     (\<forall>r\<in>set (rows t). 0 < ident r \<and> ident r \<le> seq t) \<and> 0 \<le> seq t"

definition unique_on :: "('r \<Rightarrow> 'k) \<Rightarrow> 'r table \<Rightarrow> bool" where
  "unique_on key t \<longleftrightarrow> distinct (map key (rows t))"

abbreviation ids :: "('r \<Rightarrow> int) \<Rightarrow> 'r table \<Rightarrow> int set" where
  "ids ident t \<equiv> ident ` set (rows t)"

lemma rows_empty [simp]: "rows empty_table = []" "seq empty_table = 0"
  by (simp_all add: empty_table_def)

lemma rows_update [table_simps]:
  "rows (sql_update p f t) = map (\<lambda>r. if p r then f r else r) (rows t)"
  by (simp add: sql_update_def)

lemma rows_delete [table_simps]: "rows (sql_delete p t) = filter (\<lambda>r. \<not> p r) (rows t)"
  by (simp add: sql_delete_def)

lemma rows_insert [table_simps]:
  "rows (snd (sql_insert mk t)) = rows t @ [mk (seq t + 1)]"
  by (simp add: sql_insert_def)

lemma fst_insert [table_simps]: "fst (sql_insert mk t) = mk (seq t + 1)"
  by (simp add: sql_insert_def)

lemma seq_simps [table_simps]:
  "seq (sql_update p f t) = seq t"
  "seq (sql_delete p t) = seq t"
  "seq (snd (sql_insert mk t)) = seq t + 1"
  by (simp_all add: sql_update_def sql_delete_def sql_insert_def)

lemma wf_table_empty [simp]: "wf_table ident empty_table"
  by (simp add: wf_table_def)

lemma unique_on_empty [simp]: "unique_on key empty_table"
  by (simp add: unique_on_def)

lemma wf_table_distinct: "wf_table ident t \<Longrightarrow> distinct (map ident (rows t))"
  by (auto simp: wf_table_def strict_sorted_iff)

lemma wf_table_id_unique:
  "wf_table ident t \<Longrightarrow> r \<in> set (rows t) \<Longrightarrow> r' \<in> set (rows t) \<Longrightarrow> ident r = ident r' \<Longrightarrow> r = r'"
  by (rule distinct_map_eqD[OF wf_table_distinct])

lemma wf_table_insert:
  "wf_table ident t \<Longrightarrow> ident (mk (seq t + 1)) = seq t + 1 \<Longrightarrow> wf_table ident (snd (sql_insert mk t))"
  by (fastforce simp: wf_table_def sorted_wrt_append table_simps)

lemma wf_table_update:
  "wf_table ident t \<Longrightarrow> (\<And>r. r \<in> set (rows t) \<Longrightarrow> p r \<Longrightarrow> ident (f r) = ident r) \<Longrightarrow>
     wf_table ident (sql_update p f t)"
  using map_cong_update[of "rows t" p ident f]
  by (auto simp: wf_table_def rows_update seq_simps simp del: map_map)

lemma wf_table_delete: "wf_table ident t \<Longrightarrow> wf_table ident (sql_delete p t)"
  by (auto simp: wf_table_def table_simps sorted_wrt_map_filter)

lemma unique_on_delete: "unique_on key t \<Longrightarrow> unique_on key (sql_delete p t)"
  by (simp add: unique_on_def table_simps distinct_map_filter_list)

lemma unique_on_update:
  "unique_on key t \<Longrightarrow> (\<And>r. r \<in> set (rows t) \<Longrightarrow> p r \<Longrightarrow> key (f r) = key r) \<Longrightarrow>
     unique_on key (sql_update p f t)"
  using map_cong_update[of "rows t" p key f]
  by (simp add: unique_on_def rows_update del: map_map)

lemma unique_on_insert:
  "unique_on key t \<Longrightarrow> key (mk (seq t + 1)) \<notin> key ` set (rows t) \<Longrightarrow>
     unique_on key (snd (sql_insert mk t))"
  by (simp add: unique_on_def table_simps)

lemma ids_update:
  "(\<And>r. r \<in> set (rows t) \<Longrightarrow> p r \<Longrightarrow> ident (f r) = ident r) \<Longrightarrow> ids ident (sql_update p f t) = ids ident t"
  using map_cong_update[of "rows t" p ident f]
  by (metis list.set_map rows_update)

lemma ids_insert:
  "ids ident (snd (sql_insert mk t)) = insert (ident (mk (seq t + 1))) (ids ident t)"
  by (simp add: table_simps)

lemma ball_rows_update:
  "\<forall>r\<in>set (rows t). P r \<Longrightarrow> (\<And>r. r \<in> set (rows t) \<Longrightarrow> p r \<Longrightarrow> P r \<Longrightarrow> P (f r)) \<Longrightarrow>
     \<forall>r\<in>set (rows (sql_update p f t)). P r"
  by (auto simp: rows_update)

lemma ball_rows_insert:
  "\<forall>r\<in>set (rows t). P r \<Longrightarrow> P (mk (seq t + 1)) \<Longrightarrow> \<forall>r\<in>set (rows (snd (sql_insert mk t))). P r"
  by (auto simp: rows_insert)

lemma ids_insert_mono: "ids ident t \<subseteq> ids ident (snd (sql_insert mk t))"
  by (auto simp: rows_insert)

lemmas table_intros = wf_table_insert wf_table_update wf_table_delete unique_on_insert
  unique_on_update unique_on_delete ball_rows_update ball_rows_insert ids_insert_mono

lemma sql_exists_iff: "sql_exists p t \<longleftrightarrow> (\<exists>r\<in>set (rows t). p r)"
  by (simp add: sql_exists_def list_ex_iff)

lemma set_inner_join:
  "set (inner_join on xs ys) = {(x, y). x \<in> set xs \<and> y \<in> set ys \<and> on x y}"
  by (auto simp: inner_join_def)

lemma inner_join_Cons:
  "inner_join on (x # xs) ys = map (Pair x) (filter (on x) ys) @ inner_join on xs ys"
  by (simp add: inner_join_def)

lemma left_join_SomeD:
  assumes "(x, Some y) \<in> set (left_join on xs ys)"
  shows "x \<in> set xs \<and> y \<in> set ys \<and> on x y"
proof -
  obtain x' where x': "x' \<in> set xs" "(x, Some y) \<in> set (case filter (on x') ys of
      [] \<Rightarrow> [(x', None)] | zs \<Rightarrow> map (\<lambda>y. (x', Some y)) zs)"
    using assms by (auto simp: left_join_def)
  have "x = x' \<and> y \<in> set (filter (on x') ys)"
    using x'(2) by (cases "filter (on x') ys") auto
  with x'(1) show ?thesis by auto
qed

lemma left_join_leftD:
  assumes "(x, r) \<in> set (left_join on xs ys)"
  shows "x \<in> set xs"
proof -
  obtain x' where x': "x' \<in> set xs" "(x, r) \<in> set (case filter (on x') ys of
      [] \<Rightarrow> [(x', None)] | zs \<Rightarrow> map (\<lambda>y. (x', Some y)) zs)"
    using assms by (auto simp: left_join_def)
  then show ?thesis by (cases "filter (on x') ys") auto
qed

lemma left_join_Cons:
  "left_join on (x # xs) ys =
     (case filter (on x) ys of [] \<Rightarrow> [(x, None)] | zs \<Rightarrow> map (\<lambda>y. (x, Some y)) zs)
     @ left_join on xs ys"
  by (simp add: left_join_def)

lemma left_join_append: "left_join on (xs @ zs) ys = left_join on xs ys @ left_join on zs ys"
  by (simp add: left_join_def)

section \<open>The interface of a table with a unique index\<close>

text \<open>
  \<open>ident\<close> is the primary key, \<open>key\<close> the columns of the unique index, \<open>nkey\<close> the same columns
  of a new record, \<open>mk n i\<close> the row a plain insert of \<open>n\<close> with id \<open>i\<close> makes and \<open>upd n r\<close> the
  row the conflict clause leaves of \<open>r\<close>.
\<close>

locale keyed_table =
  fixes ident :: "'r \<Rightarrow> int"
    and key :: "'r \<Rightarrow> 'k"
    and nkey :: "'n \<Rightarrow> 'k"
    and mk :: "'n \<Rightarrow> int \<Rightarrow> 'r"
    and upd :: "'n \<Rightarrow> 'r \<Rightarrow> 'r"
  assumes ident_mk: "ident (mk n i) = i"
    and key_mk: "key (mk n i) = nkey n"
    and ident_upd: "ident (upd n r) = ident r"
    and key_upd: "key r = nkey n \<Longrightarrow> key (upd n r) = nkey n"
begin

abbreviation upsert :: "'n \<Rightarrow> 'r table \<Rightarrow> 'r \<times> 'r table" where
  "upsert n t \<equiv> sql_upsert (\<lambda>r. key r = nkey n) (upd n) (mk n) t"

lemma upsert_wf_table:
  assumes "wf_table ident t"
  shows "wf_table ident (snd (upsert n t))"
  using assms
  by (auto simp: sql_upsert_def ident_upd ident_mk
      intro!: wf_table_update wf_table_insert split: option.split)

lemma upsert_unique_on:
  assumes "unique_on key t"
  shows "unique_on key (snd (upsert n t))"
  using assms
  by (auto simp: sql_upsert_def key_upd key_mk find_None_set
      intro!: unique_on_update unique_on_insert split: option.split)

lemma upsert_ids: "ids ident t \<subseteq> ids ident (snd (upsert n t))"
  by (auto simp: sql_upsert_def ids_update ids_insert ident_upd split: option.split)

lemma upsert_row:
  "fst (upsert n t) \<in> set (rows (snd (upsert n t)))"
  by (auto simp: sql_upsert_def table_simps split: option.split dest!: find_Some_set)

lemma upsert_row_key: "key (fst (upsert n t)) = nkey n"
  by (auto simp: sql_upsert_def table_simps key_mk key_upd split: option.split dest: find_Some_set)

lemma upsert_rows:
  assumes "unique_on key t"
  shows "set (rows (snd (upsert n t))) =
    insert (fst (upsert n t)) {r \<in> set (rows t). key r \<noteq> nkey n}"
proof (cases "find (\<lambda>r. key r = nkey n) (rows t)")
  case None
  then have "\<forall>r\<in>set (rows t). key r \<noteq> nkey n" by (simp add: find_None_set)
  with None show ?thesis by (auto simp: sql_upsert_def table_simps)
next
  case (Some r0)
  then have "r0 \<in> set (rows t)" "key r0 = nkey n" by (auto dest: find_Some_set)
  then have "{r \<in> set (rows t). key r = nkey n} = {r0}"
    using assms by (auto simp: unique_on_def dest: distinct_map_eqD)
  moreover have "set (rows (sql_update (\<lambda>r. key r = nkey n) (upd n) t)) =
      upd n ` {r \<in> set (rows t). key r = nkey n} \<union> {r \<in> set (rows t). key r \<noteq> nkey n}"
    by (auto simp: rows_update)
  ultimately show ?thesis using Some by (simp add: sql_upsert_def)
qed

lemma upsert_keeps_others:
  "r \<in> set (rows t) \<Longrightarrow> key r \<noteq> nkey n \<Longrightarrow> r \<in> set (rows (snd (upsert n t)))"
  by (auto simp: sql_upsert_def table_simps split: option.split)

text \<open>Nothing is lost of a row but what the update changes.\<close>

lemma upsert_image:
  assumes "\<And>r. key r = nkey n \<Longrightarrow> f (upd n r) = f r"
  shows "f ` set (rows t) \<subseteq> f ` set (rows (snd (upsert n t)))"
proof
  fix x assume "x \<in> f ` set (rows t)"
  then obtain r where r: "r \<in> set (rows t)" "x = f r" by blast
  have "r \<in> set (rows (snd (upsert n t))) \<or> upd n r \<in> set (rows (snd (upsert n t))) \<and> key r = nkey n"
    using r(1) by (auto simp: sql_upsert_def table_simps split: option.split)
  with r(2) assms show "x \<in> f ` set (rows (snd (upsert n t)))" by (metis imageI)
qed

lemma upsert_hit:
  "r \<in> set (rows t) \<Longrightarrow> key r = nkey n \<Longrightarrow> unique_on key t \<Longrightarrow> upsert n t = (upd n r, sql_update (\<lambda>r. key r = nkey n) (upd n) t)"
  by (auto simp: sql_upsert_def unique_on_def find_None_set split: option.split
      dest!: find_Some_set dest: distinct_map_eqD)

lemma upsert_miss:
  "nkey n \<notin> key ` set (rows t) \<Longrightarrow> upsert n t = sql_insert (mk n) t"
  by (force simp: sql_upsert_def split: option.split dest!: find_Some_set)

lemma upsert_keys: "key ` set (rows (snd (upsert n t))) = insert (nkey n) (key ` set (rows t))"
proof (cases "find (\<lambda>r. key r = nkey n) (rows t)")
  case None
  then show ?thesis by (simp add: sql_upsert_def table_simps key_mk image_Un)
next
  case (Some r0)
  then have "r0 \<in> set (rows t)" "key r0 = nkey n" by (auto dest: find_Some_set)
  moreover have "key ` set (rows (sql_update (\<lambda>r. key r = nkey n) (upd n) t)) = key ` set (rows t)"
    using map_cong_update[of "rows t" "\<lambda>r. key r = nkey n" key "upd n"] key_upd
    by (metis list.set_map rows_update)
  moreover from calculation have "nkey n \<in> key ` set (rows t)" by (metis imageI)
  ultimately show ?thesis using Some by (simp add: sql_upsert_def insert_absorb)
qed

end

end
