(* ===== verification/Strings.thy ===== *)
theory Strings
  imports Prelude "HOL-Library.Sublist"
begin

text \<open>
  The string functions of Rust's standard library that the code uses, on byte strings
  (\<open>string\<close> is a list of bytes, as Rust's UTF-8 \<open>str\<close> is). White space and letter case are
  the ASCII ones: the code's separators, keywords and paths are ASCII.
\<close>

definition starts_with :: "string \<Rightarrow> string \<Rightarrow> bool" where
  "starts_with p s = prefix p s"

definition ends_with :: "string \<Rightarrow> string \<Rightarrow> bool" where
  "ends_with p s = suffix p s"

fun str_contains :: "string \<Rightarrow> string \<Rightarrow> bool" where
  "str_contains p [] = (p = [])"
| "str_contains p (x # s) = (prefix p (x # s) \<or> str_contains p s)"

fun split_on :: "char \<Rightarrow> string \<Rightarrow> string list" where
  "split_on c [] = [[]]"
| "split_on c (x # s) =
     (if x = c then [] # split_on c s
      else (case split_on c s of [] \<Rightarrow> [[x]] | p # ps \<Rightarrow> (x # p) # ps))"

definition is_space :: "char \<Rightarrow> bool" where
  "is_space c \<longleftrightarrow> of_char c \<in> {9::nat, 10, 11, 12, 13, 32}"

definition trim :: "string \<Rightarrow> string" where
  "trim s = rev (dropWhile is_space (rev (dropWhile is_space s)))"

definition trim_end_matches :: "char \<Rightarrow> string \<Rightarrow> string" where
  "trim_end_matches c s = rev (dropWhile (\<lambda>x. x = c) (rev s))"

definition ascii_upper :: "char \<Rightarrow> char" where
  "ascii_upper c = (let n = (of_char c :: nat) in if 97 \<le> n \<and> n \<le> 122 then char_of (n - 32) else c)"

definition to_uppercase :: "string \<Rightarrow> string" where
  "to_uppercase s = map ascii_upper s"

text \<open>\<open>str::split_once\<close> with a string separator: the parts around its first occurrence.\<close>

fun split_once :: "string \<Rightarrow> string \<Rightarrow> (string \<times> string) option" where
  "split_once p [] = (if p = [] then Some ([], []) else None)"
| "split_once p (x # s) =
     (if prefix p (x # s) then Some ([], drop (length p) (x # s))
      else map_option (\<lambda>(a, b). (x # a, b)) (split_once p s))"

definition strip_prefix :: "string \<Rightarrow> string \<Rightarrow> string option" where
  "strip_prefix p s = (if prefix p s then Some (drop (length p) s) else None)"

definition strip_suffix :: "string \<Rightarrow> string \<Rightarrow> string option" where
  "strip_suffix p s = (if suffix p s then Some (take (length s - length p) s) else None)"

text \<open>\<open>str::replace\<close> for a non-empty pattern: leftmost occurrences, not overlapping.\<close>

function str_replace :: "string \<Rightarrow> string \<Rightarrow> string \<Rightarrow> string" where
  "str_replace p r s =
     (if p = [] then s
      else case s of
             [] \<Rightarrow> []
           | x # s' \<Rightarrow> if prefix p s then r @ str_replace p r (drop (length p) s)
                      else x # str_replace p r s')"
  by pat_completeness auto
termination
  by (relation "measure (\<lambda>(p, r, s). length s)") auto

declare str_replace.simps [simp del]

text \<open>\<open>str::split\<close> with a string separator that is not empty.\<close>

function split_str :: "string \<Rightarrow> string \<Rightarrow> string list" where
  "split_str p s =
     (if p = [] then [s]
      else case s of
             [] \<Rightarrow> [[]]
           | x # s' \<Rightarrow>
               if prefix p s then [] # split_str p (drop (length p) s)
               else (case split_str p s' of [] \<Rightarrow> [[x]] | q # qs \<Rightarrow> (x # q) # qs))"
  by pat_completeness auto
termination
  by (relation "measure (\<lambda>(p, s). length s)") auto

declare split_str.simps [simp del]

text \<open>\<open>str::rfind\<close>: the start of the last occurrence.\<close>

fun rfind :: "string \<Rightarrow> string \<Rightarrow> nat option" where
  "rfind p [] = (if p = [] then Some 0 else None)"
| "rfind p (x # s) =
     (case rfind p s of
        Some i \<Rightarrow> Some (Suc i)
      | None \<Rightarrow> if prefix p (x # s) then Some 0 else None)"

text \<open>Decimal rendering of an integer, as \<open>format!("{}")\<close> prints it.\<close>

definition digit :: "nat \<Rightarrow> char" where
  "digit n = char_of (48 + n)"

fun show_nat :: "nat \<Rightarrow> string" where
  "show_nat n = (if n < 10 then [digit n] else show_nat (n div 10) @ [digit (n mod 10)])"

declare show_nat.simps [simp del]

definition show_int :: "int \<Rightarrow> string" where
  "show_int i = (if i < 0 then ''-'' @ show_nat (nat (- i)) else show_nat (nat i))"

text \<open>Reading an unsigned number: digits, with a plus sign at most.\<close>

definition parse_digits :: "string \<Rightarrow> int option" where
  "parse_digits s =
     (if s \<noteq> [] \<and> list_all (\<lambda>c. 48 \<le> (of_char c :: nat) \<and> of_char c \<le> (57 :: nat)) s
      then Some (int (fold (\<lambda>c n. 10 * n + (of_char c - 48)) s 0)) else None)"

definition parse_u64 :: "string \<Rightarrow> int option" where
  "parse_u64 s =
     (case parse_digits (case s of [] \<Rightarrow> [] | c # rest \<Rightarrow> if c = CHR ''+'' then rest else s) of
        None \<Rightarrow> None
      | Some n \<Rightarrow> if n < 2 ^ 64 then Some n else None)"

lemma split_on_not_Nil [simp]: "split_on c s \<noteq> []"
  by (induction s) (auto split: list.splits)

lemma split_on_no_sep: "p \<in> set (split_on c s) \<Longrightarrow> c \<notin> set p"
  by (induction s arbitrary: p) (auto split: list.splits if_splits)

lemma split_once_Some: "split_once p s = Some (a, b) \<Longrightarrow> s = a @ p @ b"
proof (induction s arbitrary: a)
  case Nil
  then show ?case by (simp split: if_splits)
next
  case (Cons x s)
  then show ?case
    by (auto split: if_splits elim!: prefixE)
qed

lemma str_contains_iff: "str_contains p s \<longleftrightarrow> sublist p s"
  by (induction s) (auto simp: sublist_Cons_right)

lemma trim_nonspace: "trim s \<noteq> [] \<Longrightarrow> \<not> is_space (hd (trim s)) \<and> \<not> is_space (last (trim s))"
proof -
  assume ne: "trim s \<noteq> []"
  let ?t = "dropWhile is_space s"
  let ?u = "dropWhile is_space (rev ?t)"
  have u: "?u \<noteq> []" using ne by (simp add: trim_def)
  then have t: "?t \<noteq> []" by (cases "?t") simp_all
  have "last ?u = last (rev ?t)" using u by (metis last_appendR takeWhile_dropWhile_id)
  also have "\<dots> = hd ?t" using t by (simp add: last_rev)
  finally have "hd (trim s) = hd ?t" using u by (simp add: trim_def hd_rev)
  moreover have "last (trim s) = hd ?u" using u by (simp add: trim_def last_rev)
  ultimately show ?thesis using hd_dropWhile[OF t] hd_dropWhile[OF u] by simp
qed

lemma show_nat_not_Nil [simp]: "show_nat n \<noteq> []"
  by (subst show_nat.simps) simp

end
