(* ===== verification/ApiTypes.thy ===== *)
theory ApiTypes
  imports Strings
begin

text \<open>
  The request and response types of API v1 (\<open>common/src/api/v1\<close>): priorities, build and
  artifact statuses with their text form, the filters and pages of the query strings, the
  reports that the scheduler and the workers send, and the records the daemon answers with.
\<close>

section \<open>Priority\<close>

datatype priority = Priority (prio: int)

definition default_queue_priority :: int where "default_queue_priority = 1"
definition default_retry_priority :: int where "default_retry_priority = default_queue_priority + 1"
definition default_manual_priority :: int where "default_manual_priority = default_queue_priority - 1"

definition priority_default :: priority where "priority_default = Priority default_queue_priority"
definition priority_retry :: priority where "priority_retry = Priority default_retry_priority"
definition priority_manual :: priority where "priority_manual = Priority default_manual_priority"

section \<open>Statuses\<close>

datatype build_status = Good | Bad | Fail | Unknown

fun build_status_as_str :: "build_status \<Rightarrow> string" where
  "build_status_as_str Good = ''GOOD''"
| "build_status_as_str Bad = ''BAD''"
| "build_status_as_str Fail = ''FAIL''"
| "build_status_as_str Unknown = ''UNKWN''"

definition build_status_try_from :: "string \<Rightarrow> build_status result" where
  "build_status_try_from v =
     (if v = ''GOOD'' then Inr Good
      else if v = ''BAD'' then Inr Bad
      else if v = ''FAIL'' then Inr Fail
      else if v = ''UNKWN'' then Inr Unknown
      else Inl (BadStatusText v))"

datatype artifact_status = ArtifactGood | ArtifactBad | ArtifactUnknown

fun artifact_status_as_str :: "artifact_status \<Rightarrow> string" where
  "artifact_status_as_str ArtifactGood = ''GOOD''"
| "artifact_status_as_str ArtifactBad = ''BAD''"
| "artifact_status_as_str ArtifactUnknown = ''UNKWN''"

definition artifact_status_try_from :: "string \<Rightarrow> artifact_status result" where
  "artifact_status_try_from v =
     (if v = ''GOOD'' then Inr ArtifactGood
      else if v = ''BAD'' then Inr ArtifactBad
      else if v = ''UNKWN'' then Inr ArtifactUnknown
      else Inl (BadStatusText v))"

text \<open>Reading a nullable status column, as diesel's \<open>FromSql\<close> instances do.\<close>

definition load_build_status :: "string option \<Rightarrow> build_status option result" where
  "load_build_status c =
     (case c of None \<Rightarrow> Inr None | Some v \<Rightarrow> map_sum id Some (build_status_try_from v))"

lemma build_status_roundtrip [simp]: "build_status_try_from (build_status_as_str s) = Inr s"
  by (cases s) (simp_all add: build_status_try_from_def)

lemma artifact_status_roundtrip [simp]:
  "artifact_status_try_from (artifact_status_as_str s) = Inr s"
  by (cases s) (simp_all add: artifact_status_try_from_def)

lemma load_build_status_as_str [simp]:
  "load_build_status (Some (build_status_as_str s)) = Inr (Some s)"
  by (simp add: load_build_status_def)

lemma load_build_status_None [simp]: "load_build_status None = Inr None"
  by (simp add: load_build_status_def)

lemma build_status_as_str_inject [simp]:
  "build_status_as_str s = build_status_as_str s' \<longleftrightarrow> s = s'"
  by (cases s; cases s') simp_all

lemma artifact_status_as_build_status:
  "artifact_status_as_str s \<in> range build_status_as_str"
proof (cases s)
  case ArtifactGood
  then show ?thesis by (auto intro: image_eqI[of _ _ Good])
next
  case ArtifactBad
  then show ?thesis by (auto intro: image_eqI[of _ _ Bad])
next
  case ArtifactUnknown
  then show ?thesis by (auto intro: image_eqI[of _ _ Unknown])
qed

section \<open>Pages and filters\<close>

datatype sort_direction = Ascending | Descending

record page =
  pg_limit :: "int option"
  pg_before :: "int option"
  pg_after :: "int option"
  pg_sort :: "string option"
  pg_direction :: "sort_direction option"

record 'a result_page =
  total :: int
  records :: "'a list"

record origin_filter =
  of_distribution :: "string option"
  of_release :: "string option"
  of_component :: "string option"
  of_architecture :: "string option"

datatype search_type = Exact | Contains | StartsWith

record source_identity_filter =
  sif_name :: "string option"
  sif_search_type :: search_type
  sif_version :: "string option"

record binary_identity_filter =
  bif_name :: "string option"
  bif_search_type :: search_type
  bif_version :: "string option"
  bif_source_name :: "string option"

record freshness_filter =
  seen_only :: "bool option"

record status_filter =
  sf_status :: "string list option"

record disagreement_filter =
  has_disagreement :: "bool option"
  df_peer :: "string list"

definition deserialize_peer_filter :: "string option \<Rightarrow> string list" where
  "deserialize_peer_filter s =
     (case s of
        None \<Rightarrow> []
      | Some s \<Rightarrow> filter (\<lambda>item. item \<noteq> []) (map trim (split_on CHR '','' s)))"

definition deserialize_comma_separated :: "string option \<Rightarrow> string list option" where
  "deserialize_comma_separated s =
     map_option (\<lambda>s. filter (\<lambda>item. item \<noteq> []) (map trim (split_on CHR '','' s))) s"

section \<open>Queue requests and jobs\<close>

record queue_filter =
  qf_started :: "bool option"

record queue_job_request =
  qr_distribution :: "string option"
  qr_release :: "string option"
  qr_component :: "string option"
  qr_name :: "string option"
  qr_version :: "string option"
  qr_architecture :: "string option"
  qr_status :: "build_status option"
  qr_priority :: "priority option"
  qr_reset :: bool

record pop_queued_job_request =
  supported_backends :: "string list"
  pop_architecture :: string
  supported_architectures :: "string list"

record queued_job =
  job_id :: int
  job_name :: string
  job_version :: string
  job_distribution :: string
  job_release :: "string option"
  job_component :: "string option"
  job_architecture :: string
  job_backend :: string
  job_url :: string
  job_next_retry :: "time option"
  job_priority :: priority
  job_queued_at :: time
  job_started_at :: "time option"

definition is_due :: "queued_job \<Rightarrow> time \<Rightarrow> bool" where
  "is_due j now = (case job_next_retry j of Some next_retry \<Rightarrow> next_retry \<le> now | None \<Rightarrow> True)"

definition running_since :: "queued_job \<Rightarrow> time \<Rightarrow> int option" where
  "running_since j now =
     (case job_started_at j of None \<Rightarrow> None | Some started_at \<Rightarrow> Some (now - started_at))"

record queued_job_artifact =
  qa_name :: string
  qa_version :: string
  qa_architecture :: string
  qa_url :: string

record queued_job_with_artifacts =
  job :: queued_job
  artifacts :: "queued_job_artifact list"

datatype job_assignment = Nothing | Rebuild queued_job_with_artifacts

section \<open>Reports\<close>

record binary_package_report =
  bpr_name :: string
  bpr_version :: string
  bpr_architecture :: string
  bpr_url :: string

record source_package_report =
  spr_name :: string
  spr_version :: string
  spr_url :: string
  spr_artifacts :: "binary_package_report list"
  spr_fbsd_ports_top_git_hash :: "string option"
  spr_fbsd_build_timestamp :: "time option"
  spr_fbsd_ports_top_git_timestamp :: "time option"

record package_report =
  pr_distribution :: string
  pr_release :: "string option"
  pr_component :: "string option"
  pr_architecture :: string
  pr_packages :: "source_package_report list"

record rebuild_artifact_report =
  rar_name :: string
  rar_diffoscope :: "bytes option"
  rar_attestation :: "bytes option"
  rar_status :: artifact_status

record rebuild_report =
  rr_queue_id :: int
  rr_built_at :: time
  rr_build_log :: bytes
  rr_status :: build_status
  rr_artifacts :: "rebuild_artifact_report list"

section \<open>Records the daemon answers with\<close>

record rebuild_view =
  rv_id :: int
  rv_name :: string
  rv_version :: string
  rv_distribution :: string
  rv_release :: "string option"
  rv_component :: "string option"
  rv_architecture :: string
  rv_backend :: string
  rv_retries :: int
  rv_started_at :: "time option"
  rv_built_at :: "time option"
  rv_status :: "string option"

record rebuild_artifact_view =
  rav_id :: int
  rav_name :: string
  rav_has_diffoscope :: bool
  rav_has_attestation :: bool
  rav_status :: "string option"

record source_package_view =
  spv_id :: int
  spv_name :: string
  spv_version :: string
  spv_distribution :: string
  spv_release :: "string option"
  spv_component :: "string option"
  spv_status :: "string option"
  spv_build_id :: "int option"
  spv_last_seen :: time
  spv_seen_in_last_sync :: bool

record binary_package_view =
  bpv_id :: int
  bpv_name :: string
  bpv_version :: string
  bpv_distribution :: string
  bpv_release :: "string option"
  bpv_component :: "string option"
  bpv_architecture :: string
  bpv_url :: string
  bpv_status :: "string option"
  bpv_build_id :: "int option"
  bpv_artifact_id :: "int option"
  bpv_diffoscope_log_id :: "int option"
  bpv_attestation_log_id :: "int option"
  bpv_last_seen :: time
  bpv_seen_in_last_sync :: bool
  bpv_rebuild_status :: "string option"

record register_worker_request =
  rw_name :: string

record worker_view =
  wv_id :: int
  wv_name :: string
  wv_address :: string
  wv_status :: "string option"
  wv_last_ping :: time
  wv_is_online :: bool

lemma deserialize_comma_separated_items:
  assumes "deserialize_comma_separated s = Some items" and "i \<in> set items"
  shows "i \<noteq> [] \<and> \<not> is_space (hd i) \<and> \<not> is_space (last i)"
  using assms by (auto simp: deserialize_comma_separated_def trim_nonspace)

end
