(* ===== verification/Schema.thy ===== *)
theory Schema
  imports Sql ApiTypes
begin

text \<open>
  The database of the daemon (\<open>daemon/src/schema.rs\<close>, \<open>daemon/src/models\<close>): one record per
  table row with the columns of the schema, one record per \<open>New...\<close> struct that is inserted,
  the database itself and its invariant \<open>db_ok\<close>: primary keys ascend, the unique indices and
  the foreign keys of the migrations hold, a job is either wholly assigned (worker, start and
  last ping) or not at all, and every stored status text is one the code can read back.
\<close>

section \<open>Rows\<close>

record source_package =
  sp_id :: int
  sp_name :: string
  sp_version :: string
  sp_distribution :: string
  sp_release :: "string option"
  sp_component :: "string option"
  sp_last_seen :: time
  sp_seen_in_last_sync :: bool
  sp_fbsd_ports_top_git_hash :: "string option"
  sp_fbsd_build_timestamp :: "time option"
  sp_fbsd_ports_top_git_timestamp :: "time option"

record new_source_package =
  nsp_name :: string
  nsp_version :: string
  nsp_distribution :: string
  nsp_release :: "string option"
  nsp_component :: "string option"
  nsp_last_seen :: time
  nsp_seen_in_last_sync :: bool
  nsp_fbsd_ports_top_git_hash :: "string option"
  nsp_fbsd_build_timestamp :: "time option"
  nsp_fbsd_ports_top_git_timestamp :: "time option"

record build_input =
  bi_id :: int
  bi_source_package_id :: int
  bi_url :: string
  bi_backend :: string
  bi_architecture :: string
  bi_retries :: int
  bi_next_retry :: "time option"

record new_build_input =
  nbi_source_package_id :: int
  nbi_url :: string
  nbi_backend :: string
  nbi_architecture :: string
  nbi_retries :: int
  nbi_next_retry :: "time option"

record binary_package =
  bp_id :: int
  bp_source_package_id :: int
  bp_build_input_id :: int
  bp_name :: string
  bp_version :: string
  bp_architecture :: string
  bp_artifact_url :: string
  bp_seen_in_last_sync :: bool

record new_binary_package =
  nbp_source_package_id :: int
  nbp_build_input_id :: int
  nbp_name :: string
  nbp_version :: string
  nbp_architecture :: string
  nbp_artifact_url :: string
  nbp_seen_in_last_sync :: bool

record queued =
  q_id :: int
  q_build_input_id :: int
  q_priority :: priority
  q_queued_at :: time
  q_started_at :: "time option"
  q_worker :: "int option"
  q_last_ping :: "time option"

record new_queued =
  nq_build_input_id :: int
  nq_priority :: priority
  nq_queued_at :: time

record build_log =
  bl_id :: int
  bl_build_log :: bytes

record rebuild =
  rb_id :: int
  rb_build_input_id :: int
  rb_started_at :: "time option"
  rb_built_at :: "time option"
  rb_build_log_id :: int
  rb_status :: "string option"

record new_rebuild =
  nrb_build_input_id :: int
  nrb_started_at :: "time option"
  nrb_built_at :: "time option"
  nrb_build_log_id :: int
  nrb_status :: "string option"

record diffoscope_log =
  dl_id :: int
  dl_diffoscope_log :: bytes

record attestation_log =
  al_id :: int
  al_attestation_log :: bytes

record rebuild_artifact =
  ra_id :: int
  ra_rebuild_id :: int
  ra_name :: string
  ra_diffoscope_log_id :: "int option"
  ra_attestation_log_id :: "int option"
  ra_status :: "string option"

record new_rebuild_artifact =
  nra_rebuild_id :: int
  nra_name :: string
  nra_diffoscope_log_id :: "int option"
  nra_attestation_log_id :: "int option"
  nra_status :: "string option"

record worker =
  w_id :: int
  w_name :: string
  w_key :: string
  w_address :: string
  w_status :: "string option"
  w_last_ping :: time
  w_online :: bool

record new_worker =
  nw_key :: string
  nw_name :: string
  nw_address :: string
  nw_status :: "string option"
  nw_last_ping :: time
  nw_online :: bool

record stats_snapshot =
  st_id :: int
  st_captured_at :: time
  st_distribution :: "string option"
  st_release :: "string option"
  st_architecture :: "string option"
  st_good :: int
  st_bad :: int
  st_fail :: int
  st_unknown :: int

record new_stats_snapshot =
  nst_captured_at :: time
  nst_distribution :: "string option"
  nst_release :: "string option"
  nst_architecture :: "string option"
  nst_good :: int
  nst_bad :: int
  nst_fail :: int
  nst_unknown :: int

record stats_category =
  sc_id :: int
  sc_stats_id :: int
  sc_category :: string
  sc_count :: int

record new_stats_category =
  nsc_stats_id :: int
  nsc_category :: string
  nsc_count :: int

record peer_rebuilder =
  pe_id :: int
  pe_url :: string
  pe_distribution :: string
  pe_architecture :: string
  pe_release :: string
  pe_release_alias :: string

record new_peer_rebuilder =
  npe_url :: string
  npe_distribution :: string
  npe_architecture :: string
  npe_release :: string
  npe_release_alias :: string

record peer_sha256_check =
  pc_id :: int
  pc_peer_rebuilder_id :: int
  pc_binary_name :: string
  pc_binary_version :: string
  pc_peer_build_id :: "int option"
  pc_checked_at :: time
  pc_peer_status :: "string option"

record upsert_peer_sha256_check =
  upc_peer_rebuilder_id :: int
  upc_binary_name :: string
  upc_binary_version :: string
  upc_peer_build_id :: "int option"
  upc_checked_at :: time
  upc_peer_status :: "string option"

section \<open>The database\<close>

record db =
  attestation_logs :: "attestation_log table"
  binary_packages :: "binary_package table"
  build_inputs :: "build_input table"
  build_logs :: "build_log table"
  diffoscope_logs :: "diffoscope_log table"
  queue :: "queued table"
  rebuild_artifacts :: "rebuild_artifact table"
  rebuilds :: "rebuild table"
  stats_categories :: "stats_category table"
  stats :: "stats_snapshot table"
  peer_rebuilders :: "peer_rebuilder table"
  peer_sha256_checks :: "peer_sha256_check table"
  source_packages :: "source_package table"
  workers :: "worker table"

definition empty_db :: db where
  "empty_db = \<lparr>attestation_logs = empty_table, binary_packages = empty_table,
     build_inputs = empty_table, build_logs = empty_table, diffoscope_logs = empty_table,
     queue = empty_table, rebuild_artifacts = empty_table, rebuilds = empty_table,
     stats_categories = empty_table, stats = empty_table, peer_rebuilders = empty_table,
     peer_sha256_checks = empty_table, source_packages = empty_table, workers = empty_table\<rparr>"

text \<open>The columns of the unique indices of the migrations.\<close>

definition coalesce_placeholder :: "string option \<Rightarrow> string" where
  "coalesce_placeholder c = (case c of None \<Rightarrow> ''PLACEHOLDER'' | Some v \<Rightarrow> v)"

definition source_package_key :: "source_package \<Rightarrow> string \<times> string \<times> string \<times> string \<times> string" where
  "source_package_key r = (sp_name r, sp_version r, sp_distribution r,
     coalesce_placeholder (sp_release r), coalesce_placeholder (sp_component r))"

definition build_input_key :: "build_input \<Rightarrow> int \<times> string \<times> string \<times> string" where
  "build_input_key r = (bi_source_package_id r, bi_url r, bi_backend r, bi_architecture r)"

definition binary_package_key :: "binary_package \<Rightarrow> int \<times> int \<times> string \<times> string \<times> string" where
  "binary_package_key r =
     (bp_source_package_id r, bp_build_input_id r, bp_name r, bp_version r, bp_architecture r)"

definition peer_rebuilder_key :: "peer_rebuilder \<Rightarrow> string \<times> string \<times> string" where
  "peer_rebuilder_key r = (pe_url r, pe_distribution r, pe_architecture r)"

definition peer_sha256_check_key :: "peer_sha256_check \<Rightarrow> int \<times> string \<times> string" where
  "peer_sha256_check_key r = (pc_peer_rebuilder_id r, pc_binary_name r, pc_binary_version r)"

section \<open>The invariant\<close>

definition refs :: "('r \<Rightarrow> int) \<Rightarrow> 'r table \<Rightarrow> int set \<Rightarrow> bool" where
  "refs f t S \<longleftrightarrow> (\<forall>r\<in>set (rows t). f r \<in> S)"

definition opt_refs :: "('r \<Rightarrow> int option) \<Rightarrow> 'r table \<Rightarrow> int set \<Rightarrow> bool" where
  "opt_refs f t S \<longleftrightarrow> (\<forall>r\<in>set (rows t). \<forall>i. f r = Some i \<longrightarrow> i \<in> S)"

definition job_ok :: "queued \<Rightarrow> bool" where
  "job_ok q \<longleftrightarrow>
     (q_worker q = None \<longleftrightarrow> q_started_at q = None) \<and>
     (q_worker q = None \<longleftrightarrow> q_last_ping q = None)"

definition status_text_ok :: "string option \<Rightarrow> bool" where
  "status_text_ok c \<longleftrightarrow> c = None \<or> c \<in> Some ` range build_status_as_str"

definition rebuild_ok :: "rebuild \<Rightarrow> bool" where
  "rebuild_ok r \<longleftrightarrow> rb_built_at r \<noteq> None \<and> status_text_ok (rb_status r)"

definition artifact_text_ok :: "string option \<Rightarrow> bool" where
  "artifact_text_ok c \<longleftrightarrow> c = None \<or> c \<in> Some ` range artifact_status_as_str"

definition artifact_ok :: "rebuild_artifact \<Rightarrow> bool" where
  "artifact_ok r \<longleftrightarrow> artifact_text_ok (ra_status r)"

definition ids_ok :: "db \<Rightarrow> bool" where
  "ids_ok d \<longleftrightarrow>
     wf_table al_id (attestation_logs d) \<and> wf_table bp_id (binary_packages d) \<and>
     wf_table bi_id (build_inputs d) \<and> wf_table bl_id (build_logs d) \<and>
     wf_table dl_id (diffoscope_logs d) \<and> wf_table q_id (queue d) \<and>
     wf_table ra_id (rebuild_artifacts d) \<and> wf_table rb_id (rebuilds d) \<and>
     wf_table sc_id (stats_categories d) \<and> wf_table st_id (stats d) \<and>
     wf_table pe_id (peer_rebuilders d) \<and> wf_table pc_id (peer_sha256_checks d) \<and>
     wf_table sp_id (source_packages d) \<and> wf_table w_id (workers d)"

definition keys_ok :: "db \<Rightarrow> bool" where
  "keys_ok d \<longleftrightarrow>
     unique_on source_package_key (source_packages d) \<and>
     unique_on build_input_key (build_inputs d) \<and>
     unique_on binary_package_key (binary_packages d) \<and>
     unique_on q_build_input_id (queue d) \<and>
     unique_on w_key (workers d) \<and>
     unique_on peer_rebuilder_key (peer_rebuilders d) \<and>
     unique_on peer_sha256_check_key (peer_sha256_checks d)"

definition refs_ok :: "db \<Rightarrow> bool" where
  "refs_ok d \<longleftrightarrow>
     refs bi_source_package_id (build_inputs d) (ids sp_id (source_packages d)) \<and>
     refs bp_source_package_id (binary_packages d) (ids sp_id (source_packages d)) \<and>
     refs bp_build_input_id (binary_packages d) (ids bi_id (build_inputs d)) \<and>
     refs q_build_input_id (queue d) (ids bi_id (build_inputs d)) \<and>
     refs rb_build_input_id (rebuilds d) (ids bi_id (build_inputs d)) \<and>
     refs rb_build_log_id (rebuilds d) (ids bl_id (build_logs d)) \<and>
     refs ra_rebuild_id (rebuild_artifacts d) (ids rb_id (rebuilds d)) \<and>
     opt_refs ra_diffoscope_log_id (rebuild_artifacts d) (ids dl_id (diffoscope_logs d)) \<and>
     opt_refs ra_attestation_log_id (rebuild_artifacts d) (ids al_id (attestation_logs d)) \<and>
     refs sc_stats_id (stats_categories d) (ids st_id (stats d)) \<and>
     refs pc_peer_rebuilder_id (peer_sha256_checks d) (ids pe_id (peer_rebuilders d))"

definition values_ok :: "db \<Rightarrow> bool" where
  "values_ok d \<longleftrightarrow>
     (\<forall>q\<in>set (rows (queue d)). job_ok q) \<and>
     (\<forall>r\<in>set (rows (rebuilds d)). rebuild_ok r) \<and>
     (\<forall>r\<in>set (rows (rebuild_artifacts d)). artifact_ok r)"

definition db_ok :: "db \<Rightarrow> bool" where
  "db_ok d \<longleftrightarrow> ids_ok d \<and> keys_ok d \<and> refs_ok d \<and> values_ok d"

lemmas db_ok_defs = db_ok_def ids_ok_def keys_ok_def refs_ok_def values_ok_def

lemma refs_empty [simp]: "refs f empty_table S" "opt_refs g empty_table S"
  by (simp_all add: refs_def opt_refs_def)

lemma db_ok_empty: "db_ok empty_db"
  by (simp add: db_ok_defs empty_db_def)

lemma refs_mono: "refs f t S \<Longrightarrow> S \<subseteq> S' \<Longrightarrow> refs f t S'"
  by (auto simp: refs_def)

lemma opt_refs_mono: "opt_refs f t S \<Longrightarrow> S \<subseteq> S' \<Longrightarrow> opt_refs f t S'"
  by (auto simp: opt_refs_def)

lemma refs_insert:
  "refs f t S \<Longrightarrow> f (mk (seq t + 1)) \<in> S \<Longrightarrow> refs f (snd (sql_insert mk t)) S"
  by (auto simp: refs_def table_simps)

lemma opt_refs_insert:
  "opt_refs f t S \<Longrightarrow> (\<And>i. f (mk (seq t + 1)) = Some i \<Longrightarrow> i \<in> S) \<Longrightarrow>
     opt_refs f (snd (sql_insert mk t)) S"
  by (auto simp: opt_refs_def table_simps)

lemma refs_update:
  "refs f t S \<Longrightarrow> (\<And>r. r \<in> set (rows t) \<Longrightarrow> p r \<Longrightarrow> f (g r) = f r) \<Longrightarrow> refs f (sql_update p g t) S"
  by (auto simp: refs_def table_simps)

lemma opt_refs_update:
  "opt_refs f t S \<Longrightarrow> (\<And>r. r \<in> set (rows t) \<Longrightarrow> p r \<Longrightarrow> f (g r) = f r) \<Longrightarrow>
     opt_refs f (sql_update p g t) S"
  by (auto simp: opt_refs_def table_simps)

lemma refs_delete: "refs f t S \<Longrightarrow> refs f (sql_delete p t) S"
  by (auto simp: refs_def table_simps)

lemma status_text_ok_None [simp]: "status_text_ok None"
  by (simp add: status_text_ok_def)

lemma status_text_ok_build [simp]: "status_text_ok (Some (build_status_as_str s))"
  by (simp add: status_text_ok_def)

lemma artifact_text_ok_None [simp]: "artifact_text_ok None"
  by (simp add: artifact_text_ok_def)

lemma artifact_text_ok_artifact [simp]: "artifact_text_ok (Some (artifact_status_as_str s))"
  by (simp add: artifact_text_ok_def)

lemma artifact_text_ok_status: "artifact_text_ok c \<Longrightarrow> status_text_ok c"
  using artifact_status_as_build_status by (auto simp: artifact_text_ok_def status_text_ok_def)

lemma status_text_ok_load:
  "status_text_ok c \<Longrightarrow> \<exists>s. load_build_status c = Inr s \<and> c = map_option build_status_as_str s"
  by (auto simp: status_text_ok_def)

text \<open>What a well-formed database gives, one fact at a time.\<close>

lemma db_ok_facts:
  assumes "db_ok d"
  shows "wf_table al_id (attestation_logs d)" "wf_table bp_id (binary_packages d)"
    "wf_table bi_id (build_inputs d)" "wf_table bl_id (build_logs d)"
    "wf_table dl_id (diffoscope_logs d)" "wf_table q_id (queue d)"
    "wf_table ra_id (rebuild_artifacts d)" "wf_table rb_id (rebuilds d)"
    "wf_table sc_id (stats_categories d)" "wf_table st_id (stats d)"
    "wf_table pe_id (peer_rebuilders d)" "wf_table pc_id (peer_sha256_checks d)"
    "wf_table sp_id (source_packages d)" "wf_table w_id (workers d)"
    "unique_on source_package_key (source_packages d)"
    "unique_on build_input_key (build_inputs d)"
    "unique_on binary_package_key (binary_packages d)"
    "unique_on q_build_input_id (queue d)"
    "unique_on w_key (workers d)"
    "unique_on peer_rebuilder_key (peer_rebuilders d)"
    "unique_on peer_sha256_check_key (peer_sha256_checks d)"
    "refs bi_source_package_id (build_inputs d) (ids sp_id (source_packages d))"
    "refs bp_source_package_id (binary_packages d) (ids sp_id (source_packages d))"
    "refs bp_build_input_id (binary_packages d) (ids bi_id (build_inputs d))"
    "refs q_build_input_id (queue d) (ids bi_id (build_inputs d))"
    "refs rb_build_input_id (rebuilds d) (ids bi_id (build_inputs d))"
    "refs rb_build_log_id (rebuilds d) (ids bl_id (build_logs d))"
    "refs ra_rebuild_id (rebuild_artifacts d) (ids rb_id (rebuilds d))"
    "opt_refs ra_diffoscope_log_id (rebuild_artifacts d) (ids dl_id (diffoscope_logs d))"
    "opt_refs ra_attestation_log_id (rebuild_artifacts d) (ids al_id (attestation_logs d))"
    "refs sc_stats_id (stats_categories d) (ids st_id (stats d))"
    "refs pc_peer_rebuilder_id (peer_sha256_checks d) (ids pe_id (peer_rebuilders d))"
    "q \<in> set (rows (queue d)) \<Longrightarrow> job_ok q"
    "r \<in> set (rows (rebuilds d)) \<Longrightarrow> rebuild_ok r"
    "a \<in> set (rows (rebuild_artifacts d)) \<Longrightarrow> artifact_ok a"
  using assms by (simp_all add: db_ok_defs)

section \<open>Replacing one table\<close>

lemma db_ok_queue:
  assumes "db_ok d" "wf_table q_id t" "unique_on q_build_input_id t"
    "refs q_build_input_id t (ids bi_id (build_inputs d))" "\<forall>q\<in>set (rows t). job_ok q"
  shows "db_ok (d\<lparr>queue := t\<rparr>)"
  using assms by (simp add: db_ok_defs)

lemma db_ok_workers:
  assumes "db_ok d" "wf_table w_id t" "unique_on w_key t"
  shows "db_ok (d\<lparr>workers := t\<rparr>)"
  using assms by (simp add: db_ok_defs)

lemma db_ok_source_packages:
  assumes "db_ok d" "wf_table sp_id t" "unique_on source_package_key t"
    "ids sp_id (source_packages d) \<subseteq> ids sp_id t"
  shows "db_ok (d\<lparr>source_packages := t\<rparr>)"
  using assms by (auto simp add: db_ok_defs intro: refs_mono)

lemma db_ok_build_inputs:
  assumes "db_ok d" "wf_table bi_id t" "unique_on build_input_key t"
    "refs bi_source_package_id t (ids sp_id (source_packages d))"
    "ids bi_id (build_inputs d) \<subseteq> ids bi_id t"
  shows "db_ok (d\<lparr>build_inputs := t\<rparr>)"
  using assms by (auto simp add: db_ok_defs intro: refs_mono)

lemma db_ok_binary_packages:
  assumes "db_ok d" "wf_table bp_id t" "unique_on binary_package_key t"
    "refs bp_source_package_id t (ids sp_id (source_packages d))"
    "refs bp_build_input_id t (ids bi_id (build_inputs d))"
  shows "db_ok (d\<lparr>binary_packages := t\<rparr>)"
  using assms by (simp add: db_ok_defs)

lemma db_ok_rebuilds:
  assumes "db_ok d" "wf_table rb_id t"
    "refs rb_build_input_id t (ids bi_id (build_inputs d))"
    "refs rb_build_log_id t (ids bl_id (build_logs d))"
    "ids rb_id (rebuilds d) \<subseteq> ids rb_id t" "\<forall>r\<in>set (rows t). rebuild_ok r"
  shows "db_ok (d\<lparr>rebuilds := t\<rparr>)"
  using assms by (auto simp add: db_ok_defs intro: refs_mono)

lemma db_ok_rebuild_artifacts:
  assumes "db_ok d" "wf_table ra_id t"
    "refs ra_rebuild_id t (ids rb_id (rebuilds d))"
    "opt_refs ra_diffoscope_log_id t (ids dl_id (diffoscope_logs d))"
    "opt_refs ra_attestation_log_id t (ids al_id (attestation_logs d))"
    "\<forall>r\<in>set (rows t). artifact_ok r"
  shows "db_ok (d\<lparr>rebuild_artifacts := t\<rparr>)"
  using assms by (simp add: db_ok_defs)

lemma db_ok_build_logs:
  assumes "db_ok d" "wf_table bl_id t" "ids bl_id (build_logs d) \<subseteq> ids bl_id t"
  shows "db_ok (d\<lparr>build_logs := t\<rparr>)"
  using assms by (auto simp add: db_ok_defs intro: refs_mono)

lemma db_ok_diffoscope_logs:
  assumes "db_ok d" "wf_table dl_id t" "ids dl_id (diffoscope_logs d) \<subseteq> ids dl_id t"
  shows "db_ok (d\<lparr>diffoscope_logs := t\<rparr>)"
  using assms by (auto simp add: db_ok_defs intro: opt_refs_mono)

lemma db_ok_attestation_logs:
  assumes "db_ok d" "wf_table al_id t" "ids al_id (attestation_logs d) \<subseteq> ids al_id t"
  shows "db_ok (d\<lparr>attestation_logs := t\<rparr>)"
  using assms by (auto simp add: db_ok_defs intro: opt_refs_mono)

lemma db_ok_stats:
  assumes "db_ok d" "wf_table st_id t" "ids st_id (stats d) \<subseteq> ids st_id t"
  shows "db_ok (d\<lparr>stats := t\<rparr>)"
  using assms by (auto simp add: db_ok_defs intro: refs_mono)

lemma db_ok_stats_categories:
  assumes "db_ok d" "wf_table sc_id t" "refs sc_stats_id t (ids st_id (stats d))"
  shows "db_ok (d\<lparr>stats_categories := t\<rparr>)"
  using assms by (simp add: db_ok_defs)

lemma db_ok_peer_rebuilders:
  assumes "db_ok d" "wf_table pe_id t" "unique_on peer_rebuilder_key t"
    "refs pc_peer_rebuilder_id (peer_sha256_checks d) (ids pe_id t)"
  shows "db_ok (d\<lparr>peer_rebuilders := t\<rparr>)"
  using assms by (simp add: db_ok_defs)

lemma db_ok_peer_sha256_checks:
  assumes "db_ok d" "wf_table pc_id t" "unique_on peer_sha256_check_key t"
    "refs pc_peer_rebuilder_id t (ids pe_id (peer_rebuilders d))"
  shows "db_ok (d\<lparr>peer_sha256_checks := t\<rparr>)"
  using assms by (simp add: db_ok_defs)

end
