(* ===== verification/Models.thy ===== *)
theory Models
  imports Schema
begin

text \<open>
  The inserts and upserts of \<open>daemon/src/models\<close>. Each is a function on the database that
  returns the row (or the id) the statement's \<open>RETURNING\<close> clause yields. The tables with a
  unique index are interpretations of \<open>keyed_table\<close>; every operation preserves \<open>db_ok\<close>
  provided the ids its record names exist, so SQLite's own foreign key check never fires on a
  database the daemon has built.
\<close>

section \<open>Source packages\<close>

definition new_source_package_key ::
  "new_source_package \<Rightarrow> string \<times> string \<times> string \<times> string \<times> string" where
  "new_source_package_key n = (nsp_name n, nsp_version n, nsp_distribution n,
     coalesce_placeholder (nsp_release n), coalesce_placeholder (nsp_component n))"

definition source_package_row :: "new_source_package \<Rightarrow> int \<Rightarrow> source_package" where
  "source_package_row n i =
     \<lparr>sp_id = i, sp_name = nsp_name n, sp_version = nsp_version n,
      sp_distribution = nsp_distribution n, sp_release = nsp_release n,
      sp_component = nsp_component n, sp_last_seen = nsp_last_seen n,
      sp_seen_in_last_sync = nsp_seen_in_last_sync n,
      sp_fbsd_ports_top_git_hash = nsp_fbsd_ports_top_git_hash n,
      sp_fbsd_build_timestamp = nsp_fbsd_build_timestamp n,
      sp_fbsd_ports_top_git_timestamp = nsp_fbsd_ports_top_git_timestamp n\<rparr>"

text \<open>\<open>.do_update().set(self)\<close>: every column of the record but the id.\<close>

definition source_package_set :: "new_source_package \<Rightarrow> source_package \<Rightarrow> source_package" where
  "source_package_set n r = source_package_row n (sp_id r)"

definition source_package_upsert :: "new_source_package \<Rightarrow> db \<Rightarrow> source_package \<times> db" where
  "source_package_upsert n d =
     map_prod id (\<lambda>t. d\<lparr>source_packages := t\<rparr>)
       (sql_upsert (\<lambda>r. source_package_key r = new_source_package_key n)
          (source_package_set n) (source_package_row n) (source_packages d))"

interpretation source_package_table:
  keyed_table sp_id source_package_key new_source_package_key source_package_row source_package_set
  by unfold_locales
    (simp_all add: source_package_row_def source_package_set_def source_package_key_def
      new_source_package_key_def)

section \<open>Build inputs\<close>

definition new_build_input_key :: "new_build_input \<Rightarrow> int \<times> string \<times> string \<times> string" where
  "new_build_input_key n =
     (nbi_source_package_id n, nbi_url n, nbi_backend n, nbi_architecture n)"

definition build_input_row :: "new_build_input \<Rightarrow> int \<Rightarrow> build_input" where
  "build_input_row n i =
     \<lparr>bi_id = i, bi_source_package_id = nbi_source_package_id n, bi_url = nbi_url n,
      bi_backend = nbi_backend n, bi_architecture = nbi_architecture n,
      bi_retries = nbi_retries n, bi_next_retry = nbi_next_retry n\<rparr>"

definition build_input_set :: "new_build_input \<Rightarrow> build_input \<Rightarrow> build_input" where
  "build_input_set n r = r\<lparr>bi_source_package_id := nbi_source_package_id n, bi_url := nbi_url n,
     bi_backend := nbi_backend n, bi_architecture := nbi_architecture n\<rparr>"

definition build_input_upsert :: "new_build_input \<Rightarrow> db \<Rightarrow> build_input \<times> db" where
  "build_input_upsert n d =
     map_prod id (\<lambda>t. d\<lparr>build_inputs := t\<rparr>)
       (sql_upsert (\<lambda>r. build_input_key r = new_build_input_key n)
          (build_input_set n) (build_input_row n) (build_inputs d))"

interpretation build_input_table:
  keyed_table bi_id build_input_key new_build_input_key build_input_row build_input_set
  by unfold_locales
    (simp_all add: build_input_row_def build_input_set_def build_input_key_def
      new_build_input_key_def)

section \<open>Binary packages\<close>

definition new_binary_package_key ::
  "new_binary_package \<Rightarrow> int \<times> int \<times> string \<times> string \<times> string" where
  "new_binary_package_key n = (nbp_source_package_id n, nbp_build_input_id n, nbp_name n,
     nbp_version n, nbp_architecture n)"

definition binary_package_row :: "new_binary_package \<Rightarrow> int \<Rightarrow> binary_package" where
  "binary_package_row n i =
     \<lparr>bp_id = i, bp_source_package_id = nbp_source_package_id n,
      bp_build_input_id = nbp_build_input_id n, bp_name = nbp_name n, bp_version = nbp_version n,
      bp_architecture = nbp_architecture n, bp_artifact_url = nbp_artifact_url n,
      bp_seen_in_last_sync = nbp_seen_in_last_sync n\<rparr>"

definition binary_package_set :: "new_binary_package \<Rightarrow> binary_package \<Rightarrow> binary_package" where
  "binary_package_set n r =
     r\<lparr>bp_artifact_url := nbp_artifact_url n, bp_seen_in_last_sync := nbp_seen_in_last_sync n\<rparr>"

definition binary_package_upsert :: "new_binary_package \<Rightarrow> db \<Rightarrow> binary_package \<times> db" where
  "binary_package_upsert n d =
     map_prod id (\<lambda>t. d\<lparr>binary_packages := t\<rparr>)
       (sql_upsert (\<lambda>r. binary_package_key r = new_binary_package_key n)
          (binary_package_set n) (binary_package_row n) (binary_packages d))"

interpretation binary_package_table:
  keyed_table bp_id binary_package_key new_binary_package_key binary_package_row binary_package_set
  by unfold_locales
    (simp_all add: binary_package_row_def binary_package_set_def binary_package_key_def
      new_binary_package_key_def)

section \<open>The queue\<close>

definition queued_row :: "new_queued \<Rightarrow> int \<Rightarrow> queued" where
  "queued_row n i =
     \<lparr>q_id = i, q_build_input_id = nq_build_input_id n, q_priority = nq_priority n,
      q_queued_at = nq_queued_at n, q_started_at = None, q_worker = None, q_last_ping = None\<rparr>"

definition queued_set :: "new_queued \<Rightarrow> queued \<Rightarrow> queued" where
  "queued_set n r =
     r\<lparr>q_build_input_id := nq_build_input_id n, q_priority := nq_priority n\<rparr>"

definition queue_upsert :: "new_queued \<Rightarrow> db \<Rightarrow> queued \<times> db" where
  "queue_upsert n d =
     map_prod id (\<lambda>t. d\<lparr>queue := t\<rparr>)
       (sql_upsert (\<lambda>r. q_build_input_id r = nq_build_input_id n)
          (queued_set n) (queued_row n) (queue d))"

definition queued_delete :: "queued \<Rightarrow> db \<Rightarrow> db" where
  "queued_delete self d = d\<lparr>queue := sql_delete (\<lambda>r. q_id r = q_id self) (queue d)\<rparr>"

interpretation queue_table:
  keyed_table q_id q_build_input_id nq_build_input_id queued_row queued_set
  by unfold_locales (simp_all add: queued_row_def queued_set_def)

section \<open>Rebuilds, their logs and artifacts\<close>

definition build_log_insert :: "bytes \<Rightarrow> db \<Rightarrow> int \<times> db" where
  "build_log_insert log d =
     map_prod bl_id (\<lambda>t. d\<lparr>build_logs := t\<rparr>)
       (sql_insert (\<lambda>i. \<lparr>bl_id = i, bl_build_log = log\<rparr>) (build_logs d))"

definition rebuild_row :: "new_rebuild \<Rightarrow> int \<Rightarrow> rebuild" where
  "rebuild_row n i =
     \<lparr>rb_id = i, rb_build_input_id = nrb_build_input_id n, rb_started_at = nrb_started_at n,
      rb_built_at = nrb_built_at n, rb_build_log_id = nrb_build_log_id n,
      rb_status = nrb_status n\<rparr>"

definition rebuild_insert :: "new_rebuild \<Rightarrow> db \<Rightarrow> int \<times> db" where
  "rebuild_insert n d =
     map_prod rb_id (\<lambda>t. d\<lparr>rebuilds := t\<rparr>) (sql_insert (rebuild_row n) (rebuilds d))"

definition diffoscope_log_insert :: "bytes \<Rightarrow> db \<Rightarrow> int \<times> db" where
  "diffoscope_log_insert log d =
     map_prod dl_id (\<lambda>t. d\<lparr>diffoscope_logs := t\<rparr>)
       (sql_insert (\<lambda>i. \<lparr>dl_id = i, dl_diffoscope_log = log\<rparr>) (diffoscope_logs d))"

definition attestation_log_insert :: "bytes \<Rightarrow> db \<Rightarrow> int \<times> db" where
  "attestation_log_insert log d =
     map_prod al_id (\<lambda>t. d\<lparr>attestation_logs := t\<rparr>)
       (sql_insert (\<lambda>i. \<lparr>al_id = i, al_attestation_log = log\<rparr>) (attestation_logs d))"

definition rebuild_artifact_row :: "new_rebuild_artifact \<Rightarrow> int \<Rightarrow> rebuild_artifact" where
  "rebuild_artifact_row n i =
     \<lparr>ra_id = i, ra_rebuild_id = nra_rebuild_id n, ra_name = nra_name n,
      ra_diffoscope_log_id = nra_diffoscope_log_id n,
      ra_attestation_log_id = nra_attestation_log_id n, ra_status = nra_status n\<rparr>"

definition rebuild_artifact_insert :: "new_rebuild_artifact \<Rightarrow> db \<Rightarrow> db" where
  "rebuild_artifact_insert n d =
     d\<lparr>rebuild_artifacts := snd (sql_insert (rebuild_artifact_row n) (rebuild_artifacts d))\<rparr>"

section \<open>Workers\<close>

definition worker_row :: "new_worker \<Rightarrow> int \<Rightarrow> worker" where
  "worker_row n i =
     \<lparr>w_id = i, w_name = nw_name n, w_key = nw_key n, w_address = nw_address n,
      w_status = nw_status n, w_last_ping = nw_last_ping n, w_online = nw_online n\<rparr>"

definition worker_set :: "new_worker \<Rightarrow> worker \<Rightarrow> worker" where
  "worker_set n r =
     r\<lparr>w_key := nw_key n, w_name := nw_name n, w_address := nw_address n,
       w_status := nw_status n, w_last_ping := nw_last_ping n, w_online := nw_online n\<rparr>"

definition worker_upsert :: "new_worker \<Rightarrow> db \<Rightarrow> worker \<times> db" where
  "worker_upsert n d =
     map_prod id (\<lambda>t. d\<lparr>workers := t\<rparr>)
       (sql_upsert (\<lambda>r. w_key r = nw_key n) (worker_set n) (worker_row n) (workers d))"

interpretation worker_table: keyed_table w_id w_key nw_key worker_row worker_set
  by unfold_locales (simp_all add: worker_row_def worker_set_def)

text \<open>
  \<open>get_result\<close> on \<open>UPDATE ... RETURNING\<close> yields the first updated row, \<open>NotFound\<close> if there
  is none.
\<close>

definition get_and_refresh :: "string \<Rightarrow> time \<Rightarrow> db \<Rightarrow> worker result \<times> db" where
  "get_and_refresh key now d =
     (case filter (\<lambda>w. w_key w = key) (rows (workers d)) of
        [] \<Rightarrow> (Inl RowNotFound, d)
      | w # _ \<Rightarrow>
          (Inr (w\<lparr>w_last_ping := now, w_online := True\<rparr>),
           d\<lparr>workers := sql_update (\<lambda>w. w_key w = key)
               (\<lambda>w. w\<lparr>w_last_ping := now, w_online := True\<rparr>) (workers d)\<rparr>))"

definition get_or_create :: "string \<Rightarrow> string \<Rightarrow> time \<Rightarrow> db \<Rightarrow> worker \<times> db" where
  "get_or_create key name now d =
     worker_upsert
       \<lparr>nw_key = key, nw_name = name, nw_address = ''unauthenticated'', nw_status = None,
        nw_last_ping = now, nw_online = True\<rparr> d"

section \<open>Statistics\<close>

definition stats_snapshot_row :: "new_stats_snapshot \<Rightarrow> int \<Rightarrow> stats_snapshot" where
  "stats_snapshot_row n i =
     \<lparr>st_id = i, st_captured_at = nst_captured_at n, st_distribution = nst_distribution n,
      st_release = nst_release n, st_architecture = nst_architecture n, st_good = nst_good n,
      st_bad = nst_bad n, st_fail = nst_fail n, st_unknown = nst_unknown n\<rparr>"

definition stats_snapshot_insert :: "new_stats_snapshot \<Rightarrow> db \<Rightarrow> int \<times> db" where
  "stats_snapshot_insert n d =
     map_prod st_id (\<lambda>t. d\<lparr>stats := t\<rparr>) (sql_insert (stats_snapshot_row n) (stats d))"

definition stats_category_row :: "new_stats_category \<Rightarrow> int \<Rightarrow> stats_category" where
  "stats_category_row n i =
     \<lparr>sc_id = i, sc_stats_id = nsc_stats_id n, sc_category = nsc_category n,
      sc_count = nsc_count n\<rparr>"

definition stats_category_insert_batch :: "new_stats_category list \<Rightarrow> db \<Rightarrow> db" where
  "stats_category_insert_batch batch d =
     d\<lparr>stats_categories :=
        fold (\<lambda>n t. snd (sql_insert (stats_category_row n) t)) batch (stats_categories d)\<rparr>"

section \<open>Preservation of the invariant\<close>

lemma db_ok_source_package_upsert [wf_intros]:
  "db_ok d \<Longrightarrow> db_ok (snd (source_package_upsert n d))"
  unfolding source_package_upsert_def
  by (simp, rule db_ok_source_packages)
    (simp_all add: db_ok_facts source_package_table.upsert_wf_table
      source_package_table.upsert_unique_on source_package_table.upsert_ids)

lemma build_input_upsert_refs:
  assumes "refs bi_source_package_id t S" "nbi_source_package_id n \<in> S"
  shows "refs bi_source_package_id
    (snd (sql_upsert (\<lambda>r. build_input_key r = new_build_input_key n)
       (build_input_set n) (build_input_row n) t)) S"
  using assms
  by (auto simp: sql_upsert_def refs_def table_simps build_input_set_def build_input_row_def
      split: option.split)

lemma db_ok_build_input_upsert [wf_intros]:
  "db_ok d \<Longrightarrow> nbi_source_package_id n \<in> ids sp_id (source_packages d) \<Longrightarrow>
     db_ok (snd (build_input_upsert n d))"
  unfolding build_input_upsert_def
  by (simp, rule db_ok_build_inputs)
    (simp_all add: db_ok_facts build_input_table.upsert_wf_table
      build_input_table.upsert_unique_on build_input_upsert_refs build_input_table.upsert_ids)

lemma binary_package_upsert_refs:
  "refs bp_source_package_id t S \<Longrightarrow> nbp_source_package_id n \<in> S \<Longrightarrow>
     refs bp_source_package_id (snd (binary_package_table.upsert n t)) S"
  "refs bp_build_input_id t B \<Longrightarrow> nbp_build_input_id n \<in> B \<Longrightarrow>
     refs bp_build_input_id (snd (binary_package_table.upsert n t)) B"
  by (auto simp: sql_upsert_def refs_def table_simps binary_package_set_def
      binary_package_row_def split: option.split)

lemma db_ok_binary_package_upsert [wf_intros]:
  "db_ok d \<Longrightarrow> nbp_source_package_id n \<in> ids sp_id (source_packages d) \<Longrightarrow>
     nbp_build_input_id n \<in> ids bi_id (build_inputs d) \<Longrightarrow>
     db_ok (snd (binary_package_upsert n d))"
  unfolding binary_package_upsert_def
  by (simp, rule db_ok_binary_packages)
    (simp_all add: db_ok_facts binary_package_table.upsert_wf_table
      binary_package_table.upsert_unique_on binary_package_upsert_refs)

lemma job_ok_queued_row [simp]: "job_ok (queued_row n i)"
  by (simp add: job_ok_def queued_row_def)

lemma job_ok_queued_set [simp]: "job_ok (queued_set n r) = job_ok r"
  by (simp add: job_ok_def queued_set_def)

lemma queue_upsert_refs:
  "refs q_build_input_id t S \<Longrightarrow> nq_build_input_id n \<in> S \<Longrightarrow>
     refs q_build_input_id (snd (queue_table.upsert n t)) S"
  by (auto simp: sql_upsert_def refs_def table_simps queue_table.key_mk queue_table.key_upd
      split: option.split)

lemma queue_upsert_job_ok:
  "\<forall>q\<in>set (rows t). job_ok q \<Longrightarrow> \<forall>q\<in>set (rows (snd (queue_table.upsert n t))). job_ok q"
  by (auto simp: sql_upsert_def table_simps split: option.split)

lemma db_ok_queue_upsert [wf_intros]:
  assumes "db_ok d" "nq_build_input_id n \<in> ids bi_id (build_inputs d)"
  shows "db_ok (snd (queue_upsert n d))"
proof -
  have "\<forall>q\<in>set (rows (queue d)). job_ok q" using assms(1) by (simp add: db_ok_facts)
  from queue_upsert_job_ok[OF this, of n] show ?thesis
    unfolding queue_upsert_def
    by (simp, intro db_ok_queue)
      (simp_all add: assms db_ok_facts[OF assms(1)] queue_table.upsert_wf_table
        queue_table.upsert_unique_on queue_upsert_refs)
qed

lemma db_ok_queue_delete [wf_intros]:
  "db_ok d \<Longrightarrow> db_ok (d\<lparr>queue := sql_delete p (queue d)\<rparr>)"
  by (rule db_ok_queue)
    (simp_all add: db_ok_facts wf_table_delete unique_on_delete refs_delete rows_delete)

lemma db_ok_queued_delete [wf_intros]: "db_ok d \<Longrightarrow> db_ok (queued_delete r d)"
  by (simp add: queued_delete_def db_ok_queue_delete)

lemma db_ok_build_log_insert [wf_intros]: "db_ok d \<Longrightarrow> db_ok (snd (build_log_insert log d))"
  unfolding build_log_insert_def
  by (simp, rule db_ok_build_logs)
    (intro table_intros refs_insert refs_update opt_refs_update
      | simp add: db_ok_facts)+

lemma db_ok_diffoscope_log_insert [wf_intros]:
  "db_ok d \<Longrightarrow> db_ok (snd (diffoscope_log_insert log d))"
  unfolding diffoscope_log_insert_def
  by (simp, rule db_ok_diffoscope_logs)
    (intro table_intros refs_insert refs_update opt_refs_update
      | simp add: db_ok_facts)+

lemma db_ok_attestation_log_insert [wf_intros]:
  "db_ok d \<Longrightarrow> db_ok (snd (attestation_log_insert log d))"
  unfolding attestation_log_insert_def
  by (simp, rule db_ok_attestation_logs)
    (intro table_intros refs_insert refs_update opt_refs_update
      | simp add: db_ok_facts)+

lemma rebuild_row_simps [simp]:
  "rb_id (rebuild_row n i) = i"
  "rb_build_input_id (rebuild_row n i) = nrb_build_input_id n"
  "rb_started_at (rebuild_row n i) = nrb_started_at n"
  "rb_built_at (rebuild_row n i) = nrb_built_at n"
  "rb_build_log_id (rebuild_row n i) = nrb_build_log_id n"
  "rb_status (rebuild_row n i) = nrb_status n"
  by (simp_all add: rebuild_row_def)

lemma rebuild_ok_rebuild_row [simp]:
  "rebuild_ok (rebuild_row n i) \<longleftrightarrow> nrb_built_at n \<noteq> None \<and> status_text_ok (nrb_status n)"
  by (simp add: rebuild_ok_def)

lemma db_ok_rebuild_insert [wf_intros]:
  "db_ok d \<Longrightarrow> nrb_build_input_id n \<in> ids bi_id (build_inputs d) \<Longrightarrow>
     nrb_build_log_id n \<in> ids bl_id (build_logs d) \<Longrightarrow>
     nrb_built_at n \<noteq> None \<Longrightarrow> status_text_ok (nrb_status n) \<Longrightarrow>
     db_ok (snd (rebuild_insert n d))"
  unfolding rebuild_insert_def
  by (simp, rule db_ok_rebuilds)
    (intro table_intros refs_insert refs_update opt_refs_update
      | simp add: db_ok_facts)+

lemma db_ok_rebuild_artifact_insert [wf_intros]:
  assumes "db_ok d" "nra_rebuild_id n \<in> ids rb_id (rebuilds d)"
    and "\<And>i. nra_diffoscope_log_id n = Some i \<Longrightarrow> i \<in> ids dl_id (diffoscope_logs d)"
    and "\<And>i. nra_attestation_log_id n = Some i \<Longrightarrow> i \<in> ids al_id (attestation_logs d)"
    and "artifact_text_ok (nra_status n)"
  shows "db_ok (rebuild_artifact_insert n d)"
proof -
  note ok = db_ok_facts[OF assms(1)]
  have "opt_refs ra_diffoscope_log_id
      (snd (sql_insert (rebuild_artifact_row n) (rebuild_artifacts d)))
      (ids dl_id (diffoscope_logs d))"
    by (rule opt_refs_insert) (simp_all add: ok assms(3) rebuild_artifact_row_def)
  moreover have "opt_refs ra_attestation_log_id
      (snd (sql_insert (rebuild_artifact_row n) (rebuild_artifacts d)))
      (ids al_id (attestation_logs d))"
    by (rule opt_refs_insert) (simp_all add: ok assms(4) rebuild_artifact_row_def)
  moreover have "\<forall>r\<in>set (rows (rebuild_artifacts d)). artifact_ok r" by (simp add: ok)
  ultimately show ?thesis
    unfolding rebuild_artifact_insert_def
    by (intro db_ok_rebuild_artifacts)
      (simp_all add: assms ok wf_table_insert refs_insert rows_insert rebuild_artifact_row_def
        artifact_ok_def)
qed

lemma db_ok_worker_upsert [wf_intros]: "db_ok d \<Longrightarrow> db_ok (snd (worker_upsert n d))"
  unfolding worker_upsert_def
  by (simp, rule db_ok_workers)
    (simp_all add: db_ok_facts worker_table.upsert_wf_table worker_table.upsert_unique_on)

lemma db_ok_get_or_create [wf_intros]: "db_ok d \<Longrightarrow> db_ok (snd (get_or_create key name now d))"
  by (simp add: get_or_create_def db_ok_worker_upsert)

lemma db_ok_workers_update [wf_intros]:
  "db_ok d \<Longrightarrow> (\<And>w. w_id (f w) = w_id w) \<Longrightarrow> (\<And>w. w_key (f w) = w_key w) \<Longrightarrow>
     db_ok (d\<lparr>workers := sql_update p f (workers d)\<rparr>)"
  by (rule db_ok_workers) (simp_all add: db_ok_facts wf_table_update unique_on_update)

lemma db_ok_get_and_refresh [wf_intros]: "db_ok d \<Longrightarrow> db_ok (snd (get_and_refresh key now d))"
  by (auto simp: get_and_refresh_def split: list.split intro!: db_ok_workers_update)

lemma db_ok_queue_update [wf_intros]:
  "db_ok d \<Longrightarrow> (\<And>q. q_id (f q) = q_id q) \<Longrightarrow>
     (\<And>q. q_build_input_id (f q) = q_build_input_id q) \<Longrightarrow>
     (\<And>q. q \<in> set (rows (queue d)) \<Longrightarrow> p q \<Longrightarrow> job_ok q \<Longrightarrow> job_ok (f q)) \<Longrightarrow>
     db_ok (d\<lparr>queue := sql_update p f (queue d)\<rparr>)"
  by (rule db_ok_queue)
    (intro table_intros refs_insert refs_update opt_refs_update
      | simp add: db_ok_facts ids_update)+

lemma db_ok_build_inputs_update [wf_intros]:
  "db_ok d \<Longrightarrow> (\<And>b. bi_id (f b) = bi_id b) \<Longrightarrow> (\<And>b. build_input_key (f b) = build_input_key b) \<Longrightarrow>
     db_ok (d\<lparr>build_inputs := sql_update p f (build_inputs d)\<rparr>)"
  by (rule db_ok_build_inputs)
    (intro table_intros refs_insert refs_update opt_refs_update
      | simp add: db_ok_facts ids_update build_input_key_def)+

lemma db_ok_rebuilds_update [wf_intros]:
  "db_ok d \<Longrightarrow> (\<And>r. rb_id (f r) = rb_id r) \<Longrightarrow>
     (\<And>r. rb_build_input_id (f r) = rb_build_input_id r) \<Longrightarrow>
     (\<And>r. rb_build_log_id (f r) = rb_build_log_id r) \<Longrightarrow>
     (\<And>r. rebuild_ok r \<Longrightarrow> rebuild_ok (f r)) \<Longrightarrow>
     db_ok (d\<lparr>rebuilds := sql_update p f (rebuilds d)\<rparr>)"
  by (rule db_ok_rebuilds)
    (intro table_intros refs_insert refs_update opt_refs_update
      | simp add: db_ok_facts ids_update)+

lemma db_ok_rebuild_artifacts_update [wf_intros]:
  "db_ok d \<Longrightarrow> (\<And>r. ra_id (f r) = ra_id r) \<Longrightarrow>
     (\<And>r. ra_rebuild_id (f r) = ra_rebuild_id r) \<Longrightarrow>
     (\<And>r. ra_diffoscope_log_id (f r) = ra_diffoscope_log_id r) \<Longrightarrow>
     (\<And>r. ra_attestation_log_id (f r) = ra_attestation_log_id r) \<Longrightarrow>
     (\<And>r. artifact_ok r \<Longrightarrow> artifact_ok (f r)) \<Longrightarrow>
     db_ok (d\<lparr>rebuild_artifacts := sql_update p f (rebuild_artifacts d)\<rparr>)"
  by (rule db_ok_rebuild_artifacts)
    (intro table_intros refs_insert refs_update opt_refs_update
      | simp add: db_ok_facts ids_update)+

lemma db_ok_source_packages_update [wf_intros]:
  "db_ok d \<Longrightarrow> (\<And>r. sp_id (f r) = sp_id r) \<Longrightarrow>
     (\<And>r. source_package_key (f r) = source_package_key r) \<Longrightarrow>
     db_ok (d\<lparr>source_packages := sql_update p f (source_packages d)\<rparr>)"
  by (rule db_ok_source_packages)
    (intro table_intros refs_insert refs_update opt_refs_update
      | simp add: db_ok_facts ids_update)+

lemma db_ok_binary_packages_update [wf_intros]:
  "db_ok d \<Longrightarrow> (\<And>r. bp_id (f r) = bp_id r) \<Longrightarrow>
     (\<And>r. binary_package_key (f r) = binary_package_key r) \<Longrightarrow>
     db_ok (d\<lparr>binary_packages := sql_update p f (binary_packages d)\<rparr>)"
  by (rule db_ok_binary_packages)
    (intro table_intros refs_insert refs_update opt_refs_update
      | simp add: db_ok_facts ids_update binary_package_key_def)+

lemma db_ok_stats_snapshot_insert [wf_intros]:
  "db_ok d \<Longrightarrow> db_ok (snd (stats_snapshot_insert n d))"
  unfolding stats_snapshot_insert_def
  by (simp, rule db_ok_stats)
    (intro table_intros refs_insert refs_update opt_refs_update
      | simp add: db_ok_facts ids_update stats_snapshot_row_def)+

lemma stats_category_batch_wf:
  "wf_table sc_id t \<Longrightarrow> refs sc_stats_id t S \<Longrightarrow> nsc_stats_id ` set batch \<subseteq> S \<Longrightarrow>
     wf_table sc_id (fold (\<lambda>n t. snd (sql_insert (stats_category_row n) t)) batch t) \<and>
     refs sc_stats_id (fold (\<lambda>n t. snd (sql_insert (stats_category_row n) t)) batch t) S"
  by (induction batch arbitrary: t)
    (simp_all add: wf_table_insert refs_insert stats_category_row_def)

lemma db_ok_stats_category_insert_batch [wf_intros]:
  "db_ok d \<Longrightarrow> nsc_stats_id ` set batch \<subseteq> ids st_id (stats d) \<Longrightarrow>
     db_ok (stats_category_insert_batch batch d)"
  unfolding stats_category_insert_batch_def
  using stats_category_batch_wf[of "stats_categories d" "ids st_id (stats d)" batch]
  by (intro db_ok_stats_categories) (simp_all add: db_ok_facts)

section \<open>Rows the upserts leave\<close>

lemma build_log_insert_id [simp]:
  "fst (build_log_insert log d) \<in> ids bl_id (build_logs (snd (build_log_insert log d)))"
  by (simp add: build_log_insert_def table_simps)

lemma rebuild_insert_id [simp]:
  "fst (rebuild_insert n d) \<in> ids rb_id (rebuilds (snd (rebuild_insert n d)))"
  by (simp add: rebuild_insert_def table_simps)

lemma source_package_upsert_row [simp]:
  "fst (source_package_upsert n d) \<in> set (rows (source_packages (snd (source_package_upsert n d))))"
  by (simp add: source_package_upsert_def source_package_table.upsert_row)

lemma build_input_upsert_row [simp]:
  "fst (build_input_upsert n d) \<in> set (rows (build_inputs (snd (build_input_upsert n d))))"
  by (simp add: build_input_upsert_def build_input_table.upsert_row)

lemma worker_upsert_row [simp]:
  "fst (worker_upsert n d) \<in> set (rows (workers (snd (worker_upsert n d))))"
  by (simp add: worker_upsert_def worker_table.upsert_row)

lemma worker_upsert_key: "w_key (fst (worker_upsert n d)) = nw_key n"
  by (simp add: worker_upsert_def worker_table.upsert_row_key)

end
