(* ===== verification/Config.thy ===== *)
theory Config
  imports ApiTypes
begin

text \<open>
  Configuration: the file format and its layering (\<open>common/src/config.rs\<close>, the cookie part of
  \<open>common/src/auth.rs\<close>) and the daemon's own configuration that is built from it
  (\<open>daemon/src/config.rs\<close>). Reading and parsing the files is a parameter: \<open>load_config\<close> takes
  what \<open>load_from\<close> returned for each path.
\<close>

definition idle_delay :: int where "idle_delay = 180"
definition ping_interval :: int where "ping_interval = 60"
definition ping_deadline :: int where "ping_deadline = ping_interval * 9"
definition worker_delay :: int where "worker_delay = 3"
definition api_error_delay :: int where "api_error_delay = 30"
definition default_retry_delay_base :: int where "default_retry_delay_base = 24"
definition default_initial_delay :: int where "default_initial_delay = 0"

record http_config =
  hc_bind_addr :: "string option"
  hc_real_ip_header :: "string option"
  hc_post_body_size_limit :: "int option"
  hc_transparently_sign_attestations :: "bool option"
  hc_endpoint :: "string option"
  hc_permissive_cors :: "bool option"

record auth_config =
  ac_cookie :: "string option"

record endpoint_config =
  ec_cookie :: string

record worker_config =
  authorized_workers :: "string list"
  signup_secret :: "string option"

record schedule_config =
  sch_retry_delay_base :: "int option"
  sch_max_retries :: "int option"
  sch_initial_delay :: "int option"

record config_file =
  cf_http :: http_config
  cf_auth :: auth_config
  cf_endpoints :: "string \<Rightarrow> endpoint_config option"
  cf_worker :: worker_config
  cf_schedule :: schedule_config

definition default_config_file :: config_file where
  "default_config_file =
     \<lparr>cf_http = \<lparr>hc_bind_addr = None, hc_real_ip_header = None, hc_post_body_size_limit = None,
        hc_transparently_sign_attestations = None, hc_endpoint = None, hc_permissive_cors = None\<rparr>,
      cf_auth = \<lparr>ac_cookie = None\<rparr>,
      cf_endpoints = Map.empty,
      cf_worker = \<lparr>authorized_workers = [], signup_secret = None\<rparr>,
      cf_schedule = \<lparr>sch_retry_delay_base = None, sch_max_retries = None,
        sch_initial_delay = None\<rparr>\<rparr>"

text \<open>\<open>if c.field.is_some() { self.field = c.field; }\<close>, and the same for a non-empty list.\<close>

definition overlay :: "'a option \<Rightarrow> 'a option \<Rightarrow> 'a option" where
  "overlay self c = (if c \<noteq> None then c else self)"

definition overlay_list :: "'a list \<Rightarrow> 'a list \<Rightarrow> 'a list" where
  "overlay_list self c = (if c \<noteq> [] then c else self)"

definition http_config_update :: "http_config \<Rightarrow> http_config \<Rightarrow> http_config" where
  "http_config_update self c = self
     \<lparr>hc_bind_addr := overlay (hc_bind_addr self) (hc_bind_addr c),
      hc_real_ip_header := overlay (hc_real_ip_header self) (hc_real_ip_header c),
      hc_endpoint := overlay (hc_endpoint self) (hc_endpoint c)\<rparr>"

definition auth_config_update :: "auth_config \<Rightarrow> auth_config \<Rightarrow> auth_config" where
  "auth_config_update self c = self\<lparr>ac_cookie := overlay (ac_cookie self) (ac_cookie c)\<rparr>"

definition endpoint_config_update :: "endpoint_config \<Rightarrow> endpoint_config \<Rightarrow> endpoint_config" where
  "endpoint_config_update self c = self\<lparr>ec_cookie := ec_cookie c\<rparr>"

definition worker_config_update :: "worker_config \<Rightarrow> worker_config \<Rightarrow> worker_config" where
  "worker_config_update self c = self
     \<lparr>authorized_workers := overlay_list (authorized_workers self) (authorized_workers c),
      signup_secret := overlay (signup_secret self) (signup_secret c)\<rparr>"

definition schedule_config_update :: "schedule_config \<Rightarrow> schedule_config \<Rightarrow> schedule_config" where
  "schedule_config_update self c = self
     \<lparr>sch_retry_delay_base := overlay (sch_retry_delay_base self) (sch_retry_delay_base c),
      sch_initial_delay := overlay (sch_initial_delay self) (sch_initial_delay c),
      sch_max_retries := overlay (sch_max_retries self) (sch_max_retries c)\<rparr>"

text \<open>The loop over \<open>c.endpoints\<close>: each key is visited once, the keys of \<open>self\<close> alone stay.\<close>

definition config_file_update :: "config_file \<Rightarrow> config_file \<Rightarrow> config_file" where
  "config_file_update self c =
     \<lparr>cf_http = http_config_update (cf_http self) (cf_http c),
      cf_auth = auth_config_update (cf_auth self) (cf_auth c),
      cf_endpoints = (\<lambda>k. case cf_endpoints c k of
          None \<Rightarrow> cf_endpoints self k
        | Some v \<Rightarrow> (case cf_endpoints self k of
              Some e \<Rightarrow> Some (endpoint_config_update e v)
            | None \<Rightarrow> Some v)),
      cf_worker = worker_config_update (cf_worker self) (cf_worker c),
      cf_schedule = schedule_config_update (cf_schedule self) (cf_schedule c)\<rparr>"

text \<open>
  \<open>load_config system user explicit\<close>: \<open>system\<close> and \<open>user\<close> are the results of \<open>load_from\<close> on
  \<open>/etc/rebuilderd.conf\<close> and the user's file (\<open>user = None\<close> when there is no config
  directory), \<open>explicit\<close> is the result for the path on the command line, if one was given.
\<close>

definition load_config ::
  "config_file option result \<Rightarrow> config_file option result option \<Rightarrow>
   config_file option result option \<Rightarrow> config_file result" where
  "load_config system user explicit =
     (case system of
        Inl e \<Rightarrow> Inl e
      | Inr s \<Rightarrow>
        (let c1 = (case s of Some c \<Rightarrow> config_file_update default_config_file c
                           | None \<Rightarrow> default_config_file)
         in case user of
              Some (Inl e) \<Rightarrow> Inl e
            | _ \<Rightarrow>
              (let c2 = (case user of Some (Inr (Some c)) \<Rightarrow> config_file_update c1 c | _ \<Rightarrow> c1)
               in case explicit of
                    None \<Rightarrow> Inr c2
                  | Some (Inl e) \<Rightarrow> Inl e
                  | Some (Inr None) \<Rightarrow> Inl LibraryError
                  | Some (Inr (Some c)) \<Rightarrow> Inr (config_file_update c2 c))))"

definition retry_delay_base :: "schedule_config \<Rightarrow> int" where
  "retry_delay_base s =
     (case sch_retry_delay_base s of None \<Rightarrow> default_retry_delay_base | Some h \<Rightarrow> h)"

definition initial_delay :: "schedule_config \<Rightarrow> time" where
  "initial_delay s =
     seconds (case sch_initial_delay s of None \<Rightarrow> default_initial_delay | Some n \<Rightarrow> n)"

definition max_retries :: "schedule_config \<Rightarrow> int option" where
  "max_retries s = sch_max_retries s"

section \<open>The daemon's configuration\<close>

definition default_post_body_size_limit :: int where "default_post_body_size_limit = 2 ^ 30"

record config =
  cfg_auth_cookie :: string
  cfg_worker :: worker_config
  cfg_bind_addr :: string
  cfg_real_ip_header :: "string option"
  cfg_post_body_size_limit :: int
  cfg_transparently_sign_attestations :: bool
  cfg_permissive_cors :: bool
  cfg_schedule :: schedule_config

text \<open>\<open>http_addr\<close> is the value of the environment variable \<open>HTTP_ADDR\<close>.\<close>

definition from_struct :: "string option \<Rightarrow> config_file \<Rightarrow> string \<Rightarrow> config" where
  "from_struct http_addr c auth_cookie =
     \<lparr>cfg_auth_cookie = auth_cookie,
      cfg_worker = cf_worker c,
      cfg_bind_addr =
        (case http_addr of
           Some addr \<Rightarrow> addr
         | None \<Rightarrow> (case hc_bind_addr (cf_http c) of
             Some addr \<Rightarrow> addr
           | None \<Rightarrow> ''127.0.0.1:8484'')),
      cfg_real_ip_header = hc_real_ip_header (cf_http c),
      cfg_post_body_size_limit =
        (case hc_post_body_size_limit (cf_http c) of
           None \<Rightarrow> default_post_body_size_limit | Some n \<Rightarrow> n),
      cfg_transparently_sign_attestations =
        (case hc_transparently_sign_attestations (cf_http c) of None \<Rightarrow> True | Some b \<Rightarrow> b),
      cfg_permissive_cors =
        (case hc_permissive_cors (cf_http c) of None \<Rightarrow> False | Some b \<Rightarrow> b),
      cfg_schedule = cf_schedule c\<rparr>"

section \<open>Where the auth cookie comes from\<close>

text \<open>
  \<open>find_auth_cookie\<close> and the client's choice of endpoint and cookie. Every argument is what
  the file or environment access returned: \<open>env\<close> the content of the file that
  \<open>REBUILDERD_COOKIE_PATH\<close> names (\<open>None\<close>: the variable is unset), \<open>user_cfg\<close> and \<open>sys_cfg\<close>
  the results of \<open>read_cookie_from_config\<close>, \<open>sys_cookie\<close> and \<open>data_cookie\<close> the results of
  \<open>read_cookie_from_file\<close> on the text of the file.
\<close>

definition read_cookie_from_file :: "string result \<Rightarrow> string result" where
  "read_cookie_from_file content = map_sum id trim content"

definition find_auth_cookie ::
  "string result option \<Rightarrow> string option result option \<Rightarrow> string option result \<Rightarrow>
   string result \<Rightarrow> string result option \<Rightarrow> string result" where
  "find_auth_cookie env user_cfg sys_cfg sys_cookie data_cookie =
     (case env of
        Some content \<Rightarrow> read_cookie_from_file content
      | None \<Rightarrow>
        (case user_cfg of
           Some (Inl e) \<Rightarrow> Inl e
         | Some (Inr (Some cookie)) \<Rightarrow> Inr cookie
         | _ \<Rightarrow>
           (case sys_cfg of
              Inl e \<Rightarrow> Inl e
            | Inr (Some cookie) \<Rightarrow> Inr cookie
            | Inr None \<Rightarrow>
              (case read_cookie_from_file sys_cookie of
                 Inr cookie \<Rightarrow> Inr cookie
               | Inl _ \<Rightarrow>
                 (case data_cookie of
                    Some content \<Rightarrow>
                      (case read_cookie_from_file content of
                         Inr cookie \<Rightarrow> Inr cookie | Inl _ \<Rightarrow> Inl LibraryError)
                  | None \<Rightarrow> Inl LibraryError)))))"

section \<open>Layering\<close>

lemmas config_update_defs = config_file_update_def http_config_update_def auth_config_update_def
  endpoint_config_update_def worker_config_update_def schedule_config_update_def

lemma overlay_simps [simp]:
  "overlay None c = c" "overlay s None = s" "overlay s (Some v) = Some v" "overlay s s = s"
  "overlay_list [] cs = cs" "overlay_list ss [] = ss"
  by (auto simp: overlay_def overlay_list_def)

lemma overlay_assoc: "overlay (overlay a b) c = overlay a (overlay b c)"
  by (cases c) simp_all

lemma overlay_list_assoc: "overlay_list (overlay_list a b) c = overlay_list a (overlay_list b c)"
  by (cases c) (simp_all add: overlay_list_def)

lemma config_file_update_assoc:
  "config_file_update (config_file_update a b) c =
     config_file_update a (config_file_update b c)"
  by (simp add: config_update_defs overlay_assoc overlay_list_assoc fun_eq_iff split: option.split)

lemma ping_deadline_eq [simp]: "ping_deadline = 540"
  by (simp add: ping_deadline_def ping_interval_def)

end
