(* ===== verification/Auth.thy ===== *)
theory Auth
  imports Models Config
begin

text \<open>
  Who may call what: \<open>daemon/src/api/v1/util/auth.rs\<close> and the header access of
  \<open>daemon/src/api/mod.rs\<close>. A request is its headers (present and readable, present but not
  ASCII, or absent), the peer address of the connection and whether the client accepts zstd.
\<close>

datatype header_value = Text string | Undecodable

record http_request =
  rq_headers :: "string \<Rightarrow> header_value option"
  rq_peer_addr :: "string option"
  rq_accepts_zstd :: bool

definition auth_cookie_header :: string where "auth_cookie_header = ''X-Auth-Cookie''"
definition worker_key_header :: string where "worker_key_header = ''X-Worker-Key''"
definition signup_secret_header :: string where "signup_secret_header = ''X-Signup-Secret''"

definition header :: "http_request \<Rightarrow> string \<Rightarrow> string result" where
  "header req key =
     (case rq_headers req key of
        None \<Rightarrow> Inl MissingHeader
      | Some Undecodable \<Rightarrow> Inl UndecodableHeader
      | Some (Text v) \<Rightarrow> Inr v)"

definition admin :: "config \<Rightarrow> http_request \<Rightarrow> unit result" where
  "admin cfg req =
     (case header req auth_cookie_header of
        Inl e \<Rightarrow> Inl e
      | Inr auth_cookie \<Rightarrow>
          if cfg_auth_cookie cfg \<noteq> auth_cookie then Inl WrongAuthCookie else Inr ())"

definition not_allow_listed :: "config \<Rightarrow> string \<Rightarrow> bool" where
  "not_allow_listed cfg key \<longleftrightarrow>
     authorized_workers (cfg_worker cfg) \<noteq> [] \<and>
     \<not> list_ex (\<lambda>x. x = key) (authorized_workers (cfg_worker cfg))"

definition auth_worker :: "config \<Rightarrow> http_request \<Rightarrow> time \<Rightarrow> db \<Rightarrow> worker result \<times> db" where
  "auth_worker cfg req now d =
     (if authorized_workers (cfg_worker cfg) = [] \<and> signup_secret (cfg_worker cfg) = None then
        map_prod Inr id
          (get_or_create
             (case header req worker_key_header of Inr k \<Rightarrow> k | Inl _ \<Rightarrow> ''unauthenticated'')
             ''anonymous'' now d)
      else
        (case header req worker_key_header of
           Inl e \<Rightarrow> (Inl e, d)
         | Inr worker_key \<Rightarrow>
             if not_allow_listed cfg worker_key then (Inl NotOnAllowList, d)
             else if \<not> sql_exists (\<lambda>w. w_key w = worker_key) (workers d) then (Inl NotRegistered, d)
             else get_and_refresh worker_key now d))"

definition signup :: "config \<Rightarrow> http_request \<Rightarrow> unit result" where
  "signup cfg req =
     (case header req worker_key_header of
        Inl e \<Rightarrow> Inl e
      | Inr worker_key \<Rightarrow>
          if not_allow_listed cfg worker_key then Inl NotOnAllowList
          else
            (case signup_secret (cfg_worker cfg) of
               None \<Rightarrow> Inr ()
             | Some expected_signup_secret \<Rightarrow>
                 (case header req signup_secret_header of
                    Inl e \<Rightarrow> Inl e
                  | Inr s \<Rightarrow> if s = expected_signup_secret then Inr () else Inl SignupMismatch)))"

section \<open>What authentication promises\<close>

lemma not_allow_listed_iff:
  "not_allow_listed cfg k \<longleftrightarrow>
     authorized_workers (cfg_worker cfg) \<noteq> [] \<and> k \<notin> set (authorized_workers (cfg_worker cfg))"
  by (auto simp: not_allow_listed_def list_ex_iff)

lemma admin_ok: "admin cfg req = Inr () \<longleftrightarrow> header req auth_cookie_header = Inr (cfg_auth_cookie cfg)"
  by (auto simp: admin_def split: sum.split)

lemma db_ok_auth_worker [wf_intros]: "db_ok d \<Longrightarrow> db_ok (snd (auth_worker cfg req now d))"
  by (auto simp: auth_worker_def split: sum.split
      intro: db_ok_get_or_create db_ok_get_and_refresh)

text \<open>Authentication writes to the table of workers only.\<close>

lemma get_or_create_frame: "\<exists>t. snd (get_or_create key name now d) = d\<lparr>workers := t\<rparr>"
  by (auto simp: get_or_create_def worker_upsert_def)

lemma get_and_refresh_frame: "\<exists>t. snd (get_and_refresh key now d) = d\<lparr>workers := t\<rparr>"
proof (cases "filter (\<lambda>w. w_key w = key) (rows (workers d))")
  case Nil
  then show ?thesis by (intro exI[of _ "workers d"]) (simp add: get_and_refresh_def)
next
  case (Cons w ws)
  then show ?thesis by (auto simp: get_and_refresh_def)
qed

lemma auth_worker_frame: "\<exists>t. snd (auth_worker cfg req now d) = d\<lparr>workers := t\<rparr>"
proof -
  have "\<exists>t. d = d\<lparr>workers := t\<rparr>" by (rule exI[of _ "workers d"]) simp
  then show ?thesis
    using get_or_create_frame get_and_refresh_frame
    by (auto simp: auth_worker_def split: sum.split)
qed

lemma auth_worker_queue [frame_simps]:
  "queue (snd (auth_worker cfg req now d)) = queue d"
  "build_inputs (snd (auth_worker cfg req now d)) = build_inputs d"
  "rebuilds (snd (auth_worker cfg req now d)) = rebuilds d"
  "rebuild_artifacts (snd (auth_worker cfg req now d)) = rebuild_artifacts d"
  "source_packages (snd (auth_worker cfg req now d)) = source_packages d"
  "binary_packages (snd (auth_worker cfg req now d)) = binary_packages d"
  "build_logs (snd (auth_worker cfg req now d)) = build_logs d"
  "diffoscope_logs (snd (auth_worker cfg req now d)) = diffoscope_logs d"
  "attestation_logs (snd (auth_worker cfg req now d)) = attestation_logs d"
  using auth_worker_frame[of cfg req now d] by auto

lemma get_and_refresh_Inr:
  assumes "get_and_refresh key now d = (Inr w, d')"
  shows "w \<in> set (rows (workers d')) \<and> w_key w = key \<and> w_last_ping w = now \<and> w_online w"
proof (cases "filter (\<lambda>w. w_key w = key) (rows (workers d))")
  case Nil
  with assms show ?thesis by (simp add: get_and_refresh_def)
next
  case (Cons v vs)
  then have "v \<in> set (rows (workers d))" "w_key v = key"
    by (auto simp: filter_eq_Cons_iff)
  with Cons assms show ?thesis
    by (force simp: get_and_refresh_def rows_update)
qed

lemma auth_worker_Inr:
  assumes "auth_worker cfg req now d = (Inr w, d')"
  shows "w \<in> set (rows (workers d')) \<and> w_last_ping w = now \<and> w_online w"
proof (cases "authorized_workers (cfg_worker cfg) = [] \<and> signup_secret (cfg_worker cfg) = None")
  case True
  let ?n = "\<lambda>k. \<lparr>nw_key = k, nw_name = ''anonymous'', nw_address = ''unauthenticated'',
      nw_status = None, nw_last_ping = now, nw_online = True\<rparr>"
  have online: "w_last_ping (fst (worker_upsert (?n k) d)) = now \<and> w_online (fst (worker_upsert (?n k) d))" for k
    by (auto simp: worker_upsert_def sql_upsert_def sql_insert_def worker_row_def worker_set_def
        split: option.split)
  from True assms obtain k where "worker_upsert (?n k) d = (w, d')"
    by (auto simp: auth_worker_def get_or_create_def map_prod_def split: prod.splits)
  then show ?thesis using online[of k] worker_upsert_row[of "?n k" d] by simp
next
  case False
  with assms show ?thesis
    by (auto simp: auth_worker_def get_and_refresh_Inr split: sum.splits if_splits)
qed

text \<open>A worker that passes is one the configuration admits.\<close>

lemma auth_worker_authorized:
  assumes "auth_worker cfg req now d = (Inr w, d')"
    and "authorized_workers (cfg_worker cfg) \<noteq> [] \<or> signup_secret (cfg_worker cfg) \<noteq> None"
  shows "header req worker_key_header = Inr (w_key w)"
    and "authorized_workers (cfg_worker cfg) \<noteq> [] \<longrightarrow> w_key w \<in> set (authorized_workers (cfg_worker cfg))"
    and "w_key w \<in> w_key ` set (rows (workers d))"
  using assms
  by (auto simp: auth_worker_def not_allow_listed_iff sql_exists_iff
      dest!: get_and_refresh_Inr split: sum.splits if_splits)

end
