(* ===== verification/Friends.thy ===== *)
theory Friends
  imports Models
begin

text \<open>
  Friends (\<open>daemon/src/api/v1/util/friends.rs\<close>): build inputs with the same source URL, backend
  and architecture, under whichever source package they are filed. They share one rebuild: a
  result is recorded for all of them, and only one of them needs to be queued.
\<close>

definition build_input_friends :: "int \<Rightarrow> db \<Rightarrow> int list" where
  "build_input_friends i d =
     map bi_id (filter (\<lambda>b.
         bi_url b \<in> set (map bi_url (filter (\<lambda>b1. bi_id b1 = i) (rows (build_inputs d)))) \<and>
         bi_backend b \<in> set (map bi_backend (filter (\<lambda>b1. bi_id b1 = i) (rows (build_inputs d)))) \<and>
         bi_architecture b \<in>
           set (map bi_architecture (filter (\<lambda>b1. bi_id b1 = i) (rows (build_inputs d)))))
       (rows (build_inputs d)))"

definition get_build_input_friends :: "int \<Rightarrow> db \<Rightarrow> int list" where
  "get_build_input_friends i d = build_input_friends i d"

definition clear_next_retry :: "int list \<Rightarrow> db \<Rightarrow> db" where
  "clear_next_retry is d =
     d\<lparr>build_inputs := sql_update (\<lambda>b. bi_id b \<in> set is) (\<lambda>b. b\<lparr>bi_next_retry := None\<rparr>)
        (build_inputs d)\<rparr>"

definition mark_build_input_friends_as_non_retriable :: "int \<Rightarrow> db \<Rightarrow> db" where
  "mark_build_input_friends_as_non_retriable i d =
     (let friends = get_build_input_friends i d;
          d = clear_next_retry friends d
      in d\<lparr>queue := sql_delete (\<lambda>q. q_build_input_id q \<in> set friends) (queue d)\<rparr>)"

definition has_queued_friend :: "int \<Rightarrow> db \<Rightarrow> bool" where
  "has_queued_friend i d =
     sql_exists (\<lambda>q. q_build_input_id q \<in> set (build_input_friends i d)) (queue d)"

text \<open>\<open>MAX\<close> of no rows is \<open>NULL\<close>, which does not read as an \<open>i32\<close>.\<close>

definition get_largest_retry_count_among_friends :: "int \<Rightarrow> db \<Rightarrow> int result" where
  "get_largest_retry_count_among_friends i d =
     (case map bi_retries (filter (\<lambda>b. bi_id b \<in> set (get_build_input_friends i d))
             (rows (build_inputs d))) of
        [] \<Rightarrow> Inl LibraryError
      | r # rs \<Rightarrow> Inr (fold max rs r))"

section \<open>The relation\<close>

definition input_origin :: "build_input \<Rightarrow> string \<times> string \<times> string" where
  "input_origin b = (bi_url b, bi_backend b, bi_architecture b)"

lemma friends_of_row:
  assumes "db_ok d" "b \<in> set (rows (build_inputs d))"
  shows "set (build_input_friends (bi_id b) d) =
    bi_id ` {b' \<in> set (rows (build_inputs d)). input_origin b' = input_origin b}"
proof -
  have "filter (\<lambda>b1. bi_id b1 = bi_id b) (rows (build_inputs d)) = [b]"
    by (rule filter_unique) (simp_all add: assms db_ok_facts wf_table_distinct)
  then show ?thesis by (auto simp: build_input_friends_def input_origin_def)
qed

lemma friends_unknown: "i \<notin> ids bi_id (build_inputs d) \<Longrightarrow> build_input_friends i d = []"
proof -
  assume "i \<notin> ids bi_id (build_inputs d)"
  then have "filter (\<lambda>b1. bi_id b1 = i) (rows (build_inputs d)) = []"
    by (auto simp: filter_empty_conv)
  then show ?thesis by (simp add: build_input_friends_def)
qed

lemma friends_subset: "set (build_input_friends i d) \<subseteq> ids bi_id (build_inputs d)"
  by (auto simp: build_input_friends_def)

lemma friends_self:
  "db_ok d \<Longrightarrow> i \<in> ids bi_id (build_inputs d) \<Longrightarrow> i \<in> set (build_input_friends i d)"
  by (auto simp: friends_of_row)

lemma friend_row:
  assumes "db_ok d" "b \<in> set (rows (build_inputs d))" "b' \<in> set (rows (build_inputs d))"
  shows "bi_id b' \<in> set (build_input_friends (bi_id b) d) \<longleftrightarrow> input_origin b' = input_origin b"
  using assms wf_table_id_unique[of bi_id "build_inputs d"]
  by (auto simp: friends_of_row db_ok_facts)

lemma distinct_friends: "db_ok d \<Longrightarrow> distinct (build_input_friends i d)"
  by (simp add: build_input_friends_def distinct_map_filter_list db_ok_facts wf_table_distinct)

text \<open>Friends depend on the columns of origin alone.\<close>

lemma friends_map:
  assumes "\<And>b. bi_id (g b) = bi_id b" "\<And>b. input_origin (g b) = input_origin b"
    and "rows (build_inputs d') = map g (rows (build_inputs d))"
  shows "build_input_friends i d' = build_input_friends i d"
proof -
  have "bi_url (g b) = bi_url b" "bi_backend (g b) = bi_backend b"
    "bi_architecture (g b) = bi_architecture b" for b
    using assms(2)[of b] by (simp_all add: input_origin_def)
  with assms(1) show ?thesis by (simp add: build_input_friends_def assms(3) filter_map o_def)
qed

lemma friends_update:
  assumes "\<And>b. bi_id (f b) = bi_id b" "\<And>b. input_origin (f b) = input_origin b"
  shows "build_input_friends i (d\<lparr>build_inputs := sql_update p f (build_inputs d)\<rparr>) =
    build_input_friends i d"
  by (rule friends_map[where g = "\<lambda>b. if p b then f b else b"]) (simp_all add: rows_update assms)

lemma friends_frame:
  "build_inputs d' = build_inputs d \<Longrightarrow> build_input_friends i d' = build_input_friends i d"
  by (simp add: build_input_friends_def)

lemma Max_fold: "fold max xs (x::int) = Max (set (x # xs))"
  by (rule Max.set_eq_fold[symmetric])

lemma largest_retry_count:
  assumes "db_ok d" "b \<in> set (rows (build_inputs d))"
  obtains n where "get_largest_retry_count_among_friends (bi_id b) d = Inr n"
    and "\<And>b'. b' \<in> set (rows (build_inputs d)) \<Longrightarrow> input_origin b' = input_origin b \<Longrightarrow> bi_retries b' \<le> n"
    and "\<exists>b'\<in>set (rows (build_inputs d)). input_origin b' = input_origin b \<and> bi_retries b' = n"
proof -
  define fs where "fs = filter (\<lambda>b'. bi_id b' \<in> set (get_build_input_friends (bi_id b) d))
    (rows (build_inputs d))"
  have mem: "b' \<in> set fs \<longleftrightarrow>
      b' \<in> set (rows (build_inputs d)) \<and> input_origin b' = input_origin b" for b'
    using friend_row[OF assms, of b'] by (auto simp: fs_def get_build_input_friends_def)
  have "b \<in> set fs" using mem assms(2) by simp
  then obtain c cs where cs: "fs = c # cs" by (cases fs) auto
  define n where "n = Max (bi_retries ` set fs)"
  have "get_largest_retry_count_among_friends (bi_id b) d = Inr n"
    by (simp add: get_largest_retry_count_among_friends_def fs_def[symmetric] cs n_def Max_fold)
  moreover have "bi_retries b' \<le> n" if "b' \<in> set fs" for b'
    using that by (simp add: n_def)
  moreover have "n \<in> bi_retries ` set fs"
    unfolding n_def by (rule Max_in) (simp_all add: cs)
  then have "\<exists>b'\<in>set fs. bi_retries b' = n" by auto
  ultimately show thesis using mem by (intro that[of n]) blast+
qed

lemma db_ok_clear_next_retry [wf_intros]: "db_ok d \<Longrightarrow> db_ok (clear_next_retry is d)"
  unfolding clear_next_retry_def
  by (rule db_ok_build_inputs_update) (simp_all add: build_input_key_def)

lemma db_ok_mark_non_retriable [wf_intros]:
  "db_ok d \<Longrightarrow> db_ok (mark_build_input_friends_as_non_retriable i d)"
  using db_ok_queue_delete[OF db_ok_clear_next_retry]
  by (simp add: mark_build_input_friends_as_non_retriable_def Let_def)

lemma mark_non_retriable_frame [frame_simps]:
  "source_packages (mark_build_input_friends_as_non_retriable i d) = source_packages d"
  "binary_packages (mark_build_input_friends_as_non_retriable i d) = binary_packages d"
  "rebuilds (mark_build_input_friends_as_non_retriable i d) = rebuilds d"
  "rebuild_artifacts (mark_build_input_friends_as_non_retriable i d) = rebuild_artifacts d"
  "map (\<lambda>b. (bi_id b, input_origin b))
     (rows (build_inputs (mark_build_input_friends_as_non_retriable i d))) =
   map (\<lambda>b. (bi_id b, input_origin b)) (rows (build_inputs d))"
  by (simp_all add: mark_build_input_friends_as_non_retriable_def clear_next_retry_def Let_def
      rows_update input_origin_def)

lemma ids_clear_next_retry [simp]:
  "ids bi_id (build_inputs (clear_next_retry is d)) = ids bi_id (build_inputs d)"
  by (simp add: clear_next_retry_def ids_update)

lemma ids_mark_non_retriable [simp]:
  "ids bi_id (build_inputs (mark_build_input_friends_as_non_retriable i d)) = ids bi_id (build_inputs d)"
  by (simp add: mark_build_input_friends_as_non_retriable_def Let_def)

end
