(* ===== verification/Filters.thy ===== *)
theory Filters
  imports Schema
begin

text \<open>
  The \<open>WHERE\<close> conditions of the query filters (\<open>daemon/src/api/v1/util/filters.rs\<close>): by source
  or binary identity, by origin and by freshness. The bytes of a pattern are those the code
  builds with \<open>format!\<close>; \<open>like\<close> is SQLite's operator: \<open>%\<close> stands for any text, \<open>_\<close> for one
  character, ASCII letters match regardless of case, and there is no escape character.
\<close>

fun like :: "string \<Rightarrow> string \<Rightarrow> bool" where
  "like [] t \<longleftrightarrow> t = []"
| "like (p # ps) [] \<longleftrightarrow> p = CHR ''%'' \<and> like ps []"
| "like (p # ps) (c # cs) \<longleftrightarrow>
     (if p = CHR ''%'' then like ps (c # cs) \<or> like (p # ps) cs
      else (p = CHR ''_'' \<or> ascii_upper p = ascii_upper c) \<and> like ps cs)"

definition name_matches :: "string option \<Rightarrow> search_type \<Rightarrow> string \<Rightarrow> bool" where
  "name_matches wanted st name =
     (case wanted of
        None \<Rightarrow> True
      | Some n \<Rightarrow>
          (case st of
             Exact \<Rightarrow> name = n
           | Contains \<Rightarrow> like (''%'' @ n @ ''%'') name
           | StartsWith \<Rightarrow> like (n @ ''%'') name))"

definition is_or_any :: "string option \<Rightarrow> string \<Rightarrow> bool" where
  "is_or_any wanted v = (case wanted of None \<Rightarrow> True | Some w \<Rightarrow> v = w)"

definition source_identity_matches :: "source_identity_filter \<Rightarrow> string \<Rightarrow> string \<Rightarrow> bool" where
  "source_identity_matches f name version \<longleftrightarrow>
     name_matches (sif_name f) (sif_search_type f) name \<and> is_or_any (sif_version f) version"

definition binary_identity_matches ::
  "binary_identity_filter \<Rightarrow> string \<Rightarrow> string \<Rightarrow> string \<Rightarrow> bool" where
  "binary_identity_matches f name version source_name \<longleftrightarrow>
     name_matches (bif_name f) (bif_search_type f) name \<and>
     is_or_any (bif_version f) version \<and> is_or_any (bif_source_name f) source_name"

definition origin_matches :: "origin_filter \<Rightarrow> source_package \<Rightarrow> string \<Rightarrow> bool" where
  "origin_matches f sp architecture \<longleftrightarrow>
     is_or_any (of_distribution f) (sp_distribution sp) \<and>
     (case of_release f of
        Some release \<Rightarrow>
          if release \<noteq> [] then sp_release sp = Some release else sp_release sp = None
      | None \<Rightarrow> True) \<and>
     (case of_component f of
        Some component \<Rightarrow>
          if component \<noteq> [] \<and> component \<noteq> ''null'' then sp_component sp = Some component
          else sp_component sp = None
      | None \<Rightarrow> True) \<and>
     is_or_any (of_architecture f) architecture"

definition freshness_matches :: "freshness_filter \<Rightarrow> source_package \<Rightarrow> bool" where
  "freshness_matches f sp \<longleftrightarrow>
     sp_seen_in_last_sync sp = (case seen_only f of None \<Rightarrow> True | Some b \<Rightarrow> b)"

section \<open>Patterns\<close>

definition plain :: "string \<Rightarrow> bool" where
  "plain s \<longleftrightarrow> (\<forall>c\<in>set s. c \<noteq> CHR ''%'' \<and> c \<noteq> CHR ''_'')"

lemma plain_Cons [simp]: "plain (c # s) \<longleftrightarrow> c \<noteq> CHR ''%'' \<and> c \<noteq> CHR ''_'' \<and> plain s"
  by (auto simp: plain_def)

lemma plain_Nil [simp]: "plain []"
  by (simp add: plain_def)

lemma like_any [simp]: "like ''%'' t"
  by (induction t) simp_all

lemma like_starts_with:
  "plain n \<Longrightarrow> like (n @ ''%'') t \<longleftrightarrow> starts_with (to_uppercase n) (to_uppercase t)"
proof (induction n arbitrary: t)
  case Nil
  then show ?case by (simp add: to_uppercase_def starts_with_def)
next
  case (Cons p n)
  then show ?case by (cases t) (auto simp: to_uppercase_def starts_with_def)
qed

lemma like_contains:
  "plain n \<Longrightarrow> like (''%'' @ n @ ''%'') t \<longleftrightarrow> str_contains (to_uppercase n) (to_uppercase t)"
proof (induction t)
  case Nil
  have "like (n @ ''%'') [] \<longleftrightarrow> n = []" using Nil by (cases n) auto
  then show ?case by (auto simp: str_contains_iff to_uppercase_def)
next
  case (Cons c t)
  have "like (''%'' @ n @ ''%'') (c # t) \<longleftrightarrow>
      like (n @ ''%'') (c # t) \<or> like (''%'' @ n @ ''%'') t" by simp
  also have "\<dots> \<longleftrightarrow> starts_with (to_uppercase n) (to_uppercase (c # t)) \<or>
      str_contains (to_uppercase n) (to_uppercase t)"
    using Cons.IH Cons.prems like_starts_with[OF Cons.prems, of "c # t"] by simp
  also have "\<dots> \<longleftrightarrow> str_contains (to_uppercase n) (to_uppercase (c # t))"
    by (simp add: str_contains_iff starts_with_def to_uppercase_def sublist_Cons_right)
  finally show ?case .
qed

text \<open>The filter with no fields admits everything.\<close>

abbreviation any_origin :: origin_filter where
  "any_origin \<equiv> \<lparr>of_distribution = None, of_release = None, of_component = None,
     of_architecture = None\<rparr>"

lemma origin_matches_any [simp]: "origin_matches any_origin sp a"
  by (simp add: origin_matches_def is_or_any_def)

end
