(* ===== verification/Pagination.thy ===== *)
theory Pagination
  imports Sql ApiTypes "HOL-Library.Multiset"
begin

text \<open>
  Keyset pagination (\<open>daemon/src/api/v1/util/pagination.rs\<close>): the query is wrapped in a common
  table expression, cut to the rows past \<open>after\<close> and before \<open>before\<close>, ordered and limited.
  A query is the list of its rows, with \<open>ident\<close> its \<open>id\<close> column and \<open>cols\<close> its columns by name.
  SQLite orders \<open>NULL\<close> before integers before text and compares row values
  lexicographically in three-valued logic.
\<close>

datatype sql_value = Null | Int_value int | Text_value string

fun value_rank :: "sql_value \<Rightarrow> nat \<times> int \<times> string" where
  "value_rank Null = (0, 0, [])"
| "value_rank (Int_value i) = (1, i, [])"
| "value_rank (Text_value s) = (2, 0, s)"

lemma value_rank_inject: "value_rank a = value_rank b \<longleftrightarrow> a = b"
  by (cases a; cases b) simp_all

instantiation sql_value :: linorder
begin

definition less_eq_sql_value :: "sql_value \<Rightarrow> sql_value \<Rightarrow> bool" where
  "less_eq_sql_value a b \<longleftrightarrow> value_rank a \<le> value_rank b"

definition less_sql_value :: "sql_value \<Rightarrow> sql_value \<Rightarrow> bool" where
  "less_sql_value a b \<longleftrightarrow> value_rank a < value_rank b"

instance
  by standard
    (auto simp: less_eq_sql_value_def less_sql_value_def value_rank_inject[symmetric])

end

definition opt_int_value :: "int option \<Rightarrow> sql_value" where
  "opt_int_value c = (case c of None \<Rightarrow> Null | Some i \<Rightarrow> Int_value i)"

definition opt_text_value :: "string option \<Rightarrow> sql_value" where
  "opt_text_value c = (case c of None \<Rightarrow> Null | Some s \<Rightarrow> Text_value s)"

definition bool_value :: "bool \<Rightarrow> sql_value" where
  "bool_value b = Int_value (if b then 1 else 0)"

type_synonym 'a columns = "(string \<times> ('a \<Rightarrow> sql_value)) list"

definition is_ascii_alphanumeric :: "char \<Rightarrow> bool" where
  "is_ascii_alphanumeric c \<longleftrightarrow>
     (let n = (of_char c :: nat) in
        (48 \<le> n \<and> n \<le> 57) \<or> (65 \<le> n \<and> n \<le> 90) \<or> (97 \<le> n \<and> n \<le> 122))"

definition valid_sort_field :: "string \<Rightarrow> bool" where
  "valid_sort_field s \<longleftrightarrow> (\<forall>c\<in>set s. is_ascii_alphanumeric c \<or> c = CHR ''_'')"

text \<open>Column names are matched without regard to case; the first of two equal names counts.\<close>

definition column :: "'a columns \<Rightarrow> string \<Rightarrow> ('a \<Rightarrow> sql_value) option" where
  "column cols name = map_option snd (find (\<lambda>(n, _). to_uppercase n = to_uppercase name) cols)"

text \<open>\<open>(x, i) > (y, j)\<close> on row values: unknown, hence not true, if \<open>x\<close> or \<open>y\<close> is \<open>NULL\<close>.\<close>

definition row_greater :: "sql_value \<times> int \<Rightarrow> sql_value \<times> int \<Rightarrow> bool" where
  "row_greater a b \<longleftrightarrow> fst a \<noteq> Null \<and> fst b \<noteq> Null \<and> a > b"

definition row_smaller :: "sql_value \<times> int \<Rightarrow> sql_value \<times> int \<Rightarrow> bool" where
  "row_smaller a b \<longleftrightarrow> fst a \<noteq> Null \<and> fst b \<noteq> Null \<and> a < b"

text \<open>\<open>(SELECT f FROM base_query WHERE id = i)\<close>.\<close>

definition anchor :: "('a \<Rightarrow> int) \<Rightarrow> ('a \<Rightarrow> sql_value) \<Rightarrow> 'a list \<Rightarrow> int \<Rightarrow> sql_value" where
  "anchor ident f base i = (case find (\<lambda>r. ident r = i) base of None \<Rightarrow> Null | Some r \<Rightarrow> f r)"

definition order_rows :: "sort_direction option \<Rightarrow> ('a \<Rightarrow> 'k::linorder) \<Rightarrow> 'a list \<Rightarrow> 'a list" where
  "order_rows direction key rs =
     (case direction of
        Some Descending \<Rightarrow> rev (sort_key key rs)
      | _ \<Rightarrow> sort_key key rs)"

definition limit_rows :: "int option \<Rightarrow> 'a list \<Rightarrow> 'a list" where
  "limit_rows limit rs =
     (case limit of
        None \<Rightarrow> take 1000 rs
      | Some n \<Rightarrow> if n < 0 then rs else take (nat n) rs)"

definition opt_all :: "('b \<Rightarrow> bool) \<Rightarrow> 'b option \<Rightarrow> bool" where
  "opt_all p c = (case c of None \<Rightarrow> True | Some v \<Rightarrow> p v)"

definition paginate :: "'a columns \<Rightarrow> ('a \<Rightarrow> int) \<Rightarrow> page \<Rightarrow> 'a list \<Rightarrow> 'a list result" where
  "paginate cols ident pg base =
     (case pg_sort pg of
        Some fld \<Rightarrow>
          if \<not> valid_sort_field fld then Inl InvalidSortField
          else
            (case column cols fld of
               None \<Rightarrow> Inl NoSuchColumn
             | Some f \<Rightarrow>
                 Inr (limit_rows (pg_limit pg) (order_rows (pg_direction pg) (\<lambda>r. (f r, ident r))
                   (filter (\<lambda>r.
                       opt_all (\<lambda>after. row_greater (f r, ident r) (anchor ident f base after, after))
                         (pg_after pg) \<and>
                       opt_all (\<lambda>before. row_smaller (f r, ident r) (anchor ident f base before, before))
                         (pg_before pg)) base))))
      | None \<Rightarrow>
          Inr (limit_rows (pg_limit pg) (order_rows (pg_direction pg) ident
            (filter (\<lambda>r. opt_all (\<lambda>after. after < ident r) (pg_after pg) \<and>
                         opt_all (\<lambda>before. ident r < before) (pg_before pg)) base))))"

section \<open>What a page holds\<close>

definition default_page :: page where
  "default_page = \<lparr>pg_limit = None, pg_before = None, pg_after = None, pg_sort = None,
     pg_direction = None\<rparr>"

lemma opt_all_simps [simp]: "opt_all p None" "opt_all p (Some v) = p v"
  by (simp_all add: opt_all_def)

lemma set_limit_rows: "set (limit_rows l rs) \<subseteq> set rs"
  by (auto simp: limit_rows_def split: option.splits if_splits dest: in_set_takeD)

lemma length_limit_rows: "0 \<le> n \<Longrightarrow> length (limit_rows (Some n) rs) \<le> nat n"
  by (simp add: limit_rows_def)

lemma set_order_rows [simp]: "set (order_rows d key rs) = set rs"
  by (simp add: order_rows_def split: option.split sort_direction.split)

lemma paginate_subset: "paginate cols ident pg base = Inr rs \<Longrightarrow> set rs \<subseteq> set base"
  by (auto simp: paginate_def split: option.splits if_splits dest!: set_limit_rows[THEN subsetD])

text \<open>A page past a row that has \<open>NULL\<close> in the sort column, or past no row at all, is empty.\<close>

lemma paginate_past_null:
  assumes "pg_sort pg = Some fld" "valid_sort_field fld" "column cols fld = Some f"
    and "pg_after pg = Some i" "anchor ident f base i = Null"
  shows "paginate cols ident pg base = Inr []"
proof -
  have "filter (\<lambda>r. opt_all (\<lambda>after. row_greater (f r, ident r) (anchor ident f base after, after)) (pg_after pg) \<and>
      opt_all (\<lambda>before. row_smaller (f r, ident r) (anchor ident f base before, before)) (pg_before pg)) base = []"
    using assms(4,5) by (simp add: row_greater_def)
  with assms(1-3) show ?thesis
    by (simp add: paginate_def order_rows_def limit_rows_def split: option.split sort_direction.split)
qed

text \<open>
  Walking forward: with distinct ids, the page after \<open>i\<close> of the rows in id order is the next
  \<open>n\<close> rows, and the rows after its last id are what that page leaves.
\<close>

definition after_page :: "int \<Rightarrow> int option \<Rightarrow> page" where
  "after_page n after = default_page\<lparr>pg_limit := Some n, pg_after := after\<rparr>"

definition rows_after :: "('a \<Rightarrow> 'k::linorder) \<Rightarrow> 'k option \<Rightarrow> 'a list \<Rightarrow> 'a list" where
  "rows_after ident after base =
     sort_key ident (filter (\<lambda>r. opt_all (\<lambda>a. a < ident r) after) base)"

lemma paginate_after:
  "0 \<le> n \<Longrightarrow> paginate cols ident (after_page n after) base = Inr (take (nat n) (rows_after ident after base))"
  by (simp add: paginate_def after_page_def default_page_def rows_after_def limit_rows_def
      order_rows_def)

lemma rows_after_filter:
  "rows_after ident after base = filter (\<lambda>r. opt_all (\<lambda>a. a < ident r) after) (sort_key ident base)"
  by (simp add: rows_after_def filter_sort)

lemma filter_greater_drop:
  fixes f :: "'a \<Rightarrow> 'k::linorder"
  assumes "sorted_wrt (<) (map f xs)" "k < length xs"
  shows "filter (\<lambda>r. f (xs ! k) < f r) xs = drop (Suc k) xs"
  using assms
proof (induction xs arbitrary: k)
  case Nil
  then show ?case by simp
next
  case (Cons x xs)
  show ?case
  proof (cases k)
    case 0
    with Cons.prems show ?thesis by (auto intro!: filter_True)
  next
    case (Suc k')
    with Cons.prems have "k' < length xs" by simp
    then have "f x < f (xs ! k')" using Cons.prems by auto
    then have ne: "\<not> f (xs ! k') < f x" by simp
    have "filter (\<lambda>r. f (xs ! k') < f r) xs = drop (Suc k') xs"
      using Cons.IH[OF _ \<open>k' < length xs\<close>] Cons.prems by simp
    with ne Suc show ?thesis by simp
  qed
qed

lemma filter_suffix_sorted:
  fixes f :: "'a \<Rightarrow> 'k::linorder"
  assumes "sorted_wrt (<) (map f xs)"
  shows "\<exists>k. filter (\<lambda>r. a < f r) xs = drop k xs"
  using assms
proof (induction xs)
  case Nil
  then show ?case by simp
next
  case (Cons x xs)
  show ?case
  proof (cases "a < f x")
    case True
    with Cons.prems have "filter (\<lambda>r. a < f r) (x # xs) = x # xs" by (auto intro!: filter_True)
    then show ?thesis by (metis drop0)
  next
    case False
    with Cons obtain k where "filter (\<lambda>r. a < f r) (x # xs) = drop (Suc k) (x # xs)" by auto
    then show ?thesis by blast
  qed
qed

lemma sorted_ids:
  assumes "distinct (map ident base)"
  shows "sorted_wrt (<) (map ident (sort_key ident base))"
proof -
  have "mset (map ident (sort_key ident base)) = mset (map ident base)"
    by (simp only: mset_map mset_sort)
  with assms have "distinct (map ident (sort_key ident base))"
    using mset_eq_imp_distinct_iff by blast
  then show ?thesis by (simp add: strict_sorted_iff)
qed

text \<open>The page after \<open>after\<close>, then the rest from its last row: together, the rows after \<open>after\<close>.\<close>

lemma rows_after_step:
  assumes "distinct (map ident base)" and "0 < n"
    and pg: "pg = take n (rows_after ident after base)" "pg \<noteq> []"
  shows "rows_after ident after base = pg @ rows_after ident (Some (ident (last pg))) base"
proof -
  let ?s = "sort_key ident base"
  note sorted = sorted_ids[OF assms(1)]
  obtain k where k: "rows_after ident after base = drop k ?s"
  proof (cases after)
    case None
    then show thesis using that[of 0] by (simp add: rows_after_filter)
  next
    case (Some a)
    then show thesis
      using that filter_suffix_sorted[OF sorted, of a] by (auto simp: rows_after_filter)
  qed
  define m where "m = min n (length ?s - k)"
  have m: "0 < m" "k < length ?s" "k + m \<le> length ?s" using pg k assms(2) by (auto simp: m_def)
  have pg_m: "pg = take m (drop k ?s)" using pg k by (simp add: min_def m_def)
  have last: "last pg = ?s ! (k + m - 1)"
    using m by (simp add: pg_m last_conv_nth)
  have "k + m - 1 < length ?s" using m by simp
  from filter_greater_drop[OF sorted this]
  have "rows_after ident (Some (ident (last pg))) base = drop (k + m) ?s"
    using m by (simp add: rows_after_filter last)
  also have "\<dots> = drop m (drop k ?s)" by (simp add: add.commute)
  finally show ?thesis using k by (simp only: pg_m append_take_drop_id)
qed

end
