(* ===== verification/Queue.thy ===== *)
theory Queue
  imports Auth Friends Filters Pagination
begin

text \<open>
  The work queue (\<open>daemon/src/api/v1/queue.rs\<close>): listing it, requesting rebuilds, dropping jobs,
  pinging a job and handing out work. Every handler takes the configuration, the request, the
  clock readings it makes (in the order it makes them) and the database, and returns its
  response with the database it leaves. \<open>RANDOM()\<close> in the order of the listing is inside the
  common table expression of the pagination, whose own order replaces it.
\<close>

section \<open>The joined queue\<close>

type_synonym queue_row = "queued \<times> build_input \<times> source_package"

definition inputs_with_sources :: "db \<Rightarrow> (build_input \<times> source_package) list" where
  "inputs_with_sources d =
     inner_join (\<lambda>b s. bi_source_package_id b = sp_id s) (rows (build_inputs d))
       (rows (source_packages d))"

definition queue_base :: "db \<Rightarrow> queue_row list" where
  "queue_base d =
     inner_join (\<lambda>q bs. q_build_input_id q = bi_id (fst bs)) (rows (queue d))
       (inputs_with_sources d)"

fun to_queued_job :: "queue_row \<Rightarrow> queued_job" where
  "to_queued_job (q, b, s) =
     \<lparr>job_id = q_id q, job_name = sp_name s, job_version = sp_version s,
      job_distribution = sp_distribution s, job_release = sp_release s,
      job_component = sp_component s, job_architecture = bi_architecture b,
      job_backend = bi_backend b, job_url = bi_url b, job_next_retry = bi_next_retry b,
      job_priority = q_priority q, job_queued_at = q_queued_at q,
      job_started_at = q_started_at q\<rparr>"

definition queued_job_columns :: "queued_job columns" where
  "queued_job_columns =
     [(''id'', \<lambda>j. Int_value (job_id j)), (''name'', \<lambda>j. Text_value (job_name j)),
      (''version'', \<lambda>j. Text_value (job_version j)),
      (''distribution'', \<lambda>j. Text_value (job_distribution j)),
      (''release'', \<lambda>j. opt_text_value (job_release j)),
      (''component'', \<lambda>j. opt_text_value (job_component j)),
      (''architecture'', \<lambda>j. Text_value (job_architecture j)),
      (''backend'', \<lambda>j. Text_value (job_backend j)), (''url'', \<lambda>j. Text_value (job_url j)),
      (''next_retry'', \<lambda>j. opt_int_value (job_next_retry j)),
      (''priority'', \<lambda>j. Int_value (prio (job_priority j))),
      (''queued_at'', \<lambda>j. Int_value (job_queued_at j)),
      (''started_at'', \<lambda>j. opt_int_value (job_started_at j))]"

definition get_queued_jobs ::
  "page \<Rightarrow> origin_filter \<Rightarrow> source_identity_filter \<Rightarrow> queue_filter \<Rightarrow> db \<Rightarrow>
   queued_job result_page response" where
  "get_queued_jobs pg origin identity qf d =
     (let only_started = (qf_started qf = Some True);
          base = map to_queued_job (filter (\<lambda>(q, b, s).
            origin_matches origin s (bi_architecture b) \<and>
            source_identity_matches identity (sp_name s) (sp_version s) \<and>
            (only_started \<longrightarrow> q_started_at q \<noteq> None)) (queue_base d))
      in case paginate queued_job_columns job_id pg base of
           Inl _ \<Rightarrow> Error500
         | Inr rs \<Rightarrow> Ok200 \<lparr>total = int (length base), records = rs\<rparr>)"

definition get_queued_job :: "int \<Rightarrow> db \<Rightarrow> queued_job response" where
  "get_queued_job i d =
     (case filter (\<lambda>(q, b, s). sp_id s = i) (queue_base d) of
        [] \<Rightarrow> NotFound404
      | r # _ \<Rightarrow> Ok200 (to_queued_job r))"

section \<open>Requesting rebuilds\<close>

text \<open>The newest rebuild of a build input by id, as the correlated \<open>MAX(id)\<close> subquery reads it.\<close>

definition max_rebuild_id :: "int \<Rightarrow> db \<Rightarrow> int option" where
  "max_rebuild_id i d =
     (case map rb_id (filter (\<lambda>r. rb_build_input_id r = i) (rows (rebuilds d))) of
        [] \<Rightarrow> None
      | r # rs \<Rightarrow> Some (fold max rs r))"

definition latest_status_matches :: "build_status option \<Rightarrow> int \<Rightarrow> db \<Rightarrow> bool" where
  "latest_status_matches status i d =
     (case status of
        None \<Rightarrow> True
      | Some st \<Rightarrow>
          if st = Unknown then
            \<not> sql_exists (\<lambda>r. rb_build_input_id r = i \<and>
                null_eq (Some (rb_id r)) (max_rebuild_id i d) \<and> rb_status r \<noteq> None) (rebuilds d)
          else
            sql_exists (\<lambda>r. rb_build_input_id r = i \<and>
                null_eq (Some (rb_id r)) (max_rebuild_id i d) \<and>
                rb_status r = Some (build_status_as_str st)) (rebuilds d))"

text \<open>
  \<open>source_packages.inner_join(build_inputs).inner_join(binary_packages)\<close>: diesel joins the third
  table to the first, on the source package.
\<close>

definition requested_rows ::
  "queue_job_request \<Rightarrow> db \<Rightarrow> (source_package \<times> build_input \<times> binary_package) list" where
  "requested_rows r d =
     map (\<lambda>((s, b), p). (s, b, p))
       (filter (\<lambda>((s, b), p).
           origin_matches \<lparr>of_distribution = qr_distribution r, of_release = qr_release r,
             of_component = qr_component r, of_architecture = qr_architecture r\<rparr>
             s (bi_architecture b) \<and>
           source_identity_matches \<lparr>sif_name = qr_name r, sif_search_type = Exact,
             sif_version = qr_version r\<rparr> (sp_name s) (sp_version s) \<and>
           (qr_name r = None \<longrightarrow> sp_seen_in_last_sync s) \<and>
           latest_status_matches (qr_status r) (bi_id b) d)
         (inner_join (\<lambda>sb p. bp_source_package_id p = sp_id (fst sb))
            (inner_join (\<lambda>s b. bi_source_package_id b = sp_id s) (rows (source_packages d))
               (rows (build_inputs d)))
            (rows (binary_packages d))))"

text \<open>\<open>filter(|id| seen.insert(*id))\<close>: the first of equal ids stays.\<close>

fun dedup :: "int set \<Rightarrow> int list \<Rightarrow> int list" where
  "dedup seen [] = []"
| "dedup seen (i # is) =
     (if i \<in> seen then dedup seen is else i # dedup (insert i seen) is)"

definition reset_latest_rebuild :: "int \<Rightarrow> db \<Rightarrow> db" where
  "reset_latest_rebuild i d =
     (case first_by_desc rb_id (filter (\<lambda>r. rb_build_input_id r = i) (rows (rebuilds d))) of
        None \<Rightarrow> d
      | Some r0 \<Rightarrow>
          d\<lparr>rebuilds := sql_update (\<lambda>r. rb_id r = rb_id r0) (\<lambda>r. r\<lparr>rb_status := None\<rparr>)
              (rebuilds d),
            rebuild_artifacts := sql_update (\<lambda>a. ra_rebuild_id a = rb_id r0)
              (\<lambda>a. a\<lparr>ra_status := None\<rparr>) (rebuild_artifacts d)\<rparr>)"

definition set_next_retry :: "int \<Rightarrow> time \<Rightarrow> db \<Rightarrow> db" where
  "set_next_retry i t d =
     d\<lparr>build_inputs := sql_update (\<lambda>b. bi_id b = i) (\<lambda>b. b\<lparr>bi_next_retry := Some t\<rparr>)
        (build_inputs d)\<rparr>"

definition requeue_input :: "bool \<Rightarrow> priority \<Rightarrow> time \<Rightarrow> int \<Rightarrow> db \<Rightarrow> db" where
  "requeue_input reset p now i d =
     snd (queue_upsert \<lparr>nq_build_input_id = i, nq_priority = p, nq_queued_at = now\<rparr>
       (set_next_retry i (now - seconds 60)
          (if reset then reset_latest_rebuild i d else d)))"

definition request_rebuild ::
  "config \<Rightarrow> http_request \<Rightarrow> time \<Rightarrow> queue_job_request \<Rightarrow> db \<Rightarrow> int response \<times> db" where
  "request_rebuild cfg req now request d =
     (case admin cfg req of
        Inl _ \<Rightarrow> (Forbidden403, d)
      | Inr _ \<Rightarrow>
         (let matched = map (\<lambda>(s, b, p). (bi_id b, sp_last_seen s)) (requested_rows request d);
              build_input_ids = dedup {} (map fst matched);
              p = (case qr_priority request of None \<Rightarrow> priority_manual | Some p \<Rightarrow> p)
          in (Ok200 (int (length matched)),
              fold (requeue_input (qr_reset request) p now) build_input_ids d)))"

section \<open>Dropping jobs\<close>

definition drop_queued_jobs ::
  "config \<Rightarrow> http_request \<Rightarrow> origin_filter \<Rightarrow> source_identity_filter \<Rightarrow> db \<Rightarrow> int response \<times> db" where
  "drop_queued_jobs cfg req origin identity d =
     (case admin cfg req of
        Inl _ \<Rightarrow> (Forbidden403, d)
      | Inr _ \<Rightarrow>
         (let is = map (\<lambda>(q, b, s). q_id q) (filter (\<lambda>(q, b, s).
                origin_matches origin s (bi_architecture b) \<and>
                source_identity_matches identity (sp_name s) (sp_version s)) (queue_base d))
          in (Ok200 (int (length is)),
              d\<lparr>queue := sql_delete (\<lambda>q. q_id q \<in> set is) (queue d)\<rparr>)))"

definition drop_queued_job :: "config \<Rightarrow> http_request \<Rightarrow> int \<Rightarrow> db \<Rightarrow> unit response \<times> db" where
  "drop_queued_job cfg req i d =
     (case admin cfg req of
        Inl _ \<Rightarrow> (Forbidden403, d)
      | Inr _ \<Rightarrow>
         (let dropped_jobs = sql_count (\<lambda>q. q_id q = i) (queue d)
          in (if dropped_jobs < 1 then NotFound404 else NoContent204,
              d\<lparr>queue := sql_delete (\<lambda>q. q_id q = i) (queue d)\<rparr>)))"

section \<open>Pings\<close>

definition ping_job ::
  "config \<Rightarrow> http_request \<Rightarrow> time \<Rightarrow> time \<Rightarrow> int \<Rightarrow> db \<Rightarrow> unit response \<times> db" where
  "ping_job cfg req now_auth now i d0 =
     (case auth_worker cfg req now_auth d0 of
        (Inl _, d) \<Rightarrow> (Forbidden403, d)
      | (Inr w, d) \<Rightarrow>
         (let affected_jobs = sql_count (\<lambda>q. q_id q = i \<and> q_worker q = Some (w_id w)) (queue d)
          in (if affected_jobs < 1 then NotFound404 else NoContent204,
              d\<lparr>queue := sql_update (\<lambda>q. q_id q = i \<and> q_worker q = Some (w_id w))
                  (\<lambda>q. q\<lparr>q_last_ping := Some now\<rparr>) (queue d)\<rparr>)))"

section \<open>Handing out work\<close>

definition architecture_alias :: "string \<Rightarrow> string option" where
  "architecture_alias a =
     (if a = ''x86'' then Some ''i386''
      else if a = ''i386'' then Some ''x86''
      else if a = ''x86_64'' then Some ''amd64''
      else if a = ''amd64'' then Some ''x86_64''
      else if a = ''aarch64'' then Some ''arm64''
      else if a = ''arm64'' then Some ''aarch64''
      else if a = ''powerpc64'' then Some ''ppc64''
      else if a = ''ppc64'' then Some ''powerpc64''
      else None)"

text \<open>The hash set's iteration order is not fixed; the list is only tested for membership.\<close>

definition standardize_architectures :: "string list \<Rightarrow> string list" where
  "standardize_architectures architectures =
     fold (\<lambda>a new. List.insert a
         (case architecture_alias a of None \<Rightarrow> new | Some b \<Rightarrow> List.insert b new))
       architectures []"

definition is_stale :: "time \<Rightarrow> queued \<Rightarrow> bool" where
  "is_stale now q \<longleftrightarrow> q_last_ping q \<noteq> None \<and>
     null_less (q_last_ping q) (Some (now - seconds ping_deadline))"

definition clear_stale_jobs :: "time \<Rightarrow> db \<Rightarrow> db" where
  "clear_stale_jobs now d =
     d\<lparr>queue := sql_update (is_stale now)
        (\<lambda>q. q\<lparr>q_worker := None, q_started_at := None, q_last_ping := None\<rparr>) (queue d)\<rparr>"

definition eligible :: "time \<Rightarrow> string list \<Rightarrow> string list \<Rightarrow> queue_row \<Rightarrow> bool" where
  "eligible now archs backends r =
     (case r of (q, b, s) \<Rightarrow>
        q_worker q = None \<and>
        (case bi_next_retry b of None \<Rightarrow> True | Some t \<Rightarrow> t \<le> sql_now now) \<and>
        bi_architecture b \<in> set archs \<and> bi_backend b \<in> set backends)"

definition work_order :: "queue_row \<Rightarrow> int \<times> int \<times> time option \<times> int" where
  "work_order r =
     (case r of (q, b, s) \<Rightarrow>
        (prio (q_priority q), sql_date (q_queued_at q), sp_fbsd_ports_top_git_timestamp s, sp_id s))"

definition job_artifacts :: "int \<Rightarrow> db \<Rightarrow> queued_job_artifact list" where
  "job_artifacts i d =
     map (\<lambda>(q, p). \<lparr>qa_name = bp_name p, qa_version = bp_version p,
         qa_architecture = bp_architecture p, qa_url = bp_artifact_url p\<rparr>)
       (inner_join (\<lambda>q p. q_build_input_id q = bp_build_input_id p)
         (filter (\<lambda>q. q_id q = i) (rows (queue d))) (rows (binary_packages d)))"

definition take_job :: "worker \<Rightarrow> time \<Rightarrow> queued_job \<Rightarrow> db \<Rightarrow> db" where
  "take_job w now j d =
     d\<lparr>queue := sql_update (\<lambda>q. q_id q = job_id j)
          (\<lambda>q. q\<lparr>q_started_at := Some now, q_worker := Some (w_id w), q_last_ping := Some now\<rparr>)
          (queue d),
       workers := sql_update (\<lambda>v. w_id v = w_id w)
          (\<lambda>v. v\<lparr>w_online := True, w_last_ping := now,
             w_status := Some (''working hard on '' @ job_name j @ '' '' @ job_version j)\<rparr>)
          (workers d)\<rparr>"

definition pop_job ::
  "worker \<Rightarrow> time \<Rightarrow> time \<Rightarrow> pop_queued_job_request \<Rightarrow> db \<Rightarrow> job_assignment \<times> db" where
  "pop_job w now_sql now request d =
     (case first_by work_order (filter (eligible now_sql
               (standardize_architectures (supported_architectures request))
               (supported_backends request)) (queue_base d)) of
        None \<Rightarrow> (Nothing, d)
      | Some r \<Rightarrow>
          (Rebuild \<lparr>job = to_queued_job r, artifacts = job_artifacts (job_id (to_queued_job r)) d\<rparr>,
           take_job w now (to_queued_job r) d))"

definition request_work ::
  "config \<Rightarrow> http_request \<Rightarrow> time \<Rightarrow> time \<Rightarrow> time \<Rightarrow> time \<Rightarrow> pop_queued_job_request \<Rightarrow> db \<Rightarrow>
   job_assignment response \<times> db" where
  "request_work cfg req now_auth now_stale now_sql now request d0 =
     (case auth_worker cfg req now_auth d0 of
        (Inl _, d) \<Rightarrow> (Forbidden403, d)
      | (Inr w, d) \<Rightarrow>
          map_prod Ok200 id (pop_job w now_sql now request (clear_stale_jobs now_stale d)))"

section \<open>The joined queue of a well-formed database\<close>

lemma set_inputs_with_sources:
  "set (inputs_with_sources d) =
     {(b, s). b \<in> set (rows (build_inputs d)) \<and> s \<in> set (rows (source_packages d)) \<and>
        bi_source_package_id b = sp_id s}"
  by (simp add: inputs_with_sources_def set_inner_join)

lemma set_queue_base:
  "set (queue_base d) =
     {(q, b, s). q \<in> set (rows (queue d)) \<and> b \<in> set (rows (build_inputs d)) \<and>
        s \<in> set (rows (source_packages d)) \<and> q_build_input_id q = bi_id b \<and>
        bi_source_package_id b = sp_id s}"
  by (auto simp: queue_base_def set_inner_join set_inputs_with_sources)

lemma queue_base_total:
  assumes "db_ok d" "q \<in> set (rows (queue d))"
  obtains b s where "(q, b, s) \<in> set (queue_base d)"
proof -
  from db_ok_facts(25)[OF assms(1)] assms(2) obtain b
    where b: "b \<in> set (rows (build_inputs d))" "q_build_input_id q = bi_id b"
    by (auto simp: refs_def)
  moreover from db_ok_facts(22)[OF assms(1)] b obtain s
    where "s \<in> set (rows (source_packages d))" "bi_source_package_id b = sp_id s"
    by (auto simp: refs_def)
  ultimately show thesis using assms(2) by (intro that) (simp add: set_queue_base)
qed

lemma queue_base_frame:
  "queue d' = queue d \<Longrightarrow> build_inputs d' = build_inputs d \<Longrightarrow>
     source_packages d' = source_packages d \<Longrightarrow> queue_base d' = queue_base d"
  by (simp add: queue_base_def inputs_with_sources_def)

lemma job_id_to_queued_job [simp]: "job_id (to_queued_job (q, b, s)) = q_id q"
  by simp

section \<open>Preservation of the invariant\<close>

lemma db_ok_reset_latest_rebuild [wf_intros]: "db_ok d \<Longrightarrow> db_ok (reset_latest_rebuild i d)"
proof -
  assume ok: "db_ok d"
  have "db_ok (d\<lparr>rebuilds := sql_update p (\<lambda>r. r\<lparr>rb_status := None\<rparr>) (rebuilds d)\<rparr>)" for p
    by (rule db_ok_rebuilds_update[OF ok]) (simp_all add: rebuild_ok_def)
  from db_ok_rebuild_artifacts_update[OF this, of "\<lambda>a. a\<lparr>ra_status := None\<rparr>"] show ?thesis
    by (simp add: reset_latest_rebuild_def artifact_ok_def ok split: option.split)
qed

lemma db_ok_set_next_retry [wf_intros]: "db_ok d \<Longrightarrow> db_ok (set_next_retry i t d)"
  unfolding set_next_retry_def
  by (rule db_ok_build_inputs_update) (simp_all add: build_input_key_def)

lemma reset_latest_rebuild_frame [frame_simps]:
  "queue (reset_latest_rebuild i d) = queue d"
  "build_inputs (reset_latest_rebuild i d) = build_inputs d"
  "source_packages (reset_latest_rebuild i d) = source_packages d"
  by (simp_all add: reset_latest_rebuild_def split: option.split)

lemma rows_set_next_retry:
  "rows (build_inputs (set_next_retry i t d)) =
     map (\<lambda>b. if bi_id b = i then b\<lparr>bi_next_retry := Some t\<rparr> else b) (rows (build_inputs d))"
  by (simp add: set_next_retry_def rows_update)

lemma set_next_retry_frame [frame_simps]:
  "queue (set_next_retry i t d) = queue d"
  "ids bi_id (build_inputs (set_next_retry i t d)) = ids bi_id (build_inputs d)"
  by (simp_all add: set_next_retry_def ids_update)

lemma requeue_input_build_inputs:
  "rows (build_inputs (requeue_input reset p now i d)) =
     map (\<lambda>b. if bi_id b = i then b\<lparr>bi_next_retry := Some (now - seconds 60)\<rparr> else b)
       (rows (build_inputs d))"
  by (simp add: requeue_input_def queue_upsert_def rows_set_next_retry frame_simps)

lemma requeue_input_queue:
  "queue (requeue_input reset p now i d) =
     snd (queue_table.upsert \<lparr>nq_build_input_id = i, nq_priority = p, nq_queued_at = now\<rparr> (queue d))"
  by (simp add: requeue_input_def queue_upsert_def frame_simps)

lemma ids_requeue_input [simp]:
  "ids bi_id (build_inputs (requeue_input reset p now i d)) = ids bi_id (build_inputs d)"
  by (simp add: requeue_input_def queue_upsert_def frame_simps)

lemma db_ok_requeue_input [wf_intros]:
  assumes "db_ok d" "i \<in> ids bi_id (build_inputs d)"
  shows "db_ok (requeue_input reset p now i d)"
  unfolding requeue_input_def
  by (rule db_ok_queue_upsert)
    (use assms in \<open>simp_all add: frame_simps db_ok_set_next_retry db_ok_reset_latest_rebuild
      del: image_iff\<close>)

lemma fold_requeue:
  assumes "db_ok d" "set is \<subseteq> ids bi_id (build_inputs d)"
  shows "db_ok (fold (requeue_input reset p now) is d) \<and>
    ids bi_id (build_inputs (fold (requeue_input reset p now) is d)) = ids bi_id (build_inputs d)"
  using assms
proof (induction "is" arbitrary: d)
  case Nil
  then show ?case by simp
next
  case (Cons i js)
  then have "db_ok (requeue_input reset p now i d)" by (simp add: db_ok_requeue_input)
  with Cons.IH[of "requeue_input reset p now i d"] Cons.prems show ?case by simp
qed

lemma set_dedup: "set (dedup seen is) = set is - seen"
  by (induction "is" arbitrary: seen) auto

lemma distinct_dedup: "distinct (dedup seen is)"
  by (induction "is" arbitrary: seen) (auto simp: set_dedup)

definition requested_ids :: "queue_job_request \<Rightarrow> db \<Rightarrow> int set" where
  "requested_ids r d = (\<lambda>(s, b, p). bi_id b) ` set (requested_rows r d)"

lemma requested_ids_subset: "requested_ids r d \<subseteq> ids bi_id (build_inputs d)"
  by (auto simp: requested_ids_def requested_rows_def set_inner_join)

lemma set_requested:
  "set (dedup {} (map fst (map (\<lambda>(s, b, p). (bi_id b, sp_last_seen s)) (requested_rows r d)))) =
     requested_ids r d"
  by (force simp: set_dedup requested_ids_def)

lemma db_ok_request_rebuild [wf_intros]:
  "db_ok d \<Longrightarrow> db_ok (snd (request_rebuild cfg req now request d))"
  using fold_requeue set_requested[of request d] requested_ids_subset[of request d]
  by (simp add: request_rebuild_def Let_def split: sum.split)

lemma db_ok_drop_queued_jobs [wf_intros]:
  "db_ok d \<Longrightarrow> db_ok (snd (drop_queued_jobs cfg req origin identity d))"
  by (simp add: drop_queued_jobs_def Let_def db_ok_queue_delete split: sum.split)

lemma db_ok_drop_queued_job [wf_intros]:
  "db_ok d \<Longrightarrow> db_ok (snd (drop_queued_job cfg req i d))"
  by (simp add: drop_queued_job_def Let_def db_ok_queue_delete split: sum.split)

lemma db_ok_ping_job [wf_intros]: "db_ok d \<Longrightarrow> db_ok (snd (ping_job cfg req t now i d))"
proof -
  assume "db_ok d"
  then have ok: "db_ok (snd (auth_worker cfg req t d))" by (rule db_ok_auth_worker)
  have "db_ok (e\<lparr>queue := sql_update (\<lambda>q. q_id q = i \<and> q_worker q = Some w)
      (\<lambda>q. q\<lparr>q_last_ping := Some now\<rparr>) (queue e)\<rparr>)" if "db_ok e" for e w
    by (rule db_ok_queue_update[OF that]) (auto simp: job_ok_def)
  with ok show ?thesis
    by (cases "auth_worker cfg req t d") (simp add: ping_job_def Let_def split: sum.split)
qed

lemma db_ok_clear_stale_jobs [wf_intros]: "db_ok d \<Longrightarrow> db_ok (clear_stale_jobs now d)"
  unfolding clear_stale_jobs_def by (rule db_ok_queue_update) (simp_all add: job_ok_def)

lemma db_ok_take_job [wf_intros]: "db_ok d \<Longrightarrow> db_ok (take_job w now j d)"
proof -
  assume ok: "db_ok d"
  have "db_ok (d\<lparr>queue := sql_update (\<lambda>q. q_id q = job_id j)
      (\<lambda>q. q\<lparr>q_started_at := Some now, q_worker := Some (w_id w), q_last_ping := Some now\<rparr>)
      (queue d)\<rparr>)"
    by (rule db_ok_queue_update[OF ok]) (simp_all add: job_ok_def)
  from db_ok_workers_update[OF this, of "\<lambda>v. v\<lparr>w_online := True, w_last_ping := now,
      w_status := Some (''working hard on '' @ job_name j @ '' '' @ job_version j)\<rparr>"]
  show ?thesis by (simp add: take_job_def)
qed

lemma db_ok_pop_job [wf_intros]: "db_ok d \<Longrightarrow> db_ok (snd (pop_job w t now request d))"
  by (simp add: pop_job_def db_ok_take_job split: option.split)

lemma db_ok_request_work [wf_intros]:
  "db_ok d \<Longrightarrow> db_ok (snd (request_work cfg req t0 t1 t2 t3 request d))"
  using db_ok_auth_worker[of d cfg req t0]
  by (cases "auth_worker cfg req t0 d")
    (simp add: request_work_def db_ok_pop_job db_ok_clear_stale_jobs split: sum.split)

end
