(* ===== verification/Sample.thy ===== *)
theory Sample
  imports Auth
begin

text \<open>
  A small concrete database and requests, on which the properties are instantiated: one package
  built for two releases from the same input (two build inputs that are friends), one of them
  queued, one rebuilt before.
\<close>

definition sample_schedule :: schedule_config where
  "sample_schedule = \<lparr>sch_retry_delay_base = None, sch_max_retries = Some 3, sch_initial_delay = None\<rparr>"

definition sample_cfg :: config where
  "sample_cfg =
     \<lparr>cfg_auth_cookie = ''c'', cfg_worker = \<lparr>authorized_workers = [], signup_secret = None\<rparr>,
      cfg_bind_addr = ''b'', cfg_real_ip_header = None, cfg_post_body_size_limit = 1,
      cfg_transparently_sign_attestations = True, cfg_permissive_cors = False,
      cfg_schedule = sample_schedule\<rparr>"

definition sample_req :: http_request where
  "sample_req =
     \<lparr>rq_headers = (\<lambda>k. if k = auth_cookie_header then Some (Text ''c'')
        else if k = worker_key_header then Some (Text ''k'') else None),
      rq_peer_addr = Some ''p'', rq_accepts_zstd = False\<rparr>"

definition sample_source :: "int \<Rightarrow> string \<Rightarrow> source_package" where
  "sample_source i release =
     \<lparr>sp_id = i, sp_name = ''z'', sp_version = ''1'', sp_distribution = ''d'',
      sp_release = Some release, sp_component = None, sp_last_seen = 5,
      sp_seen_in_last_sync = True, sp_fbsd_ports_top_git_hash = None,
      sp_fbsd_build_timestamp = None, sp_fbsd_ports_top_git_timestamp = None\<rparr>"

definition sample_input :: "int \<Rightarrow> int \<Rightarrow> build_input" where
  "sample_input i s =
     \<lparr>bi_id = i, bi_source_package_id = s, bi_url = ''u'', bi_backend = ''d'',
      bi_architecture = ''amd64'', bi_retries = 1, bi_next_retry = None\<rparr>"

definition sample_binary :: "int \<Rightarrow> int \<Rightarrow> int \<Rightarrow> string \<Rightarrow> binary_package" where
  "sample_binary i s b name =
     \<lparr>bp_id = i, bp_source_package_id = s, bp_build_input_id = b, bp_name = name,
      bp_version = ''1'', bp_architecture = ''amd64'', bp_artifact_url = ''a'',
      bp_seen_in_last_sync = True\<rparr>"

definition sample_queued :: queued where
  "sample_queued =
     \<lparr>q_id = 1, q_build_input_id = 1, q_priority = Priority 1, q_queued_at = 7,
      q_started_at = None, q_worker = None, q_last_ping = None\<rparr>"

definition sample_held :: queued where
  "sample_held = sample_queued\<lparr>q_started_at := Some 8, q_worker := Some 1, q_last_ping := Some 9\<rparr>"

definition sample_rebuild :: rebuild where
  "sample_rebuild =
     \<lparr>rb_id = 1, rb_build_input_id = 2, rb_started_at = Some 2, rb_built_at = Some 3,
      rb_build_log_id = 1, rb_status = Some ''BAD''\<rparr>"

definition sample_artifact :: rebuild_artifact where
  "sample_artifact =
     \<lparr>ra_id = 1, ra_rebuild_id = 1, ra_name = ''x'', ra_diffoscope_log_id = None,
      ra_attestation_log_id = None, ra_status = Some ''BAD''\<rparr>"

definition sample_worker :: worker where
  "sample_worker =
     \<lparr>w_id = 1, w_name = ''n'', w_key = ''k'', w_address = ''p'', w_status = None,
      w_last_ping = 9, w_online = True\<rparr>"

definition sample_base :: db where
  "sample_base = empty_db
     \<lparr>source_packages := \<lparr>rows = [sample_source 1 ''r'', sample_source 2 ''s''], seq = 2\<rparr>,
      build_inputs := \<lparr>rows = [sample_input 1 1, sample_input 2 2], seq = 2\<rparr>,
      binary_packages := \<lparr>rows = [sample_binary 1 1 1 ''x'', sample_binary 2 1 1 ''y'',
         sample_binary 3 2 2 ''x''], seq = 3\<rparr>,
      build_logs := \<lparr>rows = [\<lparr>bl_id = 1, bl_build_log = [1]\<rparr>], seq = 1\<rparr>,
      rebuilds := \<lparr>rows = [sample_rebuild], seq = 1\<rparr>,
      rebuild_artifacts := \<lparr>rows = [sample_artifact], seq = 1\<rparr>,
      workers := \<lparr>rows = [sample_worker], seq = 1\<rparr>\<rparr>"

definition sample_db_with :: "queued list \<Rightarrow> db" where
  "sample_db_with qs = sample_base\<lparr>queue := \<lparr>rows = qs, seq = 1\<rparr>\<rparr>"

definition sample_db :: db where "sample_db = sample_db_with [sample_queued]"
definition sample_db_held :: db where "sample_db_held = sample_db_with [sample_held]"

lemmas sample_rows = sample_source_def sample_input_def sample_binary_def sample_queued_def
  sample_held_def sample_rebuild_def sample_artifact_def sample_worker_def

lemma status_text_ok_BAD [simp]: "status_text_ok (Some ''BAD'')"
  using status_text_ok_build[of Bad] by simp

lemma artifact_text_ok_BAD [simp]: "artifact_text_ok (Some ''BAD'')"
  using artifact_text_ok_artifact[of ArtifactBad] by simp

lemma sample_base_ok: "db_ok sample_base"
  by (simp add: db_ok_defs sample_base_def empty_db_def wf_table_def unique_on_def refs_def
      opt_refs_def source_package_key_def coalesce_placeholder_def build_input_key_def
      binary_package_key_def rebuild_ok_def artifact_ok_def sample_rows)

lemma sample_db_with_ok:
  assumes "unique_on q_build_input_id \<lparr>rows = qs, seq = 1\<rparr>"
    and "wf_table q_id \<lparr>rows = qs, seq = 1\<rparr>"
    and "\<forall>q\<in>set qs. job_ok q \<and> q_build_input_id q \<in> {1, 2}"
  shows "db_ok (sample_db_with qs)"
  unfolding sample_db_with_def
  by (rule db_ok_queue[OF sample_base_ok assms(2,1)])
    (use assms(3) in \<open>auto simp: refs_def sample_base_def sample_input_def\<close>)

lemma sample_db_ok: "db_ok sample_db" "db_ok sample_db_held"
  unfolding sample_db_def sample_db_held_def
  by (rule sample_db_with_ok;
      simp add: sample_db_with_def unique_on_def wf_table_def job_ok_def sample_rows)+

end
