(* ===== verification/QueueProps.thy ===== *)
theory QueueProps
  imports Queue Sample
begin

text \<open>
  What the queue promises: work is handed out in the documented order, exactly one worker holds
  a job as long as it pings, requesting rebuilds queues every matched input once and dropping
  removes exactly the matched jobs.
\<close>

section \<open>Handing out work\<close>

definition sample_pop :: pop_queued_job_request where
  "sample_pop = \<lparr>supported_backends = [''d''], pop_architecture = ''x86_64'',
     supported_architectures = [''x86_64'']\<rparr>"

definition is_rebuild :: "job_assignment response \<Rightarrow> bool" where
  "is_rebuild r = (case r of Ok200 (Rebuild jb) \<Rightarrow> True | _ \<Rightarrow> False)"

lemma is_rebuildD:
  assumes "is_rebuild (fst x)"
  obtains jb where "x = (Ok200 (Rebuild jb), snd x)"
  using assms
  by (cases x) (auto simp: is_rebuild_def split: response.splits job_assignment.splits)

lemma queue_base_auth_worker [frame_simps]:
  "queue_base (snd (auth_worker cfg req t d)) = queue_base d"
  by (rule queue_base_frame) (simp_all add: frame_simps)

lemma clear_stale_auth_queue:
  "queue (clear_stale_jobs t (snd (auth_worker cfg req t0 d))) = queue (clear_stale_jobs t d)"
  by (simp add: clear_stale_jobs_def frame_simps)

lemma clear_stale_auth_base:
  "queue_base (clear_stale_jobs t (snd (auth_worker cfg req t0 d))) = queue_base (clear_stale_jobs t d)"
  by (rule queue_base_frame) (simp_all add: clear_stale_jobs_def frame_simps)

definition work_for :: "time \<Rightarrow> time \<Rightarrow> pop_queued_job_request \<Rightarrow> db \<Rightarrow> queue_row list" where
  "work_for now_stale now_sql request d =
     filter (eligible now_sql (standardize_architectures (supported_architectures request))
       (supported_backends request)) (queue_base (clear_stale_jobs now_stale d))"

lemma request_work_unfold:
  "request_work cfg req t0 t1 t2 t3 request d =
     (case auth_worker cfg req t0 d of
        (Inl _, d1) \<Rightarrow> (Forbidden403, d1)
      | (Inr w, d1) \<Rightarrow>
         (case first_by work_order (work_for t1 t2 request d) of
            None \<Rightarrow> (Ok200 Nothing, clear_stale_jobs t1 d1)
          | Some r \<Rightarrow>
             (Ok200 (Rebuild \<lparr>job = to_queued_job r,
                artifacts = job_artifacts (job_id (to_queued_job r)) (clear_stale_jobs t1 d1)\<rparr>),
              take_job w t3 (to_queued_job r) (clear_stale_jobs t1 d1))))"
proof (cases "auth_worker cfg req t0 d")
  case (Pair x d1)
  then have "queue_base (clear_stale_jobs t1 d1) = queue_base (clear_stale_jobs t1 d)"
    using clear_stale_auth_base[of t1 cfg req t0 d] by simp
  with Pair show ?thesis
    by (simp add: request_work_def pop_job_def work_for_def split: sum.split option.split)
qed

lemma request_work_cases:
  assumes "request_work cfg req t0 t1 t2 t3 request d = (Ok200 a, d')"
  obtains w d1 where "auth_worker cfg req t0 d = (Inr w, d1)"
    "a = Nothing" "first_by work_order (work_for t1 t2 request d) = None"
    "d' = clear_stale_jobs t1 d1"
  | w d1 r where "auth_worker cfg req t0 d = (Inr w, d1)"
    "first_by work_order (work_for t1 t2 request d) = Some r"
    "a = Rebuild \<lparr>job = to_queued_job r,
       artifacts = job_artifacts (job_id (to_queued_job r)) (clear_stale_jobs t1 d1)\<rparr>"
    "d' = take_job w t3 (to_queued_job r) (clear_stale_jobs t1 d1)"
  using assms
  by (auto simp: request_work_unfold split: prod.splits sum.splits option.splits)

lemma take_job_queue:
  assumes "auth_worker cfg req t0 d = (x, d1)"
  shows "rows (queue (take_job w now j (clear_stale_jobs t1 d1))) =
    map (\<lambda>q. if q_id q = job_id j
          then q\<lparr>q_started_at := Some now, q_worker := Some (w_id w), q_last_ping := Some now\<rparr>
          else q)
      (rows (queue (clear_stale_jobs t1 d)))"
  using clear_stale_auth_queue[of t1 cfg req t0 d] assms
  by (simp add: take_job_def rows_update)


lemma sample_pop_rebuild:
  "is_rebuild (fst (request_work sample_cfg sample_req 10 10 10 10 sample_pop sample_db))"
  by code_simp


text \<open>An authenticated worker is told there is nothing to do exactly when no queued job is
  free, due and supported.\<close>

theorem request_work_nothing:
  "fst (request_work cfg req t0 t1 t2 t3 request d) = Ok200 Nothing \<longleftrightarrow>
     (\<exists>w d1. auth_worker cfg req t0 d = (Inr w, d1)) \<and> work_for t1 t2 request d = []"
  by (auto simp: request_work_unfold split: prod.splits sum.splits option.splits)

section \<open>Holding a job\<close>

lemma clear_stale_keeps:
  assumes "q \<in> set (rows (queue d))" "q_last_ping q = Some p" "t1 \<le> p + seconds ping_deadline"
  shows "q \<in> set (rows (queue (clear_stale_jobs t1 d)))"
proof -
  have "\<not> is_stale t1 q" using assms by (simp add: is_stale_def)
  with assms(1) show ?thesis by (auto simp: clear_stale_jobs_def rows_update)
qed

lemma work_for_free:
  "(q, b, s) \<in> set (work_for t1 t2 request d) \<Longrightarrow>
     q \<in> set (rows (queue (clear_stale_jobs t1 d))) \<and> q_worker q = None"
  by (auto simp: work_for_def eligible_def set_queue_base)

lemma take_job_keeps:
  assumes "db_ok d" "(q', b, s) \<in> set (work_for t1 t2 request d)"
    and "q \<in> set (rows (queue (clear_stale_jobs t1 d)))" "q_worker q \<noteq> None"
  shows "q_id q \<noteq> q_id q'"
proof
  assume eq: "q_id q = q_id q'"
  have "wf_table q_id (queue (clear_stale_jobs t1 d))"
    using db_ok_clear_stale_jobs[OF assms(1)] by (simp add: db_ok_facts)
  from wf_table_id_unique[OF this assms(3) _ eq] work_for_free[OF assms(2)]
  have "q = q'" by simp
  with work_for_free[OF assms(2)] assms(4) show False by simp
qed

text \<open>A job whose worker has pinged within the deadline is left to that worker by every
  request for work: its queue row is unchanged.\<close>

theorem held_job_kept:
  assumes "db_ok d" "q \<in> set (rows (queue d))" "q_worker q \<noteq> None"
    and "q_last_ping q = Some p" "t1 \<le> p + seconds ping_deadline"
  shows "q \<in> set (rows (queue (snd (request_work cfg req t0 t1 t2 t3 request d))))"
proof (cases "request_work cfg req t0 t1 t2 t3 request d")
  case (Pair res d')
  note kept = clear_stale_keeps[OF assms(2,4,5)]
  show ?thesis
  proof (cases "auth_worker cfg req t0 d")
    case (Pair x d1)
    show ?thesis
    proof (cases x)
      case (Inl e)
      then have "queue d1 = queue d" using Pair auth_worker_queue(1)[of cfg req t0 d] by simp
      with Pair Inl assms(2) show ?thesis by (simp add: request_work_unfold)
    next
      case (Inr w)
      have cs: "queue (clear_stale_jobs t1 d1) = queue (clear_stale_jobs t1 d)"
        using clear_stale_auth_queue[of t1 cfg req t0 d] Pair by simp
      show ?thesis
      proof (cases "first_by work_order (work_for t1 t2 request d)")
        case None
        with Pair Inr kept cs show ?thesis by (simp add: request_work_unfold)
      next
        case (Some r)
        obtain q' b s where r: "r = (q', b, s)" by (cases r)
        have "q_id q \<noteq> q_id q'"
          using take_job_keeps[OF assms(1) _ kept assms(3)] first_by_Some[OF Some] r by blast
        with kept have "q \<in> set (rows (queue (take_job w t3 (to_queued_job r) (clear_stale_jobs t1 d1))))"
          by (auto simp: take_job_queue[OF Pair] r)
        with Pair Inr Some show ?thesis by (simp add: request_work_unfold)
      qed
    qed
  qed
qed

theorem held_job_kept_witness:
  "sample_held \<in> set (rows (queue (snd (request_work sample_cfg sample_req 10 10 10 10
     sample_pop sample_db_held))))"
  by (rule held_job_kept[OF sample_db_ok(2), where p = 9])
    (simp_all add: sample_db_held_def sample_db_with_def sample_held_def seconds_def)

text \<open>Two handouts in a row never give the same job away twice, unless the first holder's
  ping deadline has passed in between.\<close>

theorem no_double_assignment:
  assumes "db_ok d"
    and "request_work cfg req t0 t1 t2 t3 request d = (Ok200 (Rebuild j1), d1)"
    and "request_work cfg' req' u0 u1 u2 u3 request' d1 = (Ok200 (Rebuild j2), d2)"
    and "u1 \<le> t3 + seconds ping_deadline"
  shows "job_id (job j1) \<noteq> job_id (job j2)"
proof -
  have ok1: "db_ok d1" using db_ok_request_work[OF assms(1)] assms(2) by (metis snd_conv)
  from assms(2) obtain w e r where fst1: "first_by work_order (work_for t1 t2 request d) = Some r"
    and auth: "auth_worker cfg req t0 d = (Inr w, e)" and j1: "job j1 = to_queued_job r"
    and d1: "d1 = take_job w t3 (to_queued_job r) (clear_stale_jobs t1 e)"
    by (cases rule: request_work_cases) auto
  obtain q b s where r: "r = (q, b, s)" by (cases r)
  have q: "q \<in> set (rows (queue (clear_stale_jobs t1 d)))"
    using work_for_free first_by_Some[OF fst1] r by blast
  define q1 where "q1 = q\<lparr>q_started_at := Some t3, q_worker := Some (w_id w), q_last_ping := Some t3\<rparr>"
  have "q1 \<in> set (rows (queue d1))"
    using q by (auto simp: d1 take_job_queue[OF auth] r q1_def)
  then have held: "q1 \<in> set (rows (queue (clear_stale_jobs u1 d1)))"
    by (rule clear_stale_keeps[where p = t3]) (simp add: q1_def, rule assms(4))
  from assms(3) obtain r2 where "first_by work_order (work_for u1 u2 request' d1) = Some r2"
    and j2: "job j2 = to_queued_job r2"
    by (cases rule: request_work_cases) auto
  then have "r2 \<in> set (work_for u1 u2 request' d1)" by (simp add: first_by_Some)
  moreover obtain q2 b2 s2 where r2: "r2 = (q2, b2, s2)" by (cases r2)
  ultimately have "q_id q1 \<noteq> q_id q2"
    using take_job_keeps[OF ok1 _ held] by (simp add: q1_def)
  then show ?thesis by (simp add: j1 j2 r r2 q1_def)
qed

definition sample_queued2 :: queued where
  "sample_queued2 = sample_queued\<lparr>q_id := 2, q_build_input_id := 2\<rparr>"

definition sample_db2 :: db where
  "sample_db2 = sample_base\<lparr>queue := \<lparr>rows = [sample_queued, sample_queued2], seq = 2\<rparr>\<rparr>"

lemma sample_db2_ok: "db_ok sample_db2"
  unfolding sample_db2_def
  by (rule db_ok_queue[OF sample_base_ok])
    (simp_all add: wf_table_def unique_on_def refs_def job_ok_def sample_queued2_def
      sample_base_def sample_rows)

lemma sample_pop_twice:
  "is_rebuild (fst (request_work sample_cfg sample_req 10 10 10 10 sample_pop sample_db2))"
  "is_rebuild (fst (request_work sample_cfg sample_req 20 20 20 20 sample_pop
     (snd (request_work sample_cfg sample_req 10 10 10 10 sample_pop sample_db2))))"
  by code_simp+

theorem no_double_assignment_witness:
  "\<exists>j1 d1 j2 d2.
     request_work sample_cfg sample_req 10 10 10 10 sample_pop sample_db2 = (Ok200 (Rebuild j1), d1) \<and>
     request_work sample_cfg sample_req 20 20 20 20 sample_pop d1 = (Ok200 (Rebuild j2), d2) \<and>
     job_id (job j1) \<noteq> job_id (job j2)"
proof -
  have "(20::int) \<le> 10 + seconds ping_deadline" by (simp add: seconds_def)
  note * = no_double_assignment[OF sample_db2_ok _ _ this]
  show ?thesis
    by (rule is_rebuildD[OF sample_pop_twice(1)], rule is_rebuildD[OF sample_pop_twice(2)])
      (use * in blast)
qed

text \<open>A ping is accepted from the worker that holds the job and moves that job's last ping,
  nothing else in the queue; any other ping is answered NotFound or Forbidden and leaves the
  queue alone.\<close>

theorem ping_job_effect:
  assumes "db_ok d"
  shows "case ping_job cfg req t0 now i d of
      (NoContent204, d') \<Rightarrow> \<exists>q w. q \<in> set (rows (queue d)) \<and> q_id q = i \<and>
        q_worker q = Some (w_id w) \<and> fst (auth_worker cfg req t0 d) = Inr w \<and>
        rows (queue d') = map (\<lambda>q'. if q' = q then q'\<lparr>q_last_ping := Some now\<rparr> else q') (rows (queue d))
    | (res, d') \<Rightarrow> queue d' = queue d \<and> (res = Forbidden403 \<or> res = NotFound404)"
proof (cases "auth_worker cfg req t0 d")
  case (Pair x d1)
  have queue1: "queue d1 = queue d" using auth_worker_queue(1)[of cfg req t0 d] Pair by simp
  show ?thesis
  proof (cases x)
    case (Inl e)
    with Pair queue1 show ?thesis by (simp add: ping_job_def)
  next
    case (Inr w)
    let ?p = "\<lambda>q. q_id q = i \<and> q_worker q = Some (w_id w)"
    show ?thesis
    proof (cases "filter ?p (rows (queue d))")
      case Nil
      then have "map (\<lambda>q. if ?p q then q\<lparr>q_last_ping := Some now\<rparr> else q) (rows (queue d)) = rows (queue d)"
        by (intro map_idI) (auto simp: filter_empty_conv)
      then have "sql_update ?p (\<lambda>q. q\<lparr>q_last_ping := Some now\<rparr>) (queue d) = queue d"
        by (simp add: sql_update_def)
      with Pair Inr Nil queue1 show ?thesis by (simp add: ping_job_def Let_def sql_count_def)
    next
      case (Cons q qs)
      then have q: "q \<in> set (rows (queue d))" "?p q" by (auto simp: filter_eq_Cons_iff)
      have "?p q' \<longleftrightarrow> q' = q" if "q' \<in> set (rows (queue d))" for q'
        using wf_table_id_unique[of q_id "queue d" q' q] q that db_ok_facts(6)[OF assms] by auto
      then have "rows (sql_update ?p (\<lambda>q. q\<lparr>q_last_ping := Some now\<rparr>) (queue d)) =
          map (\<lambda>q'. if q' = q then q'\<lparr>q_last_ping := Some now\<rparr> else q') (rows (queue d))"
        by (auto simp: rows_update)
      with Pair Inr Cons queue1 q show ?thesis
        by (auto simp: ping_job_def Let_def sql_count_def intro!: exI[of _ q])
    qed
  qed
qed

theorem ping_job_effect_witness:
  "case ping_job sample_cfg sample_req 10 10 1 sample_db_held of
      (NoContent204, d') \<Rightarrow> \<exists>q w. q \<in> set (rows (queue sample_db_held)) \<and> q_id q = 1 \<and>
        q_worker q = Some (w_id w) \<and>
        fst (auth_worker sample_cfg sample_req 10 sample_db_held) = Inr w \<and>
        rows (queue d') = map (\<lambda>q'. if q' = q then q'\<lparr>q_last_ping := Some 10\<rparr> else q')
          (rows (queue sample_db_held))
    | (res, d') \<Rightarrow> queue d' = queue sample_db_held \<and> (res = Forbidden403 \<or> res = NotFound404)"
  by (rule ping_job_effect[OF sample_db_ok(2)])

section \<open>Architectures\<close>

lemma architecture_alias_sym: "architecture_alias a = Some b \<Longrightarrow> architecture_alias b = Some a"
  by (auto simp: architecture_alias_def split: if_splits)

lemma set_standardize_fold:
  "set (fold (\<lambda>a new. List.insert a
       (case architecture_alias a of None \<Rightarrow> new | Some b \<Rightarrow> List.insert b new)) xs acc) =
     set acc \<union> {a. \<exists>x\<in>set xs. a = x \<or> architecture_alias x = Some a}"
  by (induction xs arbitrary: acc) (auto split: option.splits)

definition with_aliases :: "string set \<Rightarrow> string set" where
  "with_aliases S = S \<union> {a. \<exists>x\<in>S. architecture_alias x = Some a}"

lemma with_aliases_idem: "with_aliases (with_aliases S) = with_aliases S"
proof
  have "a \<in> with_aliases S" if "x \<in> with_aliases S" "architecture_alias x = Some a" for a x
  proof -
    from that(1) consider "x \<in> S" | y where "y \<in> S" "architecture_alias y = Some x"
      by (auto simp: with_aliases_def)
    then show ?thesis
    proof cases
      case 1
      with that(2) show ?thesis by (auto simp: with_aliases_def)
    next
      case (2 y)
      from architecture_alias_sym[OF 2(2)] that(2) have "a = y" by simp
      with 2 show ?thesis by (simp add: with_aliases_def)
    qed
  qed
  then show "with_aliases (with_aliases S) \<subseteq> with_aliases S"
    by (auto simp: with_aliases_def[of "with_aliases S"])
  show "with_aliases S \<subseteq> with_aliases (with_aliases S)"
    by (simp add: with_aliases_def[of "with_aliases S"])
qed

lemma standardize_with_aliases: "set (standardize_architectures xs) = with_aliases (set xs)"
  by (auto simp: standardize_architectures_def set_standardize_fold with_aliases_def)

text \<open>The architectures a worker is offered jobs for are those it supports, closed under the
  pairs of equivalent names (x86 and i386, x86_64 and amd64, aarch64 and arm64, powerpc64 and
  ppc64); standardizing twice adds nothing.\<close>

theorem standardize_architectures_closure:
  "set (standardize_architectures xs) = set xs \<union> {a. \<exists>x\<in>set xs. architecture_alias x = Some a} \<and>
   set (standardize_architectures (standardize_architectures xs)) = set (standardize_architectures xs)"
  by (simp add: standardize_with_aliases with_aliases_idem) (simp add: with_aliases_def)

section \<open>Requesting rebuilds\<close>

lemma requeue_input_queue_rows:
  assumes "unique_on q_build_input_id (queue d)"
  shows "\<exists>q'. set (rows (queue (requeue_input reset p now i d))) =
      insert q' {q \<in> set (rows (queue d)). q_build_input_id q \<noteq> i} \<and>
    q_build_input_id q' = i \<and> q_priority q' = p \<and>
    (\<forall>q\<in>set (rows (queue d)). q_build_input_id q = i \<longrightarrow> q' = q\<lparr>q_priority := p\<rparr>)"
proof -
  let ?n = "\<lparr>nq_build_input_id = i, nq_priority = p, nq_queued_at = now\<rparr>"
  let ?u = "queue_table.upsert ?n (queue d)"
  have "set (rows (snd ?u)) = insert (fst ?u) {q \<in> set (rows (queue d)). q_build_input_id q \<noteq> i}"
    using queue_table.upsert_rows[OF assms, of ?n] by simp
  moreover have "q_build_input_id (fst ?u) = i"
    using queue_table.upsert_row_key[of ?n "queue d"] by simp
  moreover have "q_priority (fst ?u) = p"
    by (simp add: sql_upsert_def sql_insert_def queued_row_def queued_set_def split: option.split)
  moreover have "fst ?u = q\<lparr>q_priority := p\<rparr>"
    if "q \<in> set (rows (queue d))" "q_build_input_id q = i" for q
    using queue_table.upsert_hit[OF that(1), of ?n] that(2) assms by (simp add: queued_set_def)
  ultimately show ?thesis by (auto simp: requeue_input_queue intro!: exI[of _ "fst ?u"])
qed

lemma fold_requeue_queue:
  assumes "db_ok d" "set is \<subseteq> ids bi_id (build_inputs d)"
    and "d' = fold (requeue_input reset p now) is d"
  shows "(\<forall>q\<in>set (rows (queue d)). q_build_input_id q \<notin> set is \<longrightarrow> q \<in> set (rows (queue d'))) \<and>
    (\<forall>q'\<in>set (rows (queue d')). q_build_input_id q' \<in> set is \<or> q' \<in> set (rows (queue d))) \<and>
    (\<forall>i\<in>set is. \<exists>q'\<in>set (rows (queue d')). q_build_input_id q' = i \<and> q_priority q' = p \<and>
       (\<forall>q\<in>set (rows (queue d)). q_build_input_id q = i \<longrightarrow> q' = q\<lparr>q_priority := p\<rparr>))"
  using assms
proof (induction "is" arbitrary: d)
  case Nil
  then show ?case by simp
next
  case (Cons i js)
  define d1 where "d1 = requeue_input reset p now i d"
  have ok1: "db_ok d1" using Cons.prems by (simp add: d1_def db_ok_requeue_input)
  have sub: "set js \<subseteq> ids bi_id (build_inputs d1)" using Cons.prems by (simp add: d1_def)
  obtain q1 where q1: "set (rows (queue d1)) = insert q1 {q \<in> set (rows (queue d)). q_build_input_id q \<noteq> i}"
    "q_build_input_id q1 = i" "q_priority q1 = p"
    "\<And>q. q \<in> set (rows (queue d)) \<Longrightarrow> q_build_input_id q = i \<Longrightarrow> q1 = q\<lparr>q_priority := p\<rparr>"
    using requeue_input_queue_rows[of d reset p now i] db_ok_facts(18)[OF Cons.prems(1)]
    by (auto simp: d1_def)
  have "d' = fold (requeue_input reset p now) js d1" using Cons.prems by (simp add: d1_def)
  note IH = Cons.IH[OF ok1 sub this]
  show ?case
  proof (intro conjI ballI impI)
    fix q assume "q \<in> set (rows (queue d))" "q_build_input_id q \<notin> set (i # js)"
    then show "q \<in> set (rows (queue d'))" using IH q1(1) by auto
  next
    fix q' assume "q' \<in> set (rows (queue d'))"
    then show "q_build_input_id q' \<in> set (i # js) \<or> q' \<in> set (rows (queue d))"
      using IH q1(1,2) by auto
  next
    fix k assume k: "k \<in> set (i # js)"
    show "\<exists>q'\<in>set (rows (queue d')). q_build_input_id q' = k \<and> q_priority q' = p \<and>
       (\<forall>q\<in>set (rows (queue d)). q_build_input_id q = k \<longrightarrow> q' = q\<lparr>q_priority := p\<rparr>)"
    proof (cases "k \<in> set js")
      case True
      with IH obtain q' where q': "q' \<in> set (rows (queue d'))" "q_build_input_id q' = k"
        "q_priority q' = p"
        "\<And>q. q \<in> set (rows (queue d1)) \<Longrightarrow> q_build_input_id q = k \<Longrightarrow> q' = q\<lparr>q_priority := p\<rparr>"
        by blast
      have "q' = q\<lparr>q_priority := p\<rparr>" if "q \<in> set (rows (queue d))" "q_build_input_id q = k" for q
      proof (cases "k = i")
        case True
        with that q1(4)[of q] q'(4)[of q1] q1(1,2) show ?thesis by simp
      next
        case False
        with that q1(1) q'(4)[of q] show ?thesis by simp
      qed
      with q' show ?thesis by blast
    next
      case False
      with k have "k = i" by simp
      moreover have "q1 \<in> set (rows (queue d'))" using IH q1(1,2) False \<open>k = i\<close> by auto
      ultimately show ?thesis using q1 by blast
    qed
  qed
qed

lemma fold_requeue_inputs:
  "rows (build_inputs (fold (requeue_input reset p now) is d)) =
     map (\<lambda>b. if bi_id b \<in> set is then b\<lparr>bi_next_retry := Some (now - seconds 60)\<rparr> else b)
       (rows (build_inputs d))"
  by (induction "is" arbitrary: d) (auto simp: requeue_input_build_inputs)

text \<open>C26: An accepted rebuild request queues each matched build input: after it the input has a
  queue row with the requested priority (the manual priority if none is given), which is its
  old row but for the priority when it was already queued, so that a running job keeps its worker
  and its place; the input can be picked up at once, as its next retry lies a minute back. Queue
  rows and retry times of other inputs stay as they were.\<close>

theorem request_rebuild_effect:
  assumes "db_ok d" "admin cfg req = Inr ()"
    and "d' = snd (request_rebuild cfg req now request d)"
    and "p = (case qr_priority request of None \<Rightarrow> priority_manual | Some p \<Rightarrow> p)"
  shows "(\<forall>i\<in>requested_ids request d. \<exists>q'\<in>set (rows (queue d')).
      q_build_input_id q' = i \<and> q_priority q' = p \<and>
      (\<forall>q\<in>set (rows (queue d)). q_build_input_id q = i \<longrightarrow> q' = q\<lparr>q_priority := p\<rparr>)) \<and>
    {q \<in> set (rows (queue d')). q_build_input_id q \<notin> requested_ids request d} =
      {q \<in> set (rows (queue d)). q_build_input_id q \<notin> requested_ids request d} \<and>
    rows (build_inputs d') = map (\<lambda>b. if bi_id b \<in> requested_ids request d
        then b\<lparr>bi_next_retry := Some (now - seconds 60)\<rparr> else b) (rows (build_inputs d))"
proof -
  define js where "js = dedup {} (map fst (map (\<lambda>(s, b, p). (bi_id b, sp_last_seen s))
    (requested_rows request d)))"
  have js: "set js = requested_ids request d" unfolding js_def by (rule set_requested)
  have d': "d' = fold (requeue_input (qr_reset request) p now) js d"
    using assms(2-4) by (simp add: request_rebuild_def Let_def js_def)
  have "set js \<subseteq> ids bi_id (build_inputs d)" using js requested_ids_subset by simp
  note queue = fold_requeue_queue[OF assms(1) this d']
  show ?thesis
    using queue fold_requeue_inputs[of "qr_reset request" p now js d]
    by (simp only: d'[symmetric] js) blast
qed

definition sample_queue_request :: queue_job_request where
  "sample_queue_request = \<lparr>qr_distribution = None, qr_release = None, qr_component = None,
     qr_name = Some ''z'', qr_version = None, qr_architecture = None, qr_status = Some Bad,
     qr_priority = None, qr_reset = True\<rparr>"

lemma sample_admin: "admin sample_cfg sample_req = Inr ()"
  by (simp add: admin_def header_def sample_cfg_def sample_req_def)

lemma sample_requested: "2 \<in> requested_ids sample_queue_request sample_db"
  by code_simp

theorem request_rebuild_effect_witness:
  "\<exists>q'. q' \<in> set (rows (queue (snd (request_rebuild sample_cfg sample_req 10
       sample_queue_request sample_db)))) \<and>
     q_build_input_id q' = 2 \<and> q_priority q' = priority_manual"
  using request_rebuild_effect[OF sample_db_ok(1) sample_admin refl refl,
      where now = 10 and request = sample_queue_request] sample_requested
  by (auto simp: sample_queue_request_def)

section \<open>Dropping jobs\<close>

lemma drop_ids:
  assumes "db_ok d" "q \<in> set (rows (queue d))"
  shows "q_id q \<in> set (map (\<lambda>(q, b, s). q_id q) (filter P (queue_base d))) \<longleftrightarrow>
    (\<exists>b s. (q, b, s) \<in> set (queue_base d) \<and> P (q, b, s))" (is "?l \<longleftrightarrow> ?r")
proof
  assume ?l
  then obtain q' b s where "(q', b, s) \<in> set (queue_base d)" "P (q', b, s)" "q_id q' = q_id q"
    by auto
  moreover from this have "q' = q"
    using wf_table_id_unique[OF db_ok_facts(6)[OF assms(1)] _ assms(2)] by (simp add: set_queue_base)
  ultimately show ?r by blast
next
  assume ?r
  then show ?l by force
qed

text \<open>Dropping jobs by filter removes exactly the queue rows whose package matches both filters
  and keeps every other row in order.\<close>

theorem drop_queued_jobs_exact:
  assumes "db_ok d" "admin cfg req = Inr ()"
  shows "rows (queue (snd (drop_queued_jobs cfg req origin identity d))) =
    filter (\<lambda>q. \<not> (\<exists>b s. (q, b, s) \<in> set (queue_base d) \<and>
        origin_matches origin s (bi_architecture b) \<and>
        source_identity_matches identity (sp_name s) (sp_version s))) (rows (queue d))"
  using drop_ids[OF assms(1), where P = "\<lambda>(q, b, s). origin_matches origin s (bi_architecture b) \<and>
        source_identity_matches identity (sp_name s) (sp_version s)"]
  by (simp add: drop_queued_jobs_def assms(2) Let_def rows_delete cong: filter_cong)

theorem drop_queued_jobs_exact_witness:
  "rows (queue (snd (drop_queued_jobs sample_cfg sample_req any_origin
      \<lparr>sif_name = None, sif_search_type = Exact, sif_version = None\<rparr> sample_db))) =
    filter (\<lambda>q. \<not> (\<exists>b s. (q, b, s) \<in> set (queue_base sample_db) \<and>
        origin_matches any_origin s (bi_architecture b) \<and>
        source_identity_matches \<lparr>sif_name = None, sif_search_type = Exact, sif_version = None\<rparr>
          (sp_name s) (sp_version s))) (rows (queue sample_db))"
  by (rule drop_queued_jobs_exact[OF sample_db_ok(1) sample_admin])

end
