(* ===== verification/Latest.thy ===== *)
theory Latest
  imports Models
begin

text \<open>
  The "latest rebuild" anti-join that the list, dashboard, statistics and v0 queries share: each
  build input is joined with all its rebuilds \<open>r1\<close>, then with the rebuilds \<open>r2\<close> newer than
  \<open>r1\<close>, and the rows for which there is no \<open>r2\<close> are kept. On a well-formed database it is the
  functional specification \<open>latest_rebuild\<close>: one row per build input, with its newest rebuild
  by \<open>(built_at, id)\<close>.
\<close>

definition newer :: "rebuild \<Rightarrow> rebuild \<Rightarrow> bool" where
  "newer r1 r2 \<longleftrightarrow>
     null_less (rb_built_at r1) (rb_built_at r2) \<or>
     null_eq (rb_built_at r1) (rb_built_at r2) \<and> rb_id r1 < rb_id r2"

definition join_r1 :: "('x \<Rightarrow> int) \<Rightarrow> 'x list \<Rightarrow> rebuild list \<Rightarrow> ('x \<times> rebuild option) list" where
  "join_r1 inp xs rs = left_join (\<lambda>x r1. rb_build_input_id r1 = inp x) xs rs"

text \<open>The join with \<open>r2\<close>: on a row without \<open>r1\<close> the condition is unknown.\<close>

definition superseded_by :: "('x \<Rightarrow> int) \<Rightarrow> ('x \<Rightarrow> rebuild option) \<Rightarrow> 'x \<Rightarrow> rebuild \<Rightarrow> bool" where
  "superseded_by inp r1_of x r2 \<longleftrightarrow>
     rb_build_input_id r2 = inp x \<and> (case r1_of x of None \<Rightarrow> False | Some r1 \<Rightarrow> newer r1 r2)"

definition without_r2 ::
  "('x \<Rightarrow> int) \<Rightarrow> ('x \<Rightarrow> rebuild option) \<Rightarrow> 'x list \<Rightarrow> rebuild list \<Rightarrow> 'x list" where
  "without_r2 inp r1_of xs rs =
     map fst (filter (\<lambda>(_, r2). r2 = None) (left_join (superseded_by inp r1_of) xs rs))"

definition join_latest :: "('x \<Rightarrow> int) \<Rightarrow> 'x list \<Rightarrow> rebuild list \<Rightarrow> ('x \<times> rebuild option) list" where
  "join_latest inp xs rs = without_r2 (inp \<circ> fst) snd (join_r1 inp xs rs) rs"

section \<open>The specification\<close>

definition latest_rebuild :: "int \<Rightarrow> rebuild list \<Rightarrow> rebuild option" where
  "latest_rebuild i rs =
     first_by_desc (\<lambda>r. (rb_built_at r, rb_id r)) (filter (\<lambda>r. rb_build_input_id r = i) rs)"

lemma without_r2_filter:
  "without_r2 inp r1_of xs rs = filter (\<lambda>x. \<not> (\<exists>r2\<in>set rs. superseded_by inp r1_of x r2)) xs"
proof (induction xs)
  case Nil
  then show ?case by (simp add: without_r2_def left_join_def)
next
  case (Cons x xs)
  have "map fst (filter (\<lambda>(_, r2). r2 = None)
      (case filter (superseded_by inp r1_of x) rs of [] \<Rightarrow> [(x, None)]
       | zs \<Rightarrow> map (\<lambda>y. (x, Some y)) zs)) =
      (if \<exists>r2\<in>set rs. superseded_by inp r1_of x r2 then [] else [x])"
  proof (cases "filter (superseded_by inp r1_of x) rs")
    case Nil
    then show ?thesis by (auto simp: filter_empty_conv)
  next
    case (Cons z zs)
    then have "z \<in> set rs \<and> superseded_by inp r1_of x z"
      by (metis filter_eq_ConsD in_set_conv_decomp)
    moreover have "filter (\<lambda>(_, r2). r2 = None) (map (\<lambda>y. (x, Some y)) (z # zs)) = []"
      by (auto simp: filter_empty_conv)
    ultimately show ?thesis using Cons by auto
  qed
  with Cons show ?case by (simp add: without_r2_def left_join_Cons)
qed

lemma newer_iff:
  "rb_built_at r1 \<noteq> None \<Longrightarrow> rb_built_at r2 \<noteq> None \<Longrightarrow>
     newer r1 r2 \<longleftrightarrow> (rb_built_at r1, rb_id r1) < (rb_built_at r2, rb_id r2)"
  by (auto simp: newer_def)

lemma latest_rebuild_None: "latest_rebuild i rs = None \<longleftrightarrow> (\<forall>r\<in>set rs. rb_build_input_id r \<noteq> i)"
  by (auto simp: latest_rebuild_def filter_empty_conv)

lemma latest_rebuild_Some:
  assumes "latest_rebuild i rs = Some r"
  shows "r \<in> set rs" "rb_build_input_id r = i"
    "\<And>r'. r' \<in> set rs \<Longrightarrow> rb_build_input_id r' = i \<Longrightarrow>
       (rb_built_at r', rb_id r') \<le> (rb_built_at r, rb_id r)"
  using first_by_desc_Some[OF assms[unfolded latest_rebuild_def]] by auto

lemma filter_sole:
  "distinct ys \<Longrightarrow> y \<in> set ys \<Longrightarrow> (\<And>z. z \<in> set ys \<Longrightarrow> P z \<longleftrightarrow> z = y) \<Longrightarrow> filter P ys = [y]"
proof (induction ys)
  case Nil
  then show ?case by simp
next
  case (Cons a ys)
  then show ?case
  proof (cases "a = y")
    case True
    with Cons.prems have "filter P ys = []" by (auto simp: filter_empty_conv)
    with True Cons.prems show ?thesis by simp
  next
    case False
    with Cons show ?thesis by auto
  qed
qed

lemma latest_rebuild_unique:
  assumes "distinct (map rb_id rs)" "\<forall>r\<in>set rs. rb_built_at r \<noteq> None"
    and "latest_rebuild i rs = Some r"
  shows "filter (\<lambda>r1. \<not> (\<exists>r2\<in>set rs. rb_build_input_id r2 = i \<and> newer r1 r2))
    (filter (\<lambda>r1. rb_build_input_id r1 = i) rs) = [r]"
proof (rule filter_sole)
  show "distinct (filter (\<lambda>r1. rb_build_input_id r1 = i) rs)"
    using assms(1) by (simp add: distinct_map)
  note latest = latest_rebuild_Some[OF assms(3)]
  show "r \<in> set (filter (\<lambda>r1. rb_build_input_id r1 = i) rs)" using latest by simp
  fix r1 assume "r1 \<in> set (filter (\<lambda>r1. rb_build_input_id r1 = i) rs)"
  then have r1: "r1 \<in> set rs" "rb_build_input_id r1 = i" by auto
  show "\<not> (\<exists>r2\<in>set rs. rb_build_input_id r2 = i \<and> newer r1 r2) \<longleftrightarrow> r1 = r"
  proof
    assume "\<not> (\<exists>r2\<in>set rs. rb_build_input_id r2 = i \<and> newer r1 r2)"
    then have "\<not> newer r1 r" using latest by blast
    then have "\<not> (rb_built_at r1, rb_id r1) < (rb_built_at r, rb_id r)"
      using newer_iff assms(2) r1 latest(1) by blast
    with latest(3)[OF r1] have "rb_id r1 = rb_id r" by auto
    then show "r1 = r" using distinct_map_eqD[OF assms(1)] r1 latest by blast
  next
    assume "r1 = r"
    then show "\<not> (\<exists>r2\<in>set rs. rb_build_input_id r2 = i \<and> newer r1 r2)"
      using latest newer_iff assms(2) by (metis leD)
  qed
qed

lemma join_latest_eq:
  assumes "distinct (map rb_id rs)" "\<forall>r\<in>set rs. rb_built_at r \<noteq> None"
  shows "join_latest inp xs rs = map (\<lambda>x. (x, latest_rebuild (inp x) rs)) xs"
proof (induction xs)
  case Nil
  then show ?case by (simp add: join_latest_def join_r1_def left_join_def without_r2_filter)
next
  case (Cons x xs)
  let ?keep = "\<lambda>p. \<not> (\<exists>r2\<in>set rs. superseded_by (inp \<circ> fst) snd p r2)"
  have step: "join_latest inp (x # xs) rs =
      filter ?keep (case filter (\<lambda>r1. rb_build_input_id r1 = inp x) rs of
        [] \<Rightarrow> [(x, None)] | zs \<Rightarrow> map (\<lambda>y. (x, Some y)) zs) @ join_latest inp xs rs"
    by (simp add: join_latest_def join_r1_def without_r2_filter left_join_Cons)
  have "filter ?keep (case filter (\<lambda>r1. rb_build_input_id r1 = inp x) rs of
        [] \<Rightarrow> [(x, None)] | zs \<Rightarrow> map (\<lambda>y. (x, Some y)) zs) = [(x, latest_rebuild (inp x) rs)]"
  proof (cases "latest_rebuild (inp x) rs")
    case None
    then have "filter (\<lambda>r1. rb_build_input_id r1 = inp x) rs = []"
      by (simp add: latest_rebuild_None filter_empty_conv)
    with None show ?thesis by (simp add: superseded_by_def)
  next
    case (Some r)
    let ?zs = "filter (\<lambda>r1. rb_build_input_id r1 = inp x) rs"
    have "?zs \<noteq> []" using latest_rebuild_Some[OF Some] by (auto simp: filter_empty_conv)
    then have "(case ?zs of [] \<Rightarrow> [(x, None)] | zs \<Rightarrow> map (\<lambda>y. (x, Some y)) zs) =
        map (\<lambda>y. (x, Some y)) ?zs" by (cases ?zs) auto
    moreover have "filter ?keep (map (\<lambda>y. (x, Some y)) ?zs) =
        map (\<lambda>y. (x, Some y)) (filter (\<lambda>r1. \<not> (\<exists>r2\<in>set rs. rb_build_input_id r2 = inp x \<and> newer r1 r2)) ?zs)"
      by (simp add: filter_map o_def superseded_by_def)
    ultimately show ?thesis
      using latest_rebuild_unique[OF assms Some] Some by (simp del: filter_filter)
  qed
  with step Cons show ?case by simp
qed

lemma join_latest_db:
  assumes "db_ok d"
  shows "join_latest inp xs (rows (rebuilds d)) =
    map (\<lambda>x. (x, latest_rebuild (inp x) (rows (rebuilds d)))) xs"
proof (rule join_latest_eq)
  show "distinct (map rb_id (rows (rebuilds d)))"
    using assms by (simp add: db_ok_facts wf_table_distinct)
  show "\<forall>r\<in>set (rows (rebuilds d)). rb_built_at r \<noteq> None"
    using db_ok_facts(34)[OF assms] by (auto simp: rebuild_ok_def)
qed

section \<open>Histories\<close>

text \<open>
  The history of a build input: each rebuild with its artifacts, without the ids of the rows.
\<close>

definition artifacts_of :: "db \<Rightarrow> int \<Rightarrow> (string \<times> int option \<times> int option \<times> string option) list" where
  "artifacts_of d i =
     map (\<lambda>a. (ra_name a, ra_diffoscope_log_id a, ra_attestation_log_id a, ra_status a))
       (filter (\<lambda>a. ra_rebuild_id a = i) (rows (rebuild_artifacts d)))"

definition history_entry :: "db \<Rightarrow> rebuild \<Rightarrow> (time option \<times> time option \<times> int \<times> string option) \<times>
    (string \<times> int option \<times> int option \<times> string option) list" where
  "history_entry d r =
     ((rb_started_at r, rb_built_at r, rb_build_log_id r, rb_status r), artifacts_of d (rb_id r))"

definition history :: "db \<Rightarrow> int \<Rightarrow> ((time option \<times> time option \<times> int \<times> string option) \<times>
    (string \<times> int option \<times> int option \<times> string option) list) list" where
  "history d i = map (history_entry d) (filter (\<lambda>r. rb_build_input_id r = i) (rows (rebuilds d)))"

lemma artifacts_of_insert:
  "artifacts_of (rebuild_artifact_insert n d) i = artifacts_of d i @
     (if nra_rebuild_id n = i
      then [(nra_name n, nra_diffoscope_log_id n, nra_attestation_log_id n, nra_status n)] else [])"
  by (simp add: artifacts_of_def rebuild_artifact_insert_def rows_insert rebuild_artifact_row_def)

lemma artifacts_of_frame:
  "rebuild_artifacts d' = rebuild_artifacts d \<Longrightarrow> artifacts_of d' i = artifacts_of d i"
  by (simp add: artifacts_of_def)

lemma history_frame:
  "rebuild_artifacts d' = rebuild_artifacts d \<Longrightarrow> rebuilds d' = rebuilds d \<Longrightarrow> history d' i = history d i"
  by (simp add: history_def history_entry_def artifacts_of_def)

text \<open>The id of the next rebuild is fresh.\<close>

lemma fresh_rebuild_id:
  "db_ok d \<Longrightarrow> r \<in> set (rows (rebuilds d)) \<Longrightarrow> rb_id r \<noteq> seq (rebuilds d) + 1"
  using db_ok_facts(8) by (fastforce simp: wf_table_def)

lemma fresh_rebuild_artifacts: "db_ok d \<Longrightarrow> artifacts_of d (seq (rebuilds d) + 1) = []"
  using db_ok_facts(28)[of d] fresh_rebuild_id[of d]
  by (fastforce simp: artifacts_of_def refs_def filter_empty_conv)

end
