(* ===== verification/Packages.thy ===== *)
theory Packages
  imports Auth Friends Filters Pagination Latest
begin

text \<open>
  Package sync and package lists (\<open>daemon/src/api/v1/package.rs\<close>). A report names the packages of
  one distribution, release, component and architecture; the daemon marks what it knew of that
  scope as unseen, files every reported package again, copies the rebuilds of a package it already
  built elsewhere, queues what is not known to be good, and drops the queued jobs of what the
  report no longer names. The whole sync is one transaction: an error leaves the database as it
  was.
\<close>

section \<open>Scope\<close>

definition in_scope :: "package_report \<Rightarrow> build_input \<times> source_package \<Rightarrow> bool" where
  "in_scope report bs \<longleftrightarrow>
     sp_distribution (snd bs) = pr_distribution report \<and>
     sp_release (snd bs) = pr_release report \<and>
     sp_component (snd bs) = pr_component report \<and>
     bi_architecture (fst bs) = pr_architecture report"

definition inputs_of_sources :: "db \<Rightarrow> (build_input \<times> source_package) list" where
  "inputs_of_sources d =
     inner_join (\<lambda>b s. sp_id s = bi_source_package_id b) (rows (build_inputs d))
       (rows (source_packages d))"

definition mark_scoped_packages_unseen :: "package_report \<Rightarrow> db \<Rightarrow> db" where
  "mark_scoped_packages_unseen report d =
     (let scoped = filter (in_scope report) (inputs_of_sources d)
      in d\<lparr>source_packages := sql_update (\<lambda>s. sp_id s \<in> set (map (\<lambda>(b, s). sp_id s) scoped))
             (\<lambda>s. s\<lparr>sp_seen_in_last_sync := False\<rparr>) (source_packages d),
           binary_packages := sql_update
             (\<lambda>p. bp_build_input_id p \<in> set (map (\<lambda>(b, s). bi_id b) scoped))
             (\<lambda>p. p\<lparr>bp_seen_in_last_sync := False\<rparr>) (binary_packages d)\<rparr>)"

definition unseen_scoped_inputs :: "package_report \<Rightarrow> db \<Rightarrow> int list" where
  "unseen_scoped_inputs report d =
     map (\<lambda>(b, s). bi_id b)
       (filter (\<lambda>(b, s). in_scope report (b, s) \<and> \<not> sp_seen_in_last_sync s) (inputs_of_sources d))"

definition drop_unseen_scoped_jobs :: "package_report \<Rightarrow> db \<Rightarrow> db" where
  "drop_unseen_scoped_jobs report d =
     d\<lparr>queue := sql_delete (\<lambda>q. q_worker q = None \<and>
         q_build_input_id q \<in> set (unseen_scoped_inputs report d)) (queue d)\<rparr>"

section \<open>One package of a report\<close>

definition is_new_package :: "package_report \<Rightarrow> source_package_report \<Rightarrow> db \<Rightarrow> bool" where
  "is_new_package report p d \<longleftrightarrow>
     \<not> sql_exists (\<lambda>s. sp_name s = spr_name p \<and> sp_version s = spr_version p \<and>
         sp_distribution s = pr_distribution report \<and> sp_release s = pr_release report \<and>
         sp_component s = pr_component report) (source_packages d)"

definition get_current_rebuild_status :: "build_input \<Rightarrow> db \<Rightarrow> build_status result" where
  "get_current_rebuild_status b d =
     (case first_by_desc rb_built_at
             (filter (\<lambda>r. rb_build_input_id r = bi_id b) (rows (rebuilds d))) of
        None \<Rightarrow> Inr Unknown
      | Some r \<Rightarrow>
          map_sum id (\<lambda>st. case st of None \<Rightarrow> Unknown | Some st \<Rightarrow> st)
            (load_build_status (rb_status r)))"

definition copy_artifacts :: "int \<Rightarrow> int \<Rightarrow> db \<Rightarrow> db" where
  "copy_artifacts existing_rebuild_id new_rebuild_id d =
     fold (\<lambda>a d. rebuild_artifact_insert
         \<lparr>nra_rebuild_id = new_rebuild_id, nra_name = ra_name a,
          nra_diffoscope_log_id = ra_diffoscope_log_id a,
          nra_attestation_log_id = ra_attestation_log_id a, nra_status = ra_status a\<rparr> d)
       (filter (\<lambda>a. ra_rebuild_id a = existing_rebuild_id) (rows (rebuild_artifacts d))) d"

definition copy_rebuild :: "int \<Rightarrow> int \<Rightarrow> db \<Rightarrow> db result" where
  "copy_rebuild build_input_id existing_rebuild_id d =
     (case filter (\<lambda>r. rb_id r = existing_rebuild_id) (rows (rebuilds d)) of
        [] \<Rightarrow> Inl RowNotFound
      | r # _ \<Rightarrow>
         (case rebuild_insert \<lparr>nrb_build_input_id = build_input_id,
                 nrb_started_at = rb_started_at r, nrb_built_at = rb_built_at r,
                 nrb_build_log_id = rb_build_log_id r, nrb_status = rb_status r\<rparr> d of
            (new_rebuild_id, d) \<Rightarrow> Inr (copy_artifacts existing_rebuild_id new_rebuild_id d)))"

definition copy_existing_rebuilds :: "build_input \<Rightarrow> db \<Rightarrow> db result" where
  "copy_existing_rebuilds b d =
     (case first_by (\<lambda>i. i) (filter (\<lambda>i. i \<noteq> bi_id b) (build_input_friends (bi_id b) d)) of
        None \<Rightarrow> Inr d
      | Some existing_build_input \<Rightarrow>
          if sql_exists (\<lambda>r. rb_build_input_id r = existing_build_input) (rebuilds d) then
            fold_result (copy_rebuild (bi_id b))
              (map rb_id (filter (\<lambda>r. rb_build_input_id r = existing_build_input)
                 (rows (rebuilds d)))) d
          else Inr d)"

definition file_binaries ::
  "package_report \<Rightarrow> int \<Rightarrow> int \<Rightarrow> binary_package_report list \<Rightarrow> db \<Rightarrow> db" where
  "file_binaries report source_id input_id arts d =
     fold (\<lambda>a d. snd (binary_package_upsert
         \<lparr>nbp_source_package_id = source_id, nbp_build_input_id = input_id, nbp_name = bpr_name a,
          nbp_version = bpr_version a, nbp_architecture = pr_architecture report,
          nbp_artifact_url = bpr_url a, nbp_seen_in_last_sync = True\<rparr> d)) arts d"

text \<open>From the current status on: queue the build input unless it is good, a friend of it is
  queued, or the friends have used up their retries.\<close>

definition queue_if_needed :: "schedule_config \<Rightarrow> time \<Rightarrow> build_input \<Rightarrow> db \<Rightarrow> db result" where
  "queue_if_needed schedule now b d =
     (case get_current_rebuild_status b d of
        Inl e \<Rightarrow> Inl e
      | Inr current_status \<Rightarrow>
          if current_status \<noteq> Good \<and> \<not> has_queued_friend (bi_id b) d then
            (case get_largest_retry_count_among_friends (bi_id b) d of
               Inl e \<Rightarrow> Inl e
             | Inr retry_count \<Rightarrow>
                 if (case max_retries schedule of None \<Rightarrow> False | Some m \<Rightarrow> m \<le> retry_count) then
                   Inr (mark_build_input_friends_as_non_retriable (bi_id b) d)
                 else
                   Inr (snd (queue_upsert
                     \<lparr>nq_build_input_id = bi_id b,
                      nq_priority = (if current_status = Bad then priority_retry else priority_default),
                      nq_queued_at = now\<rparr> d)))
          else Inr d)"

definition new_source_of ::
  "time \<Rightarrow> package_report \<Rightarrow> source_package_report \<Rightarrow> new_source_package" where
  "new_source_of now report p =
     \<lparr>nsp_name = spr_name p, nsp_version = spr_version p, nsp_distribution = pr_distribution report,
      nsp_release = pr_release report, nsp_component = pr_component report, nsp_last_seen = now,
      nsp_seen_in_last_sync = True,
      nsp_fbsd_ports_top_git_hash = spr_fbsd_ports_top_git_hash p,
      nsp_fbsd_build_timestamp = spr_fbsd_build_timestamp p,
      nsp_fbsd_ports_top_git_timestamp = spr_fbsd_ports_top_git_timestamp p\<rparr>"

definition new_input_of ::
  "schedule_config \<Rightarrow> time \<Rightarrow> package_report \<Rightarrow> source_package_report \<Rightarrow> int \<Rightarrow> new_build_input" where
  "new_input_of schedule now report p source_id =
     \<lparr>nbi_source_package_id = source_id, nbi_url = spr_url p,
      nbi_backend = pr_distribution report, nbi_architecture = pr_architecture report,
      nbi_retries = 0,
      nbi_next_retry = (if initial_delay schedule \<noteq> 0 then Some (now + initial_delay schedule) else None)\<rparr>"

definition sync_package ::
  "schedule_config \<Rightarrow> time \<Rightarrow> package_report \<Rightarrow> source_package_report \<Rightarrow> db \<Rightarrow> db result" where
  "sync_package schedule now report p d0 =
     (case source_package_upsert (new_source_of now report p) d0 of
        (source_package, d1) \<Rightarrow>
          (case build_input_upsert (new_input_of schedule now report p (sp_id source_package)) d1 of
             (build_input, d2) \<Rightarrow>
               (case (if is_new_package report p d0
                      then copy_existing_rebuilds build_input
                        (file_binaries report (sp_id source_package) (bi_id build_input)
                           (spr_artifacts p) d2)
                      else Inr (file_binaries report (sp_id source_package) (bi_id build_input)
                           (spr_artifacts p) d2)) of
                  Inl e \<Rightarrow> Inl e
                | Inr d3 \<Rightarrow> queue_if_needed schedule now build_input d3)))"

definition sync_report :: "schedule_config \<Rightarrow> time \<Rightarrow> package_report \<Rightarrow> db \<Rightarrow> db result" where
  "sync_report schedule now report d =
     map_sum id (drop_unseen_scoped_jobs report)
       (fold_result (sync_package schedule now report) (pr_packages report)
          (mark_scoped_packages_unseen report d))"

definition submit_package_report ::
  "config \<Rightarrow> http_request \<Rightarrow> time \<Rightarrow> package_report \<Rightarrow> db \<Rightarrow> unit response \<times> db" where
  "submit_package_report cfg req now report d =
     (case admin cfg req of
        Inl _ \<Rightarrow> (Forbidden403, d)
      | Inr _ \<Rightarrow>
         (case sync_report (cfg_schedule cfg) now report d of
            Inl _ \<Rightarrow> (Error500, d)
          | Inr d' \<Rightarrow> (NoContent204, d')))"

section \<open>Lists of source packages\<close>

type_synonym source_row = "(source_package \<times> build_input) \<times> rebuild option"

definition source_packages_base :: "db \<Rightarrow> source_row list" where
  "source_packages_base d =
     join_latest (bi_id \<circ> snd)
       (inner_join (\<lambda>s b. bi_source_package_id b = sp_id s) (rows (source_packages d))
          (rows (build_inputs d)))
       (rows (rebuilds d))"

definition r1_status :: "rebuild option \<Rightarrow> string option" where
  "r1_status r1 = (case r1 of None \<Rightarrow> None | Some r \<Rightarrow> rb_status r)"

fun to_source_package_view :: "source_row \<Rightarrow> source_package_view" where
  "to_source_package_view ((s, b), r1) =
     \<lparr>spv_id = sp_id s, spv_name = sp_name s, spv_version = sp_version s,
      spv_distribution = sp_distribution s, spv_release = sp_release s,
      spv_component = sp_component s, spv_status = r1_status r1,
      spv_build_id = map_option rb_id r1, spv_last_seen = sp_last_seen s,
      spv_seen_in_last_sync = sp_seen_in_last_sync s\<rparr>"

definition source_package_columns :: "source_package_view columns" where
  "source_package_columns =
     [(''id'', \<lambda>v. Int_value (spv_id v)), (''name'', \<lambda>v. Text_value (spv_name v)),
      (''version'', \<lambda>v. Text_value (spv_version v)),
      (''distribution'', \<lambda>v. Text_value (spv_distribution v)),
      (''release'', \<lambda>v. opt_text_value (spv_release v)),
      (''component'', \<lambda>v. opt_text_value (spv_component v)),
      (''status'', \<lambda>v. opt_text_value (spv_status v)),
      (''last_seen'', \<lambda>v. Int_value (spv_last_seen v)),
      (''seen_in_last_sync'', \<lambda>v. bool_value (spv_seen_in_last_sync v))]"

text \<open>Loading the rows fails when a status text is none of the statuses.\<close>

definition load_rows :: "('v \<Rightarrow> string option list) \<Rightarrow> 'v list result \<Rightarrow> 'v list result" where
  "load_rows texts page_rows =
     (case page_rows of
        Inl e \<Rightarrow> Inl e
      | Inr vs \<Rightarrow>
         (case find (\<lambda>c. isl (load_build_status c)) (concat (map texts vs)) of
            Some c \<Rightarrow> Inl (BadStatusText (the c))
          | None \<Rightarrow> Inr vs))"

definition source_status_matches :: "status_filter \<Rightarrow> string option \<Rightarrow> bool" where
  "source_status_matches f c =
     (case sf_status f of
        None \<Rightarrow> True
      | Some statuses \<Rightarrow>
          if statuses = [] then True
          else
            (let status_values = map to_uppercase statuses;
                 has_unkwn = list_ex (\<lambda>s. s = ''UNKWN'') status_values;
                 other_statuses = filter (\<lambda>s. s \<noteq> ''UNKWN'') status_values
             in if has_unkwn \<and> other_statuses \<noteq> [] then
                  c = None \<or> (c \<noteq> None \<and> the c \<in> set other_statuses)
                else if has_unkwn then c = None
                else c \<noteq> None \<and> the c \<in> set other_statuses))"

definition get_source_packages ::
  "page \<Rightarrow> origin_filter \<Rightarrow> source_identity_filter \<Rightarrow> freshness_filter \<Rightarrow> status_filter \<Rightarrow> db \<Rightarrow>
   source_package_view result_page response" where
  "get_source_packages pg origin identity fresh st d =
     (let base = map to_source_package_view (filter (\<lambda>((s, b), r1).
            origin_matches origin s (bi_architecture b) \<and>
            source_identity_matches identity (sp_name s) (sp_version s) \<and>
            freshness_matches fresh s \<and> source_status_matches st (r1_status r1))
            (source_packages_base d))
      in case load_rows (\<lambda>v. [spv_status v]) (paginate source_package_columns spv_id pg base) of
           Inl _ \<Rightarrow> Error500
         | Inr rs \<Rightarrow> Ok200 \<lparr>total = int (length base), records = rs\<rparr>)"

definition get_source_package :: "int \<Rightarrow> db \<Rightarrow> source_package_view response" where
  "get_source_package i d =
     (case filter (\<lambda>v. spv_id v = i) (map to_source_package_view (source_packages_base d)) of
        [] \<Rightarrow> NotFound404
      | v # _ \<Rightarrow> if isl (load_build_status (spv_status v)) then Error500 else Ok200 v)"

section \<open>Lists of binary packages\<close>

type_synonym binary_source_input = "(binary_package \<times> source_package) \<times> build_input"
type_synonym binary_row = "(binary_source_input \<times> rebuild option) \<times> rebuild_artifact option"

definition binary_inputs :: "db \<Rightarrow> binary_source_input list" where
  "binary_inputs d =
     inner_join (\<lambda>ps b. bp_build_input_id (fst ps) = bi_id b)
       (inner_join (\<lambda>p s. bp_source_package_id p = sp_id s) (rows (binary_packages d))
          (rows (source_packages d)))
       (rows (build_inputs d))"

definition binary_packages_base :: "db \<Rightarrow> binary_row list" where
  "binary_packages_base d =
     without_r2 (\<lambda>r. bi_id (snd (fst (fst r)))) (\<lambda>r. snd (fst r))
       (left_join (\<lambda>r a. map_option rb_id (snd r) = Some (ra_rebuild_id a) \<and>
            ra_name a = bp_name (fst (fst (fst r))))
          (join_r1 (\<lambda>x. bi_id (snd x)) (binary_inputs d) (rows (rebuilds d)))
          (rows (rebuild_artifacts d)))
       (rows (rebuilds d))"

definition artifact_field :: "(rebuild_artifact \<Rightarrow> 'v option) \<Rightarrow> rebuild_artifact option \<Rightarrow> 'v option" where
  "artifact_field f a = (case a of None \<Rightarrow> None | Some a \<Rightarrow> f a)"

fun to_binary_package_view :: "binary_row \<Rightarrow> binary_package_view" where
  "to_binary_package_view ((((p, s), b), r1), a) =
     \<lparr>bpv_id = bp_id p, bpv_name = bp_name p, bpv_version = bp_version p,
      bpv_distribution = sp_distribution s, bpv_release = sp_release s,
      bpv_component = sp_component s, bpv_architecture = bp_architecture p,
      bpv_url = bp_artifact_url p, bpv_status = artifact_field ra_status a,
      bpv_build_id = map_option rb_id r1, bpv_artifact_id = map_option ra_id a,
      bpv_diffoscope_log_id = artifact_field ra_diffoscope_log_id a,
      bpv_attestation_log_id = artifact_field ra_attestation_log_id a,
      bpv_last_seen = sp_last_seen s, bpv_seen_in_last_sync = bp_seen_in_last_sync p,
      bpv_rebuild_status = r1_status r1\<rparr>"

definition binary_package_columns :: "binary_package_view columns" where
  "binary_package_columns =
     [(''id'', \<lambda>v. Int_value (bpv_id v)), (''name'', \<lambda>v. Text_value (bpv_name v)),
      (''version'', \<lambda>v. Text_value (bpv_version v)),
      (''distribution'', \<lambda>v. Text_value (bpv_distribution v)),
      (''release'', \<lambda>v. opt_text_value (bpv_release v)),
      (''component'', \<lambda>v. opt_text_value (bpv_component v)),
      (''architecture'', \<lambda>v. Text_value (bpv_architecture v)),
      (''artifact_url'', \<lambda>v. Text_value (bpv_url v)),
      (''status'', \<lambda>v. opt_text_value (bpv_status v)),
      (''diffoscope_log_id'', \<lambda>v. opt_int_value (bpv_diffoscope_log_id v)),
      (''attestation_log_id'', \<lambda>v. opt_int_value (bpv_attestation_log_id v)),
      (''last_seen'', \<lambda>v. Int_value (bpv_last_seen v)),
      (''seen_in_last_sync'', \<lambda>v. bool_value (bpv_seen_in_last_sync v))]"

definition matching_peer_ids :: "origin_filter \<Rightarrow> string list \<Rightarrow> db \<Rightarrow> int list" where
  "matching_peer_ids origin peers d =
     map pe_id (filter (\<lambda>p.
         is_or_any (of_architecture origin) (pe_architecture p) \<and>
         is_or_any (of_distribution origin) (pe_distribution p) \<and>
         (peers \<noteq> [] \<longrightarrow> list_ex (\<lambda>u. like (''%'' @ u @ ''%'') (pe_url p)) peers))
       (rows (peer_rebuilders d)))"

definition disagreement_matches :: "bool option \<Rightarrow> int list \<Rightarrow> binary_package \<Rightarrow> db \<Rightarrow> bool" where
  "disagreement_matches flag peer_ids p d =
     (case flag of
        None \<Rightarrow> True
      | Some flag \<Rightarrow>
          flag = sql_exists (\<lambda>c. pc_binary_name c = bp_name p \<and>
            pc_binary_version c = bp_version p \<and> pc_peer_rebuilder_id c \<in> set peer_ids)
            (peer_sha256_checks d))"

definition binary_status_matches ::
  "status_filter \<Rightarrow> string option \<Rightarrow> string option \<Rightarrow> bool" where
  "binary_status_matches f rebuild_status artifact_status =
     (case sf_status f of
        None \<Rightarrow> True
      | Some statuses \<Rightarrow>
          if statuses = [] then True
          else
            (let status_values = map to_uppercase statuses;
                 has_unkwn = list_ex (\<lambda>s. s = ''UNKWN'') status_values;
                 has_fail = list_ex (\<lambda>s. s = ''FAIL'') status_values;
                 artifact_statuses = filter (\<lambda>s. s \<noteq> ''UNKWN'' \<and> s \<noteq> ''FAIL'') status_values;
                 unbuilt = (rebuild_status = None);
                 failed = (rebuild_status = Some (build_status_as_str Fail));
                 of_artifact = (artifact_status \<noteq> None \<and> the artifact_status \<in> set artifact_statuses)
             in case (has_unkwn, has_fail, artifact_statuses \<noteq> []) of
                  (True, True, True) \<Rightarrow> unbuilt \<or> failed \<or> of_artifact
                | (True, True, False) \<Rightarrow> unbuilt \<or> failed
                | (True, False, True) \<Rightarrow> unbuilt \<or> of_artifact
                | (True, False, False) \<Rightarrow> unbuilt
                | (False, True, True) \<Rightarrow> failed \<or> of_artifact
                | (False, True, False) \<Rightarrow> failed
                | (False, False, True) \<Rightarrow> of_artifact
                | (False, False, False) \<Rightarrow> True))"

text \<open>A package without a status of its own shows its build's.\<close>

definition coalesce_status :: "binary_package_view \<Rightarrow> binary_package_view" where
  "coalesce_status v =
     (if bpv_status v = None
      then v\<lparr>bpv_status := bpv_rebuild_status v, bpv_rebuild_status := None\<rparr>
      else v)"

definition binary_status_texts :: "binary_package_view \<Rightarrow> string option list" where
  "binary_status_texts v = [bpv_status v, bpv_rebuild_status v]"

definition get_binary_packages ::
  "page \<Rightarrow> origin_filter \<Rightarrow> binary_identity_filter \<Rightarrow> freshness_filter \<Rightarrow> status_filter \<Rightarrow>
   disagreement_filter \<Rightarrow> db \<Rightarrow> binary_package_view result_page response" where
  "get_binary_packages pg origin identity fresh st df d =
     (let seen_wanted = (case seen_only fresh of None \<Rightarrow> True | Some b \<Rightarrow> b);
          peer_ids = matching_peer_ids origin (df_peer df) d;
          base = map to_binary_package_view (filter (\<lambda>((((p, s), b), r1), a).
            origin_matches origin s (bp_architecture p) \<and>
            binary_identity_matches identity (bp_name p) (bp_version p) (sp_name s) \<and>
            bp_seen_in_last_sync p = seen_wanted \<and>
            disagreement_matches (has_disagreement df) peer_ids p d \<and>
            binary_status_matches st (r1_status r1) (artifact_field ra_status a))
            (binary_packages_base d))
      in case load_rows binary_status_texts (paginate binary_package_columns bpv_id pg base) of
           Inl _ \<Rightarrow> Error500
         | Inr rs \<Rightarrow> Ok200 \<lparr>total = int (length base), records = map coalesce_status rs\<rparr>)"

definition get_binary_package :: "int \<Rightarrow> db \<Rightarrow> binary_package_view response" where
  "get_binary_package i d =
     (case filter (\<lambda>v. bpv_id v = i) (map to_binary_package_view (binary_packages_base d)) of
        [] \<Rightarrow> NotFound404
      | v # _ \<Rightarrow>
          if list_ex (\<lambda>c. isl (load_build_status c)) (binary_status_texts v) then Error500
          else Ok200 (coalesce_status v))"

end
