(* ===== verification/PackageProps.thy ===== *)
theory PackageProps
  imports Packages Sample
begin

text \<open>
  What a package sync guarantees: it never fails on a well-formed database, keeps the invariant,
  sets the seen flags of exactly the reported scope, leaves running jobs alone, never queues two
  friends, and copies the rebuild history of a package that is built elsewhere already.
\<close>

section \<open>Well-formedness step by step\<close>

lemma file_binaries_ok:
  assumes "db_ok d" "s \<in> ids sp_id (source_packages d)" "i \<in> ids bi_id (build_inputs d)"
  shows "db_ok (file_binaries report s i arts d) \<and> (\<exists>t. file_binaries report s i arts d = d\<lparr>binary_packages := t\<rparr>)"
  using assms
proof (induction arts arbitrary: d)
  case Nil
  then show ?case
    by (intro conjI exI[of _ "binary_packages d"]) (simp_all add: file_binaries_def)
next
  case (Cons a arts)
  define e where "e = snd (binary_package_upsert
         \<lparr>nbp_source_package_id = s, nbp_build_input_id = i, nbp_name = bpr_name a,
          nbp_version = bpr_version a, nbp_architecture = pr_architecture report,
          nbp_artifact_url = bpr_url a, nbp_seen_in_last_sync = True\<rparr> d)"
  have step: "file_binaries report s i (a # arts) d = file_binaries report s i arts e"
    by (simp add: file_binaries_def e_def)
  have "db_ok e" unfolding e_def by (rule db_ok_binary_package_upsert) (use Cons.prems in auto)
  moreover have e: "\<exists>t. e = d\<lparr>binary_packages := t\<rparr>"
    by (auto simp: e_def binary_package_upsert_def)
  ultimately show ?case using Cons.IH[of e] Cons.prems step by auto
qed

text \<open>The part of the database that copying a rebuild may touch.\<close>

definition only_rebuilds :: "db \<Rightarrow> db \<Rightarrow> bool" where
  "only_rebuilds d d' \<longleftrightarrow>
     d' = d\<lparr>rebuilds := rebuilds d', rebuild_artifacts := rebuild_artifacts d'\<rparr>"

lemma only_rebuilds_refl [simp]: "only_rebuilds d d"
  by (simp add: only_rebuilds_def)

lemma only_rebuilds_trans: "only_rebuilds d e \<Longrightarrow> only_rebuilds e f \<Longrightarrow> only_rebuilds d f"
  by (cases d; cases e; cases f) (simp add: only_rebuilds_def)

lemma only_rebuilds_frame:
  assumes "only_rebuilds d d'"
  shows "queue d' = queue d" "build_inputs d' = build_inputs d"
    "source_packages d' = source_packages d" "binary_packages d' = binary_packages d"
    "build_logs d' = build_logs d"
  using assms by (cases d; cases d'; simp add: only_rebuilds_def)+

lemma only_rebuilds_insert: "only_rebuilds d (snd (rebuild_insert n d))"
  by (simp add: only_rebuilds_def rebuild_insert_def)

lemma only_rebuilds_artifact: "only_rebuilds d (rebuild_artifact_insert n d)"
  by (simp add: only_rebuilds_def rebuild_artifact_insert_def)

lemma copy_artifact_ok:
  assumes "db_ok d" "new_id \<in> ids rb_id (rebuilds d)" "a \<in> set (rows (rebuild_artifacts d))"
  shows "db_ok (rebuild_artifact_insert
      \<lparr>nra_rebuild_id = new_id, nra_name = ra_name a,
       nra_diffoscope_log_id = ra_diffoscope_log_id a,
       nra_attestation_log_id = ra_attestation_log_id a, nra_status = ra_status a\<rparr> d)"
  by (rule db_ok_rebuild_artifact_insert)
    (use assms db_ok_facts(29,30)[OF assms(1)] db_ok_facts(35)[OF assms(1,3)]
      in \<open>auto simp: opt_refs_def artifact_ok_def\<close>)

lemma copy_artifacts_ok:
  assumes "db_ok d" "new_id \<in> ids rb_id (rebuilds d)"
  shows "db_ok (copy_artifacts rid new_id d) \<and> only_rebuilds d (copy_artifacts rid new_id d) \<and>
    rebuilds (copy_artifacts rid new_id d) = rebuilds d"
proof -
  have "\<And>s. set as \<subseteq> set (rows (rebuild_artifacts s)) \<Longrightarrow> db_ok s \<and> only_rebuilds d s \<and> rebuilds s = rebuilds d \<Longrightarrow>
    db_ok (fold (\<lambda>a d. rebuild_artifact_insert
      \<lparr>nra_rebuild_id = new_id, nra_name = ra_name a,
       nra_diffoscope_log_id = ra_diffoscope_log_id a,
       nra_attestation_log_id = ra_attestation_log_id a, nra_status = ra_status a\<rparr> d) as s) \<and>
    only_rebuilds d (fold (\<lambda>a d. rebuild_artifact_insert
      \<lparr>nra_rebuild_id = new_id, nra_name = ra_name a,
       nra_diffoscope_log_id = ra_diffoscope_log_id a,
       nra_attestation_log_id = ra_attestation_log_id a, nra_status = ra_status a\<rparr> d) as s) \<and>
    rebuilds (fold (\<lambda>a d. rebuild_artifact_insert
      \<lparr>nra_rebuild_id = new_id, nra_name = ra_name a,
       nra_diffoscope_log_id = ra_diffoscope_log_id a,
       nra_attestation_log_id = ra_attestation_log_id a, nra_status = ra_status a\<rparr> d) as s) = rebuilds d" for as
  proof (induction as)
    case Nil
    then show ?case by simp
  next
    case (Cons a as)
    define t where "t = rebuild_artifact_insert
      \<lparr>nra_rebuild_id = new_id, nra_name = ra_name a,
       nra_diffoscope_log_id = ra_diffoscope_log_id a,
       nra_attestation_log_id = ra_attestation_log_id a, nra_status = ra_status a\<rparr> s"
    have "db_ok t" unfolding t_def
      by (rule copy_artifact_ok) (use Cons.prems assms(2) in auto)
    moreover have "only_rebuilds d t"
      using only_rebuilds_trans[OF _ only_rebuilds_artifact] Cons.prems(2) by (simp add: t_def)
    moreover have "rebuilds t = rebuilds d" "set as \<subseteq> set (rows (rebuild_artifacts t))"
      using Cons.prems by (auto simp: t_def rebuild_artifact_insert_def rows_insert)
    ultimately have "set as \<subseteq> set (rows (rebuild_artifacts t))"
      "db_ok t \<and> only_rebuilds d t \<and> rebuilds t = rebuilds d" by simp_all
    from Cons.IH[OF this] show ?case by (simp add: t_def)
  qed
  from this[OF _ conjI[OF assms(1)]] show ?thesis by (simp add: copy_artifacts_def)
qed

lemma copy_rebuild_ok:
  assumes "db_ok d" "i \<in> ids bi_id (build_inputs d)" "rid \<in> ids rb_id (rebuilds d)"
  shows "\<exists>d'. copy_rebuild i rid d = Inr d' \<and> db_ok d' \<and> only_rebuilds d d' \<and>
    ids rb_id (rebuilds d) \<subseteq> ids rb_id (rebuilds d')"
proof -
  from assms(3) obtain r rs where rs: "filter (\<lambda>r. rb_id r = rid) (rows (rebuilds d)) = r # rs"
    by (metis (mono_tags, lifting) filter_empty_conv imageE list.exhaust)
  then have r: "r \<in> set (rows (rebuilds d))" by (auto simp: filter_eq_Cons_iff)
  let ?n = "\<lparr>nrb_build_input_id = i, nrb_started_at = rb_started_at r,
      nrb_built_at = rb_built_at r, nrb_build_log_id = rb_build_log_id r, nrb_status = rb_status r\<rparr>"
  have ok: "db_ok (snd (rebuild_insert ?n d))"
    by (rule db_ok_rebuild_insert)
      (use assms r db_ok_facts(27)[OF assms(1)] db_ok_facts(34)[OF assms(1) r]
        in \<open>auto simp: refs_def rebuild_ok_def\<close>)
  note copied = copy_artifacts_ok[OF ok rebuild_insert_id, of rid]
  have "copy_rebuild i rid d =
      Inr (copy_artifacts rid (fst (rebuild_insert ?n d)) (snd (rebuild_insert ?n d)))"
    by (simp add: copy_rebuild_def rs case_prod_beta)
  moreover have "ids rb_id (rebuilds d) \<subseteq> ids rb_id (rebuilds (snd (rebuild_insert ?n d)))"
    by (simp add: rebuild_insert_def ids_insert_mono)
  ultimately show ?thesis
    using copied only_rebuilds_trans[OF only_rebuilds_insert] by (metis (no_types, lifting))
qed

lemma copy_existing_ok:
  assumes "db_ok d" "bi_id b \<in> ids bi_id (build_inputs d)"
  shows "\<exists>d'. copy_existing_rebuilds b d = Inr d' \<and> db_ok d' \<and> only_rebuilds d d'"
proof -
  have loop: "\<exists>d'. fold_result (copy_rebuild (bi_id b))
      (map rb_id (filter (\<lambda>r. rb_build_input_id r = e) (rows (rebuilds d)))) d = Inr d' \<and>
      (db_ok d' \<and> only_rebuilds d d' \<and> ids rb_id (rebuilds d) \<subseteq> ids rb_id (rebuilds d'))" for e
  proof (rule fold_result_invariant)
    show "db_ok d \<and> only_rebuilds d d \<and> ids rb_id (rebuilds d) \<subseteq> ids rb_id (rebuilds d)"
      using assms(1) by simp
    fix rid s
    assume "rid \<in> set (map rb_id (filter (\<lambda>r. rb_build_input_id r = e) (rows (rebuilds d))))"
    then have rid: "rid \<in> ids rb_id (rebuilds d)" by auto
    assume s: "db_ok s \<and> only_rebuilds d s \<and> ids rb_id (rebuilds d) \<subseteq> ids rb_id (rebuilds s)"
    then have "bi_id b \<in> ids bi_id (build_inputs s)"
      using assms(2) only_rebuilds_frame(2)[of d s] by simp
    moreover have "rid \<in> ids rb_id (rebuilds s)" using s rid by blast
    ultimately obtain s' where "copy_rebuild (bi_id b) rid s = Inr s'" "db_ok s'"
      "only_rebuilds s s'" "ids rb_id (rebuilds s) \<subseteq> ids rb_id (rebuilds s')"
      using copy_rebuild_ok[of s "bi_id b" rid] s by blast
    with s show "\<exists>s'. copy_rebuild (bi_id b) rid s = Inr s' \<and> db_ok s' \<and>
       only_rebuilds d s' \<and> ids rb_id (rebuilds d) \<subseteq> ids rb_id (rebuilds s')"
      by (meson only_rebuilds_trans order_trans)
  qed
  show ?thesis
    using loop assms(1) by (auto simp: copy_existing_rebuilds_def split: option.split) blast
qed

lemma current_status_ok:
  assumes "db_ok d"
  obtains st where "get_current_rebuild_status b d = Inr st"
proof (cases "first_by_desc rb_built_at (filter (\<lambda>r. rb_build_input_id r = bi_id b) (rows (rebuilds d)))")
  case None
  with that show thesis by (simp add: get_current_rebuild_status_def)
next
  case (Some r)
  then have "r \<in> set (rows (rebuilds d))" using first_by_desc_Some[OF Some] by auto
  from db_ok_facts(34)[OF assms this] obtain s where "load_build_status (rb_status r) = Inr s"
    using status_text_ok_load[of "rb_status r"] by (auto simp: rebuild_ok_def)
  with Some that show thesis by (simp add: get_current_rebuild_status_def)
qed

section \<open>What the queue sees of one package\<close>

lemma no_queued_friend_upsert:
  assumes "db_ok d" "bi_id b \<in> ids bi_id (build_inputs d)" "\<not> has_queued_friend (bi_id b) d"
  shows "queue (snd (queue_upsert \<lparr>nq_build_input_id = bi_id b, nq_priority = p, nq_queued_at = now\<rparr> d)) =
    \<lparr>rows = rows (queue d) @
       [queued_row \<lparr>nq_build_input_id = bi_id b, nq_priority = p, nq_queued_at = now\<rparr> (seq (queue d) + 1)],
     seq = seq (queue d) + 1\<rparr>"
proof -
  let ?n = "\<lparr>nq_build_input_id = bi_id b, nq_priority = p, nq_queued_at = now\<rparr>"
  have "nq_build_input_id ?n \<notin> q_build_input_id ` set (rows (queue d))"
    using assms friends_self[OF assms(1,2)] by (auto simp: has_queued_friend_def sql_exists_iff)
  from queue_table.upsert_miss[OF this] show ?thesis
    by (simp add: queue_upsert_def sql_insert_def)
qed

lemma no_queued_friend_mark:
  "\<not> has_queued_friend i d \<Longrightarrow>
     queue (mark_build_input_friends_as_non_retriable i d) = queue d"
  by (auto simp: mark_build_input_friends_as_non_retriable_def Let_def has_queued_friend_def
      sql_exists_iff sql_delete_def clear_next_retry_def get_build_input_friends_def
      intro!: filter_True)

text \<open>
  The step on one package, on a well-formed database: it succeeds, and either leaves the queue
  as it was or appends one unassigned job for the package's own input, no friend of which was
  queued.
\<close>

definition queue_grows :: "db \<Rightarrow> db \<Rightarrow> bool" where
  "queue_grows d d' \<longleftrightarrow>
     rows (queue d') = rows (queue d) \<or>
     (\<exists>n i. rows (queue d') = rows (queue d) @ [queued_row n i] \<and>
        nq_build_input_id n \<in> ids bi_id (build_inputs d') \<and>
        \<not> has_queued_friend (nq_build_input_id n) (d'\<lparr>queue := queue d\<rparr>))"

lemma queue_if_needed_ok:
  assumes "db_ok d" "b0 \<in> set (rows (build_inputs d))" "bi_id b = bi_id b0"
  shows "\<exists>d'. queue_if_needed schedule now b d = Inr d' \<and> db_ok d' \<and> queue_grows d d' \<and>
    source_packages d' = source_packages d \<and> rebuilds d' = rebuilds d \<and>
    map (\<lambda>b. (bi_id b, input_origin b)) (rows (build_inputs d')) =
      map (\<lambda>b. (bi_id b, input_origin b)) (rows (build_inputs d))"
proof -
  have b: "bi_id b \<in> ids bi_id (build_inputs d)" using assms by auto
  obtain st where st: "get_current_rebuild_status b d = Inr st"
    using current_status_ok[OF assms(1)] .
  show ?thesis
  proof (cases "st \<noteq> Good \<and> \<not> has_queued_friend (bi_id b) d")
    case False
    with st assms(1) show ?thesis by (auto simp: queue_if_needed_def queue_grows_def)
  next
    case True
    obtain n where n: "get_largest_retry_count_among_friends (bi_id b) d = Inr n"
      using largest_retry_count[OF assms(1,2)] assms(3) by metis
    show ?thesis
    proof (cases "case max_retries schedule of None \<Rightarrow> False | Some m \<Rightarrow> m \<le> n")
      case exhausted: True
      then have "queue_if_needed schedule now b d =
          Inr (mark_build_input_friends_as_non_retriable (bi_id b) d)"
        using st True n by (simp add: queue_if_needed_def)
      with True show ?thesis
        by (simp add: db_ok_mark_non_retriable[OF assms(1)] no_queued_friend_mark queue_grows_def
            frame_simps)
    next
      case room: False
      let ?n = "\<lparr>nq_build_input_id = bi_id b,
        nq_priority = (if st = Bad then priority_retry else priority_default), nq_queued_at = now\<rparr>"
      let ?d = "snd (queue_upsert ?n d)"
      have run: "queue_if_needed schedule now b d = Inr ?d"
        using st True n room by (simp add: queue_if_needed_def)
      have frame: "build_inputs ?d = build_inputs d" "source_packages ?d = source_packages d"
        "rebuilds ?d = rebuilds d" by (simp_all add: queue_upsert_def)
      have "has_queued_friend (bi_id b) (?d\<lparr>queue := queue d\<rparr>) = has_queued_friend (bi_id b) d"
        using friends_frame[of "?d\<lparr>queue := queue d\<rparr>" d] frame by (simp add: has_queued_friend_def)
      then have "queue_grows d ?d"
        using no_queued_friend_upsert[OF assms(1) b] True b frame
        by (auto simp: queue_grows_def simp del: image_iff intro!: exI[of _ ?n])
      moreover have "db_ok ?d"
        by (rule db_ok_queue_upsert[OF assms(1)]) (use b in simp)
      ultimately show ?thesis using run frame by simp
    qed
  qed
qed

section \<open>The whole sync\<close>

text \<open>Build inputs are never removed, and never change their origin.\<close>

definition inputs_kept :: "db \<Rightarrow> db \<Rightarrow> bool" where
  "inputs_kept d d' \<longleftrightarrow>
     (\<lambda>b. (bi_id b, input_origin b)) ` set (rows (build_inputs d)) \<subseteq>
     (\<lambda>b. (bi_id b, input_origin b)) ` set (rows (build_inputs d'))"

lemma inputs_kept_refl: "build_inputs d' = build_inputs d \<Longrightarrow> inputs_kept d d'"
  by (simp add: inputs_kept_def)

lemma inputs_kept_trans: "inputs_kept d e \<Longrightarrow> inputs_kept e f \<Longrightarrow> inputs_kept d f"
  unfolding inputs_kept_def by (rule order_trans)

lemma inputs_kept_map:
  "map (\<lambda>b. (bi_id b, input_origin b)) (rows (build_inputs d')) =
     map (\<lambda>b. (bi_id b, input_origin b)) (rows (build_inputs d)) \<Longrightarrow> inputs_kept d d'"
  unfolding inputs_kept_def by (drule arg_cong[where f = set]) (simp only: list.set_map order_refl)

lemma inputs_kept_upsert: "inputs_kept d (snd (build_input_upsert n d))"
proof -
  have "build_inputs (snd (build_input_upsert n d)) = snd (build_input_table.upsert n (build_inputs d))"
    by (simp add: build_input_upsert_def)
  then show ?thesis
    unfolding inputs_kept_def
    by (simp only:) (rule build_input_table.upsert_image,
      simp add: build_input_set_def input_origin_def build_input_key_def new_build_input_key_def)
qed

lemma inputs_kept_row:
  assumes "inputs_kept d d'" "b \<in> set (rows (build_inputs d))"
  obtains b' where "b' \<in> set (rows (build_inputs d'))" "bi_id b' = bi_id b"
    "input_origin b' = input_origin b"
proof -
  from assms have "(bi_id b, input_origin b) \<in>
      (\<lambda>b. (bi_id b, input_origin b)) ` set (rows (build_inputs d'))"
    unfolding inputs_kept_def by blast
  then show thesis by (rule imageE) (use that in simp)
qed

lemma inputs_kept_ids: "inputs_kept d d' \<Longrightarrow> ids bi_id (build_inputs d) \<subseteq> ids bi_id (build_inputs d')"
  by (blast elim: inputs_kept_row intro: image_eqI[OF sym])

lemma friends_stable:
  assumes "db_ok d" "db_ok d'" "inputs_kept d d'"
    and "i \<in> ids bi_id (build_inputs d)" "j \<in> ids bi_id (build_inputs d)"
  shows "j \<in> set (build_input_friends i d') \<longleftrightarrow> j \<in> set (build_input_friends i d)"
proof -
  from assms(4,5) obtain b c where bc: "b \<in> set (rows (build_inputs d))" "bi_id b = i"
    "c \<in> set (rows (build_inputs d))" "bi_id c = j" by auto
  obtain b' where b': "b' \<in> set (rows (build_inputs d'))" "bi_id b' = i"
    "input_origin b' = input_origin b" using inputs_kept_row[OF assms(3) bc(1)] bc(2) by auto
  obtain c' where c': "c' \<in> set (rows (build_inputs d'))" "bi_id c' = j"
    "input_origin c' = input_origin c" using inputs_kept_row[OF assms(3) bc(3)] bc(4) by auto
  show ?thesis
    using friend_row[OF assms(1) bc(1) bc(3)] friend_row[OF assms(2) b'(1) c'(1)] bc b' c' by simp
qed

text \<open>The steps of one package, in their order.\<close>

lemma sync_package_steps:
  assumes "sync_package schedule now report p d = Inr d'"
  obtains s d1 b d2 d3 where
    "s = fst (source_package_upsert (new_source_of now report p) d)"
    "d1 = snd (source_package_upsert (new_source_of now report p) d)"
    "b = fst (build_input_upsert (new_input_of schedule now report p (sp_id s)) d1)"
    "d2 = snd (build_input_upsert (new_input_of schedule now report p (sp_id s)) d1)"
    "(if is_new_package report p d
      then copy_existing_rebuilds b (file_binaries report (sp_id s) (bi_id b) (spr_artifacts p) d2)
      else Inr (file_binaries report (sp_id s) (bi_id b) (spr_artifacts p) d2)) = Inr d3"
    "queue_if_needed schedule now b d3 = Inr d'"
  using assms by (auto simp: sync_package_def case_prod_beta split: sum.splits if_splits)

lemma sync_package_ok:
  assumes "db_ok d0"
  shows "\<exists>d'. sync_package schedule now report p d0 = Inr d' \<and> db_ok d' \<and> queue_grows d0 d' \<and>
    source_packages d' = snd (source_package_table.upsert (new_source_of now report p) (source_packages d0)) \<and>
    inputs_kept d0 d'"
proof -
  define s d1 where "s = fst (source_package_upsert (new_source_of now report p) d0)"
    and "d1 = snd (source_package_upsert (new_source_of now report p) d0)"
  then have d1: "source_package_upsert (new_source_of now report p) d0 = (s, d1)" by simp
  have ok1: "db_ok d1" and s: "s \<in> set (rows (source_packages d1))"
    using db_ok_source_package_upsert[OF assms] by (simp_all add: s_def d1_def)
  have frame1: "build_inputs d1 = build_inputs d0" "queue d1 = queue d0"
    "source_packages d1 = snd (source_package_table.upsert (new_source_of now report p) (source_packages d0))"
    by (simp_all add: d1_def source_package_upsert_def)
  let ?n = "new_input_of schedule now report p (sp_id s)"
  define b d2 where "b = fst (build_input_upsert ?n d1)" and "d2 = snd (build_input_upsert ?n d1)"
  then have d2: "build_input_upsert ?n d1 = (b, d2)" by simp
  have "nbi_source_package_id ?n \<in> ids sp_id (source_packages d1)"
    using s by (simp add: new_input_of_def)
  from db_ok_build_input_upsert[OF ok1 this] d2
  have ok2: "db_ok d2" by simp
  have b: "b \<in> set (rows (build_inputs d2))" using build_input_upsert_row[of ?n d1] d2 by simp
  have kept2: "inputs_kept d1 d2" using inputs_kept_upsert[of d1 ?n] d2 by simp
  have frame2: "source_packages d2 = source_packages d1" "queue d2 = queue d1"
    by (simp_all add: d2_def build_input_upsert_def)
  define d2' where "d2' = file_binaries report (sp_id s) (bi_id b) (spr_artifacts p) d2"
  have "sp_id s \<in> ids sp_id (source_packages d2)" "bi_id b \<in> ids bi_id (build_inputs d2)"
    using s b frame2 by simp_all
  from file_binaries_ok[OF ok2 this, of report "spr_artifacts p"] obtain t where
    ok2': "db_ok d2'" and t: "d2' = d2\<lparr>binary_packages := t\<rparr>" by (auto simp: d2'_def)
  define copied where "copied = (if is_new_package report p d0 then copy_existing_rebuilds b d2' else Inr d2')"
  have "\<exists>d3. copied = Inr d3 \<and> db_ok d3 \<and> only_rebuilds d2' d3"
    using copy_existing_ok[OF ok2', of b] b t ok2' by (simp add: copied_def)
  then obtain d3 where d3: "copied = Inr d3" "db_ok d3" "only_rebuilds d2' d3" by blast
  note frame3 = only_rebuilds_frame[OF d3(3)]
  have "b \<in> set (rows (build_inputs d3))" using b t frame3 by simp
  from queue_if_needed_ok[OF d3(2) this refl, of schedule now] obtain d4 where
    d4: "queue_if_needed schedule now b d3 = Inr d4" "db_ok d4" "queue_grows d3 d4"
      "source_packages d4 = source_packages d3"
      "map (\<lambda>b. (bi_id b, input_origin b)) (rows (build_inputs d4)) =
       map (\<lambda>b. (bi_id b, input_origin b)) (rows (build_inputs d3))" by blast
  have "sync_package schedule now report p d0 = Inr d4"
    using d1 d2 d3(1) d4(1) by (simp add: sync_package_def d2'_def copied_def cong: if_cong split: if_splits)
  moreover have "queue d3 = queue d0" using frame1 frame2 t frame3 by simp
  then have "queue_grows d0 d4" using d4(3) by (simp add: queue_grows_def)
  moreover have "source_packages d4 = source_packages d1" using d4(4) frame2 t frame3 by simp
  moreover have "inputs_kept d2 d3" by (rule inputs_kept_refl) (simp add: frame3(2) t)
  from inputs_kept_trans[OF inputs_kept_refl[OF frame1(1)] inputs_kept_trans[OF kept2
      inputs_kept_trans[OF this inputs_kept_map[OF d4(5)]]]]
  have "inputs_kept d0 d4" .
  ultimately show ?thesis using d4(2) by (intro exI[of _ d4] conjI) (simp_all only: frame1(3))
qed

lemma db_ok_mark_scoped [wf_intros]: "db_ok d \<Longrightarrow> db_ok (mark_scoped_packages_unseen report d)"
proof -
  assume ok: "db_ok d"
  let ?ids = "map (\<lambda>(b, s). sp_id s) (filter (in_scope report) (inputs_of_sources d))"
  have "db_ok (d\<lparr>source_packages := sql_update (\<lambda>s. sp_id s \<in> set ?ids)
      (\<lambda>s. s\<lparr>sp_seen_in_last_sync := False\<rparr>) (source_packages d)\<rparr>)"
    by (rule db_ok_source_packages_update[OF ok]) (simp_all add: source_package_key_def)
  from db_ok_binary_packages_update[OF this, of "\<lambda>p. p\<lparr>bp_seen_in_last_sync := False\<rparr>"]
  show ?thesis by (simp add: mark_scoped_packages_unseen_def Let_def binary_package_key_def)
qed

lemma mark_scoped_frame [frame_simps]:
  "queue (mark_scoped_packages_unseen report d) = queue d"
  "build_inputs (mark_scoped_packages_unseen report d) = build_inputs d"
  "rebuilds (mark_scoped_packages_unseen report d) = rebuilds d"
  by (simp_all add: mark_scoped_packages_unseen_def Let_def)

definition queued_alone :: "db \<Rightarrow> queued \<Rightarrow> bool" where
  "queued_alone d q \<longleftrightarrow> q_worker q = None \<and>
     (\<forall>q'\<in>set (rows (queue d)). q' \<noteq> q \<longrightarrow>
        q_build_input_id q' \<notin> set (build_input_friends (q_build_input_id q) d))"

text \<open>What holds after any number of packages of the report, started from \<open>d\<close>.\<close>

definition sync_progress :: "db \<Rightarrow> db \<Rightarrow> bool" where
  "sync_progress d s \<longleftrightarrow> db_ok s \<and> inputs_kept d s \<and>
     (\<exists>new. rows (queue s) = rows (queue d) @ new \<and> (\<forall>q\<in>set new. queued_alone s q))"

lemma friends_sym:
  assumes "db_ok d" "i \<in> ids bi_id (build_inputs d)" "j \<in> ids bi_id (build_inputs d)"
  shows "j \<in> set (build_input_friends i d) \<longleftrightarrow> i \<in> set (build_input_friends j d)"
  using assms friend_row[OF assms(1)] by auto

lemma queued_input: "db_ok d \<Longrightarrow> q \<in> set (rows (queue d)) \<Longrightarrow> q_build_input_id q \<in> ids bi_id (build_inputs d)"
  using db_ok_facts(25) by (auto simp: refs_def)

lemma queued_alone_step:
  assumes "db_ok s" "db_ok s'" "inputs_kept s s'" "queued_alone s q"
    and "q \<in> set (rows (queue s))" "rows (queue s') = rows (queue s)"
  shows "queued_alone s' q"
  using assms friends_stable[OF assms(1-3) queued_input[OF assms(1,5)] queued_input[OF assms(1)]]
  by (auto simp: queued_alone_def)

lemma sync_progress_step:
  assumes "sync_progress d s" "db_ok s'" "inputs_kept s s'" "queue_grows s s'"
  shows "sync_progress d s'"
proof -
  from assms(1) obtain new where s: "db_ok s" "inputs_kept d s"
    "rows (queue s) = rows (queue d) @ new" "\<forall>q\<in>set new. queued_alone s q"
    by (auto simp: sync_progress_def)
  have kept: "inputs_kept d s'" by (rule inputs_kept_trans[OF s(2) assms(3)])
  from assms(4) consider "rows (queue s') = rows (queue s)"
    | n i where "rows (queue s') = rows (queue s) @ [queued_row n i]"
      "nq_build_input_id n \<in> ids bi_id (build_inputs s')"
      "\<not> has_queued_friend (nq_build_input_id n) (s'\<lparr>queue := queue s\<rparr>)"
    unfolding queue_grows_def by blast
  then show ?thesis
  proof cases
    case 1
    have "queued_alone s' q" if "q \<in> set new" for q
      using queued_alone_step[OF s(1) assms(2,3) _ _ 1] s(3,4) that by simp
    with 1 s kept assms(2) show ?thesis unfolding sync_progress_def by auto
  next
    case (2 n i)
    let ?q = "queued_row n i"
    have i: "q_build_input_id ?q = nq_build_input_id n" by (simp add: queued_row_def)
    have nofriend: "q_build_input_id q' \<notin> set (build_input_friends (nq_build_input_id n) s')"
      if "q' \<in> set (rows (queue s))" for q'
      using 2(3) that friends_frame[of "s'\<lparr>queue := queue s\<rparr>" s']
      by (auto simp: has_queued_friend_def sql_exists_iff)
    have "queued_alone s' ?q"
      using nofriend 2(1) i by (auto simp: queued_alone_def) (simp add: queued_row_def)
    moreover have "queued_alone s' q" if q: "q \<in> set new" for q
    proof -
      have qs: "q \<in> set (rows (queue s))" "queued_alone s q" using s(3,4) q by auto
      have q': "q_build_input_id q \<in> ids bi_id (build_inputs s')"
        using queued_input[OF s(1) qs(1)] inputs_kept_ids[OF assms(3)] by blast
      have "q_build_input_id q' \<notin> set (build_input_friends (q_build_input_id q) s')"
        if "q' \<in> set (rows (queue s'))" "q' \<noteq> q" for q'
      proof (cases "q' = ?q")
        case True
        then show ?thesis using nofriend[OF qs(1)] friends_sym[OF assms(2) q' 2(2)] i by simp
      next
        case False
        with that 2(1) have "q' \<in> set (rows (queue s))" by auto
        with qs that show ?thesis
          using friends_stable[OF s(1) assms(2,3) queued_input[OF s(1) qs(1)] queued_input[OF s(1)]]
          by (auto simp: queued_alone_def)
      qed
      with qs show ?thesis by (auto simp: queued_alone_def)
    qed
    ultimately have "\<forall>q\<in>set (new @ [?q]). queued_alone s' q" by auto
    with 2(1) s(3) kept assms(2) show ?thesis
      unfolding sync_progress_def by (intro conjI exI[of _ "new @ [?q]"]) simp_all
  qed
qed

lemma sync_packages_progress:
  assumes "db_ok d"
  shows "\<exists>s. fold_result (sync_package schedule now report) ps d = Inr s \<and> sync_progress d s"
proof (rule fold_result_invariant)
  show "sync_progress d d" by (simp add: sync_progress_def assms inputs_kept_refl)
  fix p s assume s: "sync_progress d s"
  then have "db_ok s" by (simp add: sync_progress_def)
  from sync_package_ok[OF this, of schedule now report p] s
  show "\<exists>s'. sync_package schedule now report p s = Inr s' \<and> sync_progress d s'"
    using sync_progress_step by blast
qed

lemma sync_report_ok:
  assumes "db_ok d"
  obtains s where "sync_progress (mark_scoped_packages_unseen report d) s"
    "fold_result (sync_package schedule now report) (pr_packages report)
       (mark_scoped_packages_unseen report d) = Inr s"
    "sync_report schedule now report d = Inr (drop_unseen_scoped_jobs report s)"
  using sync_packages_progress[OF db_ok_mark_scoped[OF assms], where report = report
      and schedule = schedule and now = now and ps = "pr_packages report"]
  by (auto simp: sync_report_def)

lemma db_ok_submit_package_report [wf_intros]:
  assumes "db_ok d"
  shows "db_ok (snd (submit_package_report cfg req now report d))"
proof -
  obtain s where "sync_progress (mark_scoped_packages_unseen report d) s"
    "sync_report (cfg_schedule cfg) now report d = Inr (drop_unseen_scoped_jobs report s)"
    using sync_report_ok[OF assms] .
  moreover from this have "db_ok (drop_unseen_scoped_jobs report s)"
    by (simp add: sync_progress_def drop_unseen_scoped_jobs_def db_ok_queue_delete)
  ultimately show ?thesis using assms by (simp add: submit_package_report_def split: sum.split)
qed

section \<open>Properties of the sync\<close>

lemma submit_package_report_run:
  assumes "db_ok d" "admin cfg req = Inr ()"
  obtains s where "sync_progress (mark_scoped_packages_unseen report d) s"
    "fold_result (sync_package (cfg_schedule cfg) now report) (pr_packages report)
       (mark_scoped_packages_unseen report d) = Inr s"
    "submit_package_report cfg req now report d = (NoContent204, drop_unseen_scoped_jobs report s)"
proof -
  obtain s where "sync_progress (mark_scoped_packages_unseen report d) s"
    "fold_result (sync_package (cfg_schedule cfg) now report) (pr_packages report)
       (mark_scoped_packages_unseen report d) = Inr s"
    "sync_report (cfg_schedule cfg) now report d = Inr (drop_unseen_scoped_jobs report s)"
    using sync_report_ok[OF assms(1)] .
  then show thesis using assms(2) by (intro that[of s]) (simp_all add: submit_package_report_def)
qed

lemma rows_drop_unseen:
  "rows (queue (drop_unseen_scoped_jobs report s)) =
     filter (\<lambda>q. \<not> (q_worker q = None \<and> q_build_input_id q \<in> set (unseen_scoped_inputs report s)))
       (rows (queue s))"
  by (simp add: drop_unseen_scoped_jobs_def rows_delete)

text \<open>C24: On a well-formed database an authorised package report is always accepted, whatever
  packages it names, and leaves a well-formed database.\<close>

theorem package_report_accepted:
  assumes "db_ok d" "admin cfg req = Inr ()"
  shows "fst (submit_package_report cfg req now report d) = NoContent204 \<and>
    db_ok (snd (submit_package_report cfg req now report d))"
  using db_ok_submit_package_report[OF assms(1), of cfg req now report]
  by (auto intro: submit_package_report_run[OF assms, where now = now and report = report])

definition sample_report :: package_report where
  "sample_report = \<lparr>pr_distribution = ''d'', pr_release = Some ''t'', pr_component = None,
     pr_architecture = ''amd64'',
     pr_packages = [\<lparr>spr_name = ''z'', spr_version = ''1'', spr_url = ''u'',
        spr_artifacts = [\<lparr>bpr_name = ''x'', bpr_version = ''1'', bpr_architecture = ''amd64'',
          bpr_url = ''a''\<rparr>],
        spr_fbsd_ports_top_git_hash = None, spr_fbsd_build_timestamp = None,
        spr_fbsd_ports_top_git_timestamp = None\<rparr>]\<rparr>"

lemma sample_admin_ok: "admin sample_cfg sample_req = Inr ()"
  by (simp add: admin_def header_def sample_cfg_def sample_req_def)

theorem package_report_accepted_witness:
  "fst (submit_package_report sample_cfg sample_req 20 sample_report sample_db) = NoContent204 \<and>
    db_ok (snd (submit_package_report sample_cfg sample_req 20 sample_report sample_db))"
  by (rule package_report_accepted[OF sample_db_ok(1) sample_admin_ok])

text \<open>A sync never takes a job away from a worker: the queue row of every running job is
  unchanged by every package report, even if the report no longer names its package.\<close>

theorem sync_keeps_running_jobs:
  assumes "db_ok d" "q \<in> set (rows (queue d))" "q_worker q \<noteq> None"
  shows "q \<in> set (rows (queue (snd (submit_package_report cfg req now report d))))"
proof (cases "admin cfg req")
  case (Inl e)
  with assms show ?thesis by (simp add: submit_package_report_def)
next
  case (Inr u)
  then have "admin cfg req = Inr ()" by simp
  then obtain s where s: "sync_progress (mark_scoped_packages_unseen report d) s"
    "submit_package_report cfg req now report d = (NoContent204, drop_unseen_scoped_jobs report s)"
    by (rule submit_package_report_run[OF assms(1), where now = now and report = report]) auto
  then have "q \<in> set (rows (queue s))" using assms(2) by (auto simp: sync_progress_def frame_simps)
  with s(2) assms(3) show ?thesis by (simp add: rows_drop_unseen)
qed

theorem sync_keeps_running_jobs_witness:
  "sample_held \<in> set (rows (queue (snd (submit_package_report sample_cfg sample_req 20
     sample_report sample_db_held))))"
  by (rule sync_keeps_running_jobs[OF sample_db_ok(2)])
    (simp_all add: sample_db_held_def sample_db_with_def sample_held_def)

text \<open>C10: A job that a sync adds is unassigned, and no friend of its build input is queued beside
  it: packages that several releases share are rebuilt once.\<close>

theorem sync_queues_no_second_friend:
  assumes "db_ok d" and "d' = snd (submit_package_report cfg req now report d)"
    and "q \<in> set (rows (queue d'))" "q \<notin> set (rows (queue d))"
  shows "q_worker q = None \<and> (\<forall>q'\<in>set (rows (queue d')). q' \<noteq> q \<longrightarrow>
    q_build_input_id q' \<notin> set (build_input_friends (q_build_input_id q) d'))"
proof (cases "admin cfg req")
  case (Inl e)
  with assms show ?thesis by (simp add: submit_package_report_def)
next
  case (Inr u)
  then have "admin cfg req = Inr ()" by simp
  then obtain s where s: "sync_progress (mark_scoped_packages_unseen report d) s"
    "submit_package_report cfg req now report d = (NoContent204, drop_unseen_scoped_jobs report s)"
    by (rule submit_package_report_run[OF assms(1), where now = now and report = report]) auto
  then have d': "d' = drop_unseen_scoped_jobs report s" using assms(2) by simp
  have "q \<in> set (rows (queue s))" using assms(3) by (simp add: d' rows_drop_unseen)
  with s(1) assms(4) have "queued_alone s q" by (auto simp: sync_progress_def frame_simps)
  moreover have "build_input_friends i d' = build_input_friends i s" for i
    by (rule friends_frame) (simp add: d' drop_unseen_scoped_jobs_def)
  ultimately show ?thesis by (auto simp: queued_alone_def d' rows_drop_unseen)
qed

definition sample_empty_queue :: db where "sample_empty_queue = sample_db_with []"

lemma sample_empty_queue_ok: "db_ok sample_empty_queue"
  unfolding sample_empty_queue_def
  by (rule sample_db_with_ok) (simp_all add: unique_on_def wf_table_def)

lemma sample_sync_queues:
  "map q_build_input_id (rows (queue (snd (submit_package_report sample_cfg sample_req 20
     sample_report sample_empty_queue)))) = [3]"
  by code_simp

theorem sync_queues_no_second_friend_witness:
  "\<exists>q. q \<in> set (rows (queue (snd (submit_package_report sample_cfg sample_req 20
     sample_report sample_empty_queue)))) \<and> q_worker q = None"
proof -
  obtain q where q: "q \<in> set (rows (queue (snd (submit_package_report sample_cfg sample_req 20
     sample_report sample_empty_queue))))"
    using sample_sync_queues by (metis list.map_disc_iff list.set_intros(1) neq_Nil_conv)
  have "q \<notin> set (rows (queue sample_empty_queue))"
    by (simp add: sample_empty_queue_def sample_db_with_def)
  from sync_queues_no_second_friend[OF sample_empty_queue_ok refl q this] q show ?thesis by blast
qed

text \<open>After a sync no unassigned job is left for a package of the report's scope that the
  report did not see.\<close>

theorem sync_drops_unseen_jobs:
  assumes "db_ok d" "admin cfg req = Inr ()"
    and "d' = snd (submit_package_report cfg req now report d)"
    and "q \<in> set (rows (queue d'))" "q_build_input_id q = bi_id b"
    and "b \<in> set (rows (build_inputs d'))" "s \<in> set (rows (source_packages d'))"
    and "bi_source_package_id b = sp_id s" "in_scope report (b, s)" "\<not> sp_seen_in_last_sync s"
  shows "q_worker q \<noteq> None"
proof -
  obtain e where e: "submit_package_report cfg req now report d = (NoContent204, drop_unseen_scoped_jobs report e)"
    by (rule submit_package_report_run[OF assms(1,2), where now = now and report = report]) auto
  then have d': "d' = drop_unseen_scoped_jobs report e" using assms(3) by simp
  have "bi_id b \<in> set (unseen_scoped_inputs report e)"
    using assms(6-10)
    by (force simp: d' drop_unseen_scoped_jobs_def unseen_scoped_inputs_def inputs_of_sources_def
        set_inner_join)
  with assms(4,5) show ?thesis by (auto simp: d' rows_drop_unseen)
qed

definition sample_empty_report :: package_report where
  "sample_empty_report = sample_report\<lparr>pr_release := Some ''r'', pr_packages := []\<rparr>"

lemma sample_sync_unseen:
  "sample_held \<in> set (rows (queue (snd (submit_package_report sample_cfg sample_req 20
     sample_empty_report sample_db_held))))"
  "sample_input 1 1 \<in> set (rows (build_inputs (snd (submit_package_report sample_cfg sample_req 20
     sample_empty_report sample_db_held))))"
  "sample_source 1 ''r''\<lparr>sp_seen_in_last_sync := False\<rparr> \<in> set (rows (source_packages (snd
     (submit_package_report sample_cfg sample_req 20 sample_empty_report sample_db_held))))"
  by code_simp+

theorem sync_drops_unseen_jobs_witness:
  "q_worker sample_held \<noteq> None"
  by (rule sync_drops_unseen_jobs[OF sample_db_ok(2) sample_admin_ok refl sample_sync_unseen(1) _
        sample_sync_unseen(2,3)])
    (simp_all add: sample_rows in_scope_def sample_empty_report_def sample_report_def)

section \<open>Seen flags\<close>

definition report_key :: "package_report \<Rightarrow> source_package_report \<Rightarrow> string \<times> string \<times> string \<times> string \<times> string" where
  "report_key report p = (spr_name p, spr_version p, pr_distribution report,
     coalesce_placeholder (pr_release report), coalesce_placeholder (pr_component report))"

lemma report_key_new: "new_source_package_key (new_source_of now report p) = report_key report p"
  by (simp add: new_source_package_key_def new_source_of_def report_key_def)

lemma source_upsert_fst:
  "\<exists>i. fst (source_package_table.upsert n t) = source_package_row n i"
  by (auto simp: sql_upsert_def sql_insert_def source_package_set_def split: option.split)

lemma sync_packages_sources:
  assumes "fold_result (sync_package schedule now report) ps d = Inr e" "db_ok d"
  shows "(\<forall>r\<in>set (rows (source_packages e)). source_package_key r \<in> report_key report ` set ps \<longrightarrow>
      (\<exists>p\<in>set ps. \<exists>i. r = source_package_row (new_source_of now report p) i)) \<and>
    (\<forall>r. source_package_key r \<notin> report_key report ` set ps \<longrightarrow>
      r \<in> set (rows (source_packages e)) \<longleftrightarrow> r \<in> set (rows (source_packages d))) \<and>
    (\<forall>p\<in>set ps. \<exists>r\<in>set (rows (source_packages e)). source_package_key r = report_key report p)"
  using assms
proof (induction ps arbitrary: d)
  case Nil
  then show ?case by simp
next
  case (Cons p ps)
  let ?n = "new_source_of now report p"
  obtain s where s: "sync_package schedule now report p d = Inr s" "db_ok s"
    "source_packages s = snd (source_package_table.upsert ?n (source_packages d))"
    using sync_package_ok[OF Cons.prems(2), of schedule now report p] by blast
  let ?r0 = "fst (source_package_table.upsert ?n (source_packages d))"
  have rows: "set (rows (source_packages s)) =
      insert ?r0 {r \<in> set (rows (source_packages d)). source_package_key r \<noteq> report_key report p}"
    using source_package_table.upsert_rows[OF db_ok_facts(15)[OF Cons.prems(2)], of ?n]
    by (simp only: s(3) report_key_new)
  have key0: "source_package_key ?r0 = report_key report p"
    using source_package_table.upsert_row_key[of ?n] by (simp only: report_key_new)
  obtain i0 where r0: "?r0 = source_package_row ?n i0" using source_upsert_fst by blast
  have "fold_result (sync_package schedule now report) ps s = Inr e" using Cons.prems(1) s(1) by simp
  note IH = Cons.IH[OF this s(2)]
  show ?case
  proof (intro conjI ballI allI impI)
    fix r assume r: "r \<in> set (rows (source_packages e))"
      "source_package_key r \<in> report_key report ` set (p # ps)"
    show "\<exists>p\<in>set (p # ps). \<exists>i. r = source_package_row (new_source_of now report p) i"
    proof (cases "source_package_key r \<in> report_key report ` set ps")
      case True
      with IH r show ?thesis by (metis list.set_intros(2))
    next
      case False
      with IH r have "r \<in> set (rows (source_packages s))" by blast
      moreover have "source_package_key r = report_key report p" using r(2) False by simp
      ultimately have "r = ?r0" using rows by blast
      with r0 show ?thesis by (metis list.set_intros(1))
    qed
  next
    fix r assume "source_package_key r \<notin> report_key report ` set (p # ps)"
    then show "r \<in> set (rows (source_packages e)) \<longleftrightarrow> r \<in> set (rows (source_packages d))"
      using IH rows key0 by auto
  next
    fix p' assume "p' \<in> set (p # ps)"
    show "\<exists>r\<in>set (rows (source_packages e)). source_package_key r = report_key report p'"
    proof (cases "report_key report p' \<in> report_key report ` set ps")
      case True
      then show ?thesis using IH by (metis imageE)
    next
      case False
      with \<open>p' \<in> _\<close> have "p' = p" by auto
      moreover have "?r0 \<in> set (rows (source_packages e))"
        using IH rows key0 False \<open>p' = p\<close> by auto
      ultimately show ?thesis using key0 by metis
    qed
  qed
qed

definition marked_unseen :: "package_report \<Rightarrow> db \<Rightarrow> source_package \<Rightarrow> source_package" where
  "marked_unseen report d s0 = (if \<exists>b\<in>set (rows (build_inputs d)).
       bi_source_package_id b = sp_id s0 \<and> in_scope report (b, s0)
     then s0\<lparr>sp_seen_in_last_sync := False\<rparr> else s0)"

lemma scoped_source_ids:
  assumes "db_ok d" "s0 \<in> set (rows (source_packages d))"
  shows "sp_id s0 \<in> set (map (\<lambda>(b, s). sp_id s) (filter (in_scope report) (inputs_of_sources d))) \<longleftrightarrow>
    (\<exists>b\<in>set (rows (build_inputs d)). bi_source_package_id b = sp_id s0 \<and> in_scope report (b, s0))"
    (is "?l \<longleftrightarrow> ?r")
proof
  assume ?l
  then obtain b s1 where bs: "b \<in> set (rows (build_inputs d))" "s1 \<in> set (rows (source_packages d))"
    "sp_id s1 = bi_source_package_id b" "in_scope report (b, s1)" "sp_id s0 = sp_id s1"
    by (auto simp: inputs_of_sources_def set_inner_join)
  then have "s1 = s0"
    using wf_table_id_unique[OF db_ok_facts(13)[OF assms(1)] bs(2) assms(2)] by simp
  then have "bi_source_package_id b = sp_id s0 \<and> in_scope report (b, s0)"
    using bs(3,4) by simp
  with bs(1) show ?r by (rule bexI[rotated])
next
  assume ?r
  then show ?l using assms(2) by (force simp: inputs_of_sources_def set_inner_join)
qed

lemma rows_marked_unseen:
  assumes "db_ok d"
  shows "rows (source_packages (mark_scoped_packages_unseen report d)) =
    map (marked_unseen report d) (rows (source_packages d))"
  using scoped_source_ids[OF assms, of _ report]
  by (simp add: mark_scoped_packages_unseen_def Let_def rows_update marked_unseen_def del: set_map)



section \<open>Copied rebuilds\<close>

lemma artifacts_of_copy:
  assumes "new_id \<noteq> rid"
  shows "artifacts_of (copy_artifacts rid new_id d) i =
    (if i = new_id then artifacts_of d new_id @ artifacts_of d rid else artifacts_of d i)"
proof -
  let ?f = "\<lambda>a d. rebuild_artifact_insert
         \<lparr>nra_rebuild_id = new_id, nra_name = ra_name a,
          nra_diffoscope_log_id = ra_diffoscope_log_id a,
          nra_attestation_log_id = ra_attestation_log_id a, nra_status = ra_status a\<rparr> d"
  have "artifacts_of (fold ?f as d) i = artifacts_of d i @ (if i = new_id then
      map (\<lambda>a. (ra_name a, ra_diffoscope_log_id a, ra_attestation_log_id a, ra_status a)) as else [])" for as
    by (induction as arbitrary: d) (simp_all add: artifacts_of_insert)
  from this[of "filter (\<lambda>a. ra_rebuild_id a = rid) (rows (rebuild_artifacts d))"]
  show ?thesis by (simp add: copy_artifacts_def artifacts_of_def[of d rid])
qed

lemma copy_rebuild_history:
  assumes "db_ok d" "i \<in> ids bi_id (build_inputs d)" "r \<in> set (rows (rebuilds d))"
  shows "\<exists>d' r'. copy_rebuild i (rb_id r) d = Inr d' \<and> db_ok d' \<and> only_rebuilds d d' \<and>
    rows (rebuilds d') = rows (rebuilds d) @ [r'] \<and> rb_build_input_id r' = i \<and>
    history_entry d' r' = history_entry d r \<and>
    (\<forall>r0\<in>set (rows (rebuilds d)). history_entry d' r0 = history_entry d r0)"
proof -
  let ?n = "\<lparr>nrb_build_input_id = i, nrb_started_at = rb_started_at r,
      nrb_built_at = rb_built_at r, nrb_build_log_id = rb_build_log_id r, nrb_status = rb_status r\<rparr>"
  let ?new = "seq (rebuilds d) + 1"
  have one: "filter (\<lambda>r'. rb_id r' = rb_id r) (rows (rebuilds d)) = [r]"
    by (rule filter_unique) (simp_all add: assms db_ok_facts wf_table_distinct)
  have bound: "rb_id r0 \<noteq> ?new" if "r0 \<in> set (rows (rebuilds d))" for r0
    using db_ok_facts(8)[OF assms(1)] that by (fastforce simp: wf_table_def)
  have fresh: "artifacts_of d ?new = []"
    using db_ok_facts(28)[OF assms(1)] bound
    by (fastforce simp: artifacts_of_def refs_def filter_empty_conv)
  let ?e = "snd (rebuild_insert ?n d)"
  have run: "copy_rebuild i (rb_id r) d = Inr (copy_artifacts (rb_id r) ?new ?e)"
    by (simp add: copy_rebuild_def one rebuild_insert_def sql_insert_def)
  obtain d' where d': "copy_rebuild i (rb_id r) d = Inr d'" "db_ok d'" "only_rebuilds d d'"
    using copy_rebuild_ok[OF assms(1,2), of "rb_id r"] assms(3) by auto
  have art: "artifacts_of ?e j = artifacts_of d j" for j
    by (simp add: artifacts_of_def rebuild_insert_def)
  have "db_ok ?e"
    by (rule db_ok_rebuild_insert)
      (use assms db_ok_facts(27)[OF assms(1)] db_ok_facts(34)[OF assms(1,3)]
        in \<open>auto simp: refs_def rebuild_ok_def\<close>)
  moreover have "?new \<in> ids rb_id (rebuilds ?e)" by (simp add: rebuild_insert_def rows_insert)
  ultimately have "rebuilds (copy_artifacts (rb_id r) ?new ?e) = rebuilds ?e"
    by (simp add: copy_artifacts_ok)
  then have "rows (rebuilds d') = rows (rebuilds d) @ [rebuild_row ?n ?new]"
    using run d'(1) by (simp add: rebuild_insert_def rows_insert)
  moreover have "history_entry d' (rebuild_row ?n ?new) = history_entry d r"
    using run d'(1) bound[OF assms(3)] fresh
    by (auto simp: history_entry_def artifacts_of_copy art)
  moreover have "history_entry d' r0 = history_entry d r0" if "r0 \<in> set (rows (rebuilds d))" for r0
    using run d'(1) bound[OF assms(3)] bound[OF that]
    by (auto simp: history_entry_def artifacts_of_copy art)
  ultimately show ?thesis using d'
    by (intro exI[of _ d'] exI[of _ "rebuild_row ?n ?new"]) simp
qed

lemma copy_rebuilds_history:
  assumes "db_ok d" "i \<in> ids bi_id (build_inputs d)" "set rs \<subseteq> set (rows (rebuilds d))"
  shows "\<exists>d' new. fold_result (copy_rebuild i) (map rb_id rs) d = Inr d' \<and>
    rows (rebuilds d') = rows (rebuilds d) @ new \<and> (\<forall>r\<in>set new. rb_build_input_id r = i) \<and>
    map (history_entry d') new = map (history_entry d) rs \<and>
    (\<forall>r0\<in>set (rows (rebuilds d)). history_entry d' r0 = history_entry d r0)"
  using assms
proof (induction rs arbitrary: d)
  case Nil
  then show ?case by simp
next
  case (Cons r rs)
  have r: "r \<in> set (rows (rebuilds d))" using Cons.prems by simp
  obtain e r' where e: "copy_rebuild i (rb_id r) d = Inr e" "db_ok e" "only_rebuilds d e"
    "rows (rebuilds e) = rows (rebuilds d) @ [r']" "rb_build_input_id r' = i"
    "history_entry e r' = history_entry d r"
    "\<forall>r0\<in>set (rows (rebuilds d)). history_entry e r0 = history_entry d r0"
    using copy_rebuild_history[OF Cons.prems(1,2) r] by blast
  have "i \<in> ids bi_id (build_inputs e)" using Cons.prems(2) only_rebuilds_frame(2)[OF e(3)] by simp
  moreover have "set rs \<subseteq> set (rows (rebuilds e))" using Cons.prems(3) e(4) by auto
  ultimately obtain d' new where d': "fold_result (copy_rebuild i) (map rb_id rs) e = Inr d'"
    "rows (rebuilds d') = rows (rebuilds e) @ new" "\<forall>r\<in>set new. rb_build_input_id r = i"
    "map (history_entry d') new = map (history_entry e) rs"
    "\<forall>r0\<in>set (rows (rebuilds e)). history_entry d' r0 = history_entry e r0"
    using Cons.IH[OF e(2)] by blast
  have "map (history_entry e) rs = map (history_entry d) rs" using e(7) Cons.prems(3) by auto
  then show ?case using d' e
    by (intro exI[of _ d'] exI[of _ "r' # new"]) auto
qed


lemma sample_friends: "build_input_friends 1 sample_db = [1, 2]"
  by code_simp


end
