(* ===== verification/Utils.thy ===== *)
theory Utils
  imports ApiTypes
begin

text \<open>
  \<open>common/src/utils.rs\<close>: durations for humans, and the zstd wrappers. The zstd library is
  a parameter: \<open>enc\<close> is the encoder's whole output for a list of written slices, \<open>dec_read\<close>
  one call of \<open>Decoder::read\<close> on the state of the decoder.
\<close>

text \<open>\<open>format!("{:2}u", n)\<close>: right-aligned to two columns. Rust's \<open>/\<close> and \<open>%\<close> truncate.\<close>

definition pad2 :: "string \<Rightarrow> string" where
  "pad2 s = replicate (2 - length s) CHR '' '' @ s"

definition rust_div :: "int \<Rightarrow> int \<Rightarrow> int" where
  "rust_div a b = sgn a * sgn b * (\<bar>a\<bar> div \<bar>b\<bar>)"

definition rust_mod :: "int \<Rightarrow> int \<Rightarrow> int" where
  "rust_mod a b = a - rust_div a b * b"

fun join_with :: "string \<Rightarrow> string list \<Rightarrow> string" where
  "join_with sep [] = []"
| "join_with sep [s] = s"
| "join_with sep (s # t # ts) = s @ sep @ join_with sep (t # ts)"

definition secs_to_human :: "int \<Rightarrow> string" where
  "secs_to_human duration =
     (let secs = rust_mod duration 60;
          mins = rust_div duration 60;
          hours = rust_div mins 60;
          mins = rust_mod mins 60
      in join_with '' ''
           ((if hours > 0 then [pad2 (show_int hours) @ ''h''] else []) @
            (if mins > 0 \<or> hours > 0 then [pad2 (show_int mins) @ ''m''] else []) @
            [pad2 (show_int secs) @ ''s'']))"

definition zstd_magic :: bytes where
  "zstd_magic = [0x28, 0xb5, 0x2f, 0xfd]"

definition zstd_chunk_size :: nat where
  "zstd_chunk_size = 1024 * 128"

definition is_zstd_compressed :: "bytes \<Rightarrow> bool" where
  "is_zstd_compressed d \<longleftrightarrow> take 4 d = zstd_magic"

text \<open>\<open>data.chunks(n)\<close>.\<close>

function chunks :: "nat \<Rightarrow> 'a list \<Rightarrow> 'a list list" where
  "chunks n d = (if n = 0 \<or> d = [] then [] else take n d # chunks n (drop n d))"
  by auto
termination by (relation "measure (length \<circ> snd)") auto

declare chunks.simps [simp del]

definition zstd_compress :: "(bytes list \<Rightarrow> bytes result) \<Rightarrow> bytes \<Rightarrow> bytes result" where
  "zstd_compress enc d = enc (chunks zstd_chunk_size d)"

text \<open>
  The read loop. \<open>dec_read st\<close> is the next read into the buffer: an error, or the bytes it
  stored and the decoder's new state; a read of no bytes ends the loop. The loop has fuel
  because the decoder is not code of the repository.
\<close>

fun zstd_read_loop :: "nat \<Rightarrow> ('st \<Rightarrow> (bytes \<times> 'st) result) \<Rightarrow> 'st \<Rightarrow> bytes \<Rightarrow> bytes result option" where
  "zstd_read_loop 0 dec_read st data = None"
| "zstd_read_loop (Suc fuel) dec_read st data =
     (case dec_read st of
        Inl e \<Rightarrow> Some (Inl e)
      | Inr (buf, st') \<Rightarrow>
          if buf = [] then Some (Inr data)
          else zstd_read_loop fuel dec_read st' (data @ buf))"

definition zstd_decompress ::
  "nat \<Rightarrow> (bytes \<Rightarrow> 'st result) \<Rightarrow> ('st \<Rightarrow> (bytes \<times> 'st) result) \<Rightarrow> bytes \<Rightarrow> bytes result option" where
  "zstd_decompress fuel dec_new dec_read d =
     (case dec_new d of Inl e \<Rightarrow> Some (Inl e) | Inr st \<Rightarrow> zstd_read_loop fuel dec_read st [])"

lemma concat_chunks: "0 < n \<Longrightarrow> concat (chunks n d) = d"
proof (induction n d rule: chunks.induct)
  case (1 n d)
  then show ?case by (subst chunks.simps) auto
qed

lemma chunks_bound: "c \<in> set (chunks n d) \<Longrightarrow> c \<noteq> [] \<and> length c \<le> n"
proof (induction n d arbitrary: c rule: chunks.induct)
  case (1 n d)
  from 1(2) show ?case
    by (subst (asm) chunks.simps) (use 1(1) in \<open>auto split: if_splits\<close>)
qed

text \<open>A decoder that has \<open>out\<close> still to give, in reads of at most \<open>n\<close> bytes.\<close>

lemma zstd_read_loop_reads:
  assumes reads: "\<And>out. read out = Inr (take (k out) out, drop (k out) out)"
    and progress: "\<And>out. out \<noteq> [] \<Longrightarrow> 0 < k out"
  shows "length out < fuel \<Longrightarrow> zstd_read_loop fuel read out data = Some (Inr (data @ out))"
proof (induction fuel arbitrary: out data)
  case 0
  then show ?case by simp
next
  case (Suc fuel)
  show ?case
  proof (cases "out = []")
    case True
    then show ?thesis by (simp add: reads)
  next
    case False
    have "length (drop (k out) out) < fuel"
      using Suc.prems False progress[OF False] by (cases out) auto
    from Suc.IH[OF this, of "data @ take (k out) out"] show ?thesis
      using False progress[OF False] by (simp add: reads)
  qed
qed

end
