(* ===== verification/Builds.thy ===== *)
theory Builds
  imports Auth Friends Filters Pagination Utils
begin

text \<open>
  Rebuild results (\<open>daemon/src/api/v1/build.rs\<close>, \<open>forward_compressed_data\<close> of
  \<open>daemon/src/api/mod.rs\<close>). \<open>submit_rebuild_report\<close> is not one transaction: an error in the
  middle answers 500 and keeps what was written before, so its steps return their result with the
  database they leave. The zstd encoder and decoder and the signing of attestations are
  parameters (\<open>enc\<close>, \<open>dec\<close>, \<open>sign\<close>).
\<close>

section \<open>Compression\<close>

type_synonym encoder = "bytes list \<Rightarrow> bytes result"

definition ensure_compressed :: "encoder \<Rightarrow> bytes \<Rightarrow> bytes result" where
  "ensure_compressed enc b = (if is_zstd_compressed b then Inr b else zstd_compress enc b)"

definition ensure_compressed_opt :: "encoder \<Rightarrow> bytes option \<Rightarrow> bytes option result" where
  "ensure_compressed_opt enc b =
     (case b of None \<Rightarrow> Inr None | Some b \<Rightarrow> map_sum id Some (ensure_compressed enc b))"

record http_body =
  content_type :: string
  zstd_encoded :: bool
  body :: bytes

definition forward_compressed_data ::
  "(bytes \<Rightarrow> bytes result) \<Rightarrow> http_request \<Rightarrow> string \<Rightarrow> bytes \<Rightarrow> http_body response" where
  "forward_compressed_data dec req ct data =
     (if is_zstd_compressed data then
        if rq_accepts_zstd req then
          Ok200 \<lparr>content_type = ct, zstd_encoded = True, body = data\<rparr>
        else
          (case dec data of
             Inl _ \<Rightarrow> Error500
           | Inr decoded \<Rightarrow> Ok200 \<lparr>content_type = ct, zstd_encoded = False, body = decoded\<rparr>)
      else Ok200 \<lparr>content_type = ct, zstd_encoded = False, body = data\<rparr>)"

section \<open>Recording a report\<close>

type_synonym log_ids = "int option \<times> int option"

definition insert_artifact_logs ::
  "encoder \<Rightarrow> rebuild_artifact_report \<Rightarrow> db \<Rightarrow> log_ids result \<times> db" where
  "insert_artifact_logs enc a d =
     (case ensure_compressed_opt enc (rar_diffoscope a) of
        Inl e \<Rightarrow> (Inl e, d)
      | Inr encoded_diffoscope \<Rightarrow>
         (case ensure_compressed_opt enc (rar_attestation a) of
            Inl e \<Rightarrow> (Inl e, d)
          | Inr encoded_attestation \<Rightarrow>
             (case (case encoded_diffoscope of
                      None \<Rightarrow> (None, d)
                    | Some log \<Rightarrow> map_prod Some id (diffoscope_log_insert log d)) of
                (new_diffoscope_id, d1) \<Rightarrow>
                  (case (case encoded_attestation of
                           None \<Rightarrow> (None, d1)
                         | Some log \<Rightarrow> map_prod Some id (attestation_log_insert log d1)) of
                     (new_attestation_id, d2) \<Rightarrow>
                       (Inr (new_diffoscope_id, new_attestation_id), d2)))))"

text \<open>The hash map \<open>artifact_logs\<close> is shared by all friends: the logs of a name are stored once.\<close>

definition record_artifact ::
  "encoder \<Rightarrow> int \<Rightarrow> rebuild_artifact_report \<Rightarrow> (string \<Rightarrow> log_ids option) \<Rightarrow> db \<Rightarrow>
   (string \<Rightarrow> log_ids option) result \<times> db" where
  "record_artifact enc new_rebuild_id a logs d =
     (case (case logs (rar_name a) of
              Some l \<Rightarrow> (Inr l, d)
            | None \<Rightarrow> insert_artifact_logs enc a d) of
        (Inl e, d1) \<Rightarrow> (Inl e, d1)
      | (Inr l, d1) \<Rightarrow>
          (Inr (logs(rar_name a \<mapsto> l)),
           rebuild_artifact_insert
             \<lparr>nra_rebuild_id = new_rebuild_id, nra_name = rar_name a,
              nra_diffoscope_log_id = fst l, nra_attestation_log_id = snd l,
              nra_status = Some (artifact_status_as_str (rar_status a))\<rparr> d1))"

fun record_artifacts ::
  "encoder \<Rightarrow> int \<Rightarrow> rebuild_artifact_report list \<Rightarrow> (string \<Rightarrow> log_ids option) \<Rightarrow> db \<Rightarrow>
   (string \<Rightarrow> log_ids option) result \<times> db" where
  "record_artifacts enc i [] logs d = (Inr logs, d)"
| "record_artifacts enc i (a # as) logs d =
     (case record_artifact enc i a logs d of
        (Inl e, d1) \<Rightarrow> (Inl e, d1)
      | (Inr logs1, d1) \<Rightarrow> record_artifacts enc i as logs1 d1)"

fun record_friends ::
  "encoder \<Rightarrow> rebuild_report \<Rightarrow> queued \<Rightarrow> int \<Rightarrow> int list \<Rightarrow> (string \<Rightarrow> log_ids option) \<Rightarrow> db \<Rightarrow>
   unit result \<times> db" where
  "record_friends enc report queued new_log_id [] logs d = (Inr (), d)"
| "record_friends enc report queued new_log_id (i # is) logs d =
     (case rebuild_insert
             \<lparr>nrb_build_input_id = i, nrb_started_at = q_started_at queued,
              nrb_built_at = Some (rr_built_at report), nrb_build_log_id = new_log_id,
              nrb_status = Some (build_status_as_str (rr_status report))\<rparr> d of
        (new_rebuild_id, d1) \<Rightarrow>
          (case record_artifacts enc new_rebuild_id (rr_artifacts report) logs d1 of
             (Inl e, d2) \<Rightarrow> (Inl e, d2)
           | (Inr logs2, d2) \<Rightarrow> record_friends enc report queued new_log_id is logs2 d2))"

definition increment_retries :: "int list \<Rightarrow> db \<Rightarrow> db" where
  "increment_retries is d =
     d\<lparr>build_inputs := sql_update (\<lambda>b. bi_id b \<in> set is) (\<lambda>b. b\<lparr>bi_retries := bi_retries b + 1\<rparr>)
        (build_inputs d)\<rparr>"

definition set_next_retries :: "int list \<Rightarrow> time \<Rightarrow> db \<Rightarrow> db" where
  "set_next_retries is t d =
     d\<lparr>build_inputs := sql_update (\<lambda>b. bi_id b \<in> set is) (\<lambda>b. b\<lparr>bi_next_retry := Some t\<rparr>)
        (build_inputs d)\<rparr>"

definition retry_time :: "schedule_config \<Rightarrow> time \<Rightarrow> int \<Rightarrow> time" where
  "retry_time schedule now retry_count =
     now + seconds ((retry_count + 1) * retry_delay_base schedule * 3600)"

text \<open>What follows a result that is not good: count the retry, then give up or requeue.\<close>

definition schedule_retry ::
  "schedule_config \<Rightarrow> time \<Rightarrow> int \<Rightarrow> int list \<Rightarrow> db \<Rightarrow> unit response \<times> db" where
  "schedule_retry schedule now build_input_id friends d0 =
     (let d = increment_retries friends d0
      in case get_largest_retry_count_among_friends build_input_id d of
           Inl _ \<Rightarrow> (Error500, d)
         | Inr retry_count \<Rightarrow>
             if (case max_retries schedule of None \<Rightarrow> False | Some m \<Rightarrow> m \<le> retry_count) then
               (NoContent204, mark_build_input_friends_as_non_retriable build_input_id d)
             else
               (NoContent204, snd (queue_upsert
                  \<lparr>nq_build_input_id = build_input_id, nq_priority = priority_retry,
                   nq_queued_at = now\<rparr>
                  (set_next_retries friends (retry_time schedule now retry_count) d))))"

definition record_report ::
  "encoder \<Rightarrow> schedule_config \<Rightarrow> time \<Rightarrow> rebuild_report \<Rightarrow> queued \<Rightarrow> db \<Rightarrow> unit response \<times> db" where
  "record_report enc schedule now report queued d =
     (let friends = get_build_input_friends (q_build_input_id queued) d
      in case ensure_compressed enc (rr_build_log report) of
           Inl _ \<Rightarrow> (Error500, d)
         | Inr encoded_log \<Rightarrow>
            (case build_log_insert encoded_log d of
               (new_log_id, d1) \<Rightarrow>
                 (case record_friends enc report queued new_log_id friends Map.empty d1 of
                    (Inl _, d2) \<Rightarrow> (Error500, d2)
                  | (Inr _, d2) \<Rightarrow>
                      if rr_status report \<noteq> Good then
                        schedule_retry schedule now (q_build_input_id queued) friends
                          (queued_delete queued d2)
                      else (NoContent204, queued_delete queued d2))))"

definition submit_rebuild_report ::
  "encoder \<Rightarrow> config \<Rightarrow> http_request \<Rightarrow> time \<Rightarrow> time \<Rightarrow> rebuild_report \<Rightarrow> db \<Rightarrow> unit response \<times> db" where
  "submit_rebuild_report enc cfg req now_auth now report d0 =
     (case auth_worker cfg req now_auth d0 of
        (Inl _, d) \<Rightarrow> (Forbidden403, d)
      | (Inr _, d) \<Rightarrow>
         (case filter (\<lambda>q. q_id q = rr_queue_id report) (rows (queue d)) of
            [] \<Rightarrow> (Error500, d)
          | queued # _ \<Rightarrow> record_report enc (cfg_schedule cfg) now report queued d))"

section \<open>Reading builds\<close>

type_synonym build_row = "rebuild \<times> build_input \<times> source_package"

definition builds_base :: "db \<Rightarrow> build_row list" where
  "builds_base d =
     inner_join (\<lambda>r bs. rb_build_input_id r = bi_id (fst bs)) (rows (rebuilds d))
       (inner_join (\<lambda>b s. bi_source_package_id b = sp_id s) (rows (build_inputs d))
          (rows (source_packages d)))"

fun to_rebuild_view :: "build_row \<Rightarrow> rebuild_view" where
  "to_rebuild_view (r, b, s) =
     \<lparr>rv_id = rb_id r, rv_name = sp_name s, rv_version = sp_version s,
      rv_distribution = sp_distribution s, rv_release = sp_release s,
      rv_component = sp_component s, rv_architecture = bi_architecture b,
      rv_backend = bi_backend b, rv_retries = bi_retries b, rv_started_at = rb_started_at r,
      rv_built_at = rb_built_at r, rv_status = rb_status r\<rparr>"

definition rebuild_columns :: "rebuild_view columns" where
  "rebuild_columns =
     [(''id'', \<lambda>v. Int_value (rv_id v)), (''name'', \<lambda>v. Text_value (rv_name v)),
      (''version'', \<lambda>v. Text_value (rv_version v)),
      (''distribution'', \<lambda>v. Text_value (rv_distribution v)),
      (''release'', \<lambda>v. opt_text_value (rv_release v)),
      (''component'', \<lambda>v. opt_text_value (rv_component v)),
      (''architecture'', \<lambda>v. Text_value (rv_architecture v)),
      (''backend'', \<lambda>v. Text_value (rv_backend v)),
      (''retries'', \<lambda>v. Int_value (rv_retries v)),
      (''started_at'', \<lambda>v. opt_int_value (rv_started_at v)),
      (''built_at'', \<lambda>v. opt_int_value (rv_built_at v)),
      (''status'', \<lambda>v. opt_text_value (rv_status v))]"

definition unreadable :: "string option \<Rightarrow> bool" where
  "unreadable c \<longleftrightarrow> isl (load_build_status c)"

definition get_builds ::
  "page \<Rightarrow> origin_filter \<Rightarrow> source_identity_filter \<Rightarrow> db \<Rightarrow> rebuild_view result_page response" where
  "get_builds pg origin identity d =
     (let base = map to_rebuild_view (filter (\<lambda>(r, b, s).
            origin_matches origin s (bi_architecture b) \<and>
            source_identity_matches identity (sp_name s) (sp_version s)) (builds_base d))
      in case paginate rebuild_columns rv_id pg base of
           Inl _ \<Rightarrow> Error500
         | Inr rs \<Rightarrow>
             if list_ex (\<lambda>v. unreadable (rv_status v)) rs then Error500
             else Ok200 \<lparr>total = int (length base), records = rs\<rparr>)"

definition get_build :: "int \<Rightarrow> db \<Rightarrow> rebuild_view response" where
  "get_build i d =
     (case filter (\<lambda>(r, b, s). rb_id r = i) (builds_base d) of
        [] \<Rightarrow> NotFound404
      | v # _ \<Rightarrow> if unreadable (rv_status (to_rebuild_view v)) then Error500
                else Ok200 (to_rebuild_view v))"

definition get_build_log ::
  "(bytes \<Rightarrow> bytes result) \<Rightarrow> http_request \<Rightarrow> int \<Rightarrow> db \<Rightarrow> http_body response" where
  "get_build_log dec req i d =
     (case inner_join (\<lambda>r l. rb_build_log_id r = bl_id l)
             (filter (\<lambda>r. rb_id r = i) (rows (rebuilds d))) (rows (build_logs d)) of
        [] \<Rightarrow> Error500
      | (r, l) # _ \<Rightarrow> forward_compressed_data dec req ''text/plain; charset=utf-8'' (bl_build_log l))"

definition artifact_rows :: "int \<Rightarrow> db \<Rightarrow> rebuild_artifact list" where
  "artifact_rows i d =
     map snd (inner_join (\<lambda>r a. ra_rebuild_id a = rb_id r)
       (filter (\<lambda>r. rb_id r = i) (rows (rebuilds d))) (rows (rebuild_artifacts d)))"

definition joined_diffoscope :: "db \<Rightarrow> rebuild_artifact \<Rightarrow> bytes option" where
  "joined_diffoscope d a =
     map_option dl_diffoscope_log
       (find (\<lambda>l. null_eq (ra_diffoscope_log_id a) (Some (dl_id l))) (rows (diffoscope_logs d)))"

definition joined_attestation :: "db \<Rightarrow> rebuild_artifact \<Rightarrow> bytes option" where
  "joined_attestation d a =
     map_option al_attestation_log
       (find (\<lambda>l. null_eq (ra_attestation_log_id a) (Some (al_id l))) (rows (attestation_logs d)))"

definition to_artifact_view :: "db \<Rightarrow> rebuild_artifact \<Rightarrow> rebuild_artifact_view" where
  "to_artifact_view d a =
     \<lparr>rav_id = ra_id a, rav_name = ra_name a,
      rav_has_diffoscope = (joined_diffoscope d a \<noteq> None),
      rav_has_attestation = (joined_attestation d a \<noteq> None),
      rav_status = ra_status a\<rparr>"

definition unreadable_artifact :: "string option \<Rightarrow> bool" where
  "unreadable_artifact c = (case c of None \<Rightarrow> False | Some v \<Rightarrow> isl (artifact_status_try_from v))"

definition get_build_artifacts :: "int \<Rightarrow> db \<Rightarrow> rebuild_artifact_view list response" where
  "get_build_artifacts i d =
     (if list_ex (\<lambda>a. unreadable_artifact (ra_status a)) (artifact_rows i d) then Error500
      else Ok200 (map (to_artifact_view d) (artifact_rows i d)))"

definition get_build_artifact :: "int \<Rightarrow> int \<Rightarrow> db \<Rightarrow> rebuild_artifact_view response" where
  "get_build_artifact i artifact_id d =
     (case filter (\<lambda>a. ra_id a = artifact_id) (artifact_rows i d) of
        [] \<Rightarrow> NotFound404
      | a # _ \<Rightarrow> if unreadable_artifact (ra_status a) then Error500 else Ok200 (to_artifact_view d a))"

definition get_build_artifact_diffoscope ::
  "(bytes \<Rightarrow> bytes result) \<Rightarrow> http_request \<Rightarrow> int \<Rightarrow> int \<Rightarrow> db \<Rightarrow> http_body response" where
  "get_build_artifact_diffoscope dec req i artifact_id d =
     (case filter (\<lambda>a. ra_id a = artifact_id) (artifact_rows i d) of
        [] \<Rightarrow> NotFound404
      | a # _ \<Rightarrow>
         (case joined_diffoscope d a of
            None \<Rightarrow> NotFound404
          | Some log \<Rightarrow> forward_compressed_data dec req ''text/plain; charset=utf-8'' log))"

text \<open>A GET with a side effect: a new signature is stored for the next reader.\<close>

definition get_build_artifact_attestation ::
  "(bytes \<Rightarrow> bytes result) \<Rightarrow> (bytes \<Rightarrow> (bytes \<times> bool) result) \<Rightarrow> config \<Rightarrow> http_request \<Rightarrow>
   int \<Rightarrow> int \<Rightarrow> db \<Rightarrow> http_body response \<times> db" where
  "get_build_artifact_attestation dec sign cfg req i artifact_id d =
     (case filter (\<lambda>a. ra_id a = artifact_id) (artifact_rows i d) of
        [] \<Rightarrow> (NotFound404, d)
      | a # _ \<Rightarrow>
         (case joined_attestation d a of
            None \<Rightarrow> (NotFound404, d)
          | Some attestation \<Rightarrow>
              if cfg_transparently_sign_attestations cfg then
                (case sign attestation of
                   Inl _ \<Rightarrow> (Error500, d)
                 | Inr (signed_data, has_new_signature) \<Rightarrow>
                     if has_new_signature then
                       (case filter (\<lambda>a. ra_id a = artifact_id) (rows (rebuild_artifacts d)) of
                          [] \<Rightarrow> (Error500, d)
                        | a # _ \<Rightarrow>
                           (case ra_attestation_log_id a of
                              None \<Rightarrow> (Error500, d)
                            | Some attestation_id \<Rightarrow>
                                (forward_compressed_data dec req
                                   ''application/json; charset=utf-8'' signed_data,
                                 d\<lparr>attestation_logs := sql_update (\<lambda>l. al_id l = attestation_id)
                                     (\<lambda>l. l\<lparr>al_attestation_log := signed_data\<rparr>) (attestation_logs d)\<rparr>)))
                     else (forward_compressed_data dec req
                             ''application/json; charset=utf-8'' attestation, d))
              else (forward_compressed_data dec req
                      ''application/json; charset=utf-8'' attestation, d)))"

end
