(* ===== verification/BuildProps.thy ===== *)
theory BuildProps
  imports Builds Latest Sample
begin

text \<open>
  What submitting a rebuild result guarantees: the invariant on every path, errors included; one
  and the same entry in the history of every friend; and the retry schedule.
\<close>

section \<open>What recording results may touch\<close>

definition results_only :: "db \<Rightarrow> db \<Rightarrow> bool" where
  "results_only d d' \<longleftrightarrow>
     d' = d\<lparr>rebuilds := rebuilds d', rebuild_artifacts := rebuild_artifacts d',
        diffoscope_logs := diffoscope_logs d', attestation_logs := attestation_logs d'\<rparr> \<and>
     ids rb_id (rebuilds d) \<subseteq> ids rb_id (rebuilds d') \<and>
     ids dl_id (diffoscope_logs d) \<subseteq> ids dl_id (diffoscope_logs d') \<and>
     ids al_id (attestation_logs d) \<subseteq> ids al_id (attestation_logs d')"

lemma results_only_refl [simp]: "results_only d d"
  by (simp add: results_only_def)

lemma results_only_trans: "results_only d e \<Longrightarrow> results_only e f \<Longrightarrow> results_only d f"
  unfolding results_only_def
  by (intro conjI) ((cases d; cases e; cases f; simp), (meson order_trans)+)

lemma results_only_frame:
  assumes "results_only d d'"
  shows "queue d' = queue d" "build_inputs d' = build_inputs d" "build_logs d' = build_logs d"
    "source_packages d' = source_packages d" "workers d' = workers d"
  using assms by (cases d; cases d'; simp add: results_only_def)+

lemma results_only_ids:
  "results_only d d' \<Longrightarrow> ids rb_id (rebuilds d) \<subseteq> ids rb_id (rebuilds d')"
  "results_only d d' \<Longrightarrow> ids dl_id (diffoscope_logs d) \<subseteq> ids dl_id (diffoscope_logs d')"
  "results_only d d' \<Longrightarrow> ids al_id (attestation_logs d) \<subseteq> ids al_id (attestation_logs d')"
  unfolding results_only_def by (elim conjE, assumption)+

lemma results_only_steps:
  "results_only d (snd (diffoscope_log_insert log d))"
  "results_only d (snd (attestation_log_insert log d))"
  "results_only d (snd (rebuild_insert n d))"
  "results_only d (rebuild_artifact_insert m d)"
  by (simp_all add: results_only_def diffoscope_log_insert_def attestation_log_insert_def
      rebuild_insert_def rebuild_artifact_insert_def ids_insert_mono)

definition log_ids_ok :: "log_ids \<Rightarrow> db \<Rightarrow> bool" where
  "log_ids_ok l d \<longleftrightarrow>
     (\<forall>i. fst l = Some i \<longrightarrow> i \<in> ids dl_id (diffoscope_logs d)) \<and>
     (\<forall>i. snd l = Some i \<longrightarrow> i \<in> ids al_id (attestation_logs d))"

definition logs_ok :: "(string \<Rightarrow> log_ids option) \<Rightarrow> db \<Rightarrow> bool" where
  "logs_ok logs d \<longleftrightarrow> (\<forall>name l. logs name = Some l \<longrightarrow> log_ids_ok l d)"

lemma log_ids_ok_mono: "log_ids_ok l d \<Longrightarrow> results_only d d' \<Longrightarrow> log_ids_ok l d'"
  using results_only_ids(2,3)[of d d'] unfolding log_ids_ok_def by (meson subsetD)

lemma logs_ok_mono: "logs_ok logs d \<Longrightarrow> results_only d d' \<Longrightarrow> logs_ok logs d'"
  unfolding logs_ok_def using log_ids_ok_mono by blast

text \<open>The optional inserts.\<close>

lemma diffoscope_step:
  assumes "db_ok d"
    and "x = (case b of None \<Rightarrow> (None, d) | Some log \<Rightarrow> map_prod Some id (diffoscope_log_insert log d))"
  shows "db_ok (snd x) \<and> results_only d (snd x) \<and>
    (\<forall>i. fst x = Some i \<longrightarrow> i \<in> ids dl_id (diffoscope_logs (snd x))) \<and>
    rebuilds (snd x) = rebuilds d \<and> rebuild_artifacts (snd x) = rebuild_artifacts d"
  using assms db_ok_diffoscope_log_insert[OF assms(1)] results_only_steps(1)[of d]
  by (cases b) (auto simp: diffoscope_log_insert_def sql_insert_def)

lemma attestation_step:
  assumes "db_ok d"
    and "x = (case b of None \<Rightarrow> (None, d) | Some log \<Rightarrow> map_prod Some id (attestation_log_insert log d))"
  shows "db_ok (snd x) \<and> results_only d (snd x) \<and>
    (\<forall>i. fst x = Some i \<longrightarrow> i \<in> ids al_id (attestation_logs (snd x))) \<and>
    rebuilds (snd x) = rebuilds d \<and> rebuild_artifacts (snd x) = rebuild_artifacts d"
  using assms db_ok_attestation_log_insert[OF assms(1)] results_only_steps(2)[of d]
  by (cases b) (auto simp: attestation_log_insert_def sql_insert_def)

lemma insert_artifact_logs_ok:
  assumes "db_ok d" "insert_artifact_logs enc a d = (res, d')"
  shows "db_ok d'" "results_only d d'" "res = Inr l \<Longrightarrow> log_ids_ok l d'"
    "rebuilds d' = rebuilds d" "rebuild_artifacts d' = rebuild_artifacts d"
proof -
  have "db_ok d' \<and> results_only d d' \<and> (\<forall>l. res = Inr l \<longrightarrow> log_ids_ok l d') \<and>
    rebuilds d' = rebuilds d \<and> rebuild_artifacts d' = rebuild_artifacts d"
  proof (cases "ensure_compressed_opt enc (rar_diffoscope a)")
    case (Inl e)
    with assms show ?thesis by (auto simp: insert_artifact_logs_def)
  next
    case dif: (Inr x)
    show ?thesis
    proof (cases "ensure_compressed_opt enc (rar_attestation a)")
      case (Inl e)
      with assms dif show ?thesis by (auto simp: insert_artifact_logs_def)
    next
      case att: (Inr y)
      define p where "p = (case x of None \<Rightarrow> (None, d) | Some log \<Rightarrow> map_prod Some id (diffoscope_log_insert log d))"
      define q where "q = (case y of None \<Rightarrow> (None, snd p)
        | Some log \<Rightarrow> map_prod Some id (attestation_log_insert log (snd p)))"
      note P = diffoscope_step[OF assms(1) p_def]
      then have "db_ok (snd p)" by simp
      note Q = attestation_step[OF this q_def]
      have "res = Inr (fst p, fst q)" "d' = snd q"
        using assms(2) dif att
        by (simp_all add: insert_artifact_logs_def case_prod_beta p_def[symmetric] q_def[symmetric])
      moreover have "log_ids_ok (fst p, fst q) (snd q)"
        using P Q results_only_ids(2)[of "snd p" "snd q"] by (auto simp: log_ids_ok_def)
      moreover have "results_only d (snd q)" using P Q results_only_trans by blast
      ultimately show ?thesis using P Q by simp
    qed
  qed
  then show "db_ok d'" "results_only d d'" "res = Inr l \<Longrightarrow> log_ids_ok l d'"
    "rebuilds d' = rebuilds d" "rebuild_artifacts d' = rebuild_artifacts d" by blast+
qed

lemma record_artifact_ok:
  assumes "db_ok d" "logs_ok logs d" "i \<in> ids rb_id (rebuilds d)"
    and "record_artifact enc i a logs d = (res, d')"
  shows "db_ok d' \<and> results_only d d' \<and> rebuilds d' = rebuilds d \<and>
    (\<forall>logs'. res = Inr logs' \<longrightarrow> logs_ok logs' d' \<and> logs \<subseteq>\<^sub>m logs' \<and> dom logs' = insert (rar_name a) (dom logs) \<and>
       (\<forall>j. artifacts_of d' j = artifacts_of d j @ (if j = i then
          [(rar_name a, fst (the (logs' (rar_name a))), snd (the (logs' (rar_name a))),
            Some (artifact_status_as_str (rar_status a)))] else [])))"
proof -
  define found where "found = (case logs (rar_name a) of
              Some l \<Rightarrow> (Inr l, d)
            | None \<Rightarrow> insert_artifact_logs enc a d)"
  have F: "db_ok (snd found) \<and> results_only d (snd found) \<and>
    (\<forall>l. fst found = Inr l \<longrightarrow> log_ids_ok l (snd found)) \<and>
    rebuilds (snd found) = rebuilds d \<and> rebuild_artifacts (snd found) = rebuild_artifacts d"
  proof (cases "logs (rar_name a)")
    case None
    then show ?thesis
      using insert_artifact_logs_ok[OF assms(1), of enc a "fst found" "snd found"] by (simp add: found_def)
  next
    case (Some l)
    with assms(1,2) show ?thesis by (cases l) (simp add: found_def logs_ok_def)
  qed
  show ?thesis
  proof (cases "fst found")
    case (Inl e)
    with assms(4) have "res = Inl e" "d' = snd found"
      by (auto simp: record_artifact_def found_def[symmetric] case_prod_beta)
    with F show ?thesis by simp
  next
    case (Inr l)
    let ?n = "\<lparr>nra_rebuild_id = i, nra_name = rar_name a, nra_diffoscope_log_id = fst l,
        nra_attestation_log_id = snd l, nra_status = Some (artifact_status_as_str (rar_status a))\<rparr>"
    have d': "res = Inr (logs(rar_name a \<mapsto> l))" "d' = rebuild_artifact_insert ?n (snd found)"
      using assms(4) Inr by (auto simp: record_artifact_def found_def[symmetric] case_prod_beta)
    have l: "log_ids_ok l (snd found)" using F Inr by simp
    have "db_ok d'" unfolding d'(2)
      by (rule db_ok_rebuild_artifact_insert) (use F l assms(3) in \<open>auto simp: log_ids_ok_def\<close>)
    moreover have only: "results_only d d'"
      using F results_only_trans[OF _ results_only_steps(4)] d'(2) by blast
    moreover have "rebuilds d' = rebuilds d" using F by (simp add: d'(2) rebuild_artifact_insert_def)
    moreover have "logs_ok (logs(rar_name a \<mapsto> l)) d'"
      using logs_ok_mono[OF assms(2) only] log_ids_ok_mono[OF l results_only_steps(4)]
      by (auto simp: logs_ok_def d'(2))
    moreover have "logs \<subseteq>\<^sub>m logs(rar_name a \<mapsto> l)"
    proof (cases "logs (rar_name a)")
      case None
      then show ?thesis by (auto simp: map_le_def)
    next
      case (Some l')
      then have "l = l'" using Inr by (simp add: found_def)
      with Some show ?thesis by (auto simp: map_le_def)
    qed
    moreover have "artifacts_of (snd found) j = artifacts_of d j" for j
      by (rule artifacts_of_frame) (use F in simp)
    ultimately show ?thesis using d'(1)
      by (auto simp: d'(2) artifacts_of_insert)
  qed
qed

definition artifact_entry ::
  "(string \<Rightarrow> log_ids option) \<Rightarrow> rebuild_artifact_report \<Rightarrow>
   string \<times> int option \<times> int option \<times> string option" where
  "artifact_entry logs a =
     (rar_name a, fst (the (logs (rar_name a))), snd (the (logs (rar_name a))),
      Some (artifact_status_as_str (rar_status a)))"

lemma artifact_entry_mono:
  "logs \<subseteq>\<^sub>m logs' \<Longrightarrow> rar_name a \<in> dom logs \<Longrightarrow> artifact_entry logs' a = artifact_entry logs a"
  by (simp add: artifact_entry_def map_le_def)

lemma record_artifacts_ok:
  assumes "db_ok d" "logs_ok logs d" "i \<in> ids rb_id (rebuilds d)"
    and "record_artifacts enc i as logs d = (res, d')"
  shows "db_ok d' \<and> results_only d d' \<and> rebuilds d' = rebuilds d \<and>
    (\<forall>logs'. res = Inr logs' \<longrightarrow> logs_ok logs' d' \<and> logs \<subseteq>\<^sub>m logs' \<and>
       dom logs' = rar_name ` set as \<union> dom logs \<and>
       (\<forall>j. artifacts_of d' j = artifacts_of d j @ (if j = i then map (artifact_entry logs') as else [])))"
  using assms
proof (induction as arbitrary: logs d)
  case Nil
  then show ?case by auto
next
  case (Cons a as)
  obtain r1 d1 where 1: "record_artifact enc i a logs d = (r1, d1)" by (cases "record_artifact enc i a logs d")
  note A = record_artifact_ok[OF Cons.prems(1-3) 1]
  show ?case
  proof (cases r1)
    case (Inl e)
    with 1 Cons.prems(4) have "res = Inl e" "d' = d1" by auto
    with A show ?thesis by simp
  next
    case (Inr logs1)
    with 1 Cons.prems(4) have run: "record_artifacts enc i as logs1 d1 = (res, d')" by simp
    have "db_ok d1" "logs_ok logs1 d1" "i \<in> ids rb_id (rebuilds d1)"
      using A Inr Cons.prems(3) by simp_all
    note B = Cons.IH[OF this run]
    have A1: "logs \<subseteq>\<^sub>m logs1" "dom logs1 = insert (rar_name a) (dom logs)"
      "\<And>j. artifacts_of d1 j = artifacts_of d j @ (if j = i then [artifact_entry logs1 a] else [])"
      using A Inr by (simp_all add: artifact_entry_def)
    show ?thesis
    proof (intro conjI allI impI)
      show "db_ok d'" "rebuilds d' = rebuilds d" using A B by simp_all
      show "results_only d d'" using A B results_only_trans by blast
      fix logs' assume res: "res = Inr logs'"
      have B1: "logs_ok logs' d'" "logs1 \<subseteq>\<^sub>m logs'" "dom logs' = rar_name ` set as \<union> dom logs1"
        "\<And>j. artifacts_of d' j = artifacts_of d1 j @ (if j = i then map (artifact_entry logs') as else [])"
        using B res by blast+
      show "logs_ok logs' d'" by (rule B1(1))
      show "logs \<subseteq>\<^sub>m logs'" by (rule map_le_trans[OF A1(1) B1(2)])
      show "dom logs' = rar_name ` set (a # as) \<union> dom logs" by (simp add: B1(3) A1(2))
      have "artifact_entry logs' a = artifact_entry logs1 a"
        by (rule artifact_entry_mono[OF B1(2)]) (simp add: A1(2))
      then show "artifacts_of d' j = artifacts_of d j @
          (if j = i then map (artifact_entry logs') (a # as) else [])" for j
        by (simp add: B1(4) A1(3))
    qed
  qed
qed

text \<open>Errors come from the encoder alone.\<close>

definition total_encoder :: "encoder \<Rightarrow> bool" where
  "total_encoder enc \<longleftrightarrow> (\<forall>cs. \<exists>b. enc cs = Inr b)"

lemma ensure_compressed_total:
  "total_encoder enc \<Longrightarrow> \<exists>b'. ensure_compressed enc b = Inr b'"
  by (cases "is_zstd_compressed b")
    (simp_all add: total_encoder_def ensure_compressed_def zstd_compress_def)

lemma ensure_compressed_opt_total:
  assumes "total_encoder enc"
  shows "\<exists>b'. ensure_compressed_opt enc b = Inr b'"
proof (cases b)
  case (Some x)
  with ensure_compressed_total[OF assms, of x] show ?thesis by (auto simp: ensure_compressed_opt_def)
qed (simp add: ensure_compressed_opt_def)

lemma record_artifact_total:
  assumes "total_encoder enc"
  shows "\<exists>l. fst (record_artifact enc i a logs d) = Inr l"
proof -
  obtain x y where "ensure_compressed_opt enc (rar_diffoscope a) = Inr x"
    "ensure_compressed_opt enc (rar_attestation a) = Inr y"
    using ensure_compressed_opt_total[OF assms] by metis
  then show ?thesis
    by (simp add: record_artifact_def insert_artifact_logs_def case_prod_beta split: option.split)
qed

lemma record_artifacts_total:
  assumes "total_encoder enc"
  shows "\<exists>l. fst (record_artifacts enc i as logs d) = Inr l"
proof (induction as arbitrary: logs d)
  case (Cons a as)
  obtain l where "fst (record_artifact enc i a logs d) = Inr l"
    using record_artifact_total[OF assms] by blast
  then show ?case using Cons.IH by (simp add: case_prod_beta)
qed simp

lemma record_friends_total:
  assumes "total_encoder enc"
  shows "fst (record_friends enc report q log_id is logs d) = Inr ()"
proof (induction "is" arbitrary: logs d)
  case (Cons i js)
  have "\<exists>l. fst (record_artifacts enc x (rr_artifacts report) logs e) = Inr l" for x e
    by (rule record_artifacts_total[OF assms])
  then show ?case using Cons.IH by (auto simp: case_prod_beta split: sum.split) (metis sum.distinct(1))
qed simp

section \<open>One result for every friend\<close>

definition report_entry :: "rebuild_report \<Rightarrow> queued \<Rightarrow> int \<Rightarrow> (string \<Rightarrow> log_ids option) \<Rightarrow>
    (time option \<times> time option \<times> int \<times> string option) \<times>
    (string \<times> int option \<times> int option \<times> string option) list" where
  "report_entry report queued log_id logs =
     ((q_started_at queued, Some (rr_built_at report), log_id,
       Some (build_status_as_str (rr_status report))),
      map (artifact_entry logs) (rr_artifacts report))"

lemma record_friend_ok:
  assumes "db_ok d" "logs_ok logs d" "i \<in> ids bi_id (build_inputs d)"
    and "log_id \<in> ids bl_id (build_logs d)"
    and "rebuild_insert \<lparr>nrb_build_input_id = i, nrb_started_at = q_started_at queued,
              nrb_built_at = Some (rr_built_at report), nrb_build_log_id = log_id,
              nrb_status = Some (build_status_as_str (rr_status report))\<rparr> d = (n, d1)"
    and "record_artifacts enc n (rr_artifacts report) logs d1 = (res, d2)"
  shows "db_ok d2 \<and> results_only d d2 \<and>
    (\<forall>logs2. res = Inr logs2 \<longrightarrow> logs_ok logs2 d2 \<and> logs \<subseteq>\<^sub>m logs2 \<and>
       dom logs2 = rar_name ` set (rr_artifacts report) \<union> dom logs \<and>
       (\<forall>j. history d2 j = history d j @ (if j = i then [report_entry report queued log_id logs2] else [])))"
proof -
  define new where "new = \<lparr>nrb_build_input_id = i, nrb_started_at = q_started_at queued,
              nrb_built_at = Some (rr_built_at report), nrb_build_log_id = log_id,
              nrb_status = Some (build_status_as_str (rr_status report))\<rparr>"
  have run: "rebuild_insert new d = (n, d1)" using assms(5) by (simp only: new_def)
  then have d1: "d1 = snd (rebuild_insert new d)" by simp
  from run have "n = fst (rebuild_insert new d)" by simp
  then have n: "n = seq (rebuilds d) + 1" by (simp add: rebuild_insert_def fst_insert)
  have only: "results_only d d1" by (simp add: d1 results_only_steps)
  have ok1: "db_ok d1" unfolding d1
    by (rule db_ok_rebuild_insert) (use assms in \<open>simp_all add: new_def\<close>)
  have rows1: "rows (rebuilds d1) = rows (rebuilds d) @ [rebuild_row new n]"
    and arts1: "rebuild_artifacts d1 = rebuild_artifacts d"
    by (simp_all add: d1 n rebuild_insert_def rows_insert)
  then have "n \<in> ids rb_id (rebuilds d1)" by simp
  note A = record_artifacts_ok[OF ok1 logs_ok_mono[OF assms(2) only] this assms(6)]
  show ?thesis
  proof (intro conjI allI impI)
    show "db_ok d2" using A by simp
    show "results_only d d2" using only A results_only_trans by blast
    fix logs2 assume "res = Inr logs2"
    then have B: "logs_ok logs2 d2" "logs \<subseteq>\<^sub>m logs2" "rebuilds d2 = rebuilds d1"
      "dom logs2 = rar_name ` set (rr_artifacts report) \<union> dom logs"
      "\<And>j. artifacts_of d2 j = artifacts_of d1 j @
         (if j = n then map (artifact_entry logs2) (rr_artifacts report) else [])"
      using A by blast+
    show "logs_ok logs2 d2" "logs \<subseteq>\<^sub>m logs2"
      "dom logs2 = rar_name ` set (rr_artifacts report) \<union> dom logs" using B by simp_all
    have frame: "artifacts_of d1 j = artifacts_of d j" for j by (rule artifacts_of_frame) (rule arts1)
    have old: "history_entry d2 r = history_entry d r" if "r \<in> set (rows (rebuilds d))" for r
      using fresh_rebuild_id[OF assms(1) that] by (simp add: history_entry_def B(5) frame n)
    have fresh: "history_entry d2 (rebuild_row new n) = report_entry report queued log_id logs2"
      by (simp add: history_entry_def report_entry_def B(5) frame fresh_rebuild_artifacts[OF assms(1)]
          n[symmetric] new_def) (simp add: n fresh_rebuild_artifacts[OF assms(1)])
    show "history d2 j = history d j @ (if j = i then [report_entry report queued log_id logs2] else [])" for j
      by (simp add: history_def B(3) rows1 old fresh) (simp add: new_def)
  qed
qed

lemma report_entry_mono:
  "logs \<subseteq>\<^sub>m logs' \<Longrightarrow> rar_name ` set (rr_artifacts report) \<subseteq> dom logs \<Longrightarrow>
     report_entry report queued l logs' = report_entry report queued l logs"
  unfolding report_entry_def by (simp add: artifact_entry_mono image_subset_iff)

lemma record_friends_ok:
  assumes "db_ok d" "logs_ok logs d" "set is \<subseteq> ids bi_id (build_inputs d)" "distinct is"
    and "log_id \<in> ids bl_id (build_logs d)"
    and "record_friends enc report queued log_id is logs d = (res, d')"
  shows "db_ok d' \<and> results_only d d' \<and>
    (res = Inr () \<longrightarrow> (\<exists>logs'. logs_ok logs' d' \<and> logs \<subseteq>\<^sub>m logs' \<and>
       (\<forall>j. history d' j = history d j @
          (if j \<in> set is then [report_entry report queued log_id logs'] else []))))"
  using assms
proof (induction "is" arbitrary: logs d)
  case Nil
  then show ?case by auto
next
  case (Cons i js)
  obtain n d1 where 1: "rebuild_insert \<lparr>nrb_build_input_id = i, nrb_started_at = q_started_at queued,
              nrb_built_at = Some (rr_built_at report), nrb_build_log_id = log_id,
              nrb_status = Some (build_status_as_str (rr_status report))\<rparr> d = (n, d1)"
    by (rule prod.exhaust)
  obtain r2 d2 where 2: "record_artifacts enc n (rr_artifacts report) logs d1 = (r2, d2)"
    by (rule prod.exhaust)
  have i: "i \<in> ids bi_id (build_inputs d)" using Cons.prems(3) by simp
  note A = record_friend_ok[OF Cons.prems(1,2) i Cons.prems(5) 1 2]
  show ?case
  proof (cases r2)
    case (Inl e)
    with 1 2 Cons.prems(6) have "res = Inl e" "d' = d2" by simp_all
    with A show ?thesis by simp
  next
    case (Inr logs2)
    with 1 2 Cons.prems(6) have run: "record_friends enc report queued log_id js logs2 d2 = (res, d')"
      by simp
    have A1: "db_ok d2" "results_only d d2" "logs_ok logs2 d2" "logs \<subseteq>\<^sub>m logs2"
      "dom logs2 = rar_name ` set (rr_artifacts report) \<union> dom logs"
      "\<And>j. history d2 j = history d j @ (if j = i then [report_entry report queued log_id logs2] else [])"
      using A Inr by blast+
    have pre: "set js \<subseteq> ids bi_id (build_inputs d2)" "distinct js" "log_id \<in> ids bl_id (build_logs d2)"
      using Cons.prems(3-5) results_only_frame[OF A1(2)] by auto
    note B = Cons.IH[OF A1(1,3) pre run]
    show ?thesis
    proof (intro conjI impI)
      show "db_ok d'" using B by blast
      show "results_only d d'" using B A1(2) results_only_trans by blast
      assume "res = Inr ()"
      with B obtain logs' where B1: "logs_ok logs' d'" "logs2 \<subseteq>\<^sub>m logs'"
        "\<And>j. history d' j = history d2 j @
          (if j \<in> set js then [report_entry report queued log_id logs'] else [])" by blast
      have same: "report_entry report queued log_id logs2 = report_entry report queued log_id logs'"
        by (rule report_entry_mono[OF B1(2), symmetric]) (simp add: A1(5))
      show "\<exists>logs'. logs_ok logs' d' \<and> logs \<subseteq>\<^sub>m logs' \<and>
       (\<forall>j. history d' j = history d j @
          (if j \<in> set (i # js) then [report_entry report queued log_id logs'] else []))"
      proof (intro exI[of _ logs'] conjI allI)
        show "logs \<subseteq>\<^sub>m logs'" by (rule map_le_trans[OF A1(4) B1(2)])
        show "history d' j = history d j @
          (if j \<in> set (i # js) then [report_entry report queued log_id logs'] else [])" for j
          using Cons.prems(4) by (auto simp: B1(3) A1(6) same)
      qed (rule B1(1))
    qed
  qed
qed

section \<open>The invariant on every path\<close>

lemma db_ok_increment_retries [wf_intros]: "db_ok d \<Longrightarrow> db_ok (increment_retries is d)"
  unfolding increment_retries_def
  by (rule db_ok_build_inputs_update) (simp_all add: build_input_key_def)

lemma db_ok_set_next_retries [wf_intros]: "db_ok d \<Longrightarrow> db_ok (set_next_retries is t d)"
  unfolding set_next_retries_def
  by (rule db_ok_build_inputs_update) (simp_all add: build_input_key_def)

lemma retry_update_frame [frame_simps]:
  "ids bi_id (build_inputs (increment_retries is d)) = ids bi_id (build_inputs d)"
  "ids bi_id (build_inputs (set_next_retries is t d)) = ids bi_id (build_inputs d)"
  "queue (increment_retries is d) = queue d" "queue (set_next_retries is t d) = queue d"
  by (simp_all add: increment_retries_def set_next_retries_def ids_update)

lemma db_ok_schedule_retry [wf_intros]:
  assumes "db_ok d" "i \<in> ids bi_id (build_inputs d)"
  shows "db_ok (snd (schedule_retry schedule now i friends d))"
  using assms
  by (auto simp: schedule_retry_def Let_def frame_simps split: sum.split
      intro!: db_ok_increment_retries db_ok_set_next_retries db_ok_mark_non_retriable db_ok_queue_upsert)

lemma build_log_insert_frame:
  "queue (snd (build_log_insert log d)) = queue d"
  "build_inputs (snd (build_log_insert log d)) = build_inputs d"
  "rebuilds (snd (build_log_insert log d)) = rebuilds d"
  "rebuild_artifacts (snd (build_log_insert log d)) = rebuild_artifacts d"
  by (simp_all add: build_log_insert_def)

lemma queued_delete_frame [simp]:
  "build_inputs (queued_delete q d) = build_inputs d" "rebuilds (queued_delete q d) = rebuilds d"
  "rebuild_artifacts (queued_delete q d) = rebuild_artifacts d"
  "build_logs (queued_delete q d) = build_logs d"
  by (simp_all add: queued_delete_def)

lemma logs_ok_empty [simp]: "logs_ok Map.empty d"
  by (simp add: logs_ok_def)

lemma recorded_friends:
  assumes "db_ok d" "build_log_insert log d = (log_id, d1)"
    and "record_friends enc report queued log_id (get_build_input_friends i d) Map.empty d1 = (res, d2)"
  shows "db_ok d2" "results_only d1 d2"
    "res = Inr () \<Longrightarrow> \<exists>logs. logs_ok logs d2 \<and> (\<forall>j. history d2 j = history d j @
       (if j \<in> set (build_input_friends i d) then [report_entry report queued log_id logs] else []))"
proof -
  have d1: "d1 = snd (build_log_insert log d)" "log_id = fst (build_log_insert log d)"
    using assms(2) by simp_all
  have "db_ok d1" "log_id \<in> ids bl_id (build_logs d1)"
    "set (get_build_input_friends i d) \<subseteq> ids bi_id (build_inputs d1)"
    "distinct (get_build_input_friends i d)"
    using assms(1) friends_subset[of i d]
    by (simp_all add: d1 db_ok_build_log_insert build_log_insert_frame get_build_input_friends_def
        distinct_friends)
  note R = record_friends_ok[OF this(1) logs_ok_empty this(3,4,2) assms(3)]
  have "history d1 j = history d j" for j by (rule history_frame) (simp_all add: d1 build_log_insert_frame)
  with R show "db_ok d2" "results_only d1 d2"
    "res = Inr () \<Longrightarrow> \<exists>logs. logs_ok logs d2 \<and> (\<forall>j. history d2 j = history d j @
       (if j \<in> set (build_input_friends i d) then [report_entry report queued log_id logs] else []))"
    by (auto simp: get_build_input_friends_def)
qed

lemma db_ok_record_report [wf_intros]:
  assumes "db_ok d" "q_build_input_id queued \<in> ids bi_id (build_inputs d)"
  shows "db_ok (snd (record_report enc schedule now report queued d))"
proof (cases "ensure_compressed enc (rr_build_log report)")
  case (Inl e)
  with assms show ?thesis by (simp add: record_report_def)
next
  case (Inr log)
  obtain log_id d1 where 1: "build_log_insert log d = (log_id, d1)" by (rule prod.exhaust)
  obtain res d2 where 2: "record_friends enc report queued log_id
      (get_build_input_friends (q_build_input_id queued) d) Map.empty d1 = (res, d2)" by (rule prod.exhaust)
  note R = recorded_friends[OF assms(1) 1 2]
  have "build_inputs d2 = build_inputs d"
    using results_only_frame[OF R(2)] 1 build_log_insert_frame(2)[of log d] by simp
  with R(1) assms(2) show ?thesis
    by (simp add: record_report_def Inr 1 2 db_ok_schedule_retry db_ok_queued_delete split: sum.split)
qed

lemma db_ok_submit_rebuild_report [wf_intros]:
  assumes "db_ok d"
  shows "db_ok (snd (submit_rebuild_report enc cfg req t0 t1 report d))"
proof (cases "auth_worker cfg req t0 d")
  case (Pair x d1)
  then have ok: "db_ok d1" using db_ok_auth_worker[OF assms, of cfg req t0] by simp
  show ?thesis
  proof (cases "filter (\<lambda>q. q_id q = rr_queue_id report) (rows (queue d1))")
    case Nil
    with Pair ok show ?thesis by (simp add: submit_rebuild_report_def split: sum.split)
  next
    case (Cons q qs)
    then have "q \<in> set (rows (queue d1))" by (auto simp: filter_eq_Cons_iff)
    then have "q_build_input_id q \<in> ids bi_id (build_inputs d1)"
      using db_ok_facts(25)[OF ok] by (auto simp: refs_def)
    with Pair Cons ok show ?thesis
      by (simp add: submit_rebuild_report_def db_ok_record_report split: sum.split)
  qed
qed

lemma db_ok_get_build_artifact_attestation [wf_intros]:
  assumes "db_ok d"
  shows "db_ok (snd (get_build_artifact_attestation dec signer cfg req i a d))"
proof -
  have "db_ok (d\<lparr>attestation_logs := sql_update p (\<lambda>l. l\<lparr>al_attestation_log := s\<rparr>) (attestation_logs d)\<rparr>)"
    for p s
    by (rule db_ok_attestation_logs[OF assms])
      (simp_all add: assms db_ok_facts wf_table_update ids_update)
  with assms show ?thesis
    by (simp add: get_build_artifact_attestation_def split: list.split option.split sum.split)
qed

section \<open>The retry schedule\<close>

definition worst_retries :: "build_input \<Rightarrow> db \<Rightarrow> int" where
  "worst_retries b d =
     Max (bi_retries ` {b' \<in> set (rows (build_inputs d)). input_origin b' = input_origin b})"

definition gives_up :: "schedule_config \<Rightarrow> int \<Rightarrow> bool" where
  "gives_up schedule n = (case max_retries schedule of None \<Rightarrow> False | Some m \<Rightarrow> m \<le> n)"

definition after_retry :: "schedule_config \<Rightarrow> time \<Rightarrow> int \<Rightarrow> build_input \<Rightarrow> build_input" where
  "after_retry schedule now n b =
     b\<lparr>bi_retries := bi_retries b + 1,
       bi_next_retry := if gives_up schedule n then None else Some (retry_time schedule now n)\<rparr>"

lemma set_rows_finite: "finite {b \<in> set (rows t). P b}"
  by simp

lemma worst_retries_increment:
  assumes "db_ok d" "b \<in> set (rows (build_inputs d))"
  shows "get_largest_retry_count_among_friends (bi_id b)
      (increment_retries (build_input_friends (bi_id b) d) d) = Inr (worst_retries b d + 1)"
proof -
  define fs where "fs = {b' \<in> set (rows (build_inputs d)). input_origin b' = input_origin b}"
  define d1 where "d1 = increment_retries (build_input_friends (bi_id b) d) d"
  let ?inc = "\<lambda>b'. if bi_id b' \<in> set (build_input_friends (bi_id b) d)
    then b'\<lparr>bi_retries := bi_retries b' + 1\<rparr> else b'"
  have rows1: "rows (build_inputs d1) = map ?inc (rows (build_inputs d))"
    by (simp add: d1_def increment_retries_def rows_update)
  have ok1: "db_ok d1" unfolding d1_def by (rule db_ok_increment_retries[OF assms(1)])
  have b1: "?inc b \<in> set (rows (build_inputs d1))" using assms(2) by (auto simp: rows1)
  obtain n where n: "get_largest_retry_count_among_friends (bi_id (?inc b)) d1 = Inr n"
    "\<And>b'. b' \<in> set (rows (build_inputs d1)) \<Longrightarrow> input_origin b' = input_origin (?inc b) \<Longrightarrow> bi_retries b' \<le> n"
    "\<exists>b'\<in>set (rows (build_inputs d1)). input_origin b' = input_origin (?inc b) \<and> bi_retries b' = n"
    by (rule largest_retry_count[OF ok1 b1]) blast
  have origin: "input_origin (?inc b') = input_origin b'" for b' by (simp add: input_origin_def)
  have inc: "?inc b' = b'\<lparr>bi_retries := bi_retries b' + 1\<rparr>" if "b' \<in> fs" for b'
    using that friend_row[OF assms] by (simp add: fs_def)
  have "Max (bi_retries ` fs) = n - 1"
  proof (rule Max_eqI)
    show "finite (bi_retries ` fs)" by (simp add: fs_def)
    fix y assume "y \<in> bi_retries ` fs"
    then obtain b' where b': "b' \<in> fs" "y = bi_retries b'" by blast
    then have "bi_retries (?inc b') \<le> n"
      using n(2)[of "?inc b'"] by (simp only: origin) (auto simp: rows1 fs_def)
    then show "y \<le> n - 1" using inc[OF b'(1)] b'(2) by simp
  next
    from n(3) obtain b' where b': "b' \<in> set (rows (build_inputs d))"
      "input_origin (?inc b') = input_origin (?inc b)" "bi_retries (?inc b') = n"
      by (auto simp: rows1)
    then have "b' \<in> fs" by (simp only: origin fs_def) simp
    moreover have "n - 1 = bi_retries b'" using inc[OF calculation] b'(3) by simp
    ultimately show "n - 1 \<in> bi_retries ` fs" by blast
  qed
  moreover have "bi_id (?inc b) = bi_id b" by simp
  ultimately show ?thesis
    using n(1) by (simp add: worst_retries_def fs_def[symmetric] d1_def[symmetric])
qed

lemma schedule_retry_result:
  assumes "db_ok d" "b \<in> set (rows (build_inputs d))" "n = worst_retries b d + 1"
    and "schedule_retry schedule now (bi_id b) (get_build_input_friends (bi_id b) d) d = (r, d')"
  shows "r = NoContent204 \<and> rebuilds d' = rebuilds d \<and> rebuild_artifacts d' = rebuild_artifacts d \<and>
    build_logs d' = build_logs d \<and>
    rows (build_inputs d') = map (\<lambda>b'. if input_origin b' = input_origin b
        then after_retry schedule now n b' else b') (rows (build_inputs d)) \<and>
    queue d' = (if gives_up schedule n
      then sql_delete (\<lambda>q. q_build_input_id q \<in> set (build_input_friends (bi_id b) d)) (queue d)
      else queue (snd (queue_upsert \<lparr>nq_build_input_id = bi_id b, nq_priority = priority_retry,
        nq_queued_at = now\<rparr> d)))"
proof -
  define fr where "fr = build_input_friends (bi_id b) d"
  define d1 where "d1 = increment_retries fr d"
  have largest: "get_largest_retry_count_among_friends (bi_id b) d1 = Inr n"
    unfolding d1_def fr_def assms(3) by (rule worst_retries_increment[OF assms(1,2)])
  have fr1: "build_input_friends (bi_id b) d1 = fr"
    unfolding d1_def increment_retries_def fr_def by (rule friends_update) (simp_all add: input_origin_def)
  have mem: "bi_id b' \<in> set fr \<longleftrightarrow> input_origin b' = input_origin b"
    if "b' \<in> set (rows (build_inputs d))" for b'
    using friend_row[OF assms(1,2) that] by (simp add: fr_def)
  show ?thesis
  proof (cases "gives_up schedule n")
    case True
    then have "r = NoContent204" "d' = mark_build_input_friends_as_non_retriable (bi_id b) d1"
      using assms(4) largest
      by (simp_all add: schedule_retry_def Let_def gives_up_def d1_def fr_def get_build_input_friends_def)
    then have "r = NoContent204" "d' = d1\<lparr>build_inputs := sql_update (\<lambda>b. bi_id b \<in> set fr)
        (\<lambda>b. b\<lparr>bi_next_retry := None\<rparr>) (build_inputs d1),
        queue := sql_delete (\<lambda>q. q_build_input_id q \<in> set fr) (queue d1)\<rparr>"
      by (simp_all add: mark_build_input_friends_as_non_retriable_def Let_def
          get_build_input_friends_def fr1 clear_next_retry_def)
    with True show ?thesis
      by (simp add: d1_def increment_retries_def rows_update mem after_retry_def fr_def[symmetric])
  next
    case False
    then have "r = NoContent204" "d' = snd (queue_upsert
        \<lparr>nq_build_input_id = bi_id b, nq_priority = priority_retry, nq_queued_at = now\<rparr>
        (set_next_retries fr (retry_time schedule now n) d1))"
      using assms(4) largest
      by (simp_all add: schedule_retry_def Let_def gives_up_def d1_def fr_def get_build_input_friends_def)
    with False show ?thesis
      by (simp add: queue_upsert_def set_next_retries_def d1_def increment_retries_def rows_update
          mem after_retry_def)
  qed
qed

end
