(* ===== verification/ReportProps.thy ===== *)
theory ReportProps
  imports BuildProps
begin

text \<open>
  The properties of \<open>submit_rebuild_report\<close>: every friend gets the result, a good result ends
  the job, any other one counts a retry and either gives up or requeues.
\<close>

lemma build_log_insert_rows:
  assumes "build_log_insert log d = (log_id, d')"
  shows "rows (build_logs d') = rows (build_logs d) @ [\<lparr>bl_id = log_id, bl_build_log = log\<rparr>]"
proof -
  have "log_id = fst (build_log_insert log d)" "d' = snd (build_log_insert log d)"
    using assms by simp_all
  then show ?thesis by (simp add: build_log_insert_def rows_insert fst_insert)
qed

lemma record_report_accepted:
  assumes "ensure_compressed enc (rr_build_log report) = Inr log"
    and "build_log_insert log d = (log_id, d1)"
    and "record_friends enc report queued log_id
      (get_build_input_friends (q_build_input_id queued) d) Map.empty d1 = (Inr (), d2)"
  shows "record_report enc schedule now report queued d =
    (if rr_status report \<noteq> Good
     then schedule_retry schedule now (q_build_input_id queued)
       (get_build_input_friends (q_build_input_id queued) d) (queued_delete queued d2)
     else (NoContent204, queued_delete queued d2))"
  by (simp add: record_report_def assms)

lemma submit_accepted:
  assumes "db_ok d" "auth_worker cfg req t0 d = (Inr w, d0)" "total_encoder enc"
    and "queued \<in> set (rows (queue d))" "q_id queued = rr_queue_id report"
  obtains log log_id logs e where
    "ensure_compressed enc (rr_build_log report) = Inr log"
    "rows (build_logs e) = rows (build_logs d) @ [\<lparr>bl_id = log_id, bl_build_log = log\<rparr>]"
    "db_ok e" "build_inputs e = build_inputs d"
    "queue e = sql_delete (\<lambda>q. q_id q = q_id queued) (queue d)"
    "\<And>j. history e j = history d j @ (if j \<in> set (build_input_friends (q_build_input_id queued) d)
       then [report_entry report queued log_id logs] else [])"
    "submit_rebuild_report enc cfg req t0 now report d =
      (if rr_status report \<noteq> Good
       then schedule_retry (cfg_schedule cfg) now (q_build_input_id queued)
         (get_build_input_friends (q_build_input_id queued) e) e
       else (NoContent204, e))"
proof -
  let ?i = "q_build_input_id queued"
  have d0: "d0 = snd (auth_worker cfg req t0 d)" using assms(2) by simp
  have ok0: "db_ok d0" unfolding d0 by (rule db_ok_auth_worker[OF assms(1)])
  have same: "queue d0 = queue d" "build_inputs d0 = build_inputs d" "build_logs d0 = build_logs d"
    "rebuilds d0 = rebuilds d" "rebuild_artifacts d0 = rebuild_artifacts d"
    by (simp_all add: d0 frame_simps)
  have q0: "filter (\<lambda>q. q_id q = rr_queue_id report) (rows (queue d0)) = [queued]"
    using filter_unique[of q_id "rows (queue d)" queued] assms(1,4,5)
    by (simp add: same db_ok_facts wf_table_distinct)
  obtain log where log: "ensure_compressed enc (rr_build_log report) = Inr log"
    using ensure_compressed_total[OF assms(3)] by blast
  obtain log_id d1 where 1: "build_log_insert log d0 = (log_id, d1)" by (rule prod.exhaust)
  let ?fr = "get_build_input_friends ?i d0"
  obtain res d2 where 2: "record_friends enc report queued log_id ?fr Map.empty d1 = (res, d2)"
    by (rule prod.exhaust)
  have res: "res = Inr ()"
    using record_friends_total[OF assms(3), of report queued log_id ?fr Map.empty d1] 2 by simp
  note R = recorded_friends[OF ok0 1 2]
  from R(3)[OF res] obtain logs where L: "\<And>j. history d2 j = history d0 j @
      (if j \<in> set (build_input_friends ?i d0)
       then [report_entry report queued log_id logs] else [])" by blast
  have frame: "history d0 j = history d j" "build_input_friends j d0 = build_input_friends j d" for j
    by (rule history_frame friends_frame; simp add: same)+
  have d1: "queue d1 = queue d" "build_inputs d1 = build_inputs d"
    using build_log_insert_frame(1,2)[of log d0] 1 same by simp_all
  let ?e = "queued_delete queued d2"
  note only = results_only_frame[OF R(2)]
  show thesis
  proof (rule that[of log ?e log_id logs])
    show "rows (build_logs ?e) = rows (build_logs d) @ [\<lparr>bl_id = log_id, bl_build_log = log\<rparr>]"
      using build_log_insert_rows[OF 1] only(3) same(3) by simp
    show "db_ok ?e" by (rule db_ok_queued_delete[OF R(1)])
    show inputs: "build_inputs ?e = build_inputs d" using only(2) d1(2) by simp
    show "queue ?e = sql_delete (\<lambda>q. q_id q = q_id queued) (queue d)"
      using only(1) d1(1) by (simp add: queued_delete_def)
    have "history ?e j = history d2 j" for j by (rule history_frame) simp_all
    then show "history ?e j = history d j @ (if j \<in> set (build_input_friends ?i d)
       then [report_entry report queued log_id logs] else [])" for j
      by (simp only: L frame)
    have "get_build_input_friends ?i ?e = ?fr"
      unfolding get_build_input_friends_def using inputs same(2) by (intro friends_frame) simp
    then show "submit_rebuild_report enc cfg req t0 now report d =
      (if rr_status report \<noteq> Good
       then schedule_retry (cfg_schedule cfg) now ?i (get_build_input_friends ?i ?e) ?e
       else (NoContent204, ?e))"
      using record_report_accepted[OF log 1 2[unfolded res]]
      by (simp add: submit_rebuild_report_def assms(2) q0)
  qed (rule log)
qed

lemma job_gone:
  "queued \<notin> set (rows (sql_delete (\<lambda>q. q_id q = q_id queued) t))"
  by (simp add: rows_delete)

lemma requeue_rows:
  assumes "db_ok d" "queued \<in> set (rows (queue d))"
    and "queue e = sql_delete (\<lambda>q. q_id q = q_id queued) (queue d)"
  shows "rows (queue (snd (queue_upsert
      \<lparr>nq_build_input_id = q_build_input_id queued, nq_priority = p, nq_queued_at = now\<rparr> e))) =
    filter (\<lambda>q. q_id q \<noteq> q_id queued) (rows (queue d)) @
    [\<lparr>q_id = seq (queue d) + 1, q_build_input_id = q_build_input_id queued, q_priority = p,
      q_queued_at = now, q_started_at = None, q_worker = None, q_last_ping = None\<rparr>]"
proof -
  let ?n = "\<lparr>nq_build_input_id = q_build_input_id queued, nq_priority = p, nq_queued_at = now\<rparr>"
  have "\<forall>q\<in>set (rows (queue d)). q_build_input_id q = q_build_input_id queued \<longrightarrow> q = queued"
    using db_ok_facts(18)[OF assms(1)] assms(2) by (auto simp: unique_on_def dest: distinct_map_eqD)
  then have "nq_build_input_id ?n \<notin> q_build_input_id ` set (rows (queue e))"
    by (auto simp: assms(3) rows_delete)
  from queue_table.upsert_miss[OF this] show ?thesis
    by (simp add: queue_upsert_def rows_insert assms(3) rows_delete seq_simps queued_row_def)
qed

lemma worst_retries_frame: "build_inputs e = build_inputs d \<Longrightarrow> worst_retries b e = worst_retries b d"
  by (simp add: worst_retries_def)

section \<open>Properties\<close>

text \<open>C5: When a worker reports a result, the same entry (the job's start, the time built, one
  stored build log and the status, with the artifacts and the ids of their logs) is appended to
  the history of every build input with the same source URL, backend and architecture, and no
  other history changes; the log stored is the compressed one and the job leaves the queue.\<close>

theorem report_recorded_for_friends:
  assumes "db_ok d" "auth_worker cfg req t0 d = (Inr w, d0)" "total_encoder enc"
    and "queued \<in> set (rows (queue d))" "q_id queued = rr_queue_id report"
    and "b \<in> set (rows (build_inputs d))" "bi_id b = q_build_input_id queued"
    and "submit_rebuild_report enc cfg req t0 now report d = (r, d')"
  shows "r = NoContent204 \<and> q_id queued \<notin> q_id ` set (rows (queue d')) \<and>
    (\<exists>log log_id logs. ensure_compressed enc (rr_build_log report) = Inr log \<and>
       rows (build_logs d') = rows (build_logs d) @ [\<lparr>bl_id = log_id, bl_build_log = log\<rparr>] \<and>
       (\<forall>b' \<in> set (rows (build_inputs d)). history d' (bi_id b') = history d (bi_id b') @
          (if input_origin b' = input_origin b then [report_entry report queued log_id logs] else [])))"
proof (rule submit_accepted[OF assms(1-5), where now = now])
  fix log log_id logs e
  assume S: "ensure_compressed enc (rr_build_log report) = Inr log"
    "rows (build_logs e) = rows (build_logs d) @ [\<lparr>bl_id = log_id, bl_build_log = log\<rparr>]"
    "db_ok e" "build_inputs e = build_inputs d"
    "queue e = sql_delete (\<lambda>q. q_id q = q_id queued) (queue d)"
    "\<And>j. history e j = history d j @ (if j \<in> set (build_input_friends (q_build_input_id queued) d)
       then [report_entry report queued log_id logs] else [])"
    "submit_rebuild_report enc cfg req t0 now report d =
      (if rr_status report \<noteq> Good
       then schedule_retry (cfg_schedule cfg) now (q_build_input_id queued)
         (get_build_input_friends (q_build_input_id queued) e) e
       else (NoContent204, e))"
  have "r = NoContent204 \<and> q_id queued \<notin> q_id ` set (rows (queue d')) \<and>
    rebuilds d' = rebuilds e \<and> rebuild_artifacts d' = rebuild_artifacts e \<and> build_logs d' = build_logs e"
  proof (cases "rr_status report = Good")
    case True
    with S(5,7) assms(8) show ?thesis by (auto simp: rows_delete)
  next
    case False
    have be: "b \<in> set (rows (build_inputs e))" using assms(6) S(4) by simp
    have "schedule_retry (cfg_schedule cfg) now (bi_id b) (get_build_input_friends (bi_id b) e) e = (r, d')"
      using S(7) False assms(7,8) by simp
    note R = schedule_retry_result[OF S(3) be refl this]
    have "seq (queue d) + 1 \<noteq> q_id queued"
      using db_ok_facts(6)[OF assms(1)] assms(4) by (fastforce simp: wf_table_def)
    then have "q_id queued \<notin> q_id ` set (rows (queue d'))"
      using R requeue_rows[OF assms(1,4) S(5), of priority_retry now] S(5) assms(7)
      by (auto simp: rows_delete split: if_splits)
    with R show ?thesis by simp
  qed
  moreover from this have "history d' j = history e j" for j by (intro history_frame) simp_all
  moreover have "bi_id b' \<in> set (build_input_friends (q_build_input_id queued) d) \<longleftrightarrow>
      input_origin b' = input_origin b" if "b' \<in> set (rows (build_inputs d))" for b'
    using friend_row[OF assms(1,6) that] assms(7) by simp
  ultimately show ?thesis
    by (intro conjI exI[of _ log] exI[of _ log_id] exI[of _ logs]) (simp_all add: S(1,2,6))
qed

text \<open>C29: A good result changes nothing else: exactly the job's row leaves the queue, and no
  retry is counted or scheduled for any build input.\<close>

theorem good_report_ends_job:
  assumes "db_ok d" "auth_worker cfg req t0 d = (Inr w, d0)" "total_encoder enc"
    and "queued \<in> set (rows (queue d))" "q_id queued = rr_queue_id report"
    and "rr_status report = Good"
  shows "queue (snd (submit_rebuild_report enc cfg req t0 now report d)) =
      sql_delete (\<lambda>q. q_id q = q_id queued) (queue d) \<and>
    build_inputs (snd (submit_rebuild_report enc cfg req t0 now report d)) = build_inputs d"
  by (rule submit_accepted[OF assms(1-5), where now = now]) (simp add: assms(6))

text \<open>C6: A result that is not good counts a retry for every build input of the same origin. If
  the largest count of them then reaches \<open>max_retries\<close>, none of them is scheduled again or stays
  queued; otherwise they may all be retried after the count plus one times the base delay, and
  the reported input is queued again, free, with the retry priority.\<close>

theorem failed_report_retries:
  assumes "db_ok d" "auth_worker cfg req t0 d = (Inr w, d0)" "total_encoder enc"
    and "queued \<in> set (rows (queue d))" "q_id queued = rr_queue_id report"
    and "b \<in> set (rows (build_inputs d))" "bi_id b = q_build_input_id queued"
    and "rr_status report \<noteq> Good" "n = worst_retries b d + 1"
    and "submit_rebuild_report enc cfg req t0 now report d = (r, d')"
  shows "rows (build_inputs d') = map (\<lambda>b'. if input_origin b' = input_origin b
        then b'\<lparr>bi_retries := bi_retries b' + 1, bi_next_retry :=
            if gives_up (cfg_schedule cfg) n then None
            else Some (now + seconds ((n + 1) * retry_delay_base (cfg_schedule cfg) * 3600))\<rparr>
        else b') (rows (build_inputs d)) \<and>
    rows (queue d') =
      (if gives_up (cfg_schedule cfg) n
       then filter (\<lambda>q. q_build_input_id q \<notin> set (build_input_friends (bi_id b) d)) (rows (queue d))
       else filter (\<lambda>q. q_id q \<noteq> q_id queued) (rows (queue d)) @
         [\<lparr>q_id = seq (queue d) + 1, q_build_input_id = bi_id b, q_priority = Priority 2,
           q_queued_at = now, q_started_at = None, q_worker = None, q_last_ping = None\<rparr>])"
proof (rule submit_accepted[OF assms(1-5), where now = now])
  fix log log_id logs e
  assume e: "db_ok e" "build_inputs e = build_inputs d"
    "queue e = sql_delete (\<lambda>q. q_id q = q_id queued) (queue d)"
    and run: "submit_rebuild_report enc cfg req t0 now report d =
      (if rr_status report \<noteq> Good
       then schedule_retry (cfg_schedule cfg) now (q_build_input_id queued)
         (get_build_input_friends (q_build_input_id queued) e) e
       else (NoContent204, e))"
  have be: "b \<in> set (rows (build_inputs e))" using assms(6) e(2) by simp
  have "schedule_retry (cfg_schedule cfg) now (bi_id b) (get_build_input_friends (bi_id b) e) e = (r, d')"
    using run assms(7,8,10) by simp
  note R = schedule_retry_result[OF e(1) be _ this, of n, unfolded worst_retries_frame[OF e(2)], OF assms(9)]
  have fr: "build_input_friends (bi_id b) e = build_input_friends (bi_id b) d"
    by (rule friends_frame[OF e(2)])
  have "bi_id b \<in> set (build_input_friends (bi_id b) d)"
    using assms(1,6) by (intro friends_self) simp_all
  then have del: "filter (\<lambda>q. q_build_input_id q \<notin> set (build_input_friends (bi_id b) d))
        (filter (\<lambda>q. q_id q \<noteq> q_id queued) (rows (queue d))) =
      filter (\<lambda>q. q_build_input_id q \<notin> set (build_input_friends (bi_id b) d)) (rows (queue d))"
    unfolding filter_filter
    by (intro filter_cong refl)
      (use assms(4,7) wf_table_id_unique[OF db_ok_facts(6)[OF assms(1)]] in metis)
  show ?thesis
    using R requeue_rows[OF assms(1,4) e(3), of priority_retry now, folded assms(7)]
    by (simp add: e(2,3) fr rows_delete del after_retry_def retry_time_def priority_retry_def
        default_retry_priority_def default_queue_priority_def
        del: filter_filter)
qed

section \<open>The properties at work\<close>

definition sample_encoder :: encoder where
  "sample_encoder cs = Inr (zstd_magic @ concat cs)"

lemma sample_encoder_total: "total_encoder sample_encoder"
  by (simp add: total_encoder_def sample_encoder_def)

definition sample_result :: "build_status \<Rightarrow> rebuild_report" where
  "sample_result s =
     \<lparr>rr_queue_id = 1, rr_built_at = 20, rr_build_log = [1, 2], rr_status = s,
      rr_artifacts = [\<lparr>rar_name = ''x'', rar_diffoscope = Some [3], rar_attestation = None,
        rar_status = ArtifactBad\<rparr>]\<rparr>"

lemma sample_auth:
  obtains w d0 where "auth_worker sample_cfg sample_req t sample_db_held = (Inr w, d0)"
proof -
  have "isl (fst (auth_worker sample_cfg sample_req t sample_db_held)) = False"
    by (simp add: auth_worker_def get_or_create_def sample_cfg_def sample_req_def header_def)
  then show thesis
    by (cases "auth_worker sample_cfg sample_req t sample_db_held"; cases "fst (auth_worker sample_cfg sample_req t sample_db_held)")
      (auto intro: that)
qed

lemma sample_held_queued:
  "sample_held \<in> set (rows (queue sample_db_held))" "q_id sample_held = rr_queue_id (sample_result s)"
  "sample_input 1 1 \<in> set (rows (build_inputs sample_db_held))"
  "bi_id (sample_input 1 1) = q_build_input_id sample_held"
  by (simp_all add: sample_db_held_def sample_db_with_def sample_held_def sample_queued_def
      sample_result_def sample_base_def sample_input_def)

theorem report_recorded_for_friends_witness:
  "\<exists>r d' log_id logs. submit_rebuild_report sample_encoder sample_cfg sample_req 9 20 (sample_result Bad)
      sample_db_held = (r, d') \<and>
    history d' 2 = history sample_db_held 2 @ [report_entry (sample_result Bad) sample_held log_id logs]"
proof -
  obtain w d0 where auth: "auth_worker sample_cfg sample_req 9 sample_db_held = (Inr w, d0)"
    by (rule sample_auth)
  obtain r d' where run: "submit_rebuild_report sample_encoder sample_cfg sample_req 9 20
      (sample_result Bad) sample_db_held = (r, d')" by (rule prod.exhaust)
  have friend: "sample_input 2 2 \<in> set (rows (build_inputs sample_db_held))"
    "input_origin (sample_input 2 2) = input_origin (sample_input 1 1)" "bi_id (sample_input 2 2) = 2"
    by (simp_all add: sample_db_held_def sample_db_with_def sample_base_def sample_input_def input_origin_def)
  from report_recorded_for_friends[OF sample_db_ok(2) auth sample_encoder_total sample_held_queued run]
  obtain log_id logs where "\<forall>b' \<in> set (rows (build_inputs sample_db_held)). history d' (bi_id b') =
      history sample_db_held (bi_id b') @ (if input_origin b' = input_origin (sample_input 1 1)
        then [report_entry (sample_result Bad) sample_held log_id logs] else [])" by blast
  from bspec[OF this friend(1)] run show ?thesis unfolding friend(2,3) by auto
qed

theorem good_report_ends_job_witness:
  "\<exists>d'. snd (submit_rebuild_report sample_encoder sample_cfg sample_req 9 20 (sample_result Good)
      sample_db_held) = d' \<and> rows (queue d') = [] \<and> build_inputs d' = build_inputs sample_db_held"
proof -
  obtain w d0 where auth: "auth_worker sample_cfg sample_req 9 sample_db_held = (Inr w, d0)"
    by (rule sample_auth)
  have "rr_status (sample_result Good) = Good" by (simp add: sample_result_def)
  from good_report_ends_job[OF sample_db_ok(2) auth sample_encoder_total sample_held_queued(1,2) this, of 20]
  show ?thesis by (simp add: sample_db_held_def sample_db_with_def rows_delete)
qed

theorem failed_report_retries_witness:
  "\<exists>r d'. submit_rebuild_report sample_encoder sample_cfg sample_req 9 20 (sample_result Bad)
      sample_db_held = (r, d') \<and> map q_id (rows (queue d')) = [2] \<and>
    map bi_retries (rows (build_inputs d')) = [2, 2]"
proof -
  obtain w d0 where auth: "auth_worker sample_cfg sample_req 9 sample_db_held = (Inr w, d0)"
    by (rule sample_auth)
  obtain r d' where run: "submit_rebuild_report sample_encoder sample_cfg sample_req 9 20
      (sample_result Bad) sample_db_held = (r, d')" by (rule prod.exhaust)
  have bad: "rr_status (sample_result Bad) \<noteq> Good" by (simp add: sample_result_def)
  have w: "worst_retries (sample_input 1 1) sample_db_held + 1 = 2"
  proof -
    have "{b' \<in> set (rows (build_inputs sample_db_held)). input_origin b' = input_origin (sample_input 1 1)} =
        {sample_input 1 1, sample_input 2 2}"
      by (auto simp: sample_db_held_def sample_db_with_def sample_base_def sample_input_def input_origin_def)
    then show ?thesis by (simp add: worst_retries_def) (simp add: sample_input_def)
  qed
  have ng: "\<not> gives_up (cfg_schedule sample_cfg) 2"
    by (simp add: gives_up_def max_retries_def sample_cfg_def sample_schedule_def)
  from failed_report_retries[OF sample_db_ok(2) auth sample_encoder_total sample_held_queued bad refl run]
  show ?thesis using run
    by (simp add: w ng) (simp add: sample_db_held_def sample_db_with_def sample_base_def sample_rows
        input_origin_def)
qed

end
