(* ===== verification/Workers.thy ===== *)
theory Workers
  imports Auth Pagination
begin

text \<open>
  The registry of workers (\<open>daemon/src/api/v1/worker.rs\<close>). Parsing an IP address and printing it
  back in its canonical form is the parameter \<open>parse_ip\<close>.
\<close>

definition to_worker_view :: "worker \<Rightarrow> worker_view" where
  "to_worker_view w =
     \<lparr>wv_id = w_id w, wv_name = w_name w, wv_address = w_address w, wv_status = w_status w,
      wv_last_ping = w_last_ping w, wv_is_online = w_online w\<rparr>"

definition worker_columns :: "worker_view columns" where
  "worker_columns =
     [(''id'', \<lambda>v. Int_value (wv_id v)), (''name'', \<lambda>v. Text_value (wv_name v)),
      (''address'', \<lambda>v. Text_value (wv_address v)),
      (''status'', \<lambda>v. opt_text_value (wv_status v)),
      (''last_ping'', \<lambda>v. Int_value (wv_last_ping v)),
      (''online'', \<lambda>v. bool_value (wv_is_online v))]"

definition workers_base :: "db \<Rightarrow> worker_view list" where
  "workers_base d = map to_worker_view (rows (workers d))"

definition get_workers :: "page \<Rightarrow> db \<Rightarrow> worker_view result_page response" where
  "get_workers pg d =
     (case paginate worker_columns wv_id pg (workers_base d) of
        Inl _ \<Rightarrow> Error500
      | Inr rs \<Rightarrow> Ok200 \<lparr>total = int (length (workers_base d)), records = rs\<rparr>)"

definition client_ip :: "(string \<Rightarrow> string option) \<Rightarrow> config \<Rightarrow> http_request \<Rightarrow> string result" where
  "client_ip parse_ip cfg req =
     (case cfg_real_ip_header cfg of
        Some real_ip_header \<Rightarrow>
          (case header req real_ip_header of
             Inl e \<Rightarrow> Inl e
           | Inr ip \<Rightarrow> (case parse_ip ip of None \<Rightarrow> Inl LibraryError | Some ip \<Rightarrow> Inr ip))
      | None \<Rightarrow> (case rq_peer_addr req of None \<Rightarrow> Inl LibraryError | Some ip \<Rightarrow> Inr ip))"

definition register_worker ::
  "(string \<Rightarrow> string option) \<Rightarrow> config \<Rightarrow> http_request \<Rightarrow> time \<Rightarrow> register_worker_request \<Rightarrow> db \<Rightarrow>
   unit response \<times> db" where
  "register_worker parse_ip cfg req now request d =
     (case signup cfg req of
        Inl _ \<Rightarrow> (Forbidden403, d)
      | Inr _ \<Rightarrow>
         (case header req worker_key_header of
            Inl _ \<Rightarrow> (Error500, d)
          | Inr key \<Rightarrow>
             (case client_ip parse_ip cfg req of
                Inl _ \<Rightarrow> (Error500, d)
              | Inr ip \<Rightarrow>
                  (NoContent204, snd (worker_upsert
                     \<lparr>nw_key = key, nw_name = rw_name request, nw_address = ip, nw_status = None,
                      nw_last_ping = now, nw_online = True\<rparr> d)))))"

definition get_worker :: "int \<Rightarrow> db \<Rightarrow> worker_view response" where
  "get_worker i d =
     (case filter (\<lambda>v. wv_id v = i) (workers_base d) of [] \<Rightarrow> NotFound404 | v # _ \<Rightarrow> Ok200 v)"

definition unregister_worker ::
  "config \<Rightarrow> http_request \<Rightarrow> time \<Rightarrow> int \<Rightarrow> db \<Rightarrow> unit response \<times> db" where
  "unregister_worker cfg req now i d0 =
     (case auth_worker cfg req now d0 of
        (Inl _, d) \<Rightarrow> (Forbidden403, d)
      | (Inr _, d) \<Rightarrow>
          (if sql_count (\<lambda>w. w_id w = i) (workers d) < 1 then NotFound404 else NoContent204,
           d\<lparr>workers := sql_delete (\<lambda>w. w_id w = i) (workers d)\<rparr>))"

section \<open>The invariant\<close>

lemma db_ok_register_worker [wf_intros]:
  "db_ok d \<Longrightarrow> db_ok (snd (register_worker parse_ip cfg req now request d))"
  by (auto simp: register_worker_def db_ok_worker_upsert split: sum.split)

lemma db_ok_workers_delete [wf_intros]:
  "db_ok d \<Longrightarrow> db_ok (d\<lparr>workers := sql_delete p (workers d)\<rparr>)"
  by (rule db_ok_workers) (simp_all add: db_ok_facts wf_table_delete unique_on_delete)

lemma db_ok_unregister_worker [wf_intros]:
  assumes "db_ok d"
  shows "db_ok (snd (unregister_worker cfg req now i d))"
  using db_ok_auth_worker[OF assms, of cfg req now]
  by (cases "auth_worker cfg req now d")
    (auto simp: unregister_worker_def db_ok_workers_delete split: sum.split)

section \<open>Signing up\<close>

lemma signup_ok:
  "signup cfg req = Inr () \<longleftrightarrow>
     (\<exists>k. header req worker_key_header = Inr k \<and>
        (authorized_workers (cfg_worker cfg) = [] \<or> k \<in> set (authorized_workers (cfg_worker cfg)))) \<and>
     (\<forall>s. signup_secret (cfg_worker cfg) = Some s \<longrightarrow> header req signup_secret_header = Inr s)"
  by (auto simp: signup_def not_allow_listed_iff split: sum.split option.split)

lemma worker_upsert_rows:
  assumes "db_ok d"
  shows "set (rows (workers (snd (worker_upsert n d)))) =
    insert (fst (worker_upsert n d)) {w \<in> set (rows (workers d)). w_key w \<noteq> nw_key n}"
  using worker_table.upsert_rows[OF db_ok_facts(19)[OF assms], of n]
  by (simp add: worker_upsert_def)

lemma worker_upsert_fields:
  assumes "w = fst (worker_upsert n d)"
  shows "w_key w = nw_key n" "w_name w = nw_name n" "w_address w = nw_address n"
    "w_status w = nw_status n" "w_last_ping w = nw_last_ping n" "w_online w = nw_online n"
  using assms
  by (auto simp: worker_upsert_def sql_upsert_def sql_insert_def worker_row_def worker_set_def
      split: option.split)

end
