(* ===== verification/Dashboard.thy ===== *)
theory Dashboard
  imports Packages Queue Sample
begin

text \<open>The dashboard's aggregates (\<open>daemon/src/api/v1/dashboard.rs\<close>).\<close>

record dashboard_rebuild_state =
  good :: int
  bad :: int
  fail :: int
  unknown :: int

record dashboard_job_state =
  running :: int
  available :: int
  pending :: int

record dashboard_state =
  dash_rebuilds :: dashboard_rebuild_state
  dash_jobs :: dashboard_job_state

definition queue_count_base :: "db \<Rightarrow> queue_row list" where
  "queue_count_base d = filter (\<lambda>(q, b, s). sp_seen_in_last_sync s) (queue_base d)"

definition dashboard_rows :: "origin_filter \<Rightarrow> db \<Rightarrow> source_row list" where
  "dashboard_rows origin d =
     filter (\<lambda>((s, b), r1). origin_matches origin s (bi_architecture b) \<and> sp_seen_in_last_sync s)
       (source_packages_base d)"

text \<open>\<open>SUM\<close> of no rows is \<open>NULL\<close>, which the code reads as 0.\<close>

definition sum_when :: "('r \<Rightarrow> bool) \<Rightarrow> 'r list \<Rightarrow> int option" where
  "sum_when p rs = (if rs = [] then None else Some (sum_list (map (\<lambda>r. if p r then 1 else 0) rs)))"

definition unwrap_or_zero :: "int option \<Rightarrow> int" where
  "unwrap_or_zero c = (case c of None \<Rightarrow> 0 | Some n \<Rightarrow> n)"

definition get_dashboard :: "time \<Rightarrow> origin_filter \<Rightarrow> db \<Rightarrow> dashboard_state response" where
  "get_dashboard now origin d =
     (let rs = map (\<lambda>x. r1_status (snd x)) (dashboard_rows origin d);
          jobs = filter (\<lambda>(q, b, s). origin_matches origin s (bi_architecture b)) (queue_count_base d)
      in Ok200
        \<lparr>dash_rebuilds =
           \<lparr>good = unwrap_or_zero (sum_when (\<lambda>c. c = Some ''GOOD'') rs),
            bad = unwrap_or_zero (sum_when (\<lambda>c. c = Some ''BAD'') rs),
            fail = unwrap_or_zero (sum_when (\<lambda>c. c = Some ''FAIL'') rs),
            unknown = unwrap_or_zero (sum_when (\<lambda>c. c = Some ''UNKWN'' \<or> c = None) rs)\<rparr>,
         dash_jobs =
           \<lparr>running = int (length (filter (\<lambda>(q, b, s). q_worker q \<noteq> None) jobs)),
            available = int (length (filter (\<lambda>(q, b, s). q_worker q = None \<and>
               (bi_next_retry b = None \<or> the (bi_next_retry b) \<le> now)) jobs)),
            pending = int (length (filter (\<lambda>(q, b, s). q_worker q = None \<and>
               (bi_next_retry b \<noteq> None \<and> now < the (bi_next_retry b))) jobs))\<rparr>\<rparr>)"

section \<open>Counting\<close>

lemma sum_when_length: "unwrap_or_zero (sum_when p rs) = int (length (filter p rs))"
proof -
  have "sum_list (map (\<lambda>r. if p r then 1 else 0) rs) = int (length (filter p rs))"
    by (induction rs) simp_all
  then show ?thesis by (simp add: sum_when_def unwrap_or_zero_def)
qed

lemma length_partition4:
  assumes "\<forall>r\<in>set rs. (p1 r \<or> p2 r \<or> p3 r \<or> p4 r) \<and> \<not> (p1 r \<and> p2 r) \<and> \<not> (p1 r \<and> p3 r) \<and>
    \<not> (p1 r \<and> p4 r) \<and> \<not> (p2 r \<and> p3 r) \<and> \<not> (p2 r \<and> p4 r) \<and> \<not> (p3 r \<and> p4 r)"
  shows "length (filter p1 rs) + length (filter p2 rs) + length (filter p3 rs) + length (filter p4 rs) =
    length rs"
  using assms by (induction rs) auto

lemma length_partition3:
  assumes "\<forall>r\<in>set rs. (p1 r \<or> p2 r \<or> p3 r) \<and> \<not> (p1 r \<and> p2 r) \<and> \<not> (p1 r \<and> p3 r) \<and> \<not> (p2 r \<and> p3 r)"
  shows "length (filter p1 rs) + length (filter p2 rs) + length (filter p3 rs) = length rs"
  using assms by (induction rs) auto

lemma status_text_cases:
  "status_text_ok c \<Longrightarrow> c = None \<or> c \<in> Some ` {''GOOD'', ''BAD'', ''FAIL'', ''UNKWN''}"
proof (cases c)
  case (Some v)
  moreover assume "status_text_ok c"
  ultimately obtain s where "v = build_status_as_str s" by (auto simp: status_text_ok_def)
  with Some show ?thesis by (cases s) simp_all
qed simp

lemma source_packages_base_latest:
  assumes "db_ok d"
  shows "source_packages_base d =
    map (\<lambda>x. (x, latest_rebuild (bi_id (snd x)) (rows (rebuilds d))))
      (inner_join (\<lambda>s b. bi_source_package_id b = sp_id s) (rows (source_packages d))
        (rows (build_inputs d)))"
  by (simp add: source_packages_base_def join_latest_db[OF assms])

lemma r1_status_cases:
  assumes "db_ok d" "x \<in> set (source_packages_base d)"
  shows "r1_status (snd x) = None \<or> r1_status (snd x) \<in> Some ` {''GOOD'', ''BAD'', ''FAIL'', ''UNKWN''}"
proof (cases "snd x")
  case None
  then show ?thesis by (simp add: r1_status_def)
next
  case (Some r)
  with assms have "r \<in> set (rows (rebuilds d))"
    by (auto simp: source_packages_base_latest dest: latest_rebuild_Some)
  then have "status_text_ok (rb_status r)"
    using db_ok_facts(34)[OF assms(1)] by (simp add: rebuild_ok_def)
  with Some show ?thesis using status_text_cases by (simp add: r1_status_def)
qed

definition dashboard_inputs :: "origin_filter \<Rightarrow> db \<Rightarrow> (source_package \<times> build_input) list" where
  "dashboard_inputs origin d =
     filter (\<lambda>(s, b). origin_matches origin s (bi_architecture b) \<and> sp_seen_in_last_sync s)
       (inner_join (\<lambda>s b. bi_source_package_id b = sp_id s) (rows (source_packages d))
          (rows (build_inputs d)))"

definition latest_status :: "build_input \<Rightarrow> db \<Rightarrow> string option" where
  "latest_status b d = r1_status (latest_rebuild (bi_id b) (rows (rebuilds d)))"

lemma dashboard_rows_latest:
  assumes "db_ok d"
  shows "map (\<lambda>x. r1_status (snd x)) (dashboard_rows origin d) =
    map (\<lambda>(s, b). latest_status b d) (dashboard_inputs origin d)"
  by (simp add: dashboard_rows_def source_packages_base_latest[OF assms] dashboard_inputs_def
      filter_map o_def case_prod_unfold latest_status_def)

lemma dashboard_statuses:
  assumes "db_ok d" "c \<in> set (map (\<lambda>x. r1_status (snd x)) (dashboard_rows origin d))"
  shows "c = None \<or> c \<in> Some ` {''GOOD'', ''BAD'', ''FAIL'', ''UNKWN''}"
proof -
  from assms(2) obtain x where "x \<in> set (source_packages_base d)" "c = r1_status (snd x)"
    by (auto simp: dashboard_rows_def)
  with r1_status_cases[OF assms(1)] show ?thesis by simp
qed

lemma job_partition:
  "length (filter (\<lambda>(q, b, s). q_worker q \<noteq> None) jobs) +
   length (filter (\<lambda>(q, b, s). q_worker q = None \<and>
     (bi_next_retry b = None \<or> the (bi_next_retry b) \<le> now)) jobs) +
   length (filter (\<lambda>(q, b, s). q_worker q = None \<and>
     (bi_next_retry b \<noteq> None \<and> now < the (bi_next_retry b))) jobs) = length jobs"
  by (rule length_partition3) auto

text \<open>The dashboard counts every build input of a seen package of the filter exactly once,
  under the status of its latest rebuild, and every queued job of such a package exactly once, as
  running, available or waiting for its retry.\<close>

theorem dashboard_partition:
  assumes "db_ok d" "get_dashboard now origin d = Ok200 D"
  shows "good (dash_rebuilds D) + bad (dash_rebuilds D) + fail (dash_rebuilds D) + unknown (dash_rebuilds D) =
      int (length (dashboard_inputs origin d)) \<and>
    good (dash_rebuilds D) =
      int (length (filter (\<lambda>(s, b). latest_status b d = Some ''GOOD'') (dashboard_inputs origin d))) \<and>
    bad (dash_rebuilds D) =
      int (length (filter (\<lambda>(s, b). latest_status b d = Some ''BAD'') (dashboard_inputs origin d))) \<and>
    fail (dash_rebuilds D) =
      int (length (filter (\<lambda>(s, b). latest_status b d = Some ''FAIL'') (dashboard_inputs origin d))) \<and>
    running (dash_jobs D) + available (dash_jobs D) + pending (dash_jobs D) =
      int (length (filter (\<lambda>(q, b, s). sp_seen_in_last_sync s \<and>
        origin_matches origin s (bi_architecture b)) (queue_base d)))"
proof -
  define cs where "cs = map (\<lambda>(s, b). latest_status b d) (dashboard_inputs origin d)"
  define jobs where "jobs = filter (\<lambda>(q, b, s). origin_matches origin s (bi_architecture b)) (queue_count_base d)"
  have cs: "map (\<lambda>x. r1_status (snd x)) (dashboard_rows origin d) = cs"
    by (simp add: cs_def dashboard_rows_latest[OF assms(1)])
  have jobs': "jobs = filter (\<lambda>(q, b, s). sp_seen_in_last_sync s \<and>
        origin_matches origin s (bi_architecture b)) (queue_base d)"
    by (simp add: jobs_def queue_count_base_def case_prod_unfold)
  have "\<forall>c\<in>set cs. c = None \<or> c \<in> Some ` {''GOOD'', ''BAD'', ''FAIL'', ''UNKWN''}"
    using dashboard_statuses[OF assms(1), where origin = origin] by (simp only: cs) blast
  then have "length (filter (\<lambda>c. c = Some ''GOOD'') cs) + length (filter (\<lambda>c. c = Some ''BAD'') cs) +
      length (filter (\<lambda>c. c = Some ''FAIL'') cs) +
      length (filter (\<lambda>c. c = Some ''UNKWN'' \<or> c = None) cs) = length cs"
    by (intro length_partition4) auto
  moreover have "length (filter (\<lambda>c. c = t) cs) =
      length (filter (\<lambda>(s, b). latest_status b d = t) (dashboard_inputs origin d))" for t
    by (simp add: cs_def filter_map o_def case_prod_unfold)
  moreover have "length cs = length (dashboard_inputs origin d)" by (simp add: cs_def)
  moreover note job_partition[of jobs now]
  ultimately show ?thesis
    using assms(2)
    by (auto simp: get_dashboard_def Let_def cs jobs_def[symmetric] sum_when_length jobs')
qed

theorem dashboard_partition_witness:
  "\<exists>D. get_dashboard 10 any_origin sample_db = Ok200 D \<and>
     good (dash_rebuilds D) + bad (dash_rebuilds D) + fail (dash_rebuilds D) + unknown (dash_rebuilds D) = 2 \<and>
     running (dash_jobs D) + available (dash_jobs D) + pending (dash_jobs D) = 1"
proof -
  obtain D where D: "get_dashboard 10 any_origin sample_db = Ok200 D" by (simp add: get_dashboard_def Let_def)
  have "length (dashboard_inputs any_origin sample_db) = 2" by code_simp
  moreover have "length (filter (\<lambda>(q, b, s). sp_seen_in_last_sync s \<and>
        origin_matches any_origin s (bi_architecture b)) (queue_base sample_db)) = 1" by code_simp
  ultimately show ?thesis using dashboard_partition[OF sample_db_ok(1) D] D by auto
qed

end
