(* ===== verification/Meta.thy ===== *)
theory Meta
  imports Filters Sample
begin

text \<open>
  The lists of what is on file (\<open>daemon/src/api/v1/meta.rs\<close>): distributions, releases,
  components and architectures. \<open>SELECT DISTINCT\<close> is \<open>remdups\<close>; SQL leaves its order open, so
  the properties speak of sets. The public key comes from the signing library: \<open>to_pem\<close>.
\<close>

definition no_release :: string where "no_release = ''-''"

definition derive_release :: "string \<Rightarrow> string option" where
  "derive_release release = (if release \<noteq> no_release then Some release else None)"

definition sources_with_inputs :: "db \<Rightarrow> (source_package \<times> build_input) list" where
  "sources_with_inputs d =
     inner_join (\<lambda>s b. bi_source_package_id b = sp_id s) (rows (source_packages d))
       (rows (build_inputs d))"

definition get_distributions :: "freshness_filter \<Rightarrow> db \<Rightarrow> string list response" where
  "get_distributions f d =
     Ok200 (remdups (map sp_distribution (filter (freshness_matches f) (rows (source_packages d)))))"

definition get_distribution_releases ::
  "string \<Rightarrow> freshness_filter \<Rightarrow> db \<Rightarrow> string option list response" where
  "get_distribution_releases distribution f d =
     Ok200 (remdups (map sp_release (filter (\<lambda>s. sp_distribution s = distribution \<and>
       freshness_matches f s) (rows (source_packages d)))))"

definition get_distribution_architectures ::
  "string \<Rightarrow> freshness_filter \<Rightarrow> db \<Rightarrow> string list response" where
  "get_distribution_architectures distribution f d =
     Ok200 (remdups (map (\<lambda>(s, b). bi_architecture b) (filter (\<lambda>(s, b).
       sp_distribution s = distribution \<and> freshness_matches f s) (sources_with_inputs d))))"

definition get_distribution_components ::
  "string \<Rightarrow> freshness_filter \<Rightarrow> db \<Rightarrow> string option list response" where
  "get_distribution_components distribution f d =
     Ok200 (remdups (map sp_component (filter (\<lambda>s. sp_distribution s = distribution \<and>
       freshness_matches f s) (rows (source_packages d)))))"

definition get_distribution_release_architectures ::
  "string \<Rightarrow> string \<Rightarrow> freshness_filter \<Rightarrow> db \<Rightarrow> string list response" where
  "get_distribution_release_architectures distribution release f d =
     Ok200 (remdups (map (\<lambda>(s, b). bi_architecture b) (filter (\<lambda>(s, b).
       sp_distribution s = distribution \<and> sp_release s = Some release \<and> freshness_matches f s)
       (sources_with_inputs d))))"

definition get_distribution_release_components ::
  "string \<Rightarrow> string \<Rightarrow> freshness_filter \<Rightarrow> db \<Rightarrow> string option list response" where
  "get_distribution_release_components distribution release f d =
     Ok200 (remdups (map sp_component (filter (\<lambda>s. sp_distribution s = distribution \<and>
       sp_release s = Some release \<and> freshness_matches f s) (rows (source_packages d)))))"

text \<open>The release and the component are each filtered twice: as given, and as the path is read.\<close>

definition get_distribution_release_component_architectures ::
  "string \<Rightarrow> string \<Rightarrow> string \<Rightarrow> freshness_filter \<Rightarrow> db \<Rightarrow> string list response" where
  "get_distribution_release_component_architectures distribution path_release path_component f d =
     (let release = derive_release path_release
      in Ok200 (remdups (map (\<lambda>(s, b). bi_architecture b) (filter (\<lambda>(s, b).
           sp_distribution s = distribution \<and> sp_release s = release \<and>
           sp_component s = Some path_component \<and>
           (if path_release = [] then sp_release s = None else sp_release s = Some path_release) \<and>
           (if path_component = [] then sp_component s = None
            else sp_component s = Some path_component) \<and>
           freshness_matches f s) (sources_with_inputs d)))))"

definition get_public_key :: "('key \<Rightarrow> string result) \<Rightarrow> 'key \<Rightarrow> string list response" where
  "get_public_key to_pem public =
     (case to_pem public of Inl _ \<Rightarrow> Error500 | Inr public_key \<Rightarrow> Ok200 [public_key])"

section \<open>What the lists hold\<close>

lemma set_sources_with_inputs:
  "(s, b) \<in> set (sources_with_inputs d) \<longleftrightarrow> s \<in> set (rows (source_packages d)) \<and>
     b \<in> set (rows (build_inputs d)) \<and> bi_source_package_id b = sp_id s"
  by (auto simp: sources_with_inputs_def set_inner_join)

text \<open>The architectures listed for a component are exactly those of its build inputs, if
  release and component are both named; but a component filed without a release or without a
  component name (a path of \<open>-\<close> or the empty string) is never found: its list is empty.\<close>

theorem component_architectures:
  assumes "get_distribution_release_component_architectures dist r c f d = Ok200 archs"
  shows "if r = ''-'' \<or> r = [] \<or> c = [] then archs = []
    else set archs = {bi_architecture b | s b. s \<in> set (rows (source_packages d)) \<and>
      b \<in> set (rows (build_inputs d)) \<and> bi_source_package_id b = sp_id s \<and>
      sp_distribution s = dist \<and> sp_release s = Some r \<and> sp_component s = Some c \<and>
      freshness_matches f s}"
proof (cases "r = ''-'' \<or> r = [] \<or> c = []")
  case True
  with assms show ?thesis
    by (auto simp: get_distribution_release_component_architectures_def derive_release_def
        no_release_def Let_def filter_empty_conv)
next
  case False
  then have "set archs = {bi_architecture b | s b. (s, b) \<in> set (sources_with_inputs d) \<and>
      sp_distribution s = dist \<and> sp_release s = Some r \<and> sp_component s = Some c \<and>
      freshness_matches f s}"
    using assms
    by (auto simp: get_distribution_release_component_architectures_def derive_release_def
        no_release_def Let_def image_iff) blast+
  then show ?thesis using False unfolding set_sources_with_inputs by auto
qed

theorem component_architectures_witness:
  "get_distribution_release_component_architectures ''d'' ''-'' ''main'' \<lparr>seen_only = None\<rparr> sample_db =
     Ok200 []"
proof -
  obtain archs where a: "get_distribution_release_component_architectures ''d'' ''-'' ''main''
      \<lparr>seen_only = None\<rparr> sample_db = Ok200 archs"
    by (simp add: get_distribution_release_component_architectures_def Let_def)
  with component_architectures[OF a] show ?thesis by simp
qed

end
