(* ===== verification/StatsConfig.thy ===== *)
theory StatsConfig
  imports Strings
begin

text \<open>
  The error categories of the statistics (\<open>daemon/src/stats_config.rs\<close>). The regular expression
  library is a parameter: \<open>new\<close> compiles a pattern, \<open>is_match\<close> runs it. A TOML table is an
  association list. Reading the file is outside.
\<close>

record error_category =
  ec_name :: string
  ec_log_has :: "string option"
  ec_log_has_re :: "string option"
  ec_log_has_any :: "string list option"
  ec_log_has_all :: "string list option"
  ec_diff_has :: "string option"
  ec_diff_has_re :: "string option"
  ec_diff_has_any :: "string list option"
  ec_has_diff :: bool
  ec_catch_all :: bool
  ec_exclude_architectures :: "string list"

record backend_stats =
  bs_categories :: "error_category list"

record stats_config_file =
  backends :: "(string \<times> backend_stats) list"

record 're compiled_category =
  cc_inner :: error_category
  cc_log_has_re :: "'re option"
  cc_diff_has_re :: "'re option"

definition compile_opt :: "(string \<Rightarrow> 're result) \<Rightarrow> string option \<Rightarrow> 're option result" where
  "compile_opt new re =
     (case re of None \<Rightarrow> Inr None | Some re \<Rightarrow> map_sum id Some (new (''(?s)'' @ re)))"

definition compile_category :: "(string \<Rightarrow> 're result) \<Rightarrow> error_category \<Rightarrow> 're compiled_category result" where
  "compile_category new c =
     (case compile_opt new (ec_log_has_re c) of
        Inl e \<Rightarrow> Inl e
      | Inr lre \<Rightarrow>
         (case compile_opt new (ec_diff_has_re c) of
            Inl e \<Rightarrow> Inl e
          | Inr dre \<Rightarrow> Inr \<lparr>cc_inner = c, cc_log_has_re = lre, cc_diff_has_re = dre\<rparr>))"

definition substitute_arch :: "string option \<Rightarrow> string \<Rightarrow> string" where
  "substitute_arch architecture s =
     str_replace ''{arch}'' (case architecture of None \<Rightarrow> [] | Some a \<Rightarrow> a) s"

definition excluded_architecture :: "error_category \<Rightarrow> string option \<Rightarrow> bool" where
  "excluded_architecture c architecture =
     (case architecture of
        None \<Rightarrow> False
      | Some arch \<Rightarrow> list_ex (\<lambda>x. starts_with x arch) (ec_exclude_architectures c))"

text \<open>The first matcher that is set decides, in this order.\<close>

definition category_matches ::
  "('re \<Rightarrow> string \<Rightarrow> bool result) \<Rightarrow> 're compiled_category \<Rightarrow> string \<Rightarrow> string \<Rightarrow> string option \<Rightarrow> bool result" where
  "category_matches is_match cc log diff architecture =
     (let c = cc_inner cc; sub = substitute_arch architecture
      in if excluded_architecture c architecture then Inr False
         else case ec_log_has c of
           Some s \<Rightarrow> Inr (str_contains (sub s) log)
         | None \<Rightarrow> (case cc_log_has_re cc of
           Some re \<Rightarrow> is_match re log
         | None \<Rightarrow> (case ec_log_has_any c of
           Some strs \<Rightarrow> Inr (list_ex (\<lambda>s. str_contains (sub s) log) strs)
         | None \<Rightarrow> (case ec_log_has_all c of
           Some strs \<Rightarrow> Inr (list_all (\<lambda>s. str_contains (sub s) log) strs)
         | None \<Rightarrow> (case ec_diff_has c of
           Some s \<Rightarrow> Inr (str_contains (sub s) diff)
         | None \<Rightarrow> (case cc_diff_has_re cc of
           Some re \<Rightarrow> is_match re diff
         | None \<Rightarrow> (case ec_diff_has_any c of
           Some strs \<Rightarrow> Inr (diff \<noteq> [] \<and> list_ex (\<lambda>s. str_contains (sub s) diff) strs)
         | None \<Rightarrow>
             if ec_has_diff c then Inr (diff \<noteq> [])
             else if ec_catch_all c then Inr True
             else Inl LibraryError)))))))"

definition categories_for :: "stats_config_file \<Rightarrow> string \<Rightarrow> error_category list" where
  "categories_for cfg backend =
     (case map_of (backends cfg) backend of None \<Rightarrow> [] | Some b \<Rightarrow> bs_categories b) @
     (case map_of (backends cfg) ''all'' of None \<Rightarrow> [] | Some b \<Rightarrow> bs_categories b)"

definition load_or_default ::
  "(string \<Rightarrow> stats_config_file result) \<Rightarrow> (string \<Rightarrow> bool) \<Rightarrow> string option \<Rightarrow> stats_config_file result" where
  "load_or_default load path_exists path =
     (let default_path = ''/etc/rebuilderd-stats.conf''
      in case path of
           Some p \<Rightarrow> load p
         | None \<Rightarrow> if path_exists default_path then load default_path else Inr \<lparr>backends = []\<rparr>)"

section \<open>The first category\<close>

text \<open>The loop over the compiled categories of one item: errors count as no match.\<close>

fun first_category ::
  "('re \<Rightarrow> string \<Rightarrow> bool result) \<Rightarrow> 're compiled_category list \<Rightarrow> string \<Rightarrow> string \<Rightarrow> string option \<Rightarrow>
   string option" where
  "first_category is_match [] log diff architecture = None"
| "first_category is_match (cc # ccs) log diff architecture =
     (case category_matches is_match cc log diff architecture of
        Inr True \<Rightarrow> Some (ec_name (cc_inner cc))
      | _ \<Rightarrow> first_category is_match ccs log diff architecture)"

lemma first_category_Some:
  "first_category is_match ccs log diff arch = Some n \<Longrightarrow> n \<in> (ec_name \<circ> cc_inner) ` set ccs"
  by (induction ccs) (auto split: sum.splits if_splits bool.splits)

lemma first_category_None:
  "first_category is_match ccs log diff arch = None \<longleftrightarrow>
     (\<forall>cc\<in>set ccs. category_matches is_match cc log diff arch \<noteq> Inr True)"
  by (induction ccs) (auto split: sum.splits bool.splits)

text \<open>A last category with \<open>catch_all\<close> and nothing else takes whatever the others leave.\<close>

lemma catch_all_matches:
  assumes "ec_catch_all (cc_inner cc)" "\<not> ec_has_diff (cc_inner cc)" "ec_log_has (cc_inner cc) = None"
    "cc_log_has_re cc = None" "ec_log_has_any (cc_inner cc) = None" "ec_log_has_all (cc_inner cc) = None"
    "ec_diff_has (cc_inner cc) = None" "cc_diff_has_re cc = None" "ec_diff_has_any (cc_inner cc) = None"
    "\<not> excluded_architecture (cc_inner cc) arch"
  shows "category_matches is_match cc log diff arch = Inr True"
  using assms by (simp add: category_matches_def Let_def)

lemma compile_category_inner:
  "compile_category new c = Inr cc \<Longrightarrow> cc_inner cc = c"
  by (auto simp: compile_category_def split: sum.splits)

end
