(* ===== verification/Stats.thy ===== *)
theory Stats
  imports StatsConfig Dashboard
begin

text \<open>
  Statistics (\<open>daemon/src/api/v1/stats.rs\<close>): snapshots of the rebuild counts per distribution,
  release and architecture, with the failures sorted into categories. The zstd decoder, the lossy
  reading of UTF-8 and the regular expressions are parameters. An iteration over a hash map is
  over an association list, so the properties do not depend on its order.
\<close>

record stats_category_count =
  scc_category :: string
  scc_count :: int

record stats_snapshot_view =
  ssv_id :: int
  ssv_captured_at :: time
  ssv_distribution :: "string option"
  ssv_release :: "string option"
  ssv_architecture :: "string option"
  ssv_good :: int
  ssv_bad :: int
  ssv_fail :: int
  ssv_unknown :: int
  ssv_categories :: "stats_category_count list"

record stats_collect_request =
  scr_backend :: "string option"
  scr_distribution :: "string option"
  scr_release :: "string option"
  scr_architecture :: "string option"

record stats_query =
  sq_distribution :: "string option"
  sq_release :: "string option"
  sq_architecture :: "string option"
  sq_since :: "time option"
  sq_limit :: "int option"

section \<open>Reading snapshots\<close>

definition snapshot_group :: "stats_snapshot \<Rightarrow> int \<times> string option \<times> string option \<times> string option" where
  "snapshot_group s =
     (sql_date (st_captured_at s), st_distribution s, st_release s, st_architecture s)"

text \<open>\<open>SELECT MAX(id) ... GROUP BY DATE(captured_at), distribution, release, architecture\<close>.\<close>

definition latest_snapshot_ids :: "db \<Rightarrow> int list" where
  "latest_snapshot_ids d =
     map st_id (filter (\<lambda>s. \<forall>s'\<in>set (rows (stats d)).
       snapshot_group s' = snapshot_group s \<longrightarrow> st_id s' \<le> st_id s) (rows (stats d)))"

definition stats_query_matches :: "stats_query \<Rightarrow> stats_snapshot \<Rightarrow> bool" where
  "stats_query_matches q s \<longleftrightarrow>
     (case sq_distribution q of None \<Rightarrow> True | Some x \<Rightarrow> st_distribution s = Some x) \<and>
     (case sq_release q of None \<Rightarrow> True | Some x \<Rightarrow> st_release s = Some x) \<and>
     (case sq_architecture q of None \<Rightarrow> True | Some x \<Rightarrow> st_architecture s = Some x) \<and>
     (case sq_since q of None \<Rightarrow> True | Some t \<Rightarrow> t \<le> st_captured_at s)"

definition stats_limit :: "stats_query \<Rightarrow> int" where
  "stats_limit q = min (case sq_limit q of None \<Rightarrow> 100 | Some n \<Rightarrow> n) 10000"

definition snapshot_view :: "db \<Rightarrow> stats_snapshot \<Rightarrow> stats_snapshot_view" where
  "snapshot_view d s =
     \<lparr>ssv_id = st_id s, ssv_captured_at = st_captured_at s, ssv_distribution = st_distribution s,
      ssv_release = st_release s, ssv_architecture = st_architecture s, ssv_good = st_good s,
      ssv_bad = st_bad s, ssv_fail = st_fail s, ssv_unknown = st_unknown s,
      ssv_categories =
        map (\<lambda>c. \<lparr>scc_category = sc_category c, scc_count = sc_count c\<rparr>)
          (filter (\<lambda>c. sc_stats_id c = st_id s) (rows (stats_categories d)))\<rparr>"

definition get_stats :: "stats_query \<Rightarrow> db \<Rightarrow> stats_snapshot_view list response" where
  "get_stats q d =
     Ok200 (map (snapshot_view d)
       (limit_rows (Some (stats_limit q)) (sort_key st_captured_at
         (filter (\<lambda>s. stats_query_matches q s \<and> st_id s \<in> set (latest_snapshot_ids d))
           (rows (stats d))))))"

section \<open>Categories of failures\<close>

definition origin_is ::
  "string option \<Rightarrow> string option \<Rightarrow> string option \<Rightarrow> source_package \<times> build_input \<Rightarrow> bool" where
  "origin_is distribution release architecture sb \<longleftrightarrow>
     (case distribution of None \<Rightarrow> True | Some x \<Rightarrow> sp_distribution (fst sb) = x) \<and>
     (case release of None \<Rightarrow> True | Some x \<Rightarrow> sp_release (fst sb) = Some x) \<and>
     (case architecture of None \<Rightarrow> True | Some x \<Rightarrow> bi_architecture (snd sb) = x)"

text \<open>The newest rebuild by id of each build input of the origin.\<close>

definition origin_rebuild_ids ::
  "string option \<Rightarrow> string option \<Rightarrow> string option \<Rightarrow> db \<Rightarrow> int list" where
  "origin_rebuild_ids distribution release architecture d =
     (let rs = map fst (filter (\<lambda>(r, b, s). sp_seen_in_last_sync s \<and>
            origin_is distribution release architecture (s, b))
          (inner_join (\<lambda>r bs. rb_build_input_id r = bi_id (fst bs)) (rows (rebuilds d))
             (inputs_with_sources d)))
      in map (\<lambda>i. Max (rb_id ` set (filter (\<lambda>r. rb_build_input_id r = i) rs)))
           (remdups (map rb_build_input_id rs)))"

text \<open>A failed item: the rebuild it belongs to and the diffoscope output stored for it.\<close>

type_synonym failed_item = "int \<times> bytes option"

definition bad_artifacts :: "int list \<Rightarrow> db \<Rightarrow> failed_item list" where
  "bad_artifacts latest_ids d =
     map (\<lambda>a. (ra_rebuild_id a, map_option dl_diffoscope_log
         (find (\<lambda>l. ra_diffoscope_log_id a = Some (dl_id l)) (rows (diffoscope_logs d)))))
       (filter (\<lambda>a. ra_rebuild_id a \<in> set latest_ids \<and> ra_status a = Some ''BAD'')
         (rows (rebuild_artifacts d)))"

definition fail_rebuild_ids :: "int list \<Rightarrow> db \<Rightarrow> int list" where
  "fail_rebuild_ids latest_ids d =
     map rb_id (filter (\<lambda>r. rb_id r \<in> set latest_ids \<and> rb_status r = Some ''FAIL'')
       (rows (rebuilds d)))"

definition build_log_map :: "int list \<Rightarrow> db \<Rightarrow> int \<Rightarrow> bytes option" where
  "build_log_map wanted d =
     map_of (map (\<lambda>(r, l). (rb_id r, bl_build_log l))
       (inner_join (\<lambda>r l. rb_build_log_id r = bl_id l)
         (filter (\<lambda>r. rb_id r \<in> set wanted) (rows (rebuilds d))) (rows (build_logs d))))"

definition unwrap_or_default :: "bytes result \<Rightarrow> bytes" where
  "unwrap_or_default r = (case r of Inl _ \<Rightarrow> [] | Inr b \<Rightarrow> b)"

text \<open>One round of the loop over the failed items: the decompressed logs are cached by rebuild.\<close>

definition count_item ::
  "(bytes \<Rightarrow> bytes result) \<Rightarrow> (bytes \<Rightarrow> string) \<Rightarrow> ('re \<Rightarrow> string \<Rightarrow> bool result) \<Rightarrow>
   're compiled_category list \<Rightarrow> string option \<Rightarrow> (int \<Rightarrow> bytes option) \<Rightarrow> failed_item \<Rightarrow>
   (string \<Rightarrow> int option) \<times> (int \<Rightarrow> string option) \<Rightarrow> (string \<Rightarrow> int option) \<times> (int \<Rightarrow> string option)" where
  "count_item decode_all lossy is_match compiled architecture logs item st =
     (case st of (counts, cache) \<Rightarrow>
        (case (case cache (fst item) of
                 Some log \<Rightarrow> Some (log, cache)
               | None \<Rightarrow>
                  (case logs (fst item) of
                     None \<Rightarrow> None
                   | Some bl \<Rightarrow>
                       (let log = lossy (unwrap_or_default (decode_all bl))
                        in Some (log, cache(fst item \<mapsto> log))))) of
           None \<Rightarrow> (counts, cache)
         | Some (log, cache') \<Rightarrow>
             (let diff = (case snd item of
                    None \<Rightarrow> [] | Some df \<Rightarrow> lossy (unwrap_or_default (decode_all df)))
              in case first_category is_match compiled log diff architecture of
                   None \<Rightarrow> (counts, cache')
                 | Some n \<Rightarrow>
                     (counts(n \<mapsto> (case counts n of None \<Rightarrow> 0 | Some c \<Rightarrow> c) + 1), cache'))))"

fun count_items ::
  "(bytes \<Rightarrow> bytes result) \<Rightarrow> (bytes \<Rightarrow> string) \<Rightarrow> ('re \<Rightarrow> string \<Rightarrow> bool result) \<Rightarrow>
   're compiled_category list \<Rightarrow> string option \<Rightarrow> (int \<Rightarrow> bytes option) \<Rightarrow> failed_item list \<Rightarrow>
   (string \<Rightarrow> int option) \<times> (int \<Rightarrow> string option) \<Rightarrow> string \<Rightarrow> int option" where
  "count_items decode_all lossy is_match compiled architecture logs [] st = fst st"
| "count_items decode_all lossy is_match compiled architecture logs (item # items) st =
     count_items decode_all lossy is_match compiled architecture logs items
       (count_item decode_all lossy is_match compiled architecture logs item st)"

fun collect_results :: "('a \<Rightarrow> 'b result) \<Rightarrow> 'a list \<Rightarrow> 'b list result" where
  "collect_results f [] = Inr []"
| "collect_results f (x # xs) =
     (case f x of
        Inl e \<Rightarrow> Inl e
      | Inr y \<Rightarrow> (case collect_results f xs of Inl e \<Rightarrow> Inl e | Inr ys \<Rightarrow> Inr (y # ys)))"

definition failed_items :: "string option \<Rightarrow> string option \<Rightarrow> string option \<Rightarrow> db \<Rightarrow> failed_item list" where
  "failed_items distribution release architecture d =
     (let latest_ids = origin_rebuild_ids distribution release architecture d
      in bad_artifacts latest_ids d @ map (\<lambda>i. (i, None)) (fail_rebuild_ids latest_ids d))"

definition categorize_bad_packages ::
  "(bytes \<Rightarrow> bytes result) \<Rightarrow> (bytes \<Rightarrow> string) \<Rightarrow> (string \<Rightarrow> 're result) \<Rightarrow>
   ('re \<Rightarrow> string \<Rightarrow> bool result) \<Rightarrow> string option \<Rightarrow> string option \<Rightarrow> string option \<Rightarrow>
   error_category list \<Rightarrow> db \<Rightarrow> (string \<times> int) list result" where
  "categorize_bad_packages decode_all lossy new is_match distribution release architecture categories d =
     (let latest_ids = origin_rebuild_ids distribution release architecture d;
          items = failed_items distribution release architecture d
      in if latest_ids = [] then Inr []
         else if items = [] then Inr []
         else
           (case collect_results (compile_category new) categories of
              Inl e \<Rightarrow> Inl e
            | Inr compiled \<Rightarrow>
                (let counts = count_items decode_all lossy is_match compiled architecture
                       (build_log_map (map fst items) d) items (Map.empty, Map.empty)
                 in Inr (List.map_filter (\<lambda>c. map_option (\<lambda>n. (ec_name c, n)) (counts (ec_name c)))
                      categories))))"

section \<open>Collecting snapshots\<close>

text \<open>The conversion \<open>as i32\<close> of an \<open>i64\<close>.\<close>

definition as_i32 :: "int \<Rightarrow> int" where
  "as_i32 n = signed_take_bit 31 n"

definition rebuild_statuses ::
  "string option \<Rightarrow> string option \<Rightarrow> string option \<Rightarrow> db \<Rightarrow> string option list" where
  "rebuild_statuses distribution release architecture d =
     map (\<lambda>x. r1_status (snd x)) (filter (\<lambda>x. sp_seen_in_last_sync (fst (fst x)) \<and>
       origin_is distribution release architecture (fst x)) (source_packages_base d))"

definition collect_one ::
  "(bytes \<Rightarrow> bytes result) \<Rightarrow> (bytes \<Rightarrow> string) \<Rightarrow> (string \<Rightarrow> 're result) \<Rightarrow>
   ('re \<Rightarrow> string \<Rightarrow> bool result) \<Rightarrow> stats_config_file \<Rightarrow> string option \<Rightarrow> string option \<Rightarrow>
   string option \<Rightarrow> string option \<Rightarrow> time \<Rightarrow> db \<Rightarrow> stats_snapshot_view result \<times> db" where
  "collect_one decode_all lossy new is_match stats_cfg distribution release architecture backend now d =
     (let cs = rebuild_statuses distribution release architecture d;
          good = as_i32 (unwrap_or_zero (sum_when (\<lambda>c. c = Some ''GOOD'') cs));
          bad = as_i32 (unwrap_or_zero (sum_when (\<lambda>c. c = Some ''BAD'') cs));
          fail = as_i32 (unwrap_or_zero (sum_when (\<lambda>c. c = Some ''FAIL'') cs));
          unknown = as_i32 (unwrap_or_zero (sum_when (\<lambda>c. c = Some ''UNKWN'' \<or> c = None) cs))
      in case (case backend of
                 None \<Rightarrow> Inr []
               | Some backend_name \<Rightarrow>
                   categorize_bad_packages decode_all lossy new is_match distribution release
                     architecture (categories_for stats_cfg backend_name) d) of
           Inl e \<Rightarrow> (Inl e, d)
         | Inr category_counts \<Rightarrow>
             (case stats_snapshot_insert
                     \<lparr>nst_captured_at = now, nst_distribution = distribution,
                      nst_release = release, nst_architecture = architecture,
                      nst_good = good, nst_bad = bad, nst_fail = fail, nst_unknown = unknown\<rparr> d of
                (i, d1) \<Rightarrow>
                  (Inr \<lparr>ssv_id = i, ssv_captured_at = now, ssv_distribution = distribution,
                      ssv_release = release, ssv_architecture = architecture, ssv_good = good,
                      ssv_bad = bad, ssv_fail = fail, ssv_unknown = unknown,
                      ssv_categories = map (\<lambda>(c, n). \<lparr>scc_category = c, scc_count = n\<rparr>)
                        category_counts\<rparr>,
                   if category_counts = [] then d1
                   else stats_category_insert_batch
                     (map (\<lambda>(c, n). \<lparr>nsc_stats_id = i, nsc_category = c, nsc_count = n\<rparr>)
                        category_counts) d1)))"

definition query_combos_for_backend :: "string \<Rightarrow> db \<Rightarrow> (string option \<times> string) list" where
  "query_combos_for_backend distribution d =
     remdups (map (\<lambda>(s, b). (sp_release s, bi_architecture b))
       (filter (\<lambda>(s, b). sp_distribution s = distribution \<and> sp_seen_in_last_sync s)
         (inner_join (\<lambda>s b. bi_source_package_id b = sp_id s) (rows (source_packages d))
           (rows (build_inputs d)))))"

text \<open>The combinations are looked up per backend, each before its snapshots are taken; the first
  error ends the run and keeps the snapshots stored so far.\<close>

fun collect_combos ::
  "(string option \<times> string \<Rightarrow> db \<Rightarrow> stats_snapshot_view result \<times> db) \<Rightarrow>
   (string option \<times> string) list \<Rightarrow> stats_snapshot_view list \<Rightarrow> db \<Rightarrow>
   stats_snapshot_view list result \<times> db" where
  "collect_combos one [] snaps d = (Inr snaps, d)"
| "collect_combos one (c # cs) snaps d =
     (case one c d of
        (Inl e, d1) \<Rightarrow> (Inl e, d1)
      | (Inr s, d1) \<Rightarrow> collect_combos one cs (snaps @ [s]) d1)"

fun collect_backends ::
  "(string \<Rightarrow> string option \<times> string \<Rightarrow> db \<Rightarrow> stats_snapshot_view result \<times> db) \<Rightarrow>
   string list \<Rightarrow> stats_snapshot_view list \<Rightarrow> db \<Rightarrow> stats_snapshot_view list result \<times> db" where
  "collect_backends one [] snaps d = (Inr snaps, d)"
| "collect_backends one (b # bs) snaps d =
     (case collect_combos (one b) (query_combos_for_backend b d) snaps d of
        (Inl e, d1) \<Rightarrow> (Inl e, d1)
      | (Inr snaps1, d1) \<Rightarrow> collect_backends one bs snaps1 d1)"

definition collect_stats ::
  "(bytes \<Rightarrow> bytes result) \<Rightarrow> (bytes \<Rightarrow> string) \<Rightarrow> (string \<Rightarrow> 're result) \<Rightarrow>
   ('re \<Rightarrow> string \<Rightarrow> bool result) \<Rightarrow> config \<Rightarrow> http_request \<Rightarrow> stats_config_file \<Rightarrow> time \<Rightarrow>
   stats_collect_request \<Rightarrow> db \<Rightarrow> stats_snapshot_view list response \<times> db" where
  "collect_stats decode_all lossy new is_match cfg req stats_cfg now body d =
     (case admin cfg req of
        Inl _ \<Rightarrow> (Forbidden403, d)
      | Inr _ \<Rightarrow>
          (let one = collect_one decode_all lossy new is_match stats_cfg
           in case (if scr_distribution body = None \<and> scr_release body = None \<and>
                       scr_architecture body = None then
                      collect_backends (\<lambda>b (release, architecture).
                          one (Some b) release (Some architecture) (Some b) now)
                        (filter (\<lambda>k. k \<noteq> ''all'') (map fst (backends stats_cfg))) [] d
                    else
                      (case one (scr_distribution body) (scr_release body) (scr_architecture body)
                              (case scr_backend body of None \<Rightarrow> scr_distribution body | b \<Rightarrow> b) now d of
                         (Inl e, d1) \<Rightarrow> (Inl e, d1)
                       | (Inr s, d1) \<Rightarrow> (Inr [s], d1))) of
                (Inl _, d1) \<Rightarrow> (Error500, d1)
              | (Inr snaps, d1) \<Rightarrow> (Ok200 snaps, d1)))"

end
