(* ===== verification/StatsProps.thy ===== *)
theory StatsProps
  imports Stats
begin

text \<open>
  What the statistics promise: one snapshot per day and origin when read, totals that partition
  the packages when collected, categories that count every failure at most once, and the
  invariant of the database on every path.
\<close>

section \<open>Categories\<close>

definition log_text :: "(bytes \<Rightarrow> bytes result) \<Rightarrow> (bytes \<Rightarrow> string) \<Rightarrow> bytes \<Rightarrow> string" where
  "log_text decode_all lossy b = lossy (unwrap_or_default (decode_all b))"

definition item_category ::
  "(bytes \<Rightarrow> bytes result) \<Rightarrow> (bytes \<Rightarrow> string) \<Rightarrow> ('re \<Rightarrow> string \<Rightarrow> bool result) \<Rightarrow>
   're compiled_category list \<Rightarrow> string option \<Rightarrow> (int \<Rightarrow> bytes option) \<Rightarrow> failed_item \<Rightarrow> string option" where
  "item_category decode_all lossy is_match compiled architecture logs item =
     (case logs (fst item) of
        None \<Rightarrow> None
      | Some bl \<Rightarrow>
          first_category is_match compiled (log_text decode_all lossy bl)
            (case snd item of None \<Rightarrow> [] | Some df \<Rightarrow> log_text decode_all lossy df) architecture)"

definition cache_ok ::
  "(bytes \<Rightarrow> bytes result) \<Rightarrow> (bytes \<Rightarrow> string) \<Rightarrow> (int \<Rightarrow> bytes option) \<Rightarrow> (int \<Rightarrow> string option) \<Rightarrow> bool" where
  "cache_ok decode_all lossy logs cache \<longleftrightarrow>
     (\<forall>i t. cache i = Some t \<longrightarrow> (\<exists>bl. logs i = Some bl \<and> t = log_text decode_all lossy bl))"

definition counted :: "int option \<Rightarrow> int" where
  "counted c = (case c of None \<Rightarrow> 0 | Some n \<Rightarrow> n)"

text \<open>The cache of decompressed logs changes nothing.\<close>

lemma count_item_spec:
  assumes "cache_ok decode_all lossy logs cache"
    and "count_item decode_all lossy is_match compiled arch logs item (counts, cache) = (counts', cache')"
  shows "cache_ok decode_all lossy logs cache'"
    and "counts' = (case item_category decode_all lossy is_match compiled arch logs item of
      None \<Rightarrow> counts | Some n \<Rightarrow> counts(n \<mapsto> counted (counts n) + 1))"
proof -
  have "cache_ok decode_all lossy logs cache' \<and>
    counts' = (case item_category decode_all lossy is_match compiled arch logs item of
      None \<Rightarrow> counts | Some n \<Rightarrow> counts(n \<mapsto> counted (counts n) + 1))"
  proof (cases "cache (fst item)")
    case (Some t)
    then obtain bl where "logs (fst item) = Some bl" "t = log_text decode_all lossy bl"
      using assms(1) by (auto simp: cache_ok_def)
    with Some assms show ?thesis
      by (auto simp: count_item_def item_category_def counted_def log_text_def Let_def
          split: option.splits)
  next
    case None
    with assms show ?thesis
      by (auto simp: count_item_def item_category_def counted_def log_text_def Let_def cache_ok_def
          split: option.splits if_splits)
  qed
  then show "cache_ok decode_all lossy logs cache'"
    "counts' = (case item_category decode_all lossy is_match compiled arch logs item of
      None \<Rightarrow> counts | Some n \<Rightarrow> counts(n \<mapsto> counted (counts n) + 1))" by simp_all
qed

lemma count_items_spec:
  assumes "cache_ok decode_all lossy logs cache"
  shows "count_items decode_all lossy is_match compiled arch logs items (counts, cache) n =
    (let k = length (filter (\<lambda>it. item_category decode_all lossy is_match compiled arch logs it = Some n) items)
     in if k = 0 then counts n else Some (counted (counts n) + int k))"
  using assms
proof (induction items arbitrary: counts cache)
  case Nil
  then show ?case by simp
next
  case (Cons item items)
  obtain counts' cache' where 1: "count_item decode_all lossy is_match compiled arch logs item
      (counts, cache) = (counts', cache')" by (rule prod.exhaust)
  note S = count_item_spec[OF Cons.prems 1]
  show ?case
    using Cons.IH[OF S(1), of counts']
    by (simp add: 1 S(2) Let_def counted_def split: option.split)
qed

lemma collect_results_map:
  "collect_results f xs = Inr ys \<Longrightarrow> list_all2 (\<lambda>x y. f x = Inr y) xs ys"
  by (induction xs arbitrary: ys) (auto split: sum.splits)

lemma sum_list_map_filter:
  assumes "distinct (map f xs)" "\<And>i. g i = None \<or> (\<exists>x\<in>set xs. g i = Some (f x))"
  shows "(\<Sum>x\<leftarrow>xs. length (filter (\<lambda>i. g i = Some (f x)) is)) = length (filter (\<lambda>i. g i \<noteq> None) is)"
  using assms(1) assms(2)
proof (induction "is")
  case Nil
  then show ?case by simp
next
  case (Cons i js)
  have "(\<Sum>x\<leftarrow>xs. (if g i = Some (f x) then 1 else 0)) = (if g i = None then 0 else (1::nat))"
  proof (cases "g i")
    case (Some n)
    then obtain x where x: "x \<in> set xs" "f x = n" using Cons.prems(2)[of i] by auto
    have "(\<Sum>x\<leftarrow>xs. (if n = f x then 1 else 0)) = length (filter (\<lambda>x. n = f x) xs)"
      by (induction xs) simp_all
    moreover have "filter (\<lambda>y. n = f y) xs = [x]"
      using filter_unique[OF Cons.prems(1) x(1)] x(2) by (simp add: eq_commute)
    ultimately show ?thesis using Some by simp
  qed simp
  moreover have "(\<Sum>x\<leftarrow>xs. length (filter (\<lambda>i. g i = Some (f x)) (i # js))) =
      (\<Sum>x\<leftarrow>xs. (if g i = Some (f x) then 1 else 0)) + (\<Sum>x\<leftarrow>xs. length (filter (\<lambda>i. g i = Some (f x)) js))"
    by (induction xs) auto
  ultimately show ?case using Cons.IH[OF Cons.prems] by simp
qed

lemma categorize_counts:
  assumes "categorize_bad_packages decode_all lossy new is_match dist rel arch categories d = Inr counts"
    and "collect_results (compile_category new) categories = Inr compiled"
    and "items = failed_items dist rel arch d"
    and "cat = item_category decode_all lossy is_match compiled arch (build_log_map (map fst items) d)"
  shows "counts = List.map_filter (\<lambda>c. let k = length (filter (\<lambda>i. cat i = Some (ec_name c)) items)
      in if k = 0 then None else Some (ec_name c, int k)) categories"
proof (cases "items = []")
  case True
  with assms(1,3) show ?thesis
    by (simp add: categorize_bad_packages_def Let_def map_filter_def split: if_splits)
next
  case False
  have "origin_rebuild_ids dist rel arch d \<noteq> []"
    using False by (auto simp: assms(3) failed_items_def bad_artifacts_def fail_rebuild_ids_def Let_def)
  moreover have "cache_ok decode_all lossy logs Map.empty" for logs by (simp add: cache_ok_def)
  moreover have "(case if k = 0 then None else Some (0 + int k) of None \<Rightarrow> None | Some n \<Rightarrow> Some (m, n)) =
      (if k = 0 then None else Some (m, int k))" for k and m :: string by simp
  ultimately show ?thesis using assms(1,2,4) False
    by (simp add: categorize_bad_packages_def Let_def assms(3)[symmetric] count_items_spec counted_def
        if_distrib[of "map_option _"] cong: if_cong)
qed

text \<open>The report of counts, zero counts left out.\<close>

definition nonzero :: "('c \<Rightarrow> string) \<Rightarrow> ('c \<Rightarrow> nat) \<Rightarrow> 'c \<Rightarrow> (string \<times> int) option" where
  "nonzero f h c = (let k = h c in if k = 0 then None else Some (f c, int k))"

lemma sum_nonzero: "sum_list (map snd (List.map_filter (nonzero f h) cs)) = int (\<Sum>c\<leftarrow>cs. h c)"
  by (induction cs) (simp_all add: nonzero_def Let_def)

lemma map_of_nonzero:
  assumes "distinct (map f cs)" "c \<in> set cs"
  shows "map_of (List.map_filter (nonzero f h) cs) (f c) = (if h c = 0 then None else Some (int (h c)))"
  using assms
proof (induction cs)
  case (Cons a cs)
  have out: "map_of (List.map_filter (nonzero f h) cs) n = None" if "n \<notin> f ` set cs" for n
    using that by (induction cs) (auto simp: nonzero_def Let_def)
  show ?case
  proof (cases "c = a")
    case True
    then have "f c \<notin> f ` set cs" using Cons.prems(1) by simp
    from out[OF this] True show ?thesis by (simp add: nonzero_def[abs_def] Let_def)
  next
    case False
    with Cons.prems(2) have "c \<in> set cs" by simp
    moreover from this have "f c \<in> f ` set cs" by (rule imageI)
    with Cons.prems(1) have "f c \<noteq> f a" by auto
    ultimately show ?thesis using Cons.IH Cons.prems(1) by (simp add: nonzero_def[abs_def] Let_def)
  qed
qed simp

lemma item_category_compiled:
  "item_category decode_all lossy is_match compiled arch logs item = Some n \<Longrightarrow>
     \<exists>cc\<in>set compiled. n = ec_name (cc_inner cc)"
  unfolding item_category_def by (auto split: option.splits dest!: first_category_Some)

lemma compiled_inner: "collect_results (compile_category new) cs = Inr ccs \<Longrightarrow> map cc_inner ccs = cs"
  by (drule collect_results_map, induction rule: list_all2_induct) (auto dest: compile_category_inner)


definition sample_category :: error_category where
  "sample_category =
     \<lparr>ec_name = ''other'', ec_log_has = None, ec_log_has_re = None, ec_log_has_any = None,
      ec_log_has_all = None, ec_diff_has = None, ec_diff_has_re = None, ec_diff_has_any = None,
      ec_has_diff = False, ec_catch_all = True, ec_exclude_architectures = []\<rparr>"

definition sample_text :: "bytes \<Rightarrow> string" where "sample_text b = ''log''"
definition sample_regex :: "string \<Rightarrow> string result" where "sample_regex re = Inr re"
definition sample_is_match :: "string \<Rightarrow> string \<Rightarrow> bool result" where "sample_is_match re s = Inr (re = s)"

lemma sample_categorize:
  "categorize_bad_packages Inr sample_text sample_regex sample_is_match (Some ''d'') None None
     [sample_category] sample_db = Inr [(''other'', 1)]"
  by code_simp


section \<open>Reading snapshots\<close>

lemma latest_ids_max:
  assumes "db_ok d" "s \<in> set (rows (stats d))" "st_id s \<in> set (latest_snapshot_ids d)"
    and "t \<in> set (rows (stats d))" "snapshot_group t = snapshot_group s"
  shows "st_id t \<le> st_id s"
proof -
  from assms(3) obtain s' where s': "s' \<in> set (rows (stats d))" "st_id s' = st_id s"
    "\<forall>t\<in>set (rows (stats d)). snapshot_group t = snapshot_group s' \<longrightarrow> st_id t \<le> st_id s'"
    by (auto simp: latest_snapshot_ids_def)
  have "s' = s" by (rule wf_table_id_unique[OF db_ok_facts(10)[OF assms(1)] s'(1) assms(2) s'(2)])
  with s'(3) assms(4,5) show ?thesis by blast
qed

lemma latest_ids_unique:
  assumes "s \<in> set (rows (stats d))" "s' \<in> set (rows (stats d))"
    and "st_id s \<in> set (latest_snapshot_ids d)" "st_id s' \<in> set (latest_snapshot_ids d)"
    and "snapshot_group s = snapshot_group s'" "db_ok d"
  shows "s = s'"
proof -
  have "st_id s = st_id s'"
    using latest_ids_max[OF assms(6,2,4,1)] latest_ids_max[OF assms(6,1,3,2)] assms(5) by simp
  then show ?thesis
    using wf_table_id_unique[OF db_ok_facts(10)[OF assms(6)]] assms(1,2) by blast
qed

lemma limit_rows_prefix: "\<exists>n. limit_rows l rs = take n rs"
  by (auto simp: limit_rows_def split: option.split intro: exI[of _ "length rs"])

text \<open>Reading the statistics gives at most one snapshot for each day, distribution, release and
  architecture, the one stored last, in the order of time; a limit from 0 on bounds their number,
  by 10000 at most.\<close>

theorem get_stats_one_per_day:
  assumes "db_ok d" "get_stats q d = Ok200 snaps"
  shows "distinct (map (\<lambda>s. (sql_date (ssv_captured_at s), ssv_distribution s, ssv_release s,
      ssv_architecture s)) snaps) \<and>
    sorted (map ssv_captured_at snaps) \<and>
    (\<forall>s\<in>set snaps. \<forall>t\<in>set (rows (stats d)). sql_date (st_captured_at t) = sql_date (ssv_captured_at s) \<and>
      st_distribution t = ssv_distribution s \<and> st_release t = ssv_release s \<and>
      st_architecture t = ssv_architecture s \<longrightarrow> st_id t \<le> ssv_id s) \<and>
    (0 \<le> stats_limit q \<longrightarrow> int (length snaps) \<le> stats_limit q)"
proof -
  define rs where "rs = sort_key st_captured_at
    (filter (\<lambda>s. stats_query_matches q s \<and> st_id s \<in> set (latest_snapshot_ids d)) (rows (stats d)))"
  define ts where "ts = limit_rows (Some (stats_limit q)) rs"
  have snaps: "snaps = map (snapshot_view d) ts"
    using assms(2) by (simp add: get_stats_def ts_def rs_def)
  obtain n where n: "ts = take n rs" using limit_rows_prefix ts_def by blast
  have in_rs: "t \<in> set (rows (stats d)) \<and> st_id t \<in> set (latest_snapshot_ids d)" if "t \<in> set ts" for t
    using that in_set_takeD[of t n rs] by (auto simp: n rs_def)
  have "distinct (rows (stats d))"
    using wf_table_distinct[OF db_ok_facts(10)[OF assms(1)]] by (simp add: distinct_map)
  then have "distinct ts" by (simp add: n rs_def)
  moreover have "inj_on snapshot_group (set ts)"
    using in_rs latest_ids_unique[OF _ _ _ _ _ assms(1)] by (intro inj_onI) blast
  ultimately have "distinct (map snapshot_group ts)" by (simp add: distinct_map)
  moreover have "sorted (map st_captured_at ts)" by (simp add: n rs_def take_map[symmetric] sorted_wrt_take)
  moreover have "\<forall>s\<in>set ts. \<forall>t\<in>set (rows (stats d)). snapshot_group t = snapshot_group s \<longrightarrow> st_id t \<le> st_id s"
    using in_rs latest_ids_max[OF assms(1)] by blast
  moreover have "int (length ts) \<le> stats_limit q" if "0 \<le> stats_limit q"
    using that by (simp add: ts_def limit_rows_def)
  ultimately show ?thesis
    by (simp add: snaps o_def snapshot_view_def snapshot_group_def[abs_def])
qed

definition sample_snapshot :: "int \<Rightarrow> time \<Rightarrow> stats_snapshot" where
  "sample_snapshot i t =
     \<lparr>st_id = i, st_captured_at = t, st_distribution = Some ''d'', st_release = None,
      st_architecture = None, st_good = i, st_bad = 0, st_fail = 0, st_unknown = 0\<rparr>"

definition sample_stats_db :: db where
  "sample_stats_db = sample_base\<lparr>stats := \<lparr>rows = [sample_snapshot 1 5, sample_snapshot 2 6,
     sample_snapshot 3 (5 + ns_per_day)], seq = 3\<rparr>\<rparr>"

lemma sample_stats_db_ok: "db_ok sample_stats_db"
  unfolding sample_stats_db_def
  by (rule db_ok_stats[OF sample_base_ok])
    (simp_all add: wf_table_def sample_snapshot_def sample_base_def empty_db_def)

definition sample_stats_query :: stats_query where
  "sample_stats_query = \<lparr>sq_distribution = None, sq_release = None, sq_architecture = None,
     sq_since = None, sq_limit = None\<rparr>"

theorem get_stats_one_per_day_witness:
  "\<exists>snaps. get_stats sample_stats_query sample_stats_db = Ok200 snaps \<and>
     map ssv_id snaps = [2, 3] \<and> sorted (map ssv_captured_at snaps)"
proof -
  obtain snaps where g: "get_stats sample_stats_query sample_stats_db = Ok200 snaps"
    by (simp add: get_stats_def)
  have "(case get_stats sample_stats_query sample_stats_db of Ok200 s \<Rightarrow> map ssv_id s | _ \<Rightarrow> []) = [2, 3]"
    by code_simp
  with g get_stats_one_per_day[OF sample_stats_db_ok g] show ?thesis by simp
qed

section \<open>Collecting snapshots\<close>

lemma collect_one_cases:
  assumes "collect_one decode_all lossy new is_match stats_cfg dist rel arch backend now d = (r, d')"
  obtains e where "r = Inl e" "d' = d"
  | counts s i d1 where "r = Inr s" "stats_snapshot_insert
        \<lparr>nst_captured_at = now, nst_distribution = dist, nst_release = rel, nst_architecture = arch,
         nst_good = ssv_good s, nst_bad = ssv_bad s, nst_fail = ssv_fail s,
         nst_unknown = ssv_unknown s\<rparr> d = (i, d1)"
    "d' = (if counts = [] then d1 else stats_category_insert_batch
       (map (\<lambda>(c, n). \<lparr>nsc_stats_id = i, nsc_category = c, nsc_count = n\<rparr>) counts) d1)"
    "ssv_id s = i" "ssv_captured_at s = now"
    "ssv_good s = as_i32 (int (length (filter (\<lambda>c. c = Some ''GOOD'') (rebuild_statuses dist rel arch d))))"
    "ssv_bad s = as_i32 (int (length (filter (\<lambda>c. c = Some ''BAD'') (rebuild_statuses dist rel arch d))))"
    "ssv_fail s = as_i32 (int (length (filter (\<lambda>c. c = Some ''FAIL'') (rebuild_statuses dist rel arch d))))"
    "ssv_unknown s = as_i32 (int (length (filter (\<lambda>c. c = Some ''UNKWN'' \<or> c = None)
       (rebuild_statuses dist rel arch d))))"
  using assms
  by (auto simp: collect_one_def Let_def sum_when_length split: sum.splits prod.splits)

lemma db_ok_collect_one [wf_intros]:
  assumes "db_ok d"
  shows "db_ok (snd (collect_one decode_all lossy new is_match stats_cfg dist rel arch backend now d))"
proof -
  obtain r d' where run: "collect_one decode_all lossy new is_match stats_cfg dist rel arch backend now d =
      (r, d')" by (rule prod.exhaust)
  then show ?thesis
  proof (cases rule: collect_one_cases)
    case 1
    with run assms show ?thesis by simp
  next
    case (2 counts s i d1)
    have d1: "d1 = snd (stats_snapshot_insert
        \<lparr>nst_captured_at = now, nst_distribution = dist, nst_release = rel, nst_architecture = arch,
         nst_good = ssv_good s, nst_bad = ssv_bad s, nst_fail = ssv_fail s,
         nst_unknown = ssv_unknown s\<rparr> d)" using 2(2) by simp
    have "db_ok d1" unfolding d1 by (rule db_ok_stats_snapshot_insert[OF assms])
    moreover have "i \<in> ids st_id (stats d1)"
      using 2(2) by (auto simp: stats_snapshot_insert_def sql_insert_def)
    ultimately show ?thesis using 2(3) run
      by (auto intro!: db_ok_stats_category_insert_batch)
  qed
qed

lemma as_i32_small: "0 \<le> n \<Longrightarrow> n < 2 ^ 31 \<Longrightarrow> as_i32 n = n"
  by (simp add: as_i32_def signed_take_bit_int_eq_self)

lemma rebuild_statuses_length:
  assumes "db_ok d"
  shows "length (rebuild_statuses dist rel arch d) =
    length (filter (\<lambda>sb. sp_seen_in_last_sync (fst sb) \<and> origin_is dist rel arch sb)
      (inner_join (\<lambda>s b. bi_source_package_id b = sp_id s) (rows (source_packages d))
        (rows (build_inputs d))))"
  by (simp add: rebuild_statuses_def source_packages_base_latest[OF assms] filter_map o_def)

lemma rebuild_statuses_cases:
  assumes "db_ok d" "c \<in> set (rebuild_statuses dist rel arch d)"
  shows "c = None \<or> c \<in> Some ` {''GOOD'', ''BAD'', ''FAIL'', ''UNKWN''}"
proof -
  from assms(2) obtain x where "x \<in> set (source_packages_base d)" "c = r1_status (snd x)"
    by (auto simp: rebuild_statuses_def)
  with r1_status_cases[OF assms(1)] show ?thesis by simp
qed

lemma status_counts_total:
  assumes "\<And>c. c \<in> set cs \<Longrightarrow> c = None \<or> c \<in> Some ` {''GOOD'', ''BAD'', ''FAIL'', ''UNKWN''}"
    and "int (length cs) < 2 ^ 31"
  shows "as_i32 (int (length (filter (\<lambda>c. c = Some ''GOOD'') cs))) +
    as_i32 (int (length (filter (\<lambda>c. c = Some ''BAD'') cs))) +
    as_i32 (int (length (filter (\<lambda>c. c = Some ''FAIL'') cs))) +
    as_i32 (int (length (filter (\<lambda>c. c = Some ''UNKWN'' \<or> c = None) cs))) = int (length cs)"
proof -
  have "length (filter (\<lambda>c. c = Some ''GOOD'') cs) + length (filter (\<lambda>c. c = Some ''BAD'') cs) +
      length (filter (\<lambda>c. c = Some ''FAIL'') cs) +
      length (filter (\<lambda>c. c = Some ''UNKWN'' \<or> c = None) cs) = length cs"
    using assms(1) by (intro length_partition4) auto
  moreover have "as_i32 (int (length (filter P cs))) = int (length (filter P cs))" for P
    using assms(2) length_filter_le[of P cs] by (intro as_i32_small) linarith+
  ultimately show ?thesis by simp
qed

text \<open>A stored snapshot counts every build input of a seen package of its origin exactly once,
  as good, bad, failed or unknown by its latest rebuild (below 2^31 of them), and is the one row
  that the collection adds.\<close>

theorem snapshot_partition:
  assumes "db_ok d"
    and "collect_one decode_all lossy new is_match stats_cfg dist rel arch backend now d = (Inr s, d')"
    and "inputs = filter (\<lambda>sb. sp_seen_in_last_sync (fst sb) \<and> origin_is dist rel arch sb)
      (inner_join (\<lambda>s b. bi_source_package_id b = sp_id s) (rows (source_packages d))
        (rows (build_inputs d)))"
    and "int (length inputs) < 2 ^ 31"
  shows "ssv_good s + ssv_bad s + ssv_fail s + ssv_unknown s = int (length inputs) \<and>
    rows (stats d') = rows (stats d) @ [\<lparr>st_id = ssv_id s, st_captured_at = now,
      st_distribution = dist, st_release = rel, st_architecture = arch, st_good = ssv_good s,
      st_bad = ssv_bad s, st_fail = ssv_fail s, st_unknown = ssv_unknown s\<rparr>]"
  using assms(2)
proof (cases rule: collect_one_cases)
  case (2 counts s' i d1)
  have len: "length (rebuild_statuses dist rel arch d) = length inputs"
    using rebuild_statuses_length[OF assms(1)] assms(3) by simp
  have "stats d' = stats d1" using 2(3) by (simp add: stats_category_insert_batch_def)
  moreover have "i = seq (stats d) + 1" "rows (stats d1) = rows (stats d) @ [stats_snapshot_row
      \<lparr>nst_captured_at = now, nst_distribution = dist, nst_release = rel, nst_architecture = arch,
       nst_good = ssv_good s', nst_bad = ssv_bad s', nst_fail = ssv_fail s',
       nst_unknown = ssv_unknown s'\<rparr> (seq (stats d) + 1)]"
    using 2(2) by (auto simp: stats_snapshot_insert_def sql_insert_def stats_snapshot_row_def)
  moreover have "ssv_good s' + ssv_bad s' + ssv_fail s' + ssv_unknown s' = int (length inputs)"
    unfolding 2 len[symmetric]
    by (rule status_counts_total[OF rebuild_statuses_cases[OF assms(1)]]) (use assms(4) len in simp_all)
  ultimately show ?thesis using 2 by (simp add: stats_snapshot_row_def)
qed simp

theorem snapshot_partition_witness:
  "\<exists>s d'. collect_one Inr sample_text sample_regex sample_is_match \<lparr>backends = []\<rparr> (Some ''d'') None None
     (Some ''d'') 20 sample_db = (Inr s, d') \<and> ssv_good s + ssv_bad s + ssv_fail s + ssv_unknown s = 2"
proof -
  obtain r d' where run: "collect_one Inr sample_text sample_regex sample_is_match \<lparr>backends = []\<rparr>
      (Some ''d'') None None (Some ''d'') 20 sample_db = (r, d')" by (rule prod.exhaust)
  have "\<not> isl (fst (collect_one Inr sample_text sample_regex sample_is_match \<lparr>backends = []\<rparr>
      (Some ''d'') None None (Some ''d'') 20 sample_db))" by code_simp
  with run obtain s where s: "r = Inr s" by (cases r) simp_all
  define inputs where "inputs = filter (\<lambda>sb. sp_seen_in_last_sync (fst sb) \<and>
      origin_is (Some ''d'') None None sb)
      (inner_join (\<lambda>s b. bi_source_package_id b = sp_id s) (rows (source_packages sample_db))
        (rows (build_inputs sample_db)))"
  have two: "length inputs = 2" unfolding inputs_def by code_simp
  then have "int (length inputs) < 2 ^ 31" by simp
  from snapshot_partition[OF sample_db_ok(1) run[unfolded s] inputs_def this] run s two
  show ?thesis by auto
qed

lemma db_ok_collect_combos:
  assumes "\<And>c d. db_ok d \<Longrightarrow> db_ok (snd (one c d))"
  shows "db_ok d \<Longrightarrow> db_ok (snd (collect_combos one cs snaps d))"
proof (induction cs arbitrary: snaps d)
  case (Cons c cs)
  then show ?case using assms[OF Cons.prems, of c]
    by (auto split: prod.split sum.split)
qed simp

lemma db_ok_collect_backends:
  assumes "\<And>b c d. db_ok d \<Longrightarrow> db_ok (snd (one b c d))"
  shows "db_ok d \<Longrightarrow> db_ok (snd (collect_backends one bs snaps d))"
proof (induction bs arbitrary: snaps d)
  case (Cons b bs)
  then show ?case
    using db_ok_collect_combos[of "one b", OF assms Cons.prems, of "query_combos_for_backend b d" snaps]
    by (auto split: prod.split sum.split)
qed simp

lemma snd_result_cases:
  "snd (case x of (Inl e, d1) \<Rightarrow> (f e, d1) | (Inr s, d1) \<Rightarrow> (g s, d1)) = snd x"
  by (simp split: prod.split sum.split)

lemma db_ok_collect_stats [wf_intros]:
  assumes "db_ok d"
  shows "db_ok (snd (collect_stats decode_all lossy new is_match cfg req stats_cfg now body d))"
proof (cases "admin cfg req")
  case (Inl e)
  with assms show ?thesis by (simp add: collect_stats_def)
next
  case (Inr u)
  let ?one = "collect_one decode_all lossy new is_match stats_cfg"
  have "db_ok (snd (collect_backends (\<lambda>b (release, architecture).
      ?one (Some b) release (Some architecture) (Some b) now) bs [] d))" for bs
    by (rule db_ok_collect_backends[OF _ assms]) (auto intro: db_ok_collect_one)
  moreover have "db_ok (snd (?one dist rel arch backend now d))" for dist rel arch backend
    by (rule db_ok_collect_one[OF assms])
  ultimately show ?thesis
    using Inr by (simp add: collect_stats_def Let_def snd_result_cases)
qed

end
