(* ===== verification/Peers.thy ===== *)
theory Peers
  imports Packages "HOL-Library.AList"
begin

text \<open>
  Peer rebuilders (\<open>daemon/src/api/v1/peers.rs\<close>): registering them, comparing their results with
  ours in the background and answering for one package. HTTP with JSON decoding is a parameter:
  \<open>get_v1\<close> for the paged API of version 1, \<open>get_v0\<close> for the flat list of version 0. A hash map
  that is iterated over is an association list. Concurrent fetches complete in some order: the
  parameter \<open>completed\<close> lists the tasks as they join. The fetch loop over the pages of a peer may
  not end (the peer decides), so it is a partial function. The field \<open>total\<close> of a page only
  feeds log messages.
\<close>

record check_peers_request =
  cp_distribution :: string
  cp_architecture :: string
  cp_release :: "string option"
  cp_release_alias :: "string option"
  cp_urls :: "string list"

record peer_status_entry =
  pse_url :: string
  pse_status :: "build_status option"
  pse_build_id :: "int option"
  pse_log_url :: "string option"
  pse_diffoscope_url :: "string option"

record peer_pkg_info =
  ppi_status :: build_status
  ppi_build_id :: "int option"

type_synonym package_key = "string \<times> string"
type_synonym peer_map = "(package_key \<times> peer_pkg_info) list"

section \<open>Registering peers\<close>

definition peer_rebuilder_row :: "new_peer_rebuilder \<Rightarrow> int \<Rightarrow> peer_rebuilder" where
  "peer_rebuilder_row n i =
     \<lparr>pe_id = i, pe_url = npe_url n, pe_distribution = npe_distribution n,
      pe_architecture = npe_architecture n, pe_release = npe_release n,
      pe_release_alias = npe_release_alias n\<rparr>"

definition new_peer_rebuilder_key :: "new_peer_rebuilder \<Rightarrow> string \<times> string \<times> string" where
  "new_peer_rebuilder_key n = (npe_url n, npe_distribution n, npe_architecture n)"

definition peer_rebuilder_set :: "new_peer_rebuilder \<Rightarrow> peer_rebuilder \<Rightarrow> peer_rebuilder" where
  "peer_rebuilder_set n r =
     r\<lparr>pe_release := npe_release n, pe_release_alias := npe_release_alias n\<rparr>"

definition peer_rebuilder_upsert :: "new_peer_rebuilder \<Rightarrow> db \<Rightarrow> db" where
  "peer_rebuilder_upsert n d =
     d\<lparr>peer_rebuilders := snd (sql_upsert (\<lambda>r. peer_rebuilder_key r = new_peer_rebuilder_key n)
        (peer_rebuilder_set n) (peer_rebuilder_row n) (peer_rebuilders d))\<rparr>"

interpretation peer_rebuilder_table:
  keyed_table pe_id peer_rebuilder_key new_peer_rebuilder_key peer_rebuilder_row peer_rebuilder_set
  by unfold_locales
    (simp_all add: peer_rebuilder_row_def peer_rebuilder_set_def peer_rebuilder_key_def
      new_peer_rebuilder_key_def)

text \<open>Deleting a peer deletes its checks: \<open>ON DELETE CASCADE\<close>.\<close>

definition delete_peer_rebuilders :: "(peer_rebuilder \<Rightarrow> bool) \<Rightarrow> db \<Rightarrow> db" where
  "delete_peer_rebuilders p d =
     (let gone = map pe_id (filter p (rows (peer_rebuilders d)))
      in d\<lparr>peer_rebuilders := sql_delete p (peer_rebuilders d),
           peer_sha256_checks := sql_delete (\<lambda>c. pc_peer_rebuilder_id c \<in> set gone)
             (peer_sha256_checks d)\<rparr>)"

definition effective_release :: "check_peers_request \<Rightarrow> string" where
  "effective_release r = (case cp_release r of None \<Rightarrow> [] | Some x \<Rightarrow> x)"

definition effective_alias :: "check_peers_request \<Rightarrow> string" where
  "effective_alias r =
     (case cp_release_alias r of
        None \<Rightarrow> effective_release r
      | Some x \<Rightarrow> if x \<noteq> [] then x else effective_release r)"

definition check_peers :: "config \<Rightarrow> http_request \<Rightarrow> check_peers_request \<Rightarrow> db \<Rightarrow> unit response \<times> db" where
  "check_peers cfg req request d =
     (case admin cfg req of
        Inl _ \<Rightarrow> (Forbidden403, d)
      | Inr _ \<Rightarrow>
          (Accepted202,
           delete_peer_rebuilders
             (\<lambda>p. pe_distribution p = cp_distribution request \<and>
                  pe_architecture p = cp_architecture request \<and> pe_url p \<notin> set (cp_urls request))
             (fold (\<lambda>url. peer_rebuilder_upsert
                \<lparr>npe_url = url, npe_distribution = cp_distribution request,
                 npe_architecture = cp_architecture request,
                 npe_release = effective_release request,
                 npe_release_alias = effective_alias request\<rparr>) (cp_urls request) d)))"

definition resolve_arch :: "string \<Rightarrow> string \<Rightarrow> string" where
  "resolve_arch url architecture = str_replace ''{arch}'' architecture url"

record peer_info =
  pi_id :: int
  pi_url :: string
  pi_distribution :: string
  pi_architecture :: string
  pi_release :: string

definition list_peers :: "string option \<Rightarrow> string option \<Rightarrow> db \<Rightarrow> peer_info list response" where
  "list_peers distribution architecture d =
     Ok200 (map (\<lambda>p. \<lparr>pi_id = pe_id p, pi_url = resolve_arch (pe_url p) (pe_architecture p),
         pi_distribution = pe_distribution p, pi_architecture = pe_architecture p,
         pi_release = pe_release p\<rparr>)
       (filter (\<lambda>p. is_or_any distribution (pe_distribution p) \<and>
          is_or_any architecture (pe_architecture p)) (rows (peer_rebuilders d))))"

section \<open>Fetching from a peer\<close>

record v1_page_query =
  v1q_distribution :: string
  v1q_architecture :: string
  v1q_seen_only :: bool
  v1q_limit :: int
  v1q_after :: "int option"
  v1q_release :: "string option"

datatype v1_query = PageQuery v1_page_query | Params "(string \<times> string) list"

record peer_binary_package =
  pbp_id :: int
  pbp_name :: string
  pbp_version :: string
  pbp_status :: "build_status option"
  pbp_build_id :: "int option"
  pbp_artifact_id :: "int option"
  pbp_diffoscope_log_id :: "int option"
  pbp_rebuild_status :: "build_status option"

datatype v0_status = V0Good | V0Bad | V0Unknown

record v0_pkg_release =
  vpr_name :: string
  vpr_version :: string
  vpr_status :: v0_status
  vpr_build_id :: "int option"
  vpr_has_diffoscope :: bool

type_synonym get_v1 = "string \<Rightarrow> v1_query \<Rightarrow> peer_binary_package list result"
type_synonym get_v0 = "string \<Rightarrow> (string \<times> string) list \<Rightarrow> v0_pkg_release list result"

definition option_or :: "'a option \<Rightarrow> 'a option \<Rightarrow> 'a option" where
  "option_or a b = (case a of None \<Rightarrow> b | Some _ \<Rightarrow> a)"

definition unwrap_or_unknown :: "build_status option \<Rightarrow> build_status" where
  "unwrap_or_unknown c = (case c of None \<Rightarrow> Unknown | Some s \<Rightarrow> s)"

definition is_v0_url :: "string \<Rightarrow> bool" where
  "is_v0_url url =
     (let trimmed = trim_end_matches CHR ''/'' url
      in ends_with ''/v0'' trimmed \<or> str_contains ''/v0/'' trimmed)"

definition insert_peer_package :: "peer_binary_package \<Rightarrow> peer_map \<Rightarrow> peer_map" where
  "insert_peer_package pkg m =
     AList.update (pbp_name pkg, pbp_version pkg)
       \<lparr>ppi_status = unwrap_or_unknown (option_or (pbp_status pkg) (pbp_rebuild_status pkg)),
        ppi_build_id = pbp_build_id pkg\<rparr> m"

definition packages_url :: "string \<Rightarrow> string" where
  "packages_url peer_url = trim_end_matches CHR ''/'' peer_url @ ''/packages/binary''"

definition v1_page :: "string \<Rightarrow> string \<Rightarrow> string option \<Rightarrow> int option \<Rightarrow> v1_query" where
  "v1_page distribution architecture release after =
     PageQuery \<lparr>v1q_distribution = distribution, v1q_architecture = architecture,
       v1q_seen_only = True, v1q_limit = 1000, v1q_after = after, v1q_release = release\<rparr>"

partial_function (option) fetch_v1_loop ::
  "(int option \<Rightarrow> peer_binary_package list result) \<Rightarrow> int option \<Rightarrow> peer_map \<Rightarrow> peer_map result option" where
  "fetch_v1_loop get after m =
     (case get after of
        Inl e \<Rightarrow> Some (Inl e)
      | Inr recs \<Rightarrow>
          (let m' = fold insert_peer_package recs m
           in if length recs < 1000 then Some (Inr m')
              else if recs = [] then Some (Inr m')
              else fetch_v1_loop get (Some (pbp_id (last recs))) m'))"

definition fetch_v1_packages ::
  "get_v1 \<Rightarrow> string \<Rightarrow> string \<Rightarrow> string \<Rightarrow> string option \<Rightarrow> peer_map result option" where
  "fetch_v1_packages get_v1 peer_url distribution architecture release =
     fetch_v1_loop (\<lambda>after. get_v1 (packages_url peer_url)
       (v1_page distribution architecture release after)) None []"

fun v0_to_build_status :: "v0_status \<Rightarrow> build_status" where
  "v0_to_build_status V0Good = Good"
| "v0_to_build_status V0Bad = Bad"
| "v0_to_build_status V0Unknown = Unknown"

definition pkgs_list_url :: "string \<Rightarrow> string" where
  "pkgs_list_url peer_url = trim_end_matches CHR ''/'' peer_url @ ''/pkgs/list''"

definition fetch_v0_packages :: "get_v0 \<Rightarrow> string \<Rightarrow> string \<Rightarrow> peer_map result" where
  "fetch_v0_packages get_v0 peer_url architecture =
     map_sum id (\<lambda>packages. fold (\<lambda>pkg. AList.update (vpr_name pkg, vpr_version pkg)
         \<lparr>ppi_status = v0_to_build_status (vpr_status pkg), ppi_build_id = vpr_build_id pkg\<rparr>)
         packages [])
       (get_v0 (pkgs_list_url peer_url) [(''architecture'', architecture)])"

definition fetch_all_peer_packages ::
  "get_v1 \<Rightarrow> get_v0 \<Rightarrow> string \<Rightarrow> string \<Rightarrow> string \<Rightarrow> string option \<Rightarrow> peer_map result option" where
  "fetch_all_peer_packages get_v1 get_v0 peer_url distribution architecture release =
     (if is_v0_url peer_url then Some (fetch_v0_packages get_v0 peer_url architecture)
      else fetch_v1_packages get_v1 peer_url distribution architecture release)"

section \<open>The background comparison\<close>

definition local_package_rows :: "string \<Rightarrow> string \<Rightarrow> db \<Rightarrow> binary_row list" where
  "local_package_rows distribution architecture d =
     filter (\<lambda>((((p, s), b), r1), a). sp_distribution s = distribution \<and>
         bi_architecture b = architecture \<and> bp_seen_in_last_sync p)
       (left_join (\<lambda>r a. map_option rb_id (snd r) = Some (ra_rebuild_id a) \<and>
            ra_name a = bp_name (fst (fst (fst r))))
          (join_latest (\<lambda>x. bi_id (snd x)) (binary_inputs d) (rows (rebuilds d)))
          (rows (rebuild_artifacts d)))"

definition row_status :: "binary_row \<Rightarrow> build_status result" where
  "row_status row =
     (case row of ((((p, s), b), r1), a) \<Rightarrow>
        (case load_build_status (artifact_field ra_status a) of
           Inl e \<Rightarrow> Inl e
         | Inr artifact_status \<Rightarrow>
             (case load_build_status (r1_status r1) of
                Inl e \<Rightarrow> Inl e
              | Inr rebuild_status \<Rightarrow>
                  Inr (unwrap_or_unknown (option_or artifact_status rebuild_status)))))"

definition row_key :: "binary_row \<Rightarrow> package_key" where
  "row_key row = (case row of ((((p, s), b), r1), a) \<Rightarrow> (bp_name p, bp_version p))"

definition fetch_local_packages ::
  "string \<Rightarrow> string \<Rightarrow> db \<Rightarrow> (package_key \<Rightarrow> build_status option) result" where
  "fetch_local_packages distribution architecture d =
     fold_result (\<lambda>row m. map_sum id (\<lambda>st. m(row_key row \<mapsto> st)) (row_status row))
       (local_package_rows distribution architecture d) Map.empty"

definition disagrees :: "build_status \<Rightarrow> build_status \<Rightarrow> bool" where
  "disagrees peer ours \<longleftrightarrow> (peer = Good \<and> ours = Bad) \<or> (peer = Bad \<and> ours = Good)"

definition peer_disagreements ::
  "(package_key \<Rightarrow> build_status option) \<Rightarrow> (int \<Rightarrow> package_key \<Rightarrow> time) \<Rightarrow> peer_rebuilder \<Rightarrow> peer_map \<Rightarrow>
   upsert_peer_sha256_check list" where
  "peer_disagreements ours clock peer m =
     List.map_filter (\<lambda>(k, info).
       (case ours k of
          None \<Rightarrow> None
        | Some st \<Rightarrow>
            if disagrees (ppi_status info) st then
              Some \<lparr>upc_peer_rebuilder_id = pe_id peer, upc_binary_name = fst k,
                upc_binary_version = snd k, upc_peer_build_id = ppi_build_id info,
                upc_checked_at = clock (pe_id peer) k,
                upc_peer_status = Some (build_status_as_str (ppi_status info))\<rparr>
            else None)) m"

definition peer_check_row :: "upsert_peer_sha256_check \<Rightarrow> int \<Rightarrow> peer_sha256_check" where
  "peer_check_row n i =
     \<lparr>pc_id = i, pc_peer_rebuilder_id = upc_peer_rebuilder_id n,
      pc_binary_name = upc_binary_name n, pc_binary_version = upc_binary_version n,
      pc_peer_build_id = upc_peer_build_id n, pc_checked_at = upc_checked_at n,
      pc_peer_status = upc_peer_status n\<rparr>"

definition upsert_check_key :: "upsert_peer_sha256_check \<Rightarrow> int \<times> string \<times> string" where
  "upsert_check_key n = (upc_peer_rebuilder_id n, upc_binary_name n, upc_binary_version n)"

text \<open>A plain insert: it fails on a peer that is gone and on a key that is taken.\<close>

definition insert_peer_check :: "upsert_peer_sha256_check \<Rightarrow> db \<Rightarrow> db result" where
  "insert_peer_check n d =
     (if \<not> sql_exists (\<lambda>p. pe_id p = upc_peer_rebuilder_id n) (peer_rebuilders d) then Inl LibraryError
      else if sql_exists (\<lambda>c. peer_sha256_check_key c = upsert_check_key n) (peer_sha256_checks d)
      then Inl LibraryError
      else Inr (d\<lparr>peer_sha256_checks := snd (sql_insert (peer_check_row n) (peer_sha256_checks d))\<rparr>))"

text \<open>One transaction: all of it or nothing.\<close>

definition replace_peer_checks ::
  "int list \<Rightarrow> upsert_peer_sha256_check list \<Rightarrow> db \<Rightarrow> db result" where
  "replace_peer_checks compared_peer_ids upserts d =
     fold_result insert_peer_check upserts
       (d\<lparr>peer_sha256_checks := sql_delete (\<lambda>c. pc_peer_rebuilder_id c \<in> set compared_peer_ids)
          (peer_sha256_checks d)\<rparr>)"

fun collect_peer_maps ::
  "(peer_rebuilder \<Rightarrow> peer_map result option) \<Rightarrow> peer_rebuilder list \<Rightarrow>
   (peer_rebuilder \<times> peer_map) list option" where
  "collect_peer_maps fetch [] = Some []"
| "collect_peer_maps fetch (p # ps) =
     (case fetch p of
        None \<Rightarrow> None
      | Some (Inl _) \<Rightarrow> collect_peer_maps fetch ps
      | Some (Inr m) \<Rightarrow> map_option (\<lambda>ms. (p, m) # ms) (collect_peer_maps fetch ps))"

definition fetch_peer ::
  "get_v1 \<Rightarrow> get_v0 \<Rightarrow> string \<Rightarrow> string \<Rightarrow> peer_rebuilder \<Rightarrow> peer_map result option" where
  "fetch_peer get_v1 get_v0 distribution architecture peer =
     fetch_all_peer_packages get_v1 get_v0 (resolve_arch (pe_url peer) architecture) distribution
       architecture (if pe_release_alias peer = [] then None else Some (pe_release_alias peer))"

text \<open>
  The database is read for the peers (\<open>dp\<close>), later for our packages (\<open>dl\<close>), and last written
  (\<open>dw\<close>): other requests may run in between.
\<close>

definition run_peer_check ::
  "get_v1 \<Rightarrow> get_v0 \<Rightarrow> (peer_rebuilder list \<Rightarrow> peer_rebuilder list) \<Rightarrow> (int \<Rightarrow> package_key \<Rightarrow> time) \<Rightarrow>
   string \<Rightarrow> string \<Rightarrow> db \<Rightarrow> db \<Rightarrow> db \<Rightarrow> (unit result \<times> db) option" where
  "run_peer_check get_v1 get_v0 completed clock distribution architecture dp dl dw =
     (let peers = filter (\<lambda>p. pe_distribution p = distribution \<and> pe_architecture p = architecture)
            (rows (peer_rebuilders dp))
      in if peers = [] then Some (Inr (), dw)
         else
           (case collect_peer_maps (fetch_peer get_v1 get_v0 distribution architecture) (completed peers) of
              None \<Rightarrow> None
            | Some peer_maps \<Rightarrow>
                if peer_maps = [] then Some (Inr (), dw)
                else
                  (case fetch_local_packages distribution architecture dl of
                     Inl e \<Rightarrow> Some (Inl e, dw)
                   | Inr ours \<Rightarrow>
                       (case replace_peer_checks (map (pe_id \<circ> fst) peer_maps)
                               (concat (map (\<lambda>(peer, m). peer_disagreements ours clock peer m) peer_maps))
                               dw of
                          Inl e \<Rightarrow> Some (Inl e, dw)
                        | Inr d' \<Rightarrow> Some (Inr (), d')))))"

section \<open>Answering for one package\<close>

definition v0_urls :: "string \<Rightarrow> int \<Rightarrow> bool \<Rightarrow> bool \<Rightarrow> string option \<times> string option" where
  "v0_urls peer_url build_id has_diffoscope is_bad =
     (let base = trim_end_matches CHR ''/'' peer_url
      in (Some (base @ ''/builds/'' @ show_int build_id @ ''/log''),
          if is_bad \<and> has_diffoscope
          then Some (base @ ''/builds/'' @ show_int build_id @ ''/diffoscope'') else None))"

definition v1_urls ::
  "string \<Rightarrow> int \<Rightarrow> int option \<Rightarrow> int option \<Rightarrow> bool \<Rightarrow> string option \<times> string option" where
  "v1_urls peer_url build_id artifact_id diffoscope_log_id is_bad =
     (let base = trim_end_matches CHR ''/'' peer_url
      in (Some (base @ ''/builds/'' @ show_int build_id @ ''/log''),
          if is_bad then
            (case (artifact_id, diffoscope_log_id) of
               (Some aid, Some _) \<Rightarrow>
                 Some (base @ ''/builds/'' @ show_int build_id @ ''/artifacts/'' @ show_int aid @
                   ''/diffoscope'')
             | _ \<Rightarrow> None)
          else None))"

definition no_answer :: "string \<Rightarrow> peer_status_entry" where
  "no_answer url = \<lparr>pse_url = url, pse_status = None, pse_build_id = None, pse_log_url = None,
     pse_diffoscope_url = None\<rparr>"

definition fetch_v1_peer_package ::
  "get_v1 \<Rightarrow> string \<Rightarrow> string \<Rightarrow> string \<Rightarrow> string \<Rightarrow> peer_status_entry result" where
  "fetch_v1_peer_package get_v1 peer_url name version architecture =
     (case get_v1 (packages_url peer_url) (Params [(''name'', name), (''version'', version),
             (''architecture'', architecture), (''seen_only'', ''true''), (''limit'', ''1'')]) of
        Inl e \<Rightarrow> Inl e
      | Inr [] \<Rightarrow> Inr (no_answer peer_url)
      | Inr (pkg # _) \<Rightarrow>
          (let effective = option_or (pbp_status pkg) (pbp_rebuild_status pkg);
               urls = (case pbp_build_id pkg of
                  None \<Rightarrow> (None, None)
                | Some bid \<Rightarrow> v1_urls peer_url bid (pbp_artifact_id pkg) (pbp_diffoscope_log_id pkg)
                    (effective = Some Bad))
           in Inr \<lparr>pse_url = peer_url, pse_status = effective, pse_build_id = pbp_build_id pkg,
                pse_log_url = fst urls, pse_diffoscope_url = snd urls\<rparr>))"

definition fetch_v0_peer_package ::
  "get_v0 \<Rightarrow> string \<Rightarrow> string \<Rightarrow> string \<Rightarrow> string \<Rightarrow> peer_status_entry result" where
  "fetch_v0_peer_package get_v0 peer_url name version architecture =
     (case get_v0 (pkgs_list_url peer_url) [(''name'', name), (''architecture'', architecture)] of
        Inl e \<Rightarrow> Inl e
      | Inr packages \<Rightarrow>
          (case find (\<lambda>p. vpr_version p = version) packages of
             None \<Rightarrow> Inr (no_answer peer_url)
           | Some pkg \<Rightarrow>
               (let peer_status = v0_to_build_status (vpr_status pkg);
                    urls = (case vpr_build_id pkg of
                       None \<Rightarrow> (None, None)
                     | Some bid \<Rightarrow> v0_urls peer_url bid (vpr_has_diffoscope pkg) (peer_status = Bad))
                in Inr \<lparr>pse_url = peer_url, pse_status = Some peer_status,
                     pse_build_id = vpr_build_id pkg, pse_log_url = fst urls,
                     pse_diffoscope_url = snd urls\<rparr>)))"

definition fetch_peer_package ::
  "get_v1 \<Rightarrow> get_v0 \<Rightarrow> string \<Rightarrow> string \<Rightarrow> string \<Rightarrow> string \<Rightarrow> peer_status_entry result" where
  "fetch_peer_package get_v1 get_v0 peer_url name version architecture =
     (if is_v0_url peer_url then fetch_v0_peer_package get_v0 peer_url name version architecture
      else fetch_v1_peer_package get_v1 peer_url name version architecture)"

text \<open>Stored statuses are plain words: reading one as JSON is reading the word.\<close>

definition str_to_build_status :: "string \<Rightarrow> build_status option" where
  "str_to_build_status s = (case build_status_try_from s of Inl _ \<Rightarrow> None | Inr st \<Rightarrow> Some st)"

definition cached_peer_entry :: "string \<Rightarrow> string \<Rightarrow> db \<Rightarrow> peer_rebuilder \<Rightarrow> peer_status_entry" where
  "cached_peer_entry name version d peer =
     (let resolved_url = resolve_arch (pe_url peer) (pe_architecture peer);
          base = trim_end_matches CHR ''/'' resolved_url
      in case filter (\<lambda>c. pc_peer_rebuilder_id c = pe_id peer \<and> pc_binary_name c = name \<and>
                pc_binary_version c = version) (rows (peer_sha256_checks d)) of
           [] \<Rightarrow> no_answer resolved_url
         | c # _ \<Rightarrow>
             (let status = Option.bind (pc_peer_status c) str_to_build_status
              in \<lparr>pse_url = resolved_url, pse_status = status, pse_build_id = pc_peer_build_id c,
                  pse_log_url = map_option (\<lambda>i. base @ ''/builds/'' @ show_int i @ ''/log'')
                    (pc_peer_build_id c),
                  pse_diffoscope_url =
                    (if status = Some Bad
                     then map_option (\<lambda>i. base @ ''/builds/'' @ show_int i @ ''/diffoscope'')
                       (pc_peer_build_id c)
                     else None)\<rparr>))"

record peer_package_query =
  ppq_distribution :: string
  ppq_architecture :: string
  ppq_name :: string
  ppq_version :: string
  ppq_live :: bool
  ppq_peer :: "string option"

definition get_peer_package ::
  "get_v1 \<Rightarrow> get_v0 \<Rightarrow> (peer_rebuilder list \<Rightarrow> peer_rebuilder list) \<Rightarrow> peer_package_query \<Rightarrow> db \<Rightarrow>
   peer_status_entry list response" where
  "get_peer_package get_v1 get_v0 completed q d =
     (let registered = filter (\<lambda>p. pe_distribution p = ppq_distribution q \<and>
            pe_architecture p = ppq_architecture q) (rows (peer_rebuilders d));
          peers = (case ppq_peer q of
             None \<Rightarrow> registered
           | Some part \<Rightarrow> filter (\<lambda>p. str_contains part (pe_url p)) registered)
      in if peers = [] then Ok200 []
         else if \<not> ppq_live q then
           Ok200 (map (cached_peer_entry (ppq_name q) (ppq_version q) d) peers)
         else
           Ok200 (map (\<lambda>p.
             (let resolved_url = resolve_arch (pe_url p) (ppq_architecture q)
              in case fetch_peer_package get_v1 get_v0 resolved_url (ppq_name q) (ppq_version q)
                        (ppq_architecture q) of
                   Inl _ \<Rightarrow> no_answer resolved_url
                 | Inr entry \<Rightarrow> entry)) (completed peers)))"

end
