(* ===== verification/PeerProps.thy ===== *)
theory PeerProps
  imports Peers "HOL-Library.Multiset" Sample
begin

text \<open>
  What the comparison with peers promises: the stored checks of the peers compared are exactly
  the current disagreements, other peers' checks stay, and the pages of a daemon are fetched to
  the end.
\<close>

section \<open>The invariant\<close>

lemma db_ok_peer_rebuilder_upsert [wf_intros]:
  assumes "db_ok d"
  shows "db_ok (peer_rebuilder_upsert n d)"
  unfolding peer_rebuilder_upsert_def
proof (rule db_ok_peer_rebuilders[OF assms])
  show "refs pc_peer_rebuilder_id (peer_sha256_checks d)
      (ids pe_id (snd (peer_rebuilder_table.upsert n (peer_rebuilders d))))"
    using refs_mono[OF db_ok_facts(32)[OF assms] peer_rebuilder_table.upsert_ids] .
qed (simp_all add: db_ok_facts[OF assms] peer_rebuilder_table.upsert_wf_table
    peer_rebuilder_table.upsert_unique_on)

lemma db_ok_delete_peer_rebuilders [wf_intros]:
  assumes "db_ok d"
  shows "db_ok (delete_peer_rebuilders p d)"
proof -
  define gone where "gone = map pe_id (filter p (rows (peer_rebuilders d)))"
  define d1 where "d1 = d\<lparr>peer_sha256_checks :=
    sql_delete (\<lambda>c. pc_peer_rebuilder_id c \<in> set gone) (peer_sha256_checks d)\<rparr>"
  have ok1: "db_ok d1" unfolding d1_def
    by (rule db_ok_peer_sha256_checks[OF assms])
      (simp_all add: db_ok_facts[OF assms] wf_table_delete unique_on_delete refs_delete)
  have "delete_peer_rebuilders p d = d1\<lparr>peer_rebuilders := sql_delete p (peer_rebuilders d1)\<rparr>"
    by (simp add: delete_peer_rebuilders_def gone_def d1_def Let_def)
  moreover have "db_ok (d1\<lparr>peer_rebuilders := sql_delete p (peer_rebuilders d1)\<rparr>)"
  proof (rule db_ok_peer_rebuilders[OF ok1])
    show "refs pc_peer_rebuilder_id (peer_sha256_checks d1) (ids pe_id (sql_delete p (peer_rebuilders d1)))"
      using db_ok_facts(32)[OF assms]
      by (auto simp: refs_def d1_def gone_def rows_delete)
  qed (simp_all add: db_ok_facts[OF ok1] wf_table_delete unique_on_delete)
  ultimately show ?thesis by simp
qed

lemma db_ok_check_peers [wf_intros]:
  assumes "db_ok d"
  shows "db_ok (snd (check_peers cfg req request d))"
proof -
  have "db_ok (fold (\<lambda>url. peer_rebuilder_upsert (n url)) urls d)" for n urls
    using assms by (induction urls arbitrary: d) (simp_all add: db_ok_peer_rebuilder_upsert)
  then show ?thesis
    using assms by (auto simp: check_peers_def split: sum.split intro!: db_ok_delete_peer_rebuilders)
qed

lemma db_ok_insert_peer_check:
  assumes "db_ok d" "insert_peer_check n d = Inr d'"
  shows "db_ok d'"
proof -
  have d': "d' = d\<lparr>peer_sha256_checks := snd (sql_insert (peer_check_row n) (peer_sha256_checks d))\<rparr>"
    and n: "upc_peer_rebuilder_id n \<in> ids pe_id (peer_rebuilders d)"
      "upsert_check_key n \<notin> peer_sha256_check_key ` set (rows (peer_sha256_checks d))"
    using assms(2)
    by (auto simp: insert_peer_check_def sql_exists_iff split: if_splits) (metis imageI)
  have key: "peer_sha256_check_key (peer_check_row n i) = upsert_check_key n" for i
    by (simp add: peer_sha256_check_key_def peer_check_row_def upsert_check_key_def)
  show ?thesis unfolding d'
  proof (rule db_ok_peer_sha256_checks[OF assms(1)])
    show "unique_on peer_sha256_check_key (snd (sql_insert (peer_check_row n) (peer_sha256_checks d)))"
      using db_ok_facts(21)[OF assms(1)] n(2) by (intro unique_on_insert) (auto simp: key)
    show "refs pc_peer_rebuilder_id (snd (sql_insert (peer_check_row n) (peer_sha256_checks d)))
        (ids pe_id (peer_rebuilders d))"
      using db_ok_facts(32)[OF assms(1)] n(1) by (intro refs_insert) (simp_all add: peer_check_row_def)
    show "wf_table pc_id (snd (sql_insert (peer_check_row n) (peer_sha256_checks d)))"
      using db_ok_facts(12)[OF assms(1)] by (intro wf_table_insert) (simp_all add: peer_check_row_def)
  qed
qed

lemma db_ok_replace_peer_checks:
  assumes "db_ok d" "replace_peer_checks compared upserts d = Inr d'"
  shows "db_ok d'"
proof (rule fold_result_Inr_invariant[OF assms(2)[unfolded replace_peer_checks_def]])
  show "db_ok (d\<lparr>peer_sha256_checks := sql_delete (\<lambda>c. pc_peer_rebuilder_id c \<in> set compared)
      (peer_sha256_checks d)\<rparr>)"
    by (rule db_ok_peer_sha256_checks[OF assms(1)])
      (simp_all add: db_ok_facts[OF assms(1)] wf_table_delete unique_on_delete refs_delete)
qed (rule db_ok_insert_peer_check)

lemma db_ok_run_peer_check:
  assumes "db_ok dw" "run_peer_check get_v1 get_v0 completed clock dist arch dp dl dw = Some (r, d')"
  shows "db_ok d'"
  using assms db_ok_replace_peer_checks[OF assms(1)]
  by (auto simp: run_peer_check_def Let_def split: if_splits option.splits sum.splits)

section \<open>Our own statuses\<close>

lemma row_status_Inr:
  assumes "db_ok d" "row \<in> set (local_package_rows dist arch d)"
  shows "\<exists>st. row_status row = Inr st"
proof -
  obtain p s b r1 a where row: "row = ((((p, s), b), r1), a)" by (cases row) auto
  from assms(2) have mem: "(((p, s), b), r1) \<in> set (join_latest (\<lambda>x. bi_id (snd x)) (binary_inputs d) (rows (rebuilds d)))"
    and a: "a = None \<or> (\<exists>a'. a = Some a' \<and> a' \<in> set (rows (rebuild_artifacts d)))"
    by (auto simp: local_package_rows_def row dest: left_join_leftD)
      (cases a, auto dest: left_join_SomeD)
  have "r1 = None \<or> (\<exists>r. r1 = Some r \<and> r \<in> set (rows (rebuilds d)))"
    using mem latest_rebuild_Some by (cases r1) (auto simp: join_latest_db[OF assms(1)])
  then have "status_text_ok (r1_status r1)"
    using db_ok_facts(34)[OF assms(1)] by (auto simp: r1_status_def rebuild_ok_def)
  moreover have "status_text_ok (artifact_field ra_status a)"
    using a db_ok_facts(35)[OF assms(1)]
    by (auto simp: artifact_field_def artifact_ok_def artifact_text_ok_status)
  ultimately obtain x y where "load_build_status (r1_status r1) = Inr x"
    "load_build_status (artifact_field ra_status a) = Inr y"
    using status_text_ok_load by blast
  then show ?thesis by (simp add: row_status_def row)
qed

lemma fetch_local_total:
  assumes "db_ok d"
  shows "\<exists>ours. fetch_local_packages dist arch d = Inr ours"
proof -
  have "\<exists>m'. fold_result (\<lambda>row m. map_sum id (\<lambda>st. m(row_key row \<mapsto> st)) (row_status row))
      (local_package_rows dist arch d) m = Inr m' \<and> True" for m
    by (rule fold_result_invariant) (use row_status_Inr[OF assms] in fastforce)+
  then show ?thesis by (simp add: fetch_local_packages_def)
qed

section \<open>Keys of fetched maps are distinct\<close>

lemma distinct_insert_packages:
  "distinct (map fst m) \<Longrightarrow> distinct (map fst (fold insert_peer_package pkgs m))"
  by (induction pkgs arbitrary: m) (simp_all add: insert_peer_package_def distinct_update)

lemma distinct_fetch_v1_loop:
  assumes "fetch_v1_loop get after m = Some r" "distinct (map fst m)" "r = Inr m'"
  shows "distinct (map fst m')"
proof -
  have "distinct (map fst m) \<longrightarrow> (\<forall>m'. r = Inr m' \<longrightarrow> distinct (map fst m'))"
  proof (rule fetch_v1_loop.raw_induct[OF _ assms(1)])
    fix loop get after and m :: peer_map and r
    assume IH: "\<And>get after m r. loop get after m = Some r \<Longrightarrow>
        distinct (map fst m) \<longrightarrow> (\<forall>m'. r = Inr m' \<longrightarrow> distinct (map fst m'))"
      and step: "(case get after of Inl e \<Rightarrow> Some (Inl e)
        | Inr recs \<Rightarrow> let m' = fold insert_peer_package recs m
            in if length recs < 1000 then Some (Inr m')
               else if recs = [] then Some (Inr m')
               else loop get (Some (pbp_id (last recs))) m') = Some r"
    show "distinct (map fst m) \<longrightarrow> (\<forall>m'. r = Inr m' \<longrightarrow> distinct (map fst m'))"
    proof (cases "get after")
      case (Inr recs)
      define m1 where "m1 = fold insert_peer_package recs m"
      have d: "distinct (map fst m) \<longrightarrow> distinct (map fst m1)"
        using distinct_insert_packages by (simp add: m1_def)
      have "(if length recs < 1000 then Some (Inr m1) else if recs = [] then Some (Inr m1)
          else loop get (Some (pbp_id (last recs))) m1) = Some r"
        using step unfolding Inr sum.case Let_def m1_def .
      then consider "r = Inr m1" | "loop get (Some (pbp_id (last recs))) m1 = Some r"
        by (metis option.inject)
      then show ?thesis
      proof cases
        case 1
        then show ?thesis using d by simp
      next
        case 2
        from IH[OF 2] d show ?thesis by blast
      qed
    next
      case (Inl e)
      then have "r = Inl e" using step by simp
      then show ?thesis by simp
    qed
  qed
  with assms(2,3) show ?thesis by blast
qed

lemma distinct_fetch_v0:
  assumes "fetch_v0_packages get_v0 url arch = Inr m"
  shows "distinct (map fst m)"
proof -
  have "distinct (map fst (fold (\<lambda>pkg. AList.update (vpr_name pkg, vpr_version pkg) (info pkg)) pkgs m))"
    if "distinct (map fst m)" for pkgs m and info :: "v0_pkg_release \<Rightarrow> peer_pkg_info"
    using that by (induction pkgs arbitrary: m) (simp_all add: distinct_update)
  from this[of "[]"] assms show ?thesis
    by (cases "get_v0 (pkgs_list_url url) [(''architecture'', arch)]")
      (auto simp: fetch_v0_packages_def)
qed

lemma distinct_fetch_peer:
  "fetch_peer get_v1 get_v0 dist arch p = Some (Inr m) \<Longrightarrow> distinct (map fst m)"
  by (auto simp: fetch_peer_def fetch_all_peer_packages_def fetch_v1_packages_def
      dest: distinct_fetch_v0 distinct_fetch_v1_loop split: if_splits)

lemma collect_peer_maps_set:
  "collect_peer_maps fetch ps = Some maps \<Longrightarrow> (p, m) \<in> set maps \<longleftrightarrow> p \<in> set ps \<and> fetch p = Some (Inr m)"
  by (induction ps arbitrary: maps) (auto split: option.splits sum.splits)

lemma collect_peer_maps_distinct:
  "collect_peer_maps fetch ps = Some maps \<Longrightarrow> distinct (map f ps) \<Longrightarrow> distinct (map (f \<circ> fst) maps)"
proof (induction ps arbitrary: maps)
  case (Cons p ps)
  show ?case
  proof (cases "fetch p")
    case None
    with Cons.prems show ?thesis by simp
  next
    case (Some r)
    show ?thesis
    proof (cases r)
      case (Inl e)
      with Some Cons show ?thesis by simp
    next
      case (Inr m)
      with Some Cons.prems(1) obtain ms where ms: "collect_peer_maps fetch ps = Some ms" "maps = (p, m) # ms"
        by (auto simp: map_option_case split: option.splits)
      have "q \<in> set ps" if "(q, m') \<in> set ms" for q m'
        using collect_peer_maps_set[OF ms(1), of q m'] that by simp
      then have "f p \<notin> (f \<circ> fst) ` set ms" using Cons.prems(2) by force
      with Cons.IH[OF ms(1)] Cons.prems(2) ms(2) show ?thesis by simp
    qed
  qed
qed simp

section \<open>Storing the disagreements\<close>

definition stored_checks :: "db \<Rightarrow> ((int \<times> package_key) \<times> string option) set" where
  "stored_checks d = (\<lambda>c. (peer_sha256_check_key c, pc_peer_status c)) ` set (rows (peer_sha256_checks d))"

lemma insert_peer_checks:
  assumes "\<forall>n\<in>set upserts. upc_peer_rebuilder_id n \<in> ids pe_id (peer_rebuilders d)"
    and "distinct (map upsert_check_key upserts)"
    and "\<forall>n\<in>set upserts. upsert_check_key n \<notin> fst ` stored_checks d"
  shows "\<exists>d'. fold_result insert_peer_check upserts d = Inr d' \<and>
    stored_checks d' = stored_checks d \<union> (\<lambda>n. (upsert_check_key n, upc_peer_status n)) ` set upserts"
  using assms
proof (induction upserts arbitrary: d)
  case Nil
  then show ?case by simp
next
  case (Cons n ns)
  define d1 where "d1 = d\<lparr>peer_sha256_checks := snd (sql_insert (peer_check_row n) (peer_sha256_checks d))\<rparr>"
  have "upsert_check_key n \<notin> peer_sha256_check_key ` set (rows (peer_sha256_checks d))"
    using Cons.prems(3) by (fastforce simp: stored_checks_def image_iff)
  then have "\<not> sql_exists (\<lambda>c. peer_sha256_check_key c = upsert_check_key n) (peer_sha256_checks d)"
    by (metis (mono_tags, lifting) sql_exists_iff image_eqI)
  moreover have "sql_exists (\<lambda>p. pe_id p = upc_peer_rebuilder_id n) (peer_rebuilders d)"
    using Cons.prems(1) by (auto simp: sql_exists_iff)
  ultimately have step: "insert_peer_check n d = Inr d1" by (simp add: insert_peer_check_def d1_def)
  have stored: "stored_checks d1 = insert (upsert_check_key n, upc_peer_status n) (stored_checks d)"
    by (simp add: stored_checks_def d1_def rows_insert peer_sha256_check_key_def upsert_check_key_def
        peer_check_row_def)
  have "\<exists>d'. fold_result insert_peer_check ns d1 = Inr d' \<and>
    stored_checks d' = stored_checks d1 \<union> (\<lambda>n. (upsert_check_key n, upc_peer_status n)) ` set ns"
    using Cons.prems stored by (intro Cons.IH) (auto simp: d1_def image_iff)
  with step stored show ?case by auto
qed

lemma peer_disagreements_Nil [simp]: "peer_disagreements ours clock p [] = []"
  by (simp add: peer_disagreements_def)

lemma peer_disagreements_Cons:
  "peer_disagreements ours clock p ((k, info) # m) =
     (if \<exists>st. ours k = Some st \<and> disagrees (ppi_status info) st
      then [\<lparr>upc_peer_rebuilder_id = pe_id p, upc_binary_name = fst k,
         upc_binary_version = snd k, upc_peer_build_id = ppi_build_id info,
         upc_checked_at = clock (pe_id p) k,
         upc_peer_status = Some (build_status_as_str (ppi_status info))\<rparr>] else [])
     @ peer_disagreements ours clock p m"
  by (simp add: peer_disagreements_def split: option.split)

lemma disagreement_keys:
  assumes "distinct (map fst m)"
  shows "distinct (map upsert_check_key (peer_disagreements ours clock p m)) \<and>
    fst ` set (map upsert_check_key (peer_disagreements ours clock p m)) \<subseteq> {pe_id p}"
proof -
  have "map upsert_check_key (peer_disagreements ours clock p m) =
    map (\<lambda>x. (pe_id p, fst x)) (filter (\<lambda>(k, info). \<exists>st. ours k = Some st \<and> disagrees (ppi_status info) st) m)"
  proof (induction m)
    case (Cons e m)
    then show ?case by (cases e) (simp add: peer_disagreements_Cons upsert_check_key_def)
  qed simp
  moreover have "distinct (map (\<lambda>x. (pe_id p, fst x)) (filter P m))" for P
    using assms by (auto simp: distinct_map inj_on_def)
  ultimately show ?thesis by auto
qed

lemma set_disagreements:
  "(\<lambda>n. (upsert_check_key n, upc_peer_status n)) ` set (peer_disagreements ours clock p m) =
     {((pe_id p, k), Some (build_status_as_str (ppi_status info))) | k info.
        (k, info) \<in> set m \<and> (\<exists>st. ours k = Some st \<and> disagrees (ppi_status info) st)}"
proof (induction m)
  case (Cons e m)
  obtain k info where e: "e = (k, info)" by (cases e)
  show ?case unfolding e peer_disagreements_Cons image_Un set_append Cons.IH
    by (auto simp: upsert_check_key_def)
qed simp

lemma distinct_keyed_concat:
  assumes "distinct (map k xs)" "\<forall>x\<in>set xs. distinct (g x) \<and> fst ` set (g x) \<subseteq> {k x}"
  shows "distinct (concat (map g xs)) \<and> fst ` set (concat (map g xs)) \<subseteq> k ` set xs"
  using assms
proof (induction xs)
  case (Cons x xs)
  then have IH: "distinct (concat (map g xs))" "fst ` set (concat (map g xs)) \<subseteq> k ` set xs"
    and x: "distinct (g x)" "fst ` set (g x) \<subseteq> {k x}" "k x \<notin> k ` set xs" by auto
  have "set (g x) \<inter> set (concat (map g xs)) = {}"
  proof (rule ccontr)
    assume "set (g x) \<inter> set (concat (map g xs)) \<noteq> {}"
    then obtain y where y: "y \<in> set (g x)" "y \<in> set (concat (map g xs))" by blast
    have "fst y \<in> fst ` set (g x)" "fst y \<in> fst ` set (concat (map g xs))" by (rule imageI[OF y(1)], rule imageI[OF y(2)])
    then have "fst y = k x" "fst y \<in> k ` set xs" using x(2) IH(2) by (auto simp only: subset_iff singleton_iff)
    with x(3) show False by simp
  qed
  moreover have "fst ` set (concat (map g (x # xs))) = fst ` set (g x) \<union> fst ` set (concat (map g xs))"
    by (simp only: list.map concat.simps set_append image_Un)
  moreover have "fst ` set (g x) \<union> fst ` set (concat (map g xs)) \<subseteq> k ` set (x # xs)"
    using IH(2) x(2) unfolding list.set image_insert by blast
  ultimately show ?case using IH(1) x(1) by (simp del: image_Un)
qed simp

lemma all_disagreement_keys:
  assumes "distinct (map (pe_id \<circ> fst) maps)" "\<forall>(p, m)\<in>set maps. distinct (map fst m)"
  shows "distinct (map upsert_check_key (concat (map (\<lambda>(p, m). peer_disagreements ours clock p m) maps))) \<and>
    fst ` set (map upsert_check_key (concat (map (\<lambda>(p, m). peer_disagreements ours clock p m) maps)))
      \<subseteq> (pe_id \<circ> fst) ` set maps"
proof -
  have "\<forall>x\<in>set maps. distinct (map upsert_check_key (peer_disagreements ours clock (fst x) (snd x))) \<and>
      fst ` set (map upsert_check_key (peer_disagreements ours clock (fst x) (snd x))) \<subseteq> {(pe_id \<circ> fst) x}"
    using assms(2) disagreement_keys by fastforce
  from distinct_keyed_concat[OF assms(1) this] show ?thesis
    by (simp only: map_concat map_map comp_def case_prod_unfold)
qed

section \<open>What a comparison leaves behind\<close>

definition found_disagreements ::
  "(package_key \<Rightarrow> build_status option) \<Rightarrow> (peer_rebuilder \<Rightarrow> peer_map result option) \<Rightarrow> peer_rebuilder list \<Rightarrow>
   ((int \<times> package_key) \<times> string option) set" where
  "found_disagreements ours fetch ps =
     {((pe_id p, k), Some (build_status_as_str (ppi_status info))) | p k info m.
        p \<in> set ps \<and> fetch p = Some (Inr m) \<and> (k, info) \<in> set m \<and>
        (\<exists>st. ours k = Some st \<and> disagrees (ppi_status info) st)}"

definition kept_checks ::
  "(peer_rebuilder \<Rightarrow> peer_map result option) \<Rightarrow> peer_rebuilder list \<Rightarrow> db \<Rightarrow>
   ((int \<times> package_key) \<times> string option) set" where
  "kept_checks fetch ps d =
     {c \<in> stored_checks d. \<not> (\<exists>p m. p \<in> set ps \<and> fetch p = Some (Inr m) \<and> fst (fst c) = pe_id p)}"

lemma stored_checks_delete:
  "stored_checks (d\<lparr>peer_sha256_checks := sql_delete (\<lambda>c. pc_peer_rebuilder_id c \<in> I) (peer_sha256_checks d)\<rparr>) =
     {c \<in> stored_checks d. fst (fst c) \<notin> I}"
  by (auto simp: stored_checks_def rows_delete peer_sha256_check_key_def)

lemma replace_checks_exact:
  assumes maps: "collect_peer_maps fetch ps = Some maps"
    and keys: "\<And>p m. fetch p = Some (Inr m) \<Longrightarrow> distinct (map fst m)"
    and ps: "distinct (map pe_id ps)" "\<forall>p\<in>set ps. pe_id p \<in> ids pe_id (peer_rebuilders dw)"
  shows "\<exists>d'. replace_peer_checks (map (pe_id \<circ> fst) maps)
      (concat (map (\<lambda>(p, m). peer_disagreements ours clock p m) maps)) dw = Inr d' \<and>
    stored_checks d' = kept_checks fetch ps dw \<union> found_disagreements ours fetch ps"
proof -
  note mem = collect_peer_maps_set[OF maps]
  define upserts where "upserts = concat (map (\<lambda>(p, m). peer_disagreements ours clock p m) maps)"
  define d0 where "d0 = dw\<lparr>peer_sha256_checks :=
      sql_delete (\<lambda>c. pc_peer_rebuilder_id c \<in> set (map (pe_id \<circ> fst) maps)) (peer_sha256_checks dw)\<rparr>"
  have "\<forall>(p, m)\<in>set maps. distinct (map fst m)" using mem keys by fast
  note uk = all_disagreement_keys[OF collect_peer_maps_distinct[OF maps ps(1)] this,
      of ours clock, folded upserts_def]
  have owner: "fst (upsert_check_key n) \<in> (pe_id \<circ> fst) ` set maps" if "n \<in> set upserts" for n
  proof -
    have "fst (upsert_check_key n) \<in> fst ` set (map upsert_check_key upserts)" using that by simp
    with uk show ?thesis by blast
  qed
  have peers: "(pe_id \<circ> fst) ` set maps \<subseteq> ids pe_id (peer_rebuilders d0)"
    using mem ps(2) by (auto simp: d0_def)
  have compared: "i \<in> set (map (pe_id \<circ> fst) maps) \<longleftrightarrow>
      (\<exists>p m. p \<in> set ps \<and> fetch p = Some (Inr m) \<and> i = pe_id p)" for i
    using mem by (auto simp: image_iff) (metis fst_conv)
  have free: "stored_checks d0 = kept_checks fetch ps dw"
    unfolding d0_def stored_checks_delete unfolding compared kept_checks_def ..
  have "\<exists>d'. fold_result insert_peer_check upserts d0 = Inr d' \<and>
    stored_checks d' = stored_checks d0 \<union> (\<lambda>n. (upsert_check_key n, upc_peer_status n)) ` set upserts"
  proof (rule insert_peer_checks)
    show "\<forall>n\<in>set upserts. upc_peer_rebuilder_id n \<in> ids pe_id (peer_rebuilders d0)"
    proof
      fix n assume n: "n \<in> set upserts"
      show "upc_peer_rebuilder_id n \<in> ids pe_id (peer_rebuilders d0)"
        using subsetD[OF peers owner[OF n]] by (simp add: upsert_check_key_def)
    qed
    show "distinct (map upsert_check_key upserts)" using uk by blast
    show "\<forall>n\<in>set upserts. upsert_check_key n \<notin> fst ` stored_checks d0"
    proof (intro ballI notI)
      fix n assume "n \<in> set upserts" and "upsert_check_key n \<in> fst ` stored_checks d0"
      then obtain c where "c \<in> kept_checks fetch ps dw" "fst c = upsert_check_key n"
        unfolding free[symmetric] by auto
      moreover have "fst (upsert_check_key n) \<in> set (map (pe_id \<circ> fst) maps)"
        using owner[OF \<open>n \<in> set upserts\<close>] by simp
      ultimately show False unfolding compared kept_checks_def by auto
    qed
  qed
  moreover have "(\<lambda>n. (upsert_check_key n, upc_peer_status n)) ` set upserts = found_disagreements ours fetch ps"
  proof -
    have "(\<lambda>n. (upsert_check_key n, upc_peer_status n)) ` set upserts =
      {c. \<exists>p m. (p, m) \<in> set maps \<and>
        c \<in> (\<lambda>n. (upsert_check_key n, upc_peer_status n)) ` set (peer_disagreements ours clock p m)}"
      by (auto simp: upserts_def)
    also have "\<dots> = found_disagreements ours fetch ps"
      unfolding set_disagreements found_disagreements_def mem by blast
    finally show ?thesis .
  qed
  ultimately show ?thesis
    by (simp add: replace_peer_checks_def free upserts_def[symmetric] d0_def[symmetric] del: set_map)
qed

lemma distinct_map_sub_mset:
  assumes "mset xs \<subseteq># mset ys" "distinct (map f ys)"
  shows "distinct (map f xs)"
proof -
  have "mset (map f xs) \<subseteq># mset (map f ys)" using image_mset_subseteq_mono[OF assms(1)] by simp
  with assms(2) show ?thesis by (metis distinct_append mset_eq_imp_distinct_iff mset_append ex_mset subset_mset.le_iff_add)
qed

definition asked_peers ::
  "(peer_rebuilder list \<Rightarrow> peer_rebuilder list) \<Rightarrow> string \<Rightarrow> string \<Rightarrow> db \<Rightarrow> peer_rebuilder list" where
  "asked_peers completed dist arch dp =
     completed (filter (\<lambda>p. pe_distribution p = dist \<and> pe_architecture p = arch) (rows (peer_rebuilders dp)))"

lemma asked_peers_ok:
  assumes "db_ok dp" "\<forall>ps. mset (completed ps) \<subseteq># mset ps"
    and "\<forall>p\<in>set (rows (peer_rebuilders dp)). pe_id p \<in> ids pe_id (peer_rebuilders dw)"
  shows "distinct (map pe_id (asked_peers completed dist arch dp))"
    "\<forall>p\<in>set (asked_peers completed dist arch dp). pe_id p \<in> ids pe_id (peer_rebuilders dw)"
proof -
  have sub: "mset (asked_peers completed dist arch dp) \<subseteq># mset (rows (peer_rebuilders dp))"
    using assms(2) multiset_filter_subset unfolding asked_peers_def
    by (metis (no_types, lifting) mset_filter subset_mset.trans)
  show "distinct (map pe_id (asked_peers completed dist arch dp))"
    by (rule distinct_map_sub_mset[OF sub]) (rule wf_table_distinct[OF db_ok_facts(11)[OF assms(1)]])
  show "\<forall>p\<in>set (asked_peers completed dist arch dp). pe_id p \<in> ids pe_id (peer_rebuilders dw)"
    using assms(3) sub by (meson mset_subset_eqD set_mset_mset in_multiset_in_set)
qed

lemma nobody_answers:
  assumes "\<forall>p\<in>set ps. \<forall>m. fetch p \<noteq> Some (Inr m)"
  shows "stored_checks dw = kept_checks fetch ps dw \<union> found_disagreements ours fetch ps"
  using assms by (auto simp: kept_checks_def found_disagreements_def)

lemma run_peer_check_asks:
  assumes "completed [] = []"
  shows "run_peer_check get_v1 get_v0 completed clock dist arch dp dl dw =
    (case collect_peer_maps (fetch_peer get_v1 get_v0 dist arch) (asked_peers completed dist arch dp) of
       None \<Rightarrow> None
     | Some peer_maps \<Rightarrow>
         if peer_maps = [] then Some (Inr (), dw)
         else (case fetch_local_packages dist arch dl of
                 Inl e \<Rightarrow> Some (Inl e, dw)
               | Inr ours \<Rightarrow>
                   (case replace_peer_checks (map (pe_id \<circ> fst) peer_maps)
                       (concat (map (\<lambda>(peer, m). peer_disagreements ours clock peer m) peer_maps)) dw of
                      Inl e \<Rightarrow> Some (Inl e, dw)
                    | Inr d' \<Rightarrow> Some (Inr (), d'))))"
  using assms by (simp add: run_peer_check_def asked_peers_def Let_def)

text \<open>C37: when the comparison runs on peers that are still registered, it always ends well if
their answers do, and the stored checks are then exactly: the old checks of every peer that did
not answer (or was not asked), and one check, with the peer's status, for each package on which
an answering peer and we disagree (GOOD against BAD or BAD against GOOD).\<close>

theorem peer_check_exact:
  assumes "db_ok dp" "db_ok dl"
    and "\<forall>ps. mset (completed ps) \<subseteq># mset ps"
    and "\<forall>p\<in>set (rows (peer_rebuilders dp)). pe_id p \<in> ids pe_id (peer_rebuilders dw)"
    and "run_peer_check get_v1 get_v0 completed clock dist arch dp dl dw = Some (r, d')"
  shows "\<exists>ours. fetch_local_packages dist arch dl = Inr ours \<and> r = Inr () \<and>
    stored_checks d' =
      kept_checks (fetch_peer get_v1 get_v0 dist arch)
        (completed (filter (\<lambda>p. pe_distribution p = dist \<and> pe_architecture p = arch) (rows (peer_rebuilders dp)))) dw
      \<union> found_disagreements ours (fetch_peer get_v1 get_v0 dist arch)
        (completed (filter (\<lambda>p. pe_distribution p = dist \<and> pe_architecture p = arch) (rows (peer_rebuilders dp))))"
proof -
  define fetch where "fetch = fetch_peer get_v1 get_v0 dist arch"
  define asked where "asked = asked_peers completed dist arch dp"
  obtain ours where ours: "fetch_local_packages dist arch dl = Inr ours"
    using fetch_local_total[OF assms(2)] by blast
  have none: "completed [] = []" using assms(3) by (metis mset.simps(1) mset_zero_iff subset_mset.le_zero_eq)
  note run = assms(5)[unfolded run_peer_check_asks[where completed = completed, OF none],
      folded fetch_def asked_def]
  then obtain maps where maps: "collect_peer_maps fetch asked = Some maps"
    unfolding fetch_def asked_def by (auto split: option.splits)
  have "r = Inr () \<and> stored_checks d' = kept_checks fetch asked dw \<union> found_disagreements ours fetch asked"
  proof (cases "maps = []")
    case True
    have "\<forall>p\<in>set asked. \<forall>m. fetch p \<noteq> Some (Inr m)" using collect_peer_maps_set[OF maps] True by auto
    with run maps True nobody_answers[of asked fetch dw ours] show ?thesis
      by (simp add: fetch_def asked_def)
  next
    case False
    obtain d1 where "replace_peer_checks (map (pe_id \<circ> fst) maps)
        (concat (map (\<lambda>(p, m). peer_disagreements ours clock p m) maps)) dw = Inr d1"
      "stored_checks d1 = kept_checks fetch asked dw \<union> found_disagreements ours fetch asked"
      using replace_checks_exact[OF maps, of dw ours clock] distinct_fetch_peer
        asked_peers_ok[OF assms(1,3,4), of dist arch]
      unfolding fetch_def asked_def by blast
    with run maps False ours show ?thesis by (simp add: fetch_def asked_def)
  qed
  with ours show ?thesis unfolding fetch_def asked_def asked_peers_def by blast
qed

definition sample_peer_db :: db where
  "sample_peer_db = peer_rebuilder_upsert \<lparr>npe_url = ''h/v0'', npe_distribution = ''d'',
     npe_architecture = ''amd64'', npe_release = [], npe_release_alias = []\<rparr> sample_base"

definition sample_v0_server :: get_v0 where
  "sample_v0_server url params = Inr [\<lparr>vpr_name = ''x'', vpr_version = ''1'', vpr_status = V0Good,
     vpr_build_id = Some 4, vpr_has_diffoscope = False\<rparr>]"

lemma sample_peer_db_ok: "db_ok sample_peer_db"
  unfolding sample_peer_db_def by (rule db_ok_peer_rebuilder_upsert[OF sample_base_ok])

lemma peer_check_exact_witness:
  "\<exists>d'. run_peer_check (\<lambda>_ _. Inl LibraryError) sample_v0_server id (\<lambda>_ _. 7) ''d'' ''amd64''
      sample_peer_db sample_peer_db sample_peer_db = Some (Inr (), d') \<and>
    ((1, ''x'', ''1''), Some ''GOOD'') \<in> stored_checks d'"
proof -
  let ?run = "run_peer_check (\<lambda>_ _. Inl LibraryError) sample_v0_server id (\<lambda>_ _. 7) ''d'' ''amd64''
      sample_peer_db sample_peer_db sample_peer_db"
  have "map_option fst ?run = Some (Inr ())" by code_simp
  then obtain d' where run: "?run = Some (Inr (), d')" by (cases ?run) auto
  have "map_sum id (\<lambda>m. m (''x'', ''1'')) (fetch_local_packages ''d'' ''amd64'' sample_peer_db) = Inr (Some Bad)"
    by code_simp
  moreover define p where "p = hd (rows (peer_rebuilders sample_peer_db))"
  have "filter (\<lambda>p. pe_distribution p = ''d'' \<and> pe_architecture p = ''amd64'')
      (rows (peer_rebuilders sample_peer_db)) = [p]" "pe_id p = 1"
    "fetch_peer (\<lambda>_ _. Inl LibraryError) sample_v0_server ''d'' ''amd64'' p =
      Some (Inr [((''x'', ''1''), \<lparr>ppi_status = Good, ppi_build_id = Some 4\<rparr>)])"
    unfolding p_def by code_simp+
  ultimately show ?thesis
    using peer_check_exact[OF sample_peer_db_ok sample_peer_db_ok _ _ run]
    by (force simp: found_disagreements_def disagrees_def run)
qed

section \<open>Walking a peer's pages\<close>

lemma fetch_v1_loop_pages:
  assumes "distinct (map pbp_id base)"
    and "\<And>after. get after = paginate cols pbp_id (after_page 1000 after) base"
  shows "fetch_v1_loop get after m = Some (Inr (fold insert_peer_package (rows_after pbp_id after base) m))"
proof (induction "length (rows_after pbp_id after base)" arbitrary: after m rule: less_induct)
  case less
  define rest where "rest = rows_after pbp_id after base"
  have page: "get after = Inr (take 1000 rest)" by (simp add: assms(2) paginate_after rest_def)
  show ?case
  proof (cases "length rest < 1000")
    case True
    with page show ?thesis by (subst fetch_v1_loop.simps) (simp add: rest_def[symmetric] Let_def)
  next
    case False
    define pg where "pg = take 1000 rest"
    have pg: "length pg = 1000" "pg \<noteq> []" using False by (auto simp: pg_def)
    let ?after = "Some (pbp_id (last pg))"
    have step: "rest = pg @ rows_after pbp_id ?after base"
      using rows_after_step[OF assms(1), of 1000 pg after] pg(2) by (simp add: pg_def rest_def)
    then have shorter: "length (rows_after pbp_id ?after base) < length rest"
      using pg by (metis length_append less_add_same_cancel2 length_greater_0_conv)
    have "fetch_v1_loop get after m = fetch_v1_loop get ?after (fold insert_peer_package pg m)"
      using page pg by (subst fetch_v1_loop.simps) (simp add: pg_def[symmetric] Let_def)
    also have "\<dots> = Some (Inr (fold insert_peer_package (pg @ rows_after pbp_id ?after base) m))"
      using less[OF shorter[unfolded rest_def]] by simp
    finally show ?thesis using step by (simp add: rest_def)
  qed
qed

text \<open>C38: fetching a peer's packages ends. Against a peer that serves the pages of the version 1
interface (of 1000 rows, in id order) for any finite list of packages, the loop over the pages
stops and has read every package exactly once and in id order, the later of two packages of one
name and version winning.\<close>

theorem fetch_v1_terminates:
  assumes "distinct (map pbp_id base)"
    and "\<forall>after. get_v1 (packages_url url) (v1_page dist arch release after) =
      paginate cols pbp_id (after_page 1000 after) base"
  shows "fetch_v1_packages get_v1 url dist arch release =
    Some (Inr (fold insert_peer_package (sort_key pbp_id base) []))"
  using fetch_v1_loop_pages[OF assms(1), of "\<lambda>after. get_v1 (packages_url url) (v1_page dist arch release after)"]
    assms(2) by (simp add: fetch_v1_packages_def rows_after_def)

definition sample_v1_package :: "int \<Rightarrow> peer_binary_package" where
  "sample_v1_package i = \<lparr>pbp_id = i, pbp_name = ''x'', pbp_version = ''1'', pbp_status = Some Good,
     pbp_build_id = Some 2, pbp_artifact_id = None, pbp_diffoscope_log_id = None, pbp_rebuild_status = None\<rparr>"

definition sample_v1_server :: get_v1 where
  "sample_v1_server url q = (case q of
     PageQuery p \<Rightarrow> paginate [] pbp_id (after_page 1000 (v1q_after p)) (map sample_v1_package [2, 1])
   | Params _ \<Rightarrow> Inl LibraryError)"

lemma fetch_v1_terminates_witness:
  "fetch_v1_packages sample_v1_server ''h'' ''d'' ''a'' None =
     Some (Inr [((''x'', ''1''), \<lparr>ppi_status = Good, ppi_build_id = Some 2\<rparr>)])"
  using fetch_v1_terminates[of "map sample_v1_package [2, 1]" sample_v1_server "''h''" "''d''" "''a''" None "[]"]
  by (simp add: sample_v1_server_def v1_page_def sample_v1_package_def insert_peer_package_def
      unwrap_or_unknown_def option_or_def)

end
