(* ===== verification/V0.thy ===== *)
theory V0
  imports Packages Queue Builds Dashboard Sample
begin

text \<open>
  The version 0 interface (\<open>daemon/src/api/v0\<close>, types of \<open>common/src/api/v0\<close>), kept for old
  clients: its writing handlers answer 501, the reading ones are here. Parsing a date of RFC 2822
  is the parameter \<open>parse_rfc2822\<close>; the state of the cached dashboard is passed explicitly.
\<close>

section \<open>Types\<close>

datatype v0_pkg_status = PkgGood | PkgBad | PkgUnknown

fun v0_status_text :: "v0_pkg_status \<Rightarrow> string" where
  "v0_status_text PkgGood = ''GOOD''"
| "v0_status_text PkgBad = ''BAD''"
| "v0_status_text PkgUnknown = ''UNKWN''"

definition v0_status_from_str :: "string \<Rightarrow> v0_pkg_status result" where
  "v0_status_from_str s =
     (if s = ''GOOD'' then Inr PkgGood
      else if s = ''BAD'' then Inr PkgBad
      else if s = ''UNKWN'' then Inr PkgUnknown
      else if s = ''FAIL'' then Inr PkgBad
      else Inl (BadStatusText s))"

record pkg_release =
  pr_name :: string
  pr_version :: string
  pr_status :: v0_pkg_status
  pr_distro :: string
  pr_suite :: string
  pr_architecture :: string
  pr_artifact_url :: string
  pr_build_id :: "int option"
  pr_built_at :: "time option"
  pr_has_diffoscope :: bool
  pr_has_attestation :: bool

definition pkg_release_new ::
  "string \<Rightarrow> string \<Rightarrow> string \<Rightarrow> string \<Rightarrow> string \<Rightarrow> string \<Rightarrow> pkg_release" where
  "pkg_release_new name version distro suite architecture artifact_url =
     \<lparr>pr_name = name, pr_version = version, pr_status = PkgUnknown, pr_distro = distro,
      pr_suite = suite, pr_architecture = architecture, pr_artifact_url = artifact_url,
      pr_build_id = None, pr_built_at = None, pr_has_diffoscope = False,
      pr_has_attestation = False\<rparr>"

record pkg_artifact =
  pa_name :: string
  pa_version :: string
  pa_url :: string

record pkg_group =
  pg_name :: string
  pg_version :: string
  pg_distro :: string
  pg_suite :: string
  pg_architecture :: string
  pg_input_url :: "string option"
  pg_artifacts :: "pkg_artifact list"

definition pkg_group_new ::
  "string \<Rightarrow> string \<Rightarrow> string \<Rightarrow> string \<Rightarrow> string \<Rightarrow> string option \<Rightarrow> pkg_group" where
  "pkg_group_new name version distro suite architecture input_url =
     \<lparr>pg_name = name, pg_version = version, pg_distro = distro, pg_suite = suite,
      pg_architecture = architecture, pg_input_url = input_url, pg_artifacts = []\<rparr>"

definition add_artifact :: "pkg_artifact \<Rightarrow> pkg_group \<Rightarrow> pkg_group" where
  "add_artifact artifact g =
     (if artifact \<in> set (pg_artifacts g) then g
      else g\<lparr>pg_artifacts := pg_artifacts g @ [artifact]\<rparr>)"

text \<open>The input of a group without one is its first artifact by name, the earliest of equal names.\<close>

definition group_input_url :: "pkg_group \<Rightarrow> string result" where
  "group_input_url g =
     (case pg_input_url g of
        Some input_url \<Rightarrow> Inr input_url
      | None \<Rightarrow>
          (case sort_key pa_name (pg_artifacts g) of
             [] \<Rightarrow> Inl LibraryError
           | input # _ \<Rightarrow> Inr (pa_url input)))"

record queue_item =
  qi_id :: int
  qi_pkgbase :: pkg_group
  qi_version :: string
  qi_queued_at :: time
  qi_worker_id :: "int option"
  qi_started_at :: "time option"
  qi_last_ping :: "time option"

record queue_list =
  ql_now :: time
  ql_queue :: "queue_item list"

record list_pkgs_query =
  lp_name :: "string option"
  lp_status :: "v0_pkg_status option"
  lp_distro :: "string option"
  lp_suite :: "string option"
  lp_architecture :: "string option"

record suite_stats =
  ss_good :: int
  ss_unknown :: int
  ss_bad :: int

record dashboard_response =
  dr_suites :: "string \<Rightarrow> suite_stats option"
  dr_active_builds :: "queue_item list"
  dr_queue_length :: nat
  dr_now :: time

section \<open>Workers\<close>

definition mark_stale_workers :: "time \<Rightarrow> db \<Rightarrow> db" where
  "mark_stale_workers now d =
     (let deadline = now - seconds ping_deadline
      in d\<lparr>workers := sql_update (\<lambda>w. w_last_ping w < deadline)
           (\<lambda>w. w\<lparr>w_online := False, w_status := None\<rparr>) (workers d)\<rparr>)"

definition list_workers :: "config \<Rightarrow> http_request \<Rightarrow> time \<Rightarrow> db \<Rightarrow> worker list response \<times> db" where
  "list_workers cfg req now d =
     (case admin cfg req of
        Inl _ \<Rightarrow> (Forbidden403, d)
      | Inr _ \<Rightarrow>
          (let d1 = mark_stale_workers now d
           in (Ok200 (filter w_online (rows (workers d1))), d1)))"

section \<open>Packages\<close>

definition filter_binary_packages_by ::
  "string option \<Rightarrow> string option \<Rightarrow> string option \<Rightarrow> string option \<Rightarrow> string option \<Rightarrow> string option \<Rightarrow>
   db \<Rightarrow> binary_row list" where
  "filter_binary_packages_by name distribution release component architecture status d =
     filter (\<lambda>((((p, s), b), r1), a).
         opt_all (\<lambda>v. bp_name p = v) name \<and>
         opt_all (\<lambda>v. sp_distribution s = v) distribution \<and>
         opt_all (\<lambda>v. sp_release s = Some v) release \<and>
         opt_all (\<lambda>v. sp_component s = Some v) component \<and>
         opt_all (\<lambda>v. bi_architecture b = v) architecture \<and>
         opt_all (\<lambda>v. if v = ''UNKWN'' then r1_status r1 = Some v \<or> r1_status r1 = None
                      else r1_status r1 = Some v) status)
       (binary_packages_base d)"

definition to_pkg_release :: "binary_row \<Rightarrow> pkg_release result" where
  "to_pkg_release row =
     (case row of ((((p, s), b), r1), a) \<Rightarrow>
        map_sum id (\<lambda>status.
            \<lparr>pr_name = bp_name p, pr_version = bp_version p, pr_status = status,
             pr_distro = sp_distribution s,
             pr_suite = (case sp_component s of None \<Rightarrow> [] | Some c \<Rightarrow> c),
             pr_architecture = bp_architecture p, pr_artifact_url = bp_artifact_url p,
             pr_build_id = map_option rb_id r1, pr_built_at = Option.bind r1 rb_built_at,
             pr_has_diffoscope = (artifact_field ra_diffoscope_log_id a \<noteq> None),
             pr_has_attestation = (artifact_field ra_attestation_log_id a \<noteq> None)\<rparr>)
          (v0_status_from_str
             (case artifact_field ra_status a of None \<Rightarrow> ''UNKWN'' | Some st \<Rightarrow> st)))"

text \<open>\<open>SELECT MAX(built_at)\<close>: \<open>NULL\<close> values do not count.\<close>

definition latest_built_at :: "db \<Rightarrow> time option" where
  "latest_built_at d =
     (case List.map_filter rb_built_at (rows (rebuilds d)) of
        [] \<Rightarrow> None
      | t # ts \<Rightarrow> Some (fold max ts t))"

text \<open>\<open>num_seconds\<close> of a duration: whole seconds, towards zero.\<close>

definition num_seconds :: "int \<Rightarrow> int" where
  "num_seconds n = (if n < 0 then - (- n div ns_per_sec) else n div ns_per_sec)"

definition modified_since_duration ::
  "(string \<Rightarrow> time option) \<Rightarrow> http_request \<Rightarrow> time \<Rightarrow> int option" where
  "modified_since_duration parse_rfc2822 req datetime =
     (case header req ''if-modified-since'' of
        Inl _ \<Rightarrow> None
      | Inr value \<Rightarrow> map_option (\<lambda>t. t - datetime) (parse_rfc2822 value))"

record pkgs_list =
  pl_last_modified :: "time option"
  pl_pkgs :: "pkg_release list"

definition list_pkgs ::
  "(string \<Rightarrow> time option) \<Rightarrow> http_request \<Rightarrow> list_pkgs_query \<Rightarrow> db \<Rightarrow> pkgs_list response" where
  "list_pkgs parse_rfc2822 req query d =
     (let latest = latest_built_at d
      in if (case Option.bind latest (modified_since_duration parse_rfc2822 req) of
               None \<Rightarrow> False
             | Some duration \<Rightarrow> 0 \<le> num_seconds duration)
         then NotModified304
         else
           (case results (map to_pkg_release (filter_binary_packages_by (lp_name query)
                   (lp_distro query) None (lp_suite query) (lp_architecture query)
                   (map_option v0_status_text (lp_status query)) d)) of
              Inl _ \<Rightarrow> Error500
            | Inr pkgs \<Rightarrow> Ok200 \<lparr>pl_last_modified = latest, pl_pkgs = pkgs\<rparr>))"

section \<open>The queue\<close>

definition into_pkg_group ::
  "source_package \<Rightarrow> string \<Rightarrow> string option \<Rightarrow> pkg_artifact list \<Rightarrow> pkg_group" where
  "into_pkg_group s architecture input_url pkg_artifacts =
     \<lparr>pg_name = sp_name s, pg_version = sp_version s, pg_distro = sp_distribution s,
      pg_suite = (case sp_component s of None \<Rightarrow> [] | Some c \<Rightarrow> c), pg_architecture = architecture,
      pg_input_url = input_url, pg_artifacts = pkg_artifacts\<rparr>"

definition into_queue_item :: "db \<Rightarrow> queued \<Rightarrow> queue_item result" where
  "into_queue_item d q =
     (case filter (\<lambda>b. bi_id b = q_build_input_id q) (rows (build_inputs d)) of
        [] \<Rightarrow> Inl RowNotFound
      | b # _ \<Rightarrow>
          (case filter (\<lambda>s. sp_id s = bi_source_package_id b) (rows (source_packages d)) of
             [] \<Rightarrow> Inl RowNotFound
           | s # _ \<Rightarrow>
               (let pkg_artifacts = map (\<lambda>p. \<lparr>pa_name = bp_name p, pa_version = bp_version p,
                        pa_url = bp_artifact_url p\<rparr>)
                      (filter (\<lambda>p. bp_source_package_id p = sp_id s) (rows (binary_packages d)))
                in Inr \<lparr>qi_id = q_id q,
                     qi_pkgbase = into_pkg_group s (bi_architecture b) (Some (bi_url b)) pkg_artifacts,
                     qi_version = sp_version s, qi_queued_at = q_queued_at q,
                     qi_worker_id = q_worker q, qi_started_at = q_started_at q,
                     qi_last_ping = q_last_ping q\<rparr>)))"

definition list_queue :: "time \<Rightarrow> int option \<Rightarrow> db \<Rightarrow> queue_list response" where
  "list_queue now limit d =
     (let ordered = sort_key (\<lambda>q. (prio (q_priority q), q_queued_at q, q_id q)) (rows (queue d))
      in case results (map (into_queue_item d)
               (case limit of None \<Rightarrow> ordered | Some _ \<Rightarrow> limit_rows limit ordered)) of
           Inl _ \<Rightarrow> Error500
         | Inr items \<Rightarrow> Ok200 \<lparr>ql_now = now, ql_queue = items\<rparr>)"

text \<open>\<open>/pkgs/sync\<close>, \<open>/queue/push\<close>, \<open>/queue/pop\<close>, \<open>/queue/drop\<close>, \<open>/pkg/requeue\<close>, \<open>/build/ping\<close> and
  \<open>/build/report\<close>: gone from this version.\<close>

definition v0_write :: "db \<Rightarrow> unit response \<times> db" where
  "v0_write d = (NotImplemented501, d)"

section \<open>Logs\<close>

definition v0_get_build_log ::
  "(bytes \<Rightarrow> bytes result) \<Rightarrow> http_request \<Rightarrow> int \<Rightarrow> db \<Rightarrow> http_body response" where
  "v0_get_build_log dec req i d =
     (case first_by_desc (\<lambda>(r, l). rb_built_at r)
             (inner_join (\<lambda>r l. rb_build_log_id r = bl_id l)
               (map snd (inner_join (\<lambda>a r. ra_rebuild_id a = rb_id r)
                  (filter (\<lambda>a. ra_id a = i) (rows (rebuild_artifacts d))) (rows (rebuilds d))))
               (rows (build_logs d))) of
        None \<Rightarrow> NotFound404
      | Some (r, l) \<Rightarrow>
          forward_compressed_data dec req ''text/plain; charset=utf-8'' (bl_build_log l))"

definition v0_get_attestation ::
  "(bytes \<Rightarrow> bytes result) \<Rightarrow> http_request \<Rightarrow> int \<Rightarrow> db \<Rightarrow> http_body response" where
  "v0_get_attestation dec req i d =
     (case first_by (\<lambda>(a, l). ra_id a)
             (inner_join (\<lambda>a l. ra_attestation_log_id a = Some (al_id l))
               (filter (\<lambda>a. ra_rebuild_id a = i) (rows (rebuild_artifacts d)))
               (rows (attestation_logs d))) of
        None \<Rightarrow> NotFound404
      | Some (a, l) \<Rightarrow>
          forward_compressed_data dec req ''application/json; charset=utf-8'' (al_attestation_log l))"

definition v0_get_diffoscope ::
  "(bytes \<Rightarrow> bytes result) \<Rightarrow> http_request \<Rightarrow> int \<Rightarrow> db \<Rightarrow> http_body response" where
  "v0_get_diffoscope dec req i d =
     (case first_by (\<lambda>(a, l). ra_id a)
             (inner_join (\<lambda>a l. ra_diffoscope_log_id a = Some (dl_id l))
               (filter (\<lambda>a. ra_rebuild_id a = i) (rows (rebuild_artifacts d)))
               (rows (diffoscope_logs d))) of
        None \<Rightarrow> NotFound404
      | Some (a, l) \<Rightarrow>
          forward_compressed_data dec req ''text/plain; charset=utf-8'' (dl_diffoscope_log l))"

section \<open>The cached dashboard\<close>

record dashboard_cache =
  dc_response :: "dashboard_response option"
  dc_last_update :: time

definition dashboard_cache_new :: "time \<Rightarrow> dashboard_cache" where
  "dashboard_cache_new instant = \<lparr>dc_response = None, dc_last_update = instant\<rparr>"

definition dashboard_update_interval :: int where "dashboard_update_interval = 1"

text \<open>\<open>elapsed\<close> of an instant that lies ahead is zero.\<close>

definition is_fresh :: "time \<Rightarrow> dashboard_cache \<Rightarrow> bool" where
  "is_fresh instant c \<longleftrightarrow> dc_response c \<noteq> None \<and>
     max 0 (instant - dc_last_update c) < seconds dashboard_update_interval"

text \<open>Every rebuild counts here, not the latest only; a build input without one counts once, as
  unknown. The groups are visited in the order of their key, \<open>NULL\<close> first.\<close>

definition component_rows :: "db \<Rightarrow> (string option \<times> string option) list" where
  "component_rows d =
     map (\<lambda>((b, r), s). (sp_component s, r1_status r))
       (inner_join (\<lambda>br s. bi_source_package_id (fst br) = sp_id s)
         (left_join (\<lambda>b r. rb_build_input_id r = bi_id b) (rows (build_inputs d)) (rows (rebuilds d)))
         (rows (source_packages d)))"

definition component_stats :: "db \<Rightarrow> (string option \<times> suite_stats) list" where
  "component_stats d =
     map (\<lambda>c. (let sts = map snd (filter (\<lambda>x. fst x = c) (component_rows d))
        in (c, \<lparr>ss_good = unwrap_or_zero (sum_when (\<lambda>st. st = Some ''GOOD'') sts),
                ss_unknown = unwrap_or_zero (sum_when (\<lambda>st. st = Some ''UNKWN'' \<or> st = None) sts),
                ss_bad = unwrap_or_zero (sum_when (\<lambda>st. st = Some ''BAD'') sts)\<rparr>)))
       (remdups (sort_key id (map fst (component_rows d))))"

definition suites_map :: "(string option \<times> suite_stats) list \<Rightarrow> string \<Rightarrow> suite_stats option" where
  "suites_map stats_rows =
     fold (\<lambda>(c, st) m. m((case c of None \<Rightarrow> [] | Some n \<Rightarrow> n) \<mapsto> st)) stats_rows Map.empty"

definition dashboard_update :: "time \<Rightarrow> time \<Rightarrow> db \<Rightarrow> dashboard_cache \<Rightarrow> unit result \<times> dashboard_cache" where
  "dashboard_update now instant d c =
     (let started = filter (\<lambda>q. q_started_at q \<noteq> None) (rows (queue d))
      in case results (map (into_queue_item d) (filter (\<lambda>q. q_started_at q \<noteq> None) started)) of
           Inl e \<Rightarrow> (Inl e, c)
         | Inr active_builds \<Rightarrow>
             (Inr (), \<lparr>dc_response = Some \<lparr>dr_suites = suites_map (component_stats d),
                  dr_active_builds = active_builds, dr_queue_length = length started, dr_now = now\<rparr>,
                dc_last_update = instant\<rparr>))"

definition v0_get_dashboard ::
  "time \<Rightarrow> time \<Rightarrow> time \<Rightarrow> db \<Rightarrow> dashboard_cache \<Rightarrow> dashboard_response response \<times> dashboard_cache" where
  "v0_get_dashboard checked_at now updated_at d c =
     (case (if is_fresh checked_at c then (Inr (), c) else dashboard_update now updated_at d c) of
        (Inl e, c1) \<Rightarrow> (Error500, c1)
      | (Inr _, c1) \<Rightarrow>
          (case dc_response c1 of None \<Rightarrow> (Error500, c1) | Some resp \<Rightarrow> (Ok200 resp, c1)))"

definition v0_get_public_key :: "('key \<Rightarrow> string result) \<Rightarrow> 'key \<Rightarrow> string list response" where
  "v0_get_public_key to_pem public =
     (case to_pem public of Inl _ \<Rightarrow> Error500 | Inr pubkey \<Rightarrow> Ok200 [pubkey])"

end
