(* ===== verification/V0Props.thy ===== *)
theory V0Props
  imports V0
begin

text \<open>
  What the version 0 interface promises: its list of workers is the live ones, its queue is always
  readable on a well-formed database, and its cached dashboard is never older than the update
  interval.
\<close>

section \<open>Workers\<close>

lemma db_ok_mark_stale_workers [wf_intros]: "db_ok d \<Longrightarrow> db_ok (mark_stale_workers now d)"
  by (simp add: mark_stale_workers_def db_ok_workers_update)

lemma db_ok_list_workers [wf_intros]: "db_ok d \<Longrightarrow> db_ok (snd (list_workers cfg req now d))"
  by (auto simp: list_workers_def Let_def wf_intros split: sum.split)

text \<open>The list of workers holds, for the admin, exactly the online workers whose last ping is
  not older than the deadline; the others are marked offline and lose their status, and nothing
  else is written.\<close>

theorem list_workers_live:
  assumes "admin cfg req = Inr ()" "list_workers cfg req now d = (resp, d')"
  shows "resp = Ok200 (filter (\<lambda>w. w_online w \<and> now - seconds 540 \<le> w_last_ping w) (rows (workers d))) \<and>
    rows (workers d') = map (\<lambda>w. if w_last_ping w < now - seconds 540
        then w\<lparr>w_online := False, w_status := None\<rparr> else w) (rows (workers d)) \<and>
    d' = d\<lparr>workers := workers d'\<rparr>"
proof -
  have "filter w_online (map (\<lambda>w. if w_last_ping w < t then w\<lparr>w_online := False, w_status := None\<rparr> else w) ws) =
      filter (\<lambda>w. w_online w \<and> t \<le> w_last_ping w) ws" for t ws
    by (induction ws) auto
  with assms show ?thesis
    by (auto simp: list_workers_def mark_stale_workers_def Let_def rows_update)
qed

lemma list_workers_live_witness:
  "fst (list_workers sample_cfg sample_req (seconds 600) sample_db) = Ok200 []"
proof -
  obtain resp d' where run: "list_workers sample_cfg sample_req (seconds 600) sample_db = (resp, d')"
    by fastforce
  have "admin sample_cfg sample_req = Inr ()" by code_simp
  from list_workers_live[OF this run] run show ?thesis
    by (simp add: sample_db_def sample_db_with_def sample_base_def sample_worker_def seconds_def)
qed

section \<open>The queue\<close>

lemma results_map_Inr:
  "(\<And>x. x \<in> set xs \<Longrightarrow> f x = Inr (g x)) \<Longrightarrow> results (map f xs) = Inr (map g xs)"
  by (induction xs) simp_all

lemma results_total: "(\<forall>x\<in>set xs. \<exists>y. f x = Inr y) \<Longrightarrow>
    \<exists>ys. results (map f xs) = Inr ys \<and> length ys = length xs"
  by (induction xs) auto

lemma into_queue_item_total:
  assumes "db_ok d" "q \<in> set (rows (queue d))"
  shows "\<exists>item. into_queue_item d q = Inr item \<and> qi_id item = q_id q"
proof -
  have "q_build_input_id q \<in> ids bi_id (build_inputs d)"
    using assms db_ok_facts(25)[OF assms(1)] by (auto simp: refs_def)
  then obtain b bs where b: "filter (\<lambda>b. bi_id b = q_build_input_id q) (rows (build_inputs d)) = b # bs"
    by (cases "filter (\<lambda>b. bi_id b = q_build_input_id q) (rows (build_inputs d))")
      (auto simp: filter_empty_conv)
  then have "b \<in> set (rows (build_inputs d))" by (metis filter_eq_ConsD in_set_conv_decomp)
  then have "bi_source_package_id b \<in> ids sp_id (source_packages d)"
    using db_ok_facts(22)[OF assms(1)] by (auto simp: refs_def)
  then obtain s ss where "filter (\<lambda>s. sp_id s = bi_source_package_id b) (rows (source_packages d)) = s # ss"
    by (cases "filter (\<lambda>s. sp_id s = bi_source_package_id b) (rows (source_packages d))")
      (auto simp: filter_empty_conv)
  with b show ?thesis by (simp add: into_queue_item_def Let_def)
qed

lemma list_queue_total:
  assumes "db_ok d"
  shows "\<exists>l. list_queue now limit d = Ok200 l \<and> ql_now l = now"
proof -
  define qs where "qs = (let ordered = sort_key (\<lambda>q. (prio (q_priority q), q_queued_at q, q_id q)) (rows (queue d))
    in case limit of None \<Rightarrow> ordered | Some _ \<Rightarrow> limit_rows limit ordered)"
  have "set qs \<subseteq> set (rows (queue d))"
    using set_limit_rows by (fastforce simp: qs_def Let_def split: option.splits)
  then have "\<forall>q\<in>set qs. \<exists>item. into_queue_item d q = Inr item"
    using into_queue_item_total[OF assms] by blast
  from results_total[OF this] show ?thesis by (auto simp: list_queue_def qs_def Let_def)
qed

section \<open>The dashboard\<close>

lemma dashboard_update_total:
  assumes "db_ok d"
  shows "\<exists>resp. dashboard_update now instant d c =
      (Inr (), \<lparr>dc_response = Some resp, dc_last_update = instant\<rparr>) \<and> dr_now resp = now \<and>
    dr_queue_length resp = length (filter (\<lambda>q. q_started_at q \<noteq> None) (rows (queue d))) \<and>
    length (dr_active_builds resp) = dr_queue_length resp \<and>
    dr_suites resp = suites_map (component_stats d)"
proof -
  have "\<forall>q\<in>set (filter (\<lambda>q. q_started_at q \<noteq> None) (rows (queue d))). \<exists>item. into_queue_item d q = Inr item"
    using into_queue_item_total[OF assms] by fastforce
  from results_total[OF this] show ?thesis by (auto simp: dashboard_update_def Let_def)
qed

text \<open>C35: On a well-formed database the version 0 dashboard always answers. The answer is the cached
  one, and the cache then stays, only if it was computed less than a second before; otherwise it is
  computed from the database as it is now, with one active build per started job.\<close>

theorem v0_dashboard_staleness:
  assumes "db_ok d" "v0_get_dashboard checked_at now updated_at d c = (resp, c')"
  shows "\<exists>r. resp = Ok200 r \<and> dc_response c' = Some r \<and>
    (if dc_response c \<noteq> None \<and> checked_at - dc_last_update c < seconds 1
     then c' = c
     else dr_now r = now \<and> dc_last_update c' = updated_at \<and>
       dr_suites r = suites_map (component_stats d) \<and>
       dr_queue_length r = length (filter (\<lambda>q. q_started_at q \<noteq> None) (rows (queue d))) \<and>
       length (dr_active_builds r) = dr_queue_length r)"
proof -
  have fresh: "is_fresh checked_at c \<longleftrightarrow> dc_response c \<noteq> None \<and> checked_at - dc_last_update c < seconds 1"
    by (auto simp: is_fresh_def dashboard_update_interval_def seconds_def)
  show ?thesis
  proof (cases "is_fresh checked_at c")
    case True
    then show ?thesis using assms(2) fresh by (auto simp: v0_get_dashboard_def is_fresh_def)
  next
    case False
    from dashboard_update_total[OF assms(1), of now updated_at c] obtain r where
      "dashboard_update now updated_at d c = (Inr (), \<lparr>dc_response = Some r, dc_last_update = updated_at\<rparr>)"
      "dr_now r = now" "dr_queue_length r = length (filter (\<lambda>q. q_started_at q \<noteq> None) (rows (queue d)))"
      "length (dr_active_builds r) = dr_queue_length r" "dr_suites r = suites_map (component_stats d)"
      by blast
    then show ?thesis
      using assms(2) False unfolding fresh[symmetric] by (auto simp: v0_get_dashboard_def)
  qed
qed

lemma v0_dashboard_staleness_witness:
  "\<exists>r c'. v0_get_dashboard 5 7 8 sample_db_held (dashboard_cache_new 0) = (Ok200 r, c') \<and>
     dr_queue_length r = 1 \<and> dc_last_update c' = 8"
proof -
  obtain resp c' where run: "v0_get_dashboard 5 7 8 sample_db_held (dashboard_cache_new 0) = (resp, c')"
    by fastforce
  have "length (filter (\<lambda>q. q_started_at q \<noteq> None) (rows (queue sample_db_held))) = 1" by code_simp
  with v0_dashboard_staleness[OF sample_db_ok(2) run] run show ?thesis
    by (auto simp: dashboard_cache_new_def)
qed

end
