(* ===== verification/WorkerProc.thy ===== *)
theory WorkerProc
  imports Strings
begin

text \<open>
  Running a build script and keeping its output (\<open>worker/src/proc.rs\<close>): the log is bounded, a
  script that runs too long is sent SIGTERM, and SIGKILL if it does not end. One round of the loop
  is a function of what happens in it: the clock, whether signals can be sent, and which branch of
  \<open>select!\<close> is ready. The clock is read several times in one round; the model takes one reading
  for all of them. Within the loop the child has not been waited for, so its id is known.
  \<open>cap_signals\<close> is the trace of the signals sent, which the program does not keep.
\<close>

section \<open>Capturing output\<close>

datatype proc_signal = SIGTERM | SIGKILL

record proc_options =
  po_timeout :: time
  po_size_limit :: "nat option"
  po_kill_at_size_limit :: bool

record capture =
  cap_output :: bytes
  cap_timeout :: time
  cap_size_limit :: "nat option"
  cap_kill_at_size_limit :: bool
  cap_start :: time
  cap_sigterm_sent :: "time option"
  cap_truncated :: bool
  cap_signals :: "(proc_signal \<times> time) list"

definition new_capture :: "bytes \<Rightarrow> proc_options \<Rightarrow> time \<Rightarrow> capture" where
  "new_capture log0 opts start =
     \<lparr>cap_output = log0, cap_timeout = po_timeout opts, cap_size_limit = po_size_limit opts,
      cap_kill_at_size_limit = po_kill_at_size_limit opts, cap_start = start,
      cap_sigterm_sent = None, cap_truncated = False, cap_signals = []\<rparr>"

text \<open>What a round sees of the system: the clock and the result of \<open>kill(2)\<close>.\<close>

record os_view =
  os_now :: time
  os_kill :: "proc_signal \<Rightarrow> unit result"

definition sigkill_delay :: int where "sigkill_delay = 10"

definition ascii_bytes :: "string \<Rightarrow> bytes" where
  "ascii_bytes s = map (\<lambda>c. of_nat (of_char c)) s"

definition note_bytes :: "string \<Rightarrow> bytes" where
  "note_bytes reason = ascii_bytes ([CHR 0x0A, CHR 0x0A] @ reason @ [CHR 0x0A, CHR 0x0A])"

definition send_signal :: "os_view \<Rightarrow> proc_signal \<Rightarrow> capture \<Rightarrow> capture result" where
  "send_signal os sig c =
     map_sum id (\<lambda>_. c\<lparr>cap_signals := cap_signals c @ [(sig, os_now os)]\<rparr>) (os_kill os sig)"

definition truncate_output :: "os_view \<Rightarrow> string \<Rightarrow> bool \<Rightarrow> capture \<Rightarrow> capture result" where
  "truncate_output os reason kill c =
     map_sum id
       (\<lambda>c. c\<lparr>cap_output := cap_output c @ note_bytes reason, cap_truncated := True\<rparr>)
       (if kill then
          map_sum id (\<lambda>c. c\<lparr>cap_sigterm_sent := Some (os_now os)\<rparr>) (send_signal os SIGTERM c)
        else Inr c)"

text \<open>The subtraction is on \<open>usize\<close>: it wraps around if the output is already over the limit.\<close>

definition size_left :: "nat \<Rightarrow> nat \<Rightarrow> nat" where
  "size_left size_limit len = nat ((int size_limit - int len) mod 2 ^ 64)"

definition size_limit_reason :: "nat \<Rightarrow> string" where
  "size_limit_reason size_limit = ''TRUNCATED DUE TO SIZE LIMIT: '' @ show_nat size_limit @ '' bytes''"

definition timeout_reason :: "time \<Rightarrow> string" where
  "timeout_reason timeout =
     ''TRUNCATED DUE TO TIMEOUT: '' @ show_nat (nat (timeout div ns_per_sec)) @ '' seconds''"

definition push_bytes :: "os_view \<Rightarrow> bytes \<Rightarrow> capture \<Rightarrow> capture result" where
  "push_bytes os piece c =
     (if cap_truncated c then Inr c
      else
        (case cap_size_limit c of
           None \<Rightarrow> Inr (c\<lparr>cap_output := cap_output c @ piece\<rparr>)
         | Some size_limit \<Rightarrow>
             (let n = min (size_left size_limit (length (cap_output c))) (length piece)
              in if n < 1 then
                   truncate_output os (size_limit_reason size_limit) (cap_kill_at_size_limit c) c
                 else Inr (c\<lparr>cap_output := cap_output c @ take n piece\<rparr>))))"

section \<open>The loop\<close>

record proc_state =
  ps_cap :: capture
  ps_stdout_open :: bool
  ps_stderr_open :: bool

definition kill_overdue :: "os_view \<Rightarrow> capture \<Rightarrow> bool" where
  "kill_overdue os c \<longleftrightarrow>
     (case cap_sigterm_sent c of
        None \<Rightarrow> False
      | Some t \<Rightarrow> seconds sigkill_delay < os_now os - t)"

definition next_wakeup :: "os_view \<Rightarrow> proc_state \<Rightarrow> (proc_state \<times> time) result" where
  "next_wakeup os s =
     (case (if kill_overdue os (ps_cap s) then
              map_sum id (\<lambda>c. \<lparr>ps_cap = c, ps_stdout_open = False, ps_stderr_open = False\<rparr>)
                (send_signal os SIGKILL (ps_cap s))
            else Inr s) of
        Inl e \<Rightarrow> Inl e
      | Inr s1 \<Rightarrow>
          (let c = ps_cap s1; elapsed = os_now os - cap_start c
           in if elapsed \<le> cap_timeout c then Inr (s1, cap_timeout c - elapsed)
              else if cap_sigterm_sent c = None then
                map_sum id (\<lambda>c1. (s1\<lparr>ps_cap := c1\<rparr>, seconds sigkill_delay))
                  (truncate_output os (timeout_reason (cap_timeout c)) True c)
              else Inr (s1, seconds sigkill_delay)))"

text \<open>The branch of \<open>select!\<close> that is ready: a read of at most 4096 bytes (none at the end of the
  stream), a failed read, the end of the sleep, the end of the child.\<close>

datatype proc_event =
    Stdout_read bytes
  | Stderr_read bytes
  | Io_failed
  | Slept
  | Exited bool

datatype proc_outcome =
    Continue proc_state
  | Finished bool proc_state
  | Failed error

fun event_possible :: "proc_state \<Rightarrow> proc_event \<Rightarrow> bool" where
  "event_possible s (Stdout_read b) =
     ((ps_stdout_open s \<or> ps_stderr_open s) \<and> length b \<le> 4096)"
| "event_possible s (Stderr_read b) =
     ((ps_stdout_open s \<or> ps_stderr_open s) \<and> length b \<le> 4096)"
| "event_possible s Io_failed = True"
| "event_possible s Slept = True"
| "event_possible s (Exited success) = (\<not> ps_stdout_open s \<and> \<not> ps_stderr_open s)"

definition pushed :: "os_view \<Rightarrow> bytes \<Rightarrow> proc_state \<Rightarrow> proc_outcome" where
  "pushed os b s =
     (case push_bytes os b (ps_cap s) of
        Inl e \<Rightarrow> Failed e
      | Inr c \<Rightarrow> Continue (s\<lparr>ps_cap := c\<rparr>))"

fun handle_event :: "os_view \<Rightarrow> proc_event \<Rightarrow> proc_state \<Rightarrow> proc_outcome" where
  "handle_event os (Stdout_read b) s =
     (if b = [] then Continue (s\<lparr>ps_stdout_open := False\<rparr>) else pushed os b s)"
| "handle_event os (Stderr_read b) s =
     (if b = [] then Continue (s\<lparr>ps_stderr_open := False\<rparr>) else pushed os b s)"
| "handle_event os Io_failed s = Failed LibraryError"
| "handle_event os Slept s = Continue s"
| "handle_event os (Exited success) s = Finished success s"

text \<open>One round: the event is one that is possible once \<open>next_wakeup\<close> has run.\<close>

definition proc_round :: "os_view \<Rightarrow> (proc_state \<Rightarrow> proc_event) \<Rightarrow> proc_state \<Rightarrow> proc_outcome" where
  "proc_round os ready s =
     (case next_wakeup os s of
        Inl e \<Rightarrow> Failed e
      | Inr (s1, remaining) \<Rightarrow>
          if event_possible s1 (ready s1) then handle_event os (ready s1) s1 else Continue s1)"

definition proc_start :: "bytes \<Rightarrow> proc_options \<Rightarrow> time \<Rightarrow> proc_state" where
  "proc_start log0 opts start =
     \<lparr>ps_cap = new_capture log0 opts start, ps_stdout_open = True, ps_stderr_open = True\<rparr>"

inductive proc_reaches :: "bytes \<Rightarrow> proc_options \<Rightarrow> time \<Rightarrow> proc_state \<Rightarrow> bool"
  for log0 :: bytes and opts :: proc_options and start :: time where
  start: "proc_reaches log0 opts start (proc_start log0 opts start)"
| round: "proc_reaches log0 opts start s \<Longrightarrow> proc_round os ready s = Continue s' \<Longrightarrow>
     proc_reaches log0 opts start s'"
| finish: "proc_reaches log0 opts start s \<Longrightarrow> proc_round os ready s = Finished success s' \<Longrightarrow>
     proc_reaches log0 opts start s'"

text \<open>A run with everything that happens in it given as a list.\<close>

fun proc_run :: "(os_view \<times> (proc_state \<Rightarrow> proc_event)) list \<Rightarrow> proc_state \<Rightarrow> proc_outcome" where
  "proc_run [] s = Continue s"
| "proc_run ((os, ready) # rest) s =
     (case proc_round os ready s of
        Continue s' \<Rightarrow> proc_run rest s'
      | out \<Rightarrow> out)"

section \<open>What every state keeps\<close>

definition within_limit :: "nat \<Rightarrow> nat option \<Rightarrow> bool" where
  "within_limit n lim \<longleftrightarrow> (case lim of None \<Rightarrow> True | Some l \<Rightarrow> n \<le> l)"

definition size_notes :: "capture \<Rightarrow> bytes set" where
  "size_notes c =
     insert [] (case cap_size_limit c of None \<Rightarrow> {} | Some l \<Rightarrow> {note_bytes (size_limit_reason l)})"

definition timeout_notes :: "capture \<Rightarrow> bytes set" where
  "timeout_notes c = size_notes c \<union>
     (\<lambda>n. n @ note_bytes (timeout_reason (cap_timeout c))) ` size_notes c"

text \<open>The output is what was there, a part of what was read, and the notes on truncation.\<close>

definition note_ok :: "capture \<Rightarrow> bytes \<Rightarrow> bool" where
  "note_ok c note \<longleftrightarrow>
     note \<in> (if \<not> cap_truncated c then {[]}
             else if cap_sigterm_sent c = None then size_notes c else timeout_notes c)"

text \<open>SIGTERM is sent at most once, and each SIGKILL more than ten seconds after it.\<close>

definition signals_ok :: "capture \<Rightarrow> bool" where
  "signals_ok c \<longleftrightarrow>
     (case cap_sigterm_sent c of
        None \<Rightarrow> cap_signals c = []
      | Some t \<Rightarrow> cap_truncated c \<and>
          (\<exists>ks. cap_signals c = (SIGTERM, t) # map (Pair SIGKILL) ks \<and>
             (\<forall>k\<in>set ks. t + seconds sigkill_delay < k)))"

lemma size_left_eq:
  assumes "len \<le> l" "l < 2 ^ 64"
  shows "size_left l len = l - len"
proof -
  have "int l < 2 ^ 64" using assms(2) by (metis of_nat_less_iff of_nat_numeral of_nat_power)
  then have "(int l - int len) mod 2 ^ 64 = int l - int len"
    by (intro mod_pos_pos_trivial) (use assms(1) in linarith)+
  then show ?thesis using assms(1) by (simp only: size_left_def nat_minus_as_int)
qed

lemma truncate_output_Inr:
  assumes "truncate_output os reason kill c = Inr c'"
  shows "c' = (if kill then c\<lparr>cap_signals := cap_signals c @ [(SIGTERM, os_now os)],
        cap_sigterm_sent := Some (os_now os)\<rparr> else c)
      \<lparr>cap_output := cap_output c @ note_bytes reason, cap_truncated := True\<rparr>"
  using assms by (auto simp: truncate_output_def send_signal_def map_sum_Inr split: if_splits)

lemma not_truncated_no_sigterm: "signals_ok c \<Longrightarrow> \<not> cap_truncated c \<Longrightarrow> cap_sigterm_sent c = None"
  by (auto simp: signals_ok_def split: option.splits)

definition settings_of :: "capture \<Rightarrow> time \<times> nat option \<times> bool \<times> time" where
  "settings_of c = (cap_timeout c, cap_size_limit c, cap_kill_at_size_limit c, cap_start c)"

definition capture_inv :: "bytes \<Rightarrow> proc_options \<Rightarrow> time \<Rightarrow> capture \<Rightarrow> bool" where
  "capture_inv log opts start c \<longleftrightarrow>
     settings_of c = (po_timeout opts, po_size_limit opts, po_kill_at_size_limit opts, start) \<and>
     (\<exists>data note. cap_output c = log @ data @ note \<and> within_limit (length (log @ data)) (po_size_limit opts) \<and>
        note_ok c note) \<and>
     (\<not> cap_truncated c \<longrightarrow> cap_sigterm_sent c = None)"

lemma capture_invI:
  assumes "settings_of c = (po_timeout opts, po_size_limit opts, po_kill_at_size_limit opts, start)"
    and "cap_output c = log @ data @ note" "within_limit (length (log @ data)) (po_size_limit opts)"
    and "note_ok c note" "\<not> cap_truncated c \<Longrightarrow> cap_sigterm_sent c = None"
  shows "capture_inv log opts start c"
  unfolding capture_inv_def using assms by blast

lemma note_ok_size:
  "cap_size_limit c = Some l \<Longrightarrow> cap_truncated c \<Longrightarrow> note_ok c (note_bytes (size_limit_reason l))"
  by (simp add: note_ok_def timeout_notes_def size_notes_def)

lemma capture_inv_start:
  "within_limit (length log) (po_size_limit opts) \<Longrightarrow> capture_inv log opts start (new_capture log opts start)"
  by (rule capture_invI[of _ _ _ _ "[]" "[]"]) (simp_all add: settings_of_def new_capture_def note_ok_def)

lemma capture_inv_push:
  assumes inv: "capture_inv log opts start c" and small: "\<forall>l. po_size_limit opts = Some l \<longrightarrow> l < 2 ^ 64"
    and push: "push_bytes os piece c = Inr c'"
  shows "capture_inv log opts start c'"
proof (cases "cap_truncated c")
  case True
  with push inv show ?thesis by (simp add: push_bytes_def)
next
  case False
  from inv False obtain data where c: "cap_output c = log @ data"
    "settings_of c = (po_timeout opts, po_size_limit opts, po_kill_at_size_limit opts, start)"
    "within_limit (length (log @ data)) (po_size_limit opts)" "cap_sigterm_sent c = None"
    by (auto simp: capture_inv_def note_ok_def)
  show ?thesis
  proof (cases "po_size_limit opts")
    case None
    with push False c have "c' = c\<lparr>cap_output := log @ data @ piece\<rparr>"
      by (simp add: push_bytes_def settings_of_def)
    with c False None show ?thesis
      by (intro capture_invI[of _ _ _ _ "data @ piece" "[]"])
        (simp_all add: settings_of_def note_ok_def within_limit_def)
  next
    case (Some l)
    then have l: "l < 2 ^ 64" "length (log @ data) \<le> l" and limit: "cap_size_limit c = Some l"
      using small c by (auto simp: within_limit_def settings_of_def)
    define n where "n = min (size_left l (length (cap_output c))) (length piece)"
    have n: "length (log @ data) + n \<le> l" using l by (simp add: n_def size_left_eq c)
    show ?thesis
    proof (cases "n < 1")
      case True
      with push False limit have "truncate_output os (size_limit_reason l) (cap_kill_at_size_limit c) c = Inr c'"
        by (simp add: push_bytes_def n_def)
      note c' = truncate_output_Inr[OF this]
      have "cap_size_limit c' = Some l" "cap_truncated c'" using limit by (simp_all add: c')
      from note_ok_size[OF this] c show ?thesis
        by (intro capture_invI[of _ _ _ _ data "note_bytes (size_limit_reason l)"])
          (simp_all add: c' settings_of_def)
    next
      case not: False
      with push False limit have "c' = c\<lparr>cap_output := log @ data @ take n piece\<rparr>"
        by (simp add: push_bytes_def n_def[symmetric] Let_def) (simp add: c)
      with c n Some False show ?thesis
        by (intro capture_invI[of _ _ _ _ "data @ take n piece" "[]"])
          (simp_all add: settings_of_def note_ok_def within_limit_def)
    qed
  qed
qed

lemma capture_inv_timeout:
  assumes inv: "capture_inv log opts start c" and none: "cap_sigterm_sent c = None"
    and run: "truncate_output os (timeout_reason (cap_timeout c)) True c = Inr c'"
  shows "capture_inv log opts start c'"
proof -
  have "note_ok c nt \<Longrightarrow> nt \<in> size_notes c" for nt
    using none by (auto simp: note_ok_def size_notes_def split: if_splits)
  with inv obtain data nt where c: "cap_output c = log @ data @ nt"
    "settings_of c = (po_timeout opts, po_size_limit opts, po_kill_at_size_limit opts, start)"
    "within_limit (length (log @ data)) (po_size_limit opts)" "nt \<in> size_notes c"
    unfolding capture_inv_def by blast
  note c' = truncate_output_Inr[OF run, simplified]
  have "nt @ note_bytes (timeout_reason (cap_timeout c)) \<in> timeout_notes c'"
  proof -
    have "size_notes c' = size_notes c" "cap_timeout c' = cap_timeout c" by (simp_all add: c' size_notes_def)
    with c(4) show ?thesis by (auto simp: timeout_notes_def)
  qed
  then show ?thesis using c
    by (intro capture_invI[of _ _ _ _ data "nt @ note_bytes (timeout_reason (cap_timeout c))"])
      (simp_all add: c' settings_of_def note_ok_def)
qed

lemma capture_inv_kill:
  assumes "capture_inv log opts start c" "send_signal os SIGKILL c = Inr c'"
  shows "capture_inv log opts start c'"
proof -
  from assms(2) have c': "c' = c\<lparr>cap_signals := cap_signals c @ [(SIGKILL, os_now os)]\<rparr>"
    by (auto simp: send_signal_def map_sum_Inr)
  have "settings_of c' = settings_of c" "note_ok c' = note_ok c" "cap_output c' = cap_output c"
    "cap_truncated c' = cap_truncated c" "cap_sigterm_sent c' = cap_sigterm_sent c"
    by (simp_all add: c' settings_of_def note_ok_def size_notes_def timeout_notes_def fun_eq_iff)
  with assms(1) show ?thesis unfolding capture_inv_def by simp
qed

text \<open>An invariant of the capture is one of the loop if the three things the loop does to it keep it:
  pushing what was read, sending SIGKILL when it is due, and noting the timeout.\<close>

lemma next_wakeup_keeps:
  assumes "P (ps_cap s)" "next_wakeup os s = Inr (s', remaining)"
    and kill: "\<And>os c c'. P c \<Longrightarrow> kill_overdue os c \<Longrightarrow> send_signal os SIGKILL c = Inr c' \<Longrightarrow> P c'"
    and timeout: "\<And>os c c'. P c \<Longrightarrow> cap_sigterm_sent c = None \<Longrightarrow>
      truncate_output os (timeout_reason (cap_timeout c)) True c = Inr c' \<Longrightarrow> P c'"
  shows "P (ps_cap s')"
proof -
  define r where "r = (if kill_overdue os (ps_cap s)
    then map_sum id (\<lambda>c. \<lparr>ps_cap = c, ps_stdout_open = False, ps_stderr_open = False\<rparr>)
        (send_signal os SIGKILL (ps_cap s))
    else Inr s)"
  obtain s1 where s1: "r = Inr s1"
    using assms(2) by (cases r) (auto simp: next_wakeup_def r_def[symmetric])
  have "P (ps_cap s1)"
    using s1 assms(1) kill[OF assms(1)] by (auto simp: r_def map_sum_Inr split: if_splits)
  with assms(2) s1 show ?thesis
    using timeout[of "ps_cap s1" os]
    by (auto simp: next_wakeup_def r_def[symmetric] Let_def map_sum_Inr split: if_splits)
qed

lemma handle_event_keeps:
  assumes "P (ps_cap s)" "\<And>os b c c'. P c \<Longrightarrow> push_bytes os b c = Inr c' \<Longrightarrow> P c'"
    and "handle_event os ev s = Continue s' \<or> handle_event os ev s = Finished success s'"
  shows "P (ps_cap s')"
  using assms by (cases ev) (auto simp: pushed_def split: sum.splits if_splits)

lemma proc_reaches_keeps:
  assumes "proc_reaches log opts start s" "P (new_capture log opts start)"
    and "\<And>os b c c'. P c \<Longrightarrow> push_bytes os b c = Inr c' \<Longrightarrow> P c'"
    and "\<And>os c c'. P c \<Longrightarrow> kill_overdue os c \<Longrightarrow> send_signal os SIGKILL c = Inr c' \<Longrightarrow> P c'"
    and "\<And>os c c'. P c \<Longrightarrow> cap_sigterm_sent c = None \<Longrightarrow>
      truncate_output os (timeout_reason (cap_timeout c)) True c = Inr c' \<Longrightarrow> P c'"
  shows "P (ps_cap s)"
proof -
  have step: "P (ps_cap s')"
    if P0: "P (ps_cap s)" and out: "proc_round os ready s = Continue s' \<or> proc_round os ready s = Finished success s'"
    for os ready s s' success
  proof -
    obtain s1 r where wake: "next_wakeup os s = Inr (s1, r)"
      using out by (cases "next_wakeup os s") (auto simp: proc_round_def)
    have P1: "P (ps_cap s1)" by (rule next_wakeup_keeps[of P, OF P0 wake assms(4,5)])
    show ?thesis
    proof (cases "event_possible s1 (ready s1)")
      case True
      with out wake have "handle_event os (ready s1) s1 = Continue s' \<or>
          handle_event os (ready s1) s1 = Finished success s'" by (simp add: proc_round_def)
      with P1 assms(3) show ?thesis by (rule handle_event_keeps[of P])
    next
      case False
      with out wake P1 show ?thesis by (simp add: proc_round_def)
    qed
  qed
  from assms(1) show ?thesis
    by induction (auto simp: proc_start_def assms(2) dest: step)
qed

lemma proc_reaches_inv:
  assumes "proc_reaches log opts start s"
    and "within_limit (length log) (po_size_limit opts)" "\<forall>l. po_size_limit opts = Some l \<longrightarrow> l < 2 ^ 64"
  shows "capture_inv log opts start (ps_cap s)"
  using assms(1) capture_inv_start[OF assms(2)]
  by (rule proc_reaches_keeps)
    (auto intro: capture_inv_push[OF _ assms(3)] capture_inv_kill capture_inv_timeout)

lemma signals_ok_push:
  assumes "signals_ok c" "push_bytes os piece c = Inr c'"
  shows "signals_ok c'"
proof (cases "cap_truncated c")
  case False
  note not_truncated_no_sigterm[OF assms(1) False]
  with assms False show ?thesis
    by (auto simp: push_bytes_def Let_def signals_ok_def dest!: truncate_output_Inr
        split: option.splits if_splits)
qed (use assms in \<open>simp add: push_bytes_def\<close>)

lemma signals_ok_kill:
  assumes "signals_ok c" "kill_overdue os c" "send_signal os SIGKILL c = Inr c'"
  shows "signals_ok c'"
proof -
  from assms(1,2) obtain t ks where t: "cap_sigterm_sent c = Some t" "cap_truncated c"
    "cap_signals c = (SIGTERM, t) # map (Pair SIGKILL) ks" "\<forall>k\<in>set ks. t + seconds sigkill_delay < k"
    "t + seconds sigkill_delay < os_now os"
    by (auto simp: signals_ok_def kill_overdue_def split: option.splits)
  from assms(3) have c': "c' = c\<lparr>cap_signals := cap_signals c @ [(SIGKILL, os_now os)]\<rparr>"
    by (auto simp: send_signal_def map_sum_Inr)
  have "cap_signals c' = (SIGTERM, t) # map (Pair SIGKILL) (ks @ [os_now os])" by (simp add: c' t(3))
  with t c' show ?thesis
    by (auto simp: signals_ok_def simp del: map_append intro!: exI[of _ "ks @ [os_now os]"])
qed

lemma signals_ok_timeout:
  "signals_ok c \<Longrightarrow> cap_sigterm_sent c = None \<Longrightarrow> truncate_output os reason True c = Inr c' \<Longrightarrow> signals_ok c'"
  by (auto simp: signals_ok_def dest!: truncate_output_Inr)

text \<open>C34: However a build script behaves, the log kept of it is what was there before, a part of
  its output, and at most one note on each truncation: with a limit it never grows past the limit
  and the two notes.\<close>

theorem capture_bounded:
  assumes "proc_reaches log opts start s" "po_size_limit opts = Some l" "length log \<le> l" "l < 2 ^ 64"
  shows "(\<exists>kept. cap_output (ps_cap s) = log @ kept) \<and>
    length (cap_output (ps_cap s)) \<le>
      l + length (note_bytes (size_limit_reason l)) + length (note_bytes (timeout_reason (po_timeout opts)))"
proof -
  have "capture_inv log opts start (ps_cap s)"
    using proc_reaches_inv assms by (simp add: within_limit_def)
  then obtain data nt where c: "cap_output (ps_cap s) = log @ data @ nt" "length (log @ data) \<le> l"
    "note_ok (ps_cap s) nt" "cap_timeout (ps_cap s) = po_timeout opts" "cap_size_limit (ps_cap s) = Some l"
    using assms(2) by (auto simp: capture_inv_def within_limit_def settings_of_def)
  then have "length nt \<le>
      length (note_bytes (size_limit_reason l)) + length (note_bytes (timeout_reason (po_timeout opts)))"
    by (auto simp: note_ok_def timeout_notes_def size_notes_def split: if_splits)
  with c show ?thesis by auto
qed

text \<open>C33: A script is sent SIGTERM at most once, and SIGKILL only when more than ten seconds have
  passed since; a script that was never sent SIGTERM is sent no signal at all.\<close>

theorem sigkill_after_sigterm:
  assumes "proc_reaches log opts start s"
  shows "case cap_sigterm_sent (ps_cap s) of
      None \<Rightarrow> cap_signals (ps_cap s) = []
    | Some t \<Rightarrow> \<exists>ks. cap_signals (ps_cap s) = (SIGTERM, t) # map (Pair SIGKILL) ks \<and>
        (\<forall>k\<in>set ks. t + seconds 10 < k)"
proof -
  have "signals_ok (new_capture log opts start)" by (simp add: signals_ok_def new_capture_def)
  with assms have "signals_ok (ps_cap s)"
    by (rule proc_reaches_keeps) (auto intro: signals_ok_push signals_ok_kill signals_ok_timeout)
  then show ?thesis by (auto simp: signals_ok_def sigkill_delay_def split: option.splits)
qed

section \<open>Examples\<close>

lemma proc_run_reaches:
  "proc_reaches log opts start s \<Longrightarrow> proc_run events s = Continue s' \<Longrightarrow> proc_reaches log opts start s'"
proof (induction events arbitrary: s)
  case (Cons e events)
  obtain os ready where e: "e = (os, ready)" by (cases e)
  show ?case
  proof (cases "proc_round os ready s")
    case (Continue s1)
    with Cons e show ?thesis by (auto intro: proc_reaches.round)
  qed (use Cons.prems e in auto)
qed simp

definition at_time :: "int \<Rightarrow> os_view" where
  "at_time n = \<lparr>os_now = seconds n, os_kill = (\<lambda>_. Inr ())\<rparr>"

definition sample_proc_options :: proc_options where
  "sample_proc_options = \<lparr>po_timeout = seconds 1, po_size_limit = Some 2, po_kill_at_size_limit = False\<rparr>"

definition sample_chatty_run :: "(os_view \<times> (proc_state \<Rightarrow> proc_event)) list" where
  "sample_chatty_run = [(at_time 0, \<lambda>_. Stdout_read [65, 65, 65]), (at_time 1, \<lambda>_. Stderr_read [66])]"

definition sample_stuck_run :: "(os_view \<times> (proc_state \<Rightarrow> proc_event)) list" where
  "sample_stuck_run = [(at_time 2, \<lambda>_. Slept), (at_time 20, \<lambda>_. Slept)]"

lemma capture_bounded_witness:
  "\<exists>s. proc_run sample_chatty_run (proc_start [] sample_proc_options 0) = Continue s \<and>
     cap_truncated (ps_cap s) \<and> length (cap_output (ps_cap s)) \<le> 2 + 43 + 42"
proof -
  let ?out = "proc_run sample_chatty_run (proc_start [] sample_proc_options 0)"
  have "(case ?out of Continue s \<Rightarrow> cap_truncated (ps_cap s) | _ \<Rightarrow> False)" by code_simp
  then obtain s where s: "?out = Continue s" "cap_truncated (ps_cap s)" by (cases ?out) auto
  have "length (note_bytes (size_limit_reason 2)) \<le> 43"
    "length (note_bytes (timeout_reason (po_timeout sample_proc_options))) \<le> 42" by code_simp+
  with capture_bounded[OF proc_run_reaches[OF proc_reaches.start s(1)], of 2] s show ?thesis
    by (auto simp: sample_proc_options_def)
qed

lemma sigkill_after_sigterm_witness:
  "\<exists>s ks. proc_run sample_stuck_run (proc_start [] sample_proc_options 0) = Continue s \<and>
     cap_signals (ps_cap s) = (SIGTERM, seconds 2) # map (Pair SIGKILL) ks"
proof -
  let ?out = "proc_run sample_stuck_run (proc_start [] sample_proc_options 0)"
  have "(case ?out of Continue s \<Rightarrow> cap_sigterm_sent (ps_cap s) = Some (seconds 2) | _ \<Rightarrow> False)" by code_simp
  then obtain s where s: "?out = Continue s" "cap_sigterm_sent (ps_cap s) = Some (seconds 2)"
    by (cases ?out) auto
  with sigkill_after_sigterm[OF proc_run_reaches[OF proc_reaches.start s(1)]] show ?thesis by auto
qed

end
