(* ===== verification/WorkerRebuild.thy ===== *)
theory WorkerRebuild
  imports WorkerProc Utils
begin

text \<open>
  Rebuilding one job on the worker (\<open>worker/src/rebuild.rs\<close>, \<open>diffoscope.rs\<close>, \<open>download.rs\<close>):
  download the published artifacts and the build input, run the backend's script, and compare what
  it left with what was published. A directory is a map from file names to contents. What is not
  code of the repository is the record \<open>worker_env\<close>: the URL parser, HTTP, the scripts and
  diffoscope (run through \<open>proc::run\<close>), in-toto, zstd, the lossy reading of UTF-8.
\<close>

type_synonym directory = "string \<Rightarrow> bytes option"

record backend_config =
  be_path :: string
  be_diff_post_script_path :: "string option"

record build_config =
  bc_timeout :: "int option"
  bc_max_bytes :: "nat option"
  bc_silent :: bool

record diffoscope_config =
  df_enabled :: bool
  df_args :: "string list"
  df_timeout :: "int option"
  df_max_bytes :: "nat option"

record rebuild_context =
  ctx_artifacts :: "queued_job_artifact list"
  ctx_input_url :: "string option"
  ctx_backend :: backend_config
  ctx_build :: build_config
  ctx_diffoscope :: diffoscope_config
  ctx_worker_name :: "string option"

record script_run =
  sr_bin :: string
  sr_input :: string
  sr_worker_name :: "string option"
  sr_options :: proc_options

record 'link worker_env =
  we_tempdir :: "unit result"
  we_url_segments :: "string \<Rightarrow> string list option result"
  we_fetch :: "string \<Rightarrow> bytes result"
  we_script :: "script_run \<Rightarrow> directory \<Rightarrow> bytes \<Rightarrow> (bool \<times> directory \<times> directory) result \<times> bytes"
  we_diff_script :: "string \<Rightarrow> proc_options \<Rightarrow> bytes \<Rightarrow> bytes \<Rightarrow> (bool \<times> bytes) result"
  we_diffoscope :: "string list \<Rightarrow> proc_options \<Rightarrow> bytes \<Rightarrow> bytes \<Rightarrow> bytes result"
  we_in_toto_run :: "string \<Rightarrow> bytes \<Rightarrow> bytes \<Rightarrow> 'link result"
  we_serialize :: "'link \<Rightarrow> bytes result"
  we_encode :: "bytes list \<Rightarrow> bytes result"
  we_lossy :: "bytes \<Rightarrow> bytes"
  we_reads :: "nat \<Rightarrow> nat result"

section \<open>Comparing files\<close>

text \<open>
  The first file is read in pieces of at most 4096 bytes, at least one unless it is at its end;
  \<open>reads k\<close> is how much the \<open>k\<close>-th read would return at most, or its error. The same number of
  bytes is then read from the second file.
\<close>

definition read_size :: "nat \<Rightarrow> bytes \<Rightarrow> nat" where
  "read_size n f = min (max 1 (min n 4096)) (length f)"

function compare_loop :: "(nat \<Rightarrow> nat result) \<Rightarrow> nat \<Rightarrow> bytes \<Rightarrow> bytes \<Rightarrow> bool result" where
  "compare_loop reads k f1 f2 =
     (case reads k of
        Inl e \<Rightarrow> Inl e
      | Inr n \<Rightarrow>
          (let m = read_size n f1
           in if m = 0 then Inr (f2 = [])
              else if length f2 < m then Inr False
              else if take m f1 \<noteq> take m f2 then Inr False
              else compare_loop reads (Suc k) (drop m f1) (drop m f2)))"
  by auto
termination
  by (relation "measure (\<lambda>(reads, k, f1, f2). length f1)") (auto simp: read_size_def split: if_splits)

declare compare_loop.simps [simp del]

definition compare_files :: "(nat \<Rightarrow> nat result) \<Rightarrow> bytes option \<Rightarrow> bytes option \<Rightarrow> bool result" where
  "compare_files reads a b =
     (case a of
        None \<Rightarrow> Inl LibraryError
      | Some f1 \<Rightarrow> (case b of None \<Rightarrow> Inl LibraryError | Some f2 \<Rightarrow> compare_loop reads 0 f1 f2))"

section \<open>Downloads\<close>

definition url_filename :: "'link worker_env \<Rightarrow> string \<Rightarrow> string result" where
  "url_filename env url =
     (case we_url_segments env url of
        Inl e \<Rightarrow> Inl e
      | Inr None \<Rightarrow> Inl LibraryError
      | Inr (Some segments) \<Rightarrow>
          if segments = [] then Inl LibraryError
          else if last segments = [] then Inl LibraryError
          else Inr (last segments))"

text \<open>A file of the same name is replaced.\<close>

definition download :: "'link worker_env \<Rightarrow> string \<Rightarrow> directory \<Rightarrow> (string \<times> directory) result" where
  "download env url dir =
     (case url_filename env url of
        Inl e \<Rightarrow> Inl e
      | Inr filename \<Rightarrow>
          map_sum id (\<lambda>content. (filename, dir(filename \<mapsto> content))) (we_fetch env url))"

fun download_artifacts ::
  "'link worker_env \<Rightarrow> queued_job_artifact list \<Rightarrow> directory \<Rightarrow>
   ((queued_job_artifact \<times> string) list \<times> directory) result" where
  "download_artifacts env [] dir = Inr ([], dir)"
| "download_artifacts env (a # as) dir =
     (case download env (qa_url a) dir of
        Inl e \<Rightarrow> Inl e
      | Inr (filename, dir1) \<Rightarrow>
          map_sum id (\<lambda>(rest, dir2). ((a, filename) # rest, dir2)) (download_artifacts env as dir1))"

definition select_build_input ::
  "'link worker_env \<Rightarrow> rebuild_context \<Rightarrow> (queued_job_artifact \<times> string) list \<Rightarrow> directory \<Rightarrow>
   (string \<times> directory) result" where
  "select_build_input env ctx named dir =
     (case ctx_input_url ctx of
        Some input_url \<Rightarrow> download env input_url dir
      | None \<Rightarrow> (case named of [] \<Rightarrow> Inl LibraryError | (a, filename) # _ \<Rightarrow> Inr (filename, dir)))"

section \<open>Running the scripts\<close>

definition verify_run :: "rebuild_context \<Rightarrow> string \<Rightarrow> script_run" where
  "verify_run ctx input =
     \<lparr>sr_bin = be_path (ctx_backend ctx), sr_input = input, sr_worker_name = ctx_worker_name ctx,
      sr_options =
        \<lparr>po_timeout = seconds (case bc_timeout (ctx_build ctx) of None \<Rightarrow> 3600 * 24 | Some t \<Rightarrow> t),
         po_size_limit = bc_max_bytes (ctx_build ctx), po_kill_at_size_limit = False\<rparr>\<rparr>"

definition diff_script_options :: proc_options where
  "diff_script_options =
     \<lparr>po_timeout = seconds 600, po_size_limit = Some (10 * 1024 * 1024), po_kill_at_size_limit = False\<rparr>"

definition diffoscope_timeout :: "diffoscope_config \<Rightarrow> int" where
  "diffoscope_timeout settings = (case df_timeout settings of None \<Rightarrow> 3600 | Some t \<Rightarrow> t)"

definition diffoscope_args :: "diffoscope_config \<Rightarrow> string list" where
  "diffoscope_args settings =
     df_args settings @ [''--timeout='' @ show_int (diffoscope_timeout settings), ''--'']"

definition diffoscope_options :: "diffoscope_config \<Rightarrow> proc_options" where
  "diffoscope_options settings =
     \<lparr>po_timeout = seconds (diffoscope_timeout settings + 600), po_size_limit = df_max_bytes settings,
      po_kill_at_size_limit = True\<rparr>"

definition diffoscope :: "'link worker_env \<Rightarrow> bytes \<Rightarrow> bytes \<Rightarrow> diffoscope_config \<Rightarrow> bytes result" where
  "diffoscope env a b settings =
     map_sum id (we_lossy env)
       (we_diffoscope env (diffoscope_args settings) (diffoscope_options settings) a b)"

section \<open>The report of one artifact\<close>

definition plain_report :: "string \<Rightarrow> artifact_status \<Rightarrow> rebuild_artifact_report" where
  "plain_report name status =
     \<lparr>rar_name = name, rar_diffoscope = None, rar_attestation = None, rar_status = status\<rparr>"

text \<open>A GOOD report with its attestation, which is left out if signing fails.\<close>

definition good_report ::
  "'link worker_env \<Rightarrow> string \<Rightarrow> string \<Rightarrow> bytes \<Rightarrow> bytes \<Rightarrow> rebuild_artifact_report result" where
  "good_report env name filename input output_bytes =
     (let res = plain_report name ArtifactGood
      in case we_in_toto_run env (''rebuild '' @ filename) input output_bytes of
           Inl _ \<Rightarrow> Inr res
         | Inr signed_link \<Rightarrow>
             (case we_serialize env signed_link of
                Inl e \<Rightarrow> Inl e
              | Inr attestation \<Rightarrow>
                  map_sum id (\<lambda>encoded. res\<lparr>rar_attestation := Some encoded\<rparr>)
                    (zstd_compress (we_encode env) attestation)))"

definition bad_report ::
  "'link worker_env \<Rightarrow> rebuild_context \<Rightarrow> string \<Rightarrow> bytes \<Rightarrow> bytes \<Rightarrow> rebuild_artifact_report result" where
  "bad_report env ctx name artifact output_bytes =
     (let res = plain_report name ArtifactBad
      in if df_enabled (ctx_diffoscope ctx) then
           (case diffoscope env artifact output_bytes (ctx_diffoscope ctx) of
              Inl e \<Rightarrow> Inl e
            | Inr diff \<Rightarrow>
                map_sum id (\<lambda>encoded. res\<lparr>rar_diffoscope := Some encoded\<rparr>)
                  (zstd_compress (we_encode env) diff))
         else Inr res)"

definition newline :: string where "newline = [CHR 0x0A]"

definition append_diff_log :: "bytes \<Rightarrow> bytes \<Rightarrow> bytes" where
  "append_diff_log diff_log log =
     (if diff_log = [] then log
      else log @ (if log = [] then [] else ascii_bytes (newline @ newline)) @
        ascii_bytes (''=== Differ Script Output ==='' @ newline) @ diff_log @
        ascii_bytes (newline @ ''============================'' @ newline))"

text \<open>A file that is missing when it is needed is an error; in-toto then fails, which only loses the
  attestation.\<close>

definition file_content :: "directory \<Rightarrow> string \<Rightarrow> bytes" where
  "file_content dir name = (case dir name of None \<Rightarrow> [] | Some b \<Rightarrow> b)"

definition artifact_result ::
  "'link worker_env \<Rightarrow> rebuild_context \<Rightarrow> directory \<Rightarrow> directory \<Rightarrow> string \<Rightarrow>
   queued_job_artifact \<times> string \<Rightarrow> bytes \<Rightarrow> rebuild_artifact_report result \<times> bytes" where
  "artifact_result env ctx inputs out_dir input named log =
     (case named of (artifact, filename) \<Rightarrow>
       (case out_dir filename of
          None \<Rightarrow> (Inr (plain_report (qa_name artifact) ArtifactBad), log)
        | Some out \<Rightarrow>
           (let good = good_report env (qa_name artifact) filename (file_content inputs input) out;
                bad = bad_report env ctx (qa_name artifact) (file_content inputs filename) out
            in case be_diff_post_script_path (ctx_backend ctx) of
                 Some diff_script \<Rightarrow>
                   (case we_diff_script env diff_script diff_script_options
                           (file_content inputs filename) out of
                      Inl e \<Rightarrow> (Inl e, log)
                    | Inr (artifacts_identical, diff_log) \<Rightarrow>
                        (if artifacts_identical then good else bad, append_diff_log diff_log log))
               | None \<Rightarrow>
                   (case compare_files (we_reads env) (inputs filename) (Some out) of
                      Inl e \<Rightarrow> (Inl e, log)
                    | Inr same \<Rightarrow> (if same then good else bad, log)))))"

fun artifact_results ::
  "(queued_job_artifact \<times> string \<Rightarrow> bytes \<Rightarrow> rebuild_artifact_report result \<times> bytes) \<Rightarrow>
   (queued_job_artifact \<times> string) list \<Rightarrow> bytes \<Rightarrow> rebuild_artifact_report list result \<times> bytes" where
  "artifact_results one [] log = (Inr [], log)"
| "artifact_results one (a # as) log =
     (case one a log of
        (Inl e, log1) \<Rightarrow> (Inl e, log1)
      | (Inr r, log1) \<Rightarrow> map_prod (map_sum id (Cons r)) id (artifact_results one as log1))"

section \<open>The rebuild\<close>

definition rebuild_job ::
  "'link worker_env \<Rightarrow> rebuild_context \<Rightarrow> bytes \<Rightarrow> rebuild_artifact_report list result \<times> bytes" where
  "rebuild_job env ctx log =
     (case we_tempdir env of
        Inl e \<Rightarrow> (Inl e, log)
      | Inr _ \<Rightarrow>
         (case download_artifacts env (ctx_artifacts ctx) Map.empty of
            Inl e \<Rightarrow> (Inl e, log)
          | Inr (named, inputs) \<Rightarrow>
             (case select_build_input env ctx named inputs of
                Inl e \<Rightarrow> (Inl e, log)
              | Inr (input, inputs1) \<Rightarrow>
                 (case we_script env (verify_run ctx input) inputs1 log of
                    (Inl e, log1) \<Rightarrow> (Inl e, log1)
                  | (Inr (script_success, inputs2, out_dir), log1) \<Rightarrow>
                      artifact_results (artifact_result env ctx inputs2 out_dir input) named log1))))"

text \<open>The rebuild with pings beside it: \<open>pings\<close> are the results of those sent before it ended; the
  first that fails abandons the rebuild.\<close>

fun rebuild_with_heartbeat ::
  "unit result list \<Rightarrow> rebuild_artifact_report list result \<times> bytes \<Rightarrow>
   rebuild_artifact_report list result \<times> bytes" where
  "rebuild_with_heartbeat [] rebuilt = rebuilt"
| "rebuild_with_heartbeat (Inl e # pings) rebuilt = (Inl e, snd rebuilt)"
| "rebuild_with_heartbeat (Inr _ # pings) rebuilt = rebuild_with_heartbeat pings rebuilt"

section \<open>What the comparison means\<close>

lemma compare_loop_correct:
  assumes "\<And>k. \<exists>n. reads k = Inr n"
  shows "compare_loop reads k a b = Inr (a = b)"
proof (induction "length a" arbitrary: k a b rule: less_induct)
  case less
  obtain n where n: "reads k = Inr n" using assms by blast
  define m where "m = read_size n a"
  have m: "m \<le> length a" "m = 0 \<longleftrightarrow> a = []" by (auto simp: m_def read_size_def min_def)
  show ?case
  proof (cases "a = [] \<or> length b < m \<or> take m a \<noteq> take m b")
    case True
    with m n show ?thesis by (subst compare_loop.simps) (auto simp: m_def[symmetric] Let_def)
  next
    case False
    have "length (drop m a) < length a" using False m by simp
    from less[OF this] have "compare_loop reads k a b = Inr (drop m a = drop m b)"
      using False m n by (subst compare_loop.simps) (auto simp: m_def[symmetric] Let_def)
    moreover have "drop m a = drop m b \<longleftrightarrow> a = b" using False by (metis append_take_drop_id)
    ultimately show ?thesis by simp
  qed
qed

text \<open>C36: Comparing two files piece by piece is comparing their contents, however many bytes each
  read happens to return.\<close>

theorem compare_files_correct:
  assumes "\<forall>k. \<exists>n. reads k = Inr n"
  shows "compare_files reads (Some a) (Some b) = Inr (a = b)"
  using compare_loop_correct assms by (simp add: compare_files_def)

lemma compare_files_correct_witness:
  "compare_files (\<lambda>k. Inr k) (Some [1, 2, 3]) (Some [1, 2, 4]) = Inr False"
  using compare_files_correct[of "\<lambda>k. Inr k" "[1, 2, 3]" "[1, 2, 4]"] by simp

lemma good_report_Inr:
  "good_report env name filename input out = Inr r \<Longrightarrow> rar_name r = name \<and> rar_status r = ArtifactGood"
  by (auto simp: good_report_def plain_report_def Let_def map_sum_Inr split: sum.splits)

lemma bad_report_Inr:
  "bad_report env ctx name a out = Inr r \<Longrightarrow> rar_name r = name \<and> rar_status r = ArtifactBad"
  by (auto simp: bad_report_def plain_report_def Let_def map_sum_Inr split: sum.splits if_splits)

text \<open>A report says GOOD of an artifact exactly if the two files are there and equal.\<close>

definition honest :: "directory \<Rightarrow> directory \<Rightarrow> queued_job_artifact \<times> string \<Rightarrow> rebuild_artifact_report \<Rightarrow> bool" where
  "honest inputs out_dir named r \<longleftrightarrow>
     rar_name r = qa_name (fst named) \<and>
     rar_status r = (if \<exists>b. inputs (snd named) = Some b \<and> out_dir (snd named) = Some b
       then ArtifactGood else ArtifactBad)"

lemma artifact_result_honest:
  assumes reads: "\<forall>k. \<exists>n. we_reads env k = Inr n"
    and no_script: "be_diff_post_script_path (ctx_backend ctx) = None"
    and res: "artifact_result env ctx inputs out_dir input named log = (Inr r, log')"
  shows "honest inputs out_dir named r"
proof -
  obtain artifact filename where named: "named = (artifact, filename)" by (cases named)
  show ?thesis
  proof (cases "out_dir filename")
    case None
    with res show ?thesis by (auto simp: artifact_result_def honest_def named plain_report_def)
  next
    case (Some out)
    show ?thesis
    proof (cases "inputs filename")
      case None
      with res Some no_script show ?thesis
        by (simp add: artifact_result_def named Let_def compare_files_def)
    next
      case (Some a)
      have "compare_files (we_reads env) (Some a) (Some out) = Inr (a = out)"
        using compare_loop_correct reads by (simp add: compare_files_def)
      with \<open>out_dir filename = Some out\<close> Some res no_script show ?thesis
        by (auto simp: artifact_result_def honest_def named Let_def
            dest: good_report_Inr bad_report_Inr split: if_splits)
    qed
  qed
qed

lemma artifact_results_all:
  assumes "artifact_results one named log = (Inr rs, log')"
    and "\<And>a log r log'. one a log = (Inr r, log') \<Longrightarrow> P a r"
  shows "list_all2 P named rs"
  using assms(1)
proof (induction named arbitrary: log rs log')
  case (Cons a as)
  obtain r log1 where one: "one a log = (Inr r, log1)"
    using Cons.prems by (auto split: prod.splits sum.splits)
  with Cons.prems obtain rs1 where "artifact_results one as log1 = (Inr rs1, log')" "rs = r # rs1"
    by (cases "artifact_results one as log1") (auto simp: map_sum_Inr)
  with Cons.IH assms(2)[OF one] show ?case by simp
qed simp

lemma download_artifacts_names:
  "download_artifacts env as dir = Inr (named, dir') \<Longrightarrow> map fst named = as"
  by (induction as arbitrary: dir named dir') (auto simp: map_sum_Inr split: sum.splits prod.splits)

lemma rebuild_job_honest:
  assumes "\<forall>k. \<exists>n. we_reads env k = Inr n" "be_diff_post_script_path (ctx_backend ctx) = None"
    and "rebuild_job env ctx log = (Inr reports, log')"
  obtains named input inputs1 success inputs out_dir where
    "map fst named = ctx_artifacts ctx"
    "fst (we_script env (verify_run ctx input) inputs1 log) = Inr (success, inputs, out_dir)"
    "list_all2 (honest inputs out_dir) named reports"
proof -
  from assms(3) obtain named dir input inputs1 success inputs out_dir log1 where
    run: "download_artifacts env (ctx_artifacts ctx) Map.empty = Inr (named, dir)"
    "we_script env (verify_run ctx input) inputs1 log = (Inr (success, inputs, out_dir), log1)"
    "artifact_results (artifact_result env ctx inputs out_dir input) named log1 = (Inr reports, log')"
    by (auto simp: rebuild_job_def split: sum.splits prod.splits)
  have "list_all2 (honest inputs out_dir) named reports"
    by (rule artifact_results_all[OF run(3)]) (rule artifact_result_honest[OF assms(1,2)])
  moreover have "fst (we_script env (verify_run ctx input) inputs1 log) = Inr (success, inputs, out_dir)"
    by (simp add: run(2))
  ultimately show thesis by (intro that[OF download_artifacts_names[OF run(1)]])
qed


definition sample_env :: "unit worker_env" where
  "sample_env =
     \<lparr>we_tempdir = Inr (), we_url_segments = (\<lambda>url. Inr (Some [url])), we_fetch = (\<lambda>url. Inr [1, 2]),
      we_script = (\<lambda>run dir log. (Inr (False, dir, [''good.deb'' \<mapsto> [1, 2], ''bad.deb'' \<mapsto> [1]]), log @ [7])),
      we_diff_script = (\<lambda>_ _ _ _. Inl LibraryError), we_diffoscope = (\<lambda>_ _ _ _. Inr [9]),
      we_in_toto_run = (\<lambda>_ _ _. Inl LibraryError), we_serialize = (\<lambda>_. Inr [5]),
      we_encode = (\<lambda>cs. Inr (concat cs)), we_lossy = id, we_reads = (\<lambda>k. Inr 1)\<rparr>"

definition sample_queued_artifact :: "string \<Rightarrow> queued_job_artifact" where
  "sample_queued_artifact name = \<lparr>qa_name = name, qa_version = ''1'', qa_architecture = ''amd64'', qa_url = name\<rparr>"

definition sample_context :: rebuild_context where
  "sample_context =
     \<lparr>ctx_artifacts = map sample_queued_artifact [''good.deb'', ''bad.deb'', ''gone.deb''],
      ctx_input_url = Some ''input.dsc'',
      ctx_backend = \<lparr>be_path = ''rebuild.sh'', be_diff_post_script_path = None\<rparr>,
      ctx_build = \<lparr>bc_timeout = None, bc_max_bytes = None, bc_silent = True\<rparr>,
      ctx_diffoscope = \<lparr>df_enabled = False, df_args = [], df_timeout = None, df_max_bytes = None\<rparr>,
      ctx_worker_name = None\<rparr>"


end
