(* ===== verification/WorkerLoop.thy ===== *)
theory WorkerLoop
  imports WorkerRebuild Config "HOL-Library.AList"
begin

text \<open>
  The worker around a rebuild (\<open>worker/src/main.rs\<close>, \<open>auth.rs\<close>, \<open>config.rs\<close>): ask for a job, run
  it, report it, sleep. The daemon's answers, the native architecture and the text of an error are
  parameters; what the worker does to the outside is the list of its actions.
\<close>

section \<open>Configuration\<close>

record worker_config_file =
  wc_endpoint :: "string option"
  wc_signup_secret :: "string option"
  wc_build :: build_config
  wc_diffoscope :: diffoscope_config
  wc_backends :: "(string \<times> backend_config) list"
  wc_supported_architectures :: "string list"
  wc_idle_delay :: "int option"

definition default_worker_config :: worker_config_file where
  "default_worker_config =
     \<lparr>wc_endpoint = None, wc_signup_secret = None,
      wc_build = \<lparr>bc_timeout = None, bc_max_bytes = None, bc_silent = False\<rparr>,
      wc_diffoscope = \<lparr>df_enabled = False, df_args = [], df_timeout = None, df_max_bytes = None\<rparr>,
      wc_backends = [], wc_supported_architectures = [], wc_idle_delay = None\<rparr>"

definition add_backend :: "string \<Rightarrow> worker_config_file \<Rightarrow> worker_config_file result" where
  "add_backend arg conf =
     (case split_once ''='' arg of
        None \<Rightarrow> Inl LibraryError
      | Some (key, path) \<Rightarrow>
          Inr (conf\<lparr>wc_backends := AList.update key
            \<lparr>be_path = path, be_diff_post_script_path = None\<rparr> (wc_backends conf)\<rparr>))"

text \<open>\<open>toml\<close> is the configuration read from the file that is given, or from the default path if that
  exists.\<close>

definition load_worker_config :: "worker_config_file result option \<Rightarrow> string list \<Rightarrow> worker_config_file result" where
  "load_worker_config toml args_backends =
     (case (case toml of None \<Rightarrow> Inr default_worker_config | Some r \<Rightarrow> r) of
        Inl e \<Rightarrow> Inl e
      | Inr conf \<Rightarrow> fold_result add_backend args_backends conf)"

section \<open>One job\<close>

datatype worker_action =
    Asked pop_queued_job_request
  | Slept_for int
  | Sent rebuild_report

definition pop_request :: "string \<Rightarrow> worker_config_file \<Rightarrow> pop_queued_job_request" where
  "pop_request native_arch conf =
     \<lparr>supported_backends = map fst (wc_backends conf), pop_architecture = native_arch,
      supported_architectures =
        (if wc_supported_architectures conf = [] then [native_arch]
         else wc_supported_architectures conf)\<rparr>"

definition job_context :: "worker_config_file \<Rightarrow> string option \<Rightarrow> backend_config \<Rightarrow> queued_job_with_artifacts \<Rightarrow>
    rebuild_context" where
  "job_context conf worker_name backend rb =
     \<lparr>ctx_artifacts = artifacts rb, ctx_input_url = Some (job_url (job rb)), ctx_backend = backend,
      ctx_build = wc_build conf, ctx_diffoscope = wc_diffoscope conf, ctx_worker_name = worker_name\<rparr>"

definition overall_status :: "rebuild_artifact_report list \<Rightarrow> build_status" where
  "overall_status reports = (if list_all (\<lambda>r. rar_status r = ArtifactGood) reports then Good else Bad)"

definition error_note :: "(error \<Rightarrow> bytes) \<Rightarrow> error \<Rightarrow> bytes \<Rightarrow> bytes" where
  "error_note show_error e log =
     log @ (if log = [] then [] else ascii_bytes (newline @ newline)) @
     ascii_bytes ''rebuilderd: unexpected error while rebuilding package: '' @ show_error e @
     ascii_bytes newline"

text \<open>The outcome of a rebuild as status, reports and log.\<close>

definition rebuild_outcome ::
  "(error \<Rightarrow> bytes) \<Rightarrow> rebuild_artifact_report list result \<times> bytes \<Rightarrow>
   build_status \<times> rebuild_artifact_report list \<times> bytes" where
  "rebuild_outcome show_error rebuilt =
     (case rebuilt of
        (Inr res, log) \<Rightarrow> (overall_status res, res, log)
      | (Inl e, log) \<Rightarrow> (Fail, [], error_note show_error e log))"

definition job_report ::
  "'link worker_env \<Rightarrow> (error \<Rightarrow> bytes) \<Rightarrow> time \<Rightarrow> int \<Rightarrow> rebuild_artifact_report list result \<times> bytes \<Rightarrow>
   rebuild_report result" where
  "job_report env show_error built_at queue_id rebuilt =
     (case rebuild_outcome show_error rebuilt of (status, rebuilds, log) \<Rightarrow>
        map_sum id (\<lambda>encoded_log.
            \<lparr>rr_queue_id = queue_id, rr_built_at = built_at, rr_build_log = encoded_log,
             rr_status = status, rr_artifacts = rebuilds\<rparr>)
          (zstd_compress (we_encode env) (we_lossy env log)))"

text \<open>A ping of the daemon never fails: its error is only logged.\<close>

definition http_ping :: "unit result \<Rightarrow> unit result" where
  "http_ping answer = Inr ()"

record round_answers =
  ra_request_work :: "pop_queued_job_request \<Rightarrow> job_assignment result"
  ra_pings :: "unit result list"
  ra_submit :: "rebuild_report \<Rightarrow> unit result"
  ra_now :: time

definition worker_rebuild ::
  "'link worker_env \<Rightarrow> string \<Rightarrow> (error \<Rightarrow> bytes) \<Rightarrow> round_answers \<Rightarrow> worker_config_file \<Rightarrow> string option \<Rightarrow>
   worker_action list \<times> unit result" where
  "worker_rebuild env native_arch show_error answers conf worker_name =
     (let request = pop_request native_arch conf
      in case ra_request_work answers request of
           Inl e \<Rightarrow> ([Asked request], Inl e)
         | Inr Nothing \<Rightarrow>
             ([Asked request, Slept_for (case wc_idle_delay conf of None \<Rightarrow> idle_delay | Some n \<Rightarrow> n)], Inr ())
         | Inr (Rebuild rb) \<Rightarrow>
             (case map_of (wc_backends conf) (job_distribution (job rb)) of
                None \<Rightarrow> ([Asked request], Inl LibraryError)
              | Some backend \<Rightarrow>
                  (case job_report env show_error (ra_now answers) (job_id (job rb))
                          (rebuild_with_heartbeat (map http_ping (ra_pings answers))
                             (rebuild_job env (job_context conf worker_name backend rb) [])) of
                     Inl e \<Rightarrow> ([Asked request], Inl e)
                   | Inr report \<Rightarrow> ([Asked request, Sent report], ra_submit answers report))))"

section \<open>The loop\<close>

text \<open>One turn: \<open>restart\<close> is whether the restart flag exists after the job; the loop then ends.\<close>

definition worker_turn ::
  "'link worker_env \<Rightarrow> string \<Rightarrow> (error \<Rightarrow> bytes) \<Rightarrow> round_answers \<Rightarrow> bool \<Rightarrow> worker_config_file \<Rightarrow> string option \<Rightarrow>
   worker_action list \<times> bool" where
  "worker_turn env native_arch show_error answers restart conf worker_name =
     (case worker_rebuild env native_arch show_error answers conf worker_name of
        (actions, res) \<Rightarrow>
          (let slept = (case res of Inl _ \<Rightarrow> [Slept_for api_error_delay] | Inr _ \<Rightarrow> [])
           in if restart then (actions @ slept, True)
              else (actions @ slept @ [Slept_for worker_delay], False)))"

text \<open>The turns the loop takes, given what happens in each; it ends at the first restart flag.\<close>

fun run_worker_loop ::
  "'link worker_env \<Rightarrow> string \<Rightarrow> (error \<Rightarrow> bytes) \<Rightarrow> (round_answers \<times> bool) list \<Rightarrow> worker_config_file \<Rightarrow>
   string option \<Rightarrow> worker_action list" where
  "run_worker_loop env native_arch show_error [] conf worker_name = []"
| "run_worker_loop env native_arch show_error ((answers, restart) # rest) conf worker_name =
     (case worker_turn env native_arch show_error answers restart conf worker_name of
        (actions, stop) \<Rightarrow>
          actions @ (if stop then [] else run_worker_loop env native_arch show_error rest conf worker_name))"

section \<open>What a report says\<close>

lemma rebuild_with_http_pings: "rebuild_with_heartbeat (map http_ping pings) rebuilt = rebuilt"
  by (induction pings) (simp_all add: http_ping_def)

lemma job_report_Inr:
  assumes "job_report env show_error now i rebuilt = Inr r"
  shows "rr_queue_id r = i \<and> rr_built_at r = now \<and>
    (case rebuilt of
       (Inr reports, log) \<Rightarrow> rr_artifacts r = reports \<and> rr_status r = overall_status reports
     | (Inl e, log) \<Rightarrow> rr_artifacts r = [] \<and> rr_status r = Fail)"
  using assms by (cases rebuilt)
    (auto simp: job_report_def rebuild_outcome_def map_sum_Inr split: sum.splits)

lemma worker_rebuild_sends:
  assumes "worker_rebuild env native_arch show_error answers conf worker_name = (actions, res)"
    and "Sent r \<in> set actions"
  shows "\<exists>rb backend. ra_request_work answers (pop_request native_arch conf) = Inr (Rebuild rb) \<and>
    map_of (wc_backends conf) (job_distribution (job rb)) = Some backend \<and>
    job_report env show_error (ra_now answers) (job_id (job rb))
      (rebuild_job env (job_context conf worker_name backend rb) []) = Inr r"
  using assms
  by (auto simp: worker_rebuild_def Let_def rebuild_with_http_pings
      split: sum.splits job_assignment.splits option.splits)

definition reproduced :: "directory \<Rightarrow> directory \<Rightarrow> string \<Rightarrow> bool" where
  "reproduced inputs out_dir filename \<longleftrightarrow> (\<exists>b. inputs filename = Some b \<and> out_dir filename = Some b)"

text \<open>What a GOOD report stands for: the script of the backend ran and left a file for each artifact of
  the job, equal byte by byte to the published one, and the report names them all.\<close>

definition job_reproduced ::
  "'link worker_env \<Rightarrow> rebuild_context \<Rightarrow> rebuild_report \<Rightarrow> bool" where
  "job_reproduced env ctx r \<longleftrightarrow> (\<exists>named input inputs1 success inputs out_dir.
    fst (we_script env (verify_run ctx input) inputs1 []) = Inr (success, inputs, out_dir) \<and>
    map fst named = ctx_artifacts ctx \<and>
    map rar_name (rr_artifacts r) = map qa_name (ctx_artifacts ctx) \<and>
    list_all (\<lambda>(a, filename). reproduced inputs out_dir filename) named)"

lemma good_report_reproduced:
  assumes "job_report env show_error now i (rebuild_job env ctx []) = Inr r" "rr_status r = Good"
    and "\<forall>k. \<exists>n. we_reads env k = Inr n" "be_diff_post_script_path (ctx_backend ctx) = None"
  shows "rr_queue_id r = i \<and> job_reproduced env ctx r"
proof -
  obtain rebuilt log' where run: "rebuild_job env ctx [] = (rebuilt, log')" by fastforce
  note report = job_report_Inr[OF assms(1)]
  obtain reports where reports: "rebuilt = Inr reports" "rr_artifacts r = reports"
    "rr_status r = overall_status reports" "rr_queue_id r = i"
    using report run assms(2) by (cases rebuilt) auto
  have all_good: "list_all (\<lambda>x. rar_status x = ArtifactGood) reports"
    using reports(3) assms(2) by (simp add: overall_status_def split: if_splits)
  from rebuild_job_honest[OF assms(3,4) run[unfolded reports(1)]] obtain
    named input inputs1 success inputs out_dir where
    script: "map fst named = ctx_artifacts ctx"
    "fst (we_script env (verify_run ctx input) inputs1 []) = Inr (success, inputs, out_dir)"
    and honest: "list_all2 (honest inputs out_dir) named reports" .
  from honest all_good have "list_all (\<lambda>(a, filename). reproduced inputs out_dir filename) named \<and>
      map rar_name reports = map (qa_name \<circ> fst) named"
    by (induction rule: list_all2_induct) (auto simp: honest_def reproduced_def split: if_splits)
  then have "list_all (\<lambda>(a, filename). reproduced inputs out_dir filename) named"
    "map rar_name reports = map qa_name (ctx_artifacts ctx)"
    using script(1) by (auto simp flip: map_map)
  with reports script show ?thesis unfolding job_reproduced_def by blast
qed


definition sample_job :: "string \<Rightarrow> queued_job_with_artifacts" where
  "sample_job name =
     \<lparr>job = \<lparr>job_id = 4, job_name = ''x'', job_version = ''1'', job_distribution = ''debian'',
        job_release = None, job_component = None, job_architecture = ''amd64'', job_backend = ''debian'',
        job_url = ''input.dsc'', job_next_retry = None, job_priority = Priority 1, job_queued_at = 0,
        job_started_at = None\<rparr>,
      artifacts = [sample_queued_artifact name]\<rparr>"

definition sample_worker_config :: worker_config_file where
  "sample_worker_config = default_worker_config
     \<lparr>wc_backends := [(''debian'', \<lparr>be_path = ''rebuild.sh'', be_diff_post_script_path = None\<rparr>)]\<rparr>"

definition sample_answers :: "string \<Rightarrow> round_answers" where
  "sample_answers name =
     \<lparr>ra_request_work = (\<lambda>_. Inr (Rebuild (sample_job name))), ra_pings = [Inl LibraryError],
      ra_submit = (\<lambda>_. Inr ()), ra_now = 9\<rparr>"

definition tiny_env :: "unit worker_env" where
  "tiny_env = sample_env\<lparr>we_encode := (\<lambda>cs. Inr [])\<rparr>"


text \<open>The daemon offers jobs by their backend, the worker looks its script up by the distribution: a
  job for which the two differ is taken and never reported.\<close>

lemma backend_mismatch_never_reported:
  assumes "ra_request_work answers (pop_request native_arch conf) = Inr (Rebuild rb)"
    and "job_distribution (job rb) \<notin> fst ` set (wc_backends conf)"
  shows "worker_rebuild env native_arch show_error answers conf worker_name =
    ([Asked (pop_request native_arch conf)], Inl LibraryError)"
proof -
  have "map_of (wc_backends conf) (job_distribution (job rb)) = None"
    using assms(2) by (simp add: map_of_eq_None_iff)
  with assms(1) show ?thesis by (simp add: worker_rebuild_def)
qed

end
