(* ===== verification/Client.thy ===== *)
theory Client
  imports Peers Stats Config WorkerLoop
begin

text \<open>
  The HTTP client of the workers and of rebuildctl (\<open>common/src/api/mod.rs\<close>,
  \<open>common/src/api/v1/mod.rs\<close>) and the routes of the daemon it talks to (\<open>daemon/src/lib.rs\<close> with
  the route attributes of the handlers). A request is what is sent: method, path, query, body and
  headers. The URL parser, the serialisation of bodies and queries and the transport are not part
  of the repository: paths are lists of decoded segments and bodies keep their type.
\<close>

section \<open>Requests\<close>

datatype http_method = GET | POST | DELETE

datatype query_arg =
    Q_page "page option"
  | Q_origin "origin_filter option"
  | Q_source "source_identity_filter option"
  | Q_binary "binary_identity_filter option"
  | Q_queue "queue_filter option"
  | Q_stats "stats_query option"
  | Q_pairs "(string \<times> string) list"

datatype request_body =
    Body_rebuild_report rebuild_report
  | Body_package_report package_report
  | Body_queue_job_request queue_job_request
  | Body_pop_queued_job_request pop_queued_job_request
  | Body_register_worker_request register_worker_request
  | Body_check_peers_request check_peers_request
  | Body_stats_collect_request stats_collect_request

record http_call =
  hc_method :: http_method
  hc_path :: "string list"
  hc_headers :: "(string \<times> string) list"
  hc_query :: "query_arg list"
  hc_body :: "request_body option"
  hc_encoded :: bool

section \<open>The client\<close>

text \<open>\<open>cl_path\<close> is the path of the endpoint, of which \<open>/\<close> has one empty segment.\<close>

record client =
  cl_path :: "string list"
  cl_is_default_endpoint :: bool
  cl_auth_cookie :: "string option"
  cl_worker_key :: "string option"
  cl_signup_secret :: "string option"

definition pop_if_empty :: "string list \<Rightarrow> string list" where
  "pop_if_empty segs = (if 1 < length segs \<and> last segs = [] then butlast segs else segs)"

text \<open>\<open>cookie_of\<close> is the cookie configured for an endpoint, \<open>parse_url\<close> the path of a URL that can
  be a base.\<close>

definition new_client ::
  "(string \<Rightarrow> string list option) \<Rightarrow> (string \<Rightarrow> string option) \<Rightarrow> string option \<Rightarrow> string option \<Rightarrow> client result" where
  "new_client parse_url cookie_of config_endpoint endpoint =
     (case (case endpoint of
              Some e \<Rightarrow> (e, cookie_of e, False)
            | None \<Rightarrow>
                (case config_endpoint of
                   Some e \<Rightarrow> (e, None, True)
                 | None \<Rightarrow> (''http://127.0.0.1:8484'', None, True))) of
        (url, cookie, is_default) \<Rightarrow>
          (case parse_url url of
             None \<Rightarrow> Inl LibraryError
           | Some segs \<Rightarrow>
               Inr \<lparr>cl_path = pop_if_empty segs, cl_is_default_endpoint = is_default,
                 cl_auth_cookie = cookie, cl_worker_key = None, cl_signup_secret = None\<rparr>))"

text \<open>\<open>env_cookie\<close> is the cookie of the file named in the environment, \<open>found_cookie\<close> the result of
  \<open>find_auth_cookie\<close>.\<close>

definition with_auth_cookie :: "string result option \<Rightarrow> string result \<Rightarrow> client \<Rightarrow> client result" where
  "with_auth_cookie env_cookie found_cookie c =
     (case env_cookie of
        Some r \<Rightarrow> map_sum id (\<lambda>k. c\<lparr>cl_auth_cookie := Some k\<rparr>) r
      | None \<Rightarrow>
          if cl_is_default_endpoint c then
            map_sum id (\<lambda>k. c\<lparr>cl_auth_cookie := Some k\<rparr>) found_cookie
          else Inr c)"

text \<open>A worker signs up with its secret, or else may show the cookie of the machine.\<close>

definition worker_client :: "string \<Rightarrow> string option \<Rightarrow> string option \<Rightarrow> client result \<Rightarrow> client result" where
  "worker_client pubkey secret auth_cookie new =
     map_sum id (\<lambda>c. (let c1 = c\<lparr>cl_worker_key := Some pubkey\<rparr>
        in case secret of
             Some s \<Rightarrow> c1\<lparr>cl_signup_secret := Some s\<rparr>
           | None \<Rightarrow>
               (case auth_cookie of
                  Some k \<Rightarrow> c1\<lparr>cl_auth_cookie := Some k\<rparr>
                | None \<Rightarrow> c1))) new"

text \<open>The URL library skips the segments \<open>.\<close> and \<open>..\<close> when they are pushed.\<close>

definition push_segment :: "string \<Rightarrow> string list \<Rightarrow> string list" where
  "push_segment s segs =
     (if s = ''.'' \<or> s = ''..'' then segs else if segs = [[]] then [s] else segs @ [s])"

definition url_join :: "client \<Rightarrow> string \<Rightarrow> string list" where
  "url_join c route = fold push_segment (split_on CHR ''/'' route) (cl_path c)"

definition authenticated :: "client \<Rightarrow> (string \<times> string) list" where
  "authenticated c =
     (case cl_auth_cookie c of None \<Rightarrow> [] | Some k \<Rightarrow> [(auth_cookie_header, k)]) @
     (case cl_worker_key c of None \<Rightarrow> [] | Some k \<Rightarrow> [(worker_key_header, k)]) @
     (case cl_signup_secret c of None \<Rightarrow> [] | Some k \<Rightarrow> [(signup_secret_header, k)])"

definition send_plain :: "client \<Rightarrow> http_method \<Rightarrow> string \<Rightarrow> query_arg list \<Rightarrow> http_call" where
  "send_plain c m route query =
     \<lparr>hc_method = m, hc_path = url_join c route, hc_headers = authenticated c, hc_query = query,
      hc_body = None, hc_encoded = False\<rparr>"

definition client_get :: "client \<Rightarrow> string \<Rightarrow> query_arg list \<Rightarrow> http_call" where
  "client_get c route query = send_plain c GET route query"

definition client_post :: "client \<Rightarrow> string \<Rightarrow> query_arg list \<Rightarrow> http_call" where
  "client_post c route query = send_plain c POST route query"

definition client_delete :: "client \<Rightarrow> string \<Rightarrow> query_arg list \<Rightarrow> http_call" where
  "client_delete c route query = send_plain c DELETE route query"

text \<open>A request with a body is sent compressed and says so.\<close>

definition send_encoded :: "request_body \<Rightarrow> http_call \<Rightarrow> http_call" where
  "send_encoded b r =
     r\<lparr>hc_body := Some b, hc_encoded := True, hc_headers := hc_headers r @ [(''Content-Encoding'', ''zstd'')]\<rparr>"

section \<open>The calls\<close>

definition client_get_builds :: "client \<Rightarrow> page option \<Rightarrow> origin_filter option \<Rightarrow> source_identity_filter option \<Rightarrow> http_call" where
  "client_get_builds c page_arg origin_arg source_arg =
     client_get c (''api/v1/builds'') [Q_page page_arg, Q_origin origin_arg, Q_source source_arg]"

definition client_submit_build_report :: "client \<Rightarrow> rebuild_report \<Rightarrow> http_call" where
  "client_submit_build_report c request =
     send_encoded (Body_rebuild_report request)
       (client_post c (''api/v1/builds'') [])"

definition client_get_build :: "client \<Rightarrow> int \<Rightarrow> http_call" where
  "client_get_build c i =
     client_get c (''api/v1/builds/'' @ show_int i) []"

definition client_get_build_log :: "client \<Rightarrow> int \<Rightarrow> http_call" where
  "client_get_build_log c i =
     client_get c (''api/v1/builds/'' @ show_int i @ ''/log'') []"

definition client_get_build_artifacts :: "client \<Rightarrow> int \<Rightarrow> http_call" where
  "client_get_build_artifacts c i =
     client_get c (''api/v1/builds/'' @ show_int i @ ''/artifacts'') []"

definition client_get_build_artifact :: "client \<Rightarrow> int \<Rightarrow> int \<Rightarrow> http_call" where
  "client_get_build_artifact c i artifact_id =
     client_get c (''api/v1/builds/'' @ show_int i @ ''/artifacts/'' @ show_int artifact_id) []"

definition client_get_build_artifact_diffoscope :: "client \<Rightarrow> int \<Rightarrow> int \<Rightarrow> http_call" where
  "client_get_build_artifact_diffoscope c i artifact_id =
     client_get c (''api/v1/builds/'' @ show_int i @ ''/artifacts/'' @ show_int artifact_id @ ''/diffoscope'') []"

definition client_get_build_artifact_attestation :: "client \<Rightarrow> int \<Rightarrow> int \<Rightarrow> http_call" where
  "client_get_build_artifact_attestation c i artifact_id =
     client_get c (''api/v1/builds/'' @ show_int i @ ''/artifacts/'' @ show_int artifact_id @ ''/attestation'') []"

definition client_get_dashboard :: "client \<Rightarrow> origin_filter option \<Rightarrow> http_call" where
  "client_get_dashboard c origin_arg =
     client_get c (''api/v1/dashboard'') [Q_origin origin_arg]"

definition client_get_distributions :: "client \<Rightarrow> http_call" where
  "client_get_distributions c =
     client_get c (''api/v1/meta/distributions'') []"

definition client_get_distribution_releases :: "client \<Rightarrow> string \<Rightarrow> http_call" where
  "client_get_distribution_releases c distribution =
     client_get c (''api/v1/meta/distributions/'' @ distribution @ ''/releases'') []"

definition client_get_distribution_architectures :: "client \<Rightarrow> string \<Rightarrow> http_call" where
  "client_get_distribution_architectures c distribution =
     client_get c (''api/v1/meta/distributions/'' @ distribution @ ''/architectures'') []"

definition client_get_distribution_components :: "client \<Rightarrow> string \<Rightarrow> http_call" where
  "client_get_distribution_components c distribution =
     client_get c (''api/v1/meta/distributions/'' @ distribution @ ''/components'') []"

definition client_get_distribution_release_architectures :: "client \<Rightarrow> string \<Rightarrow> string \<Rightarrow> http_call" where
  "client_get_distribution_release_architectures c distribution release =
     client_get c (''api/v1/meta/distributions/'' @ distribution @ ''/releases/'' @ release @ ''/architectures'') []"

definition client_get_distribution_release_components :: "client \<Rightarrow> string \<Rightarrow> string \<Rightarrow> http_call" where
  "client_get_distribution_release_components c distribution release =
     client_get c (''api/v1/meta/distributions/'' @ distribution @ ''/releases/'' @ release @ ''/components'') []"

definition client_get_distribution_release_component_architectures :: "client \<Rightarrow> string \<Rightarrow> string \<Rightarrow> string \<Rightarrow> http_call" where
  "client_get_distribution_release_component_architectures c distribution release component =
     client_get c (''api/v1/meta/distributions/'' @ distribution @ ''/releases/'' @ release @ ''/components/'' @ component @ ''/architectures'') []"

definition client_get_public_keys :: "client \<Rightarrow> http_call" where
  "client_get_public_keys c =
     client_get c (''api/v1/meta/public-keys'') []"

definition client_submit_package_report :: "client \<Rightarrow> package_report \<Rightarrow> http_call" where
  "client_submit_package_report c request =
     send_encoded (Body_package_report request)
       (client_post c (''api/v1/packages'') [])"

definition client_get_source_packages :: "client \<Rightarrow> page option \<Rightarrow> origin_filter option \<Rightarrow> source_identity_filter option \<Rightarrow> http_call" where
  "client_get_source_packages c page_arg origin_arg source_arg =
     client_get c (''api/v1/packages/source'') [Q_page page_arg, Q_origin origin_arg, Q_source source_arg]"

definition client_get_source_package :: "client \<Rightarrow> int \<Rightarrow> http_call" where
  "client_get_source_package c i =
     client_get c (''api/v1/packages/source/'' @ show_int i) []"

definition client_get_binary_packages :: "client \<Rightarrow> page option \<Rightarrow> origin_filter option \<Rightarrow> binary_identity_filter option \<Rightarrow> http_call" where
  "client_get_binary_packages c page_arg origin_arg binary_arg =
     client_get c (''api/v1/packages/binary'') [Q_page page_arg, Q_origin origin_arg, Q_binary binary_arg]"

definition client_get_binary_package :: "client \<Rightarrow> int \<Rightarrow> http_call" where
  "client_get_binary_package c i =
     client_get c (''api/v1/packages/binary/'' @ show_int i) []"

definition client_get_queued_jobs :: "client \<Rightarrow> page option \<Rightarrow> origin_filter option \<Rightarrow> source_identity_filter option \<Rightarrow> queue_filter option \<Rightarrow> http_call" where
  "client_get_queued_jobs c page_arg origin_arg source_arg queue_arg =
     client_get c (''api/v1/queue'') [Q_page page_arg, Q_origin origin_arg, Q_source source_arg, Q_queue queue_arg]"

definition client_request_rebuild :: "client \<Rightarrow> queue_job_request \<Rightarrow> http_call" where
  "client_request_rebuild c request =
     send_encoded (Body_queue_job_request request)
       (client_post c (''api/v1/queue'') [])"

definition client_get_queued_job :: "client \<Rightarrow> int \<Rightarrow> http_call" where
  "client_get_queued_job c i =
     client_get c (''api/v1/queue/'' @ show_int i) []"

definition client_drop_queued_job :: "client \<Rightarrow> int \<Rightarrow> http_call" where
  "client_drop_queued_job c i =
     client_delete c (''api/v1/queue/'' @ show_int i) []"

definition client_drop_queued_jobs :: "client \<Rightarrow> origin_filter option \<Rightarrow> source_identity_filter option \<Rightarrow> http_call" where
  "client_drop_queued_jobs c origin_arg source_arg =
     client_delete c (''api/v1/queue'') [Q_origin origin_arg, Q_source source_arg]"

definition client_request_work :: "client \<Rightarrow> pop_queued_job_request \<Rightarrow> http_call" where
  "client_request_work c request =
     send_encoded (Body_pop_queued_job_request request)
       (client_post c (''api/v1/queue/pop'') [])"

definition client_ping_job :: "client \<Rightarrow> int \<Rightarrow> http_call" where
  "client_ping_job c i =
     (let r = client_post c (''api/v1/queue/'' @ show_int i @ ''/ping'') []
      in r\<lparr>hc_headers := hc_headers r @ [(''Content-Length'', ''0'')]\<rparr>)"

definition client_get_workers :: "client \<Rightarrow> page option \<Rightarrow> http_call" where
  "client_get_workers c page_arg =
     client_get c (''api/v1/workers'') [Q_page page_arg]"

definition client_register_worker :: "client \<Rightarrow> register_worker_request \<Rightarrow> http_call" where
  "client_register_worker c request =
     send_encoded (Body_register_worker_request request)
       (client_post c (''api/v1/workers'') [])"

definition client_get_worker :: "client \<Rightarrow> int \<Rightarrow> http_call" where
  "client_get_worker c i =
     client_get c (''api/v1/workers/'' @ show_int i) []"

definition client_unregister_worker :: "client \<Rightarrow> int \<Rightarrow> http_call" where
  "client_unregister_worker c i =
     client_delete c (''api/v1/workers/'' @ show_int i) []"

definition client_check_peers :: "client \<Rightarrow> check_peers_request \<Rightarrow> http_call" where
  "client_check_peers c request =
     send_encoded (Body_check_peers_request request)
       (client_post c (''api/v1/peers/check'') [])"

definition client_get_peer_package_status :: "client \<Rightarrow> string \<Rightarrow> string \<Rightarrow> string \<Rightarrow> string \<Rightarrow> http_call" where
  "client_get_peer_package_status c distribution architecture name version =
     client_get c (''api/v1/peers/package'') [Q_pairs [(''distribution'', distribution), (''architecture'', architecture),
        (''name'', name), (''version'', version)]]"

definition client_collect_stats :: "client \<Rightarrow> stats_collect_request \<Rightarrow> http_call" where
  "client_collect_stats c request =
     send_encoded (Body_stats_collect_request request)
       (client_post c (''api/v1/stats'') [])"

definition client_get_stats :: "client \<Rightarrow> stats_query option \<Rightarrow> http_call" where
  "client_get_stats c stats_arg =
     client_get c (''api/v1/stats'') [Q_stats stats_arg]"

text \<open>All of them as data, with the arguments of each.\<close>

datatype api_call =
    Call_get_builds "page option" "origin_filter option" "source_identity_filter option"
  | Call_submit_build_report rebuild_report
  | Call_get_build int
  | Call_get_build_log int
  | Call_get_build_artifacts int
  | Call_get_build_artifact int int
  | Call_get_build_artifact_diffoscope int int
  | Call_get_build_artifact_attestation int int
  | Call_get_dashboard "origin_filter option"
  | Call_get_distributions
  | Call_get_distribution_releases string
  | Call_get_distribution_architectures string
  | Call_get_distribution_components string
  | Call_get_distribution_release_architectures string string
  | Call_get_distribution_release_components string string
  | Call_get_distribution_release_component_architectures string string string
  | Call_get_public_keys
  | Call_submit_package_report package_report
  | Call_get_source_packages "page option" "origin_filter option" "source_identity_filter option"
  | Call_get_source_package int
  | Call_get_binary_packages "page option" "origin_filter option" "binary_identity_filter option"
  | Call_get_binary_package int
  | Call_get_queued_jobs "page option" "origin_filter option" "source_identity_filter option" "queue_filter option"
  | Call_request_rebuild queue_job_request
  | Call_get_queued_job int
  | Call_drop_queued_job int
  | Call_drop_queued_jobs "origin_filter option" "source_identity_filter option"
  | Call_request_work pop_queued_job_request
  | Call_ping_job int
  | Call_get_workers "page option"
  | Call_register_worker register_worker_request
  | Call_get_worker int
  | Call_unregister_worker int
  | Call_check_peers check_peers_request
  | Call_get_peer_package_status string string string string
  | Call_collect_stats stats_collect_request
  | Call_get_stats "stats_query option"

fun call_request :: "client \<Rightarrow> api_call \<Rightarrow> http_call" where
  "call_request c (Call_get_builds page_arg origin_arg source_arg) = client_get_builds c page_arg origin_arg source_arg"
| "call_request c (Call_submit_build_report request) = client_submit_build_report c request"
| "call_request c (Call_get_build i) = client_get_build c i"
| "call_request c (Call_get_build_log i) = client_get_build_log c i"
| "call_request c (Call_get_build_artifacts i) = client_get_build_artifacts c i"
| "call_request c (Call_get_build_artifact i artifact_id) = client_get_build_artifact c i artifact_id"
| "call_request c (Call_get_build_artifact_diffoscope i artifact_id) = client_get_build_artifact_diffoscope c i artifact_id"
| "call_request c (Call_get_build_artifact_attestation i artifact_id) = client_get_build_artifact_attestation c i artifact_id"
| "call_request c (Call_get_dashboard origin_arg) = client_get_dashboard c origin_arg"
| "call_request c Call_get_distributions = client_get_distributions c"
| "call_request c (Call_get_distribution_releases distribution) = client_get_distribution_releases c distribution"
| "call_request c (Call_get_distribution_architectures distribution) = client_get_distribution_architectures c distribution"
| "call_request c (Call_get_distribution_components distribution) = client_get_distribution_components c distribution"
| "call_request c (Call_get_distribution_release_architectures distribution release) = client_get_distribution_release_architectures c distribution release"
| "call_request c (Call_get_distribution_release_components distribution release) = client_get_distribution_release_components c distribution release"
| "call_request c (Call_get_distribution_release_component_architectures distribution release component) = client_get_distribution_release_component_architectures c distribution release component"
| "call_request c Call_get_public_keys = client_get_public_keys c"
| "call_request c (Call_submit_package_report request) = client_submit_package_report c request"
| "call_request c (Call_get_source_packages page_arg origin_arg source_arg) = client_get_source_packages c page_arg origin_arg source_arg"
| "call_request c (Call_get_source_package i) = client_get_source_package c i"
| "call_request c (Call_get_binary_packages page_arg origin_arg binary_arg) = client_get_binary_packages c page_arg origin_arg binary_arg"
| "call_request c (Call_get_binary_package i) = client_get_binary_package c i"
| "call_request c (Call_get_queued_jobs page_arg origin_arg source_arg queue_arg) = client_get_queued_jobs c page_arg origin_arg source_arg queue_arg"
| "call_request c (Call_request_rebuild request) = client_request_rebuild c request"
| "call_request c (Call_get_queued_job i) = client_get_queued_job c i"
| "call_request c (Call_drop_queued_job i) = client_drop_queued_job c i"
| "call_request c (Call_drop_queued_jobs origin_arg source_arg) = client_drop_queued_jobs c origin_arg source_arg"
| "call_request c (Call_request_work request) = client_request_work c request"
| "call_request c (Call_ping_job i) = client_ping_job c i"
| "call_request c (Call_get_workers page_arg) = client_get_workers c page_arg"
| "call_request c (Call_register_worker request) = client_register_worker c request"
| "call_request c (Call_get_worker i) = client_get_worker c i"
| "call_request c (Call_unregister_worker i) = client_unregister_worker c i"
| "call_request c (Call_check_peers request) = client_check_peers c request"
| "call_request c (Call_get_peer_package_status distribution architecture name version) = client_get_peer_package_status c distribution architecture name version"
| "call_request c (Call_collect_stats request) = client_collect_stats c request"
| "call_request c (Call_get_stats stats_arg) = client_get_stats c stats_arg"

section \<open>The routes of the daemon\<close>

datatype handler =
    H_get_builds
  | H_submit_rebuild_report
  | H_get_build
  | H_get_build_log
  | H_get_build_artifacts
  | H_get_build_artifact
  | H_get_build_artifact_diffoscope
  | H_get_build_artifact_attestation
  | H_get_dashboard
  | H_get_stats
  | H_collect_stats
  | H_get_distributions
  | H_get_distribution_releases
  | H_get_distribution_architectures
  | H_get_distribution_components
  | H_get_distribution_release_architectures
  | H_get_distribution_release_components
  | H_get_distribution_release_component_architectures
  | H_get_public_key
  | H_submit_package_report
  | H_get_source_packages
  | H_get_source_package
  | H_get_binary_packages
  | H_get_binary_package
  | H_get_queued_jobs
  | H_request_rebuild
  | H_get_queued_job
  | H_drop_queued_job
  | H_drop_queued_jobs
  | H_ping_job
  | H_request_work
  | H_get_workers
  | H_register_worker
  | H_get_worker
  | H_unregister_worker
  | H_list_peers
  | H_check_peers
  | H_get_peer_package

datatype path_pattern = Lit string | Id_hole | Text_hole

datatype path_arg = Id int | Segment string

text \<open>Reading an \<open>i32\<close>.\<close>

definition parse_i32 :: "string \<Rightarrow> int option" where
  "parse_i32 s =
     (case (case s of
              [] \<Rightarrow> None
            | c # rest \<Rightarrow>
                if c = CHR ''-'' then map_option uminus (parse_digits rest)
                else if c = CHR ''+'' then parse_digits rest
                else parse_digits s) of
        None \<Rightarrow> None
      | Some n \<Rightarrow> if - (2 ^ 31) \<le> n \<and> n < 2 ^ 31 then Some n else None)"

fun match_pattern :: "path_pattern list \<Rightarrow> string list \<Rightarrow> path_arg list option" where
  "match_pattern [] [] = Some []"
| "match_pattern (Lit l # ps) (s # ss) = (if s = l then match_pattern ps ss else None)"
| "match_pattern (Id_hole # ps) (s # ss) =
     (case parse_i32 s of
        None \<Rightarrow> None
      | Some n \<Rightarrow> map_option (Cons (Id n)) (match_pattern ps ss))"
| "match_pattern (Text_hole # ps) (s # ss) = map_option (Cons (Segment s)) (match_pattern ps ss)"
| "match_pattern _ _ = None"

type_synonym route_entry = "http_method \<times> path_pattern list \<times> handler"

definition builds_routes :: "route_entry list" where
  "builds_routes =
    [(GET, [], H_get_builds),
     (POST, [], H_submit_rebuild_report),
     (GET, [Id_hole], H_get_build),
     (GET, [Id_hole, Lit ''log''], H_get_build_log),
     (GET, [Id_hole, Lit ''artifacts''], H_get_build_artifacts),
     (GET, [Id_hole, Lit ''artifacts'', Id_hole], H_get_build_artifact),
     (GET, [Id_hole, Lit ''artifacts'', Id_hole, Lit ''diffoscope''], H_get_build_artifact_diffoscope),
     (GET, [Id_hole, Lit ''artifacts'', Id_hole, Lit ''attestation''], H_get_build_artifact_attestation)]"

definition dashboard_routes :: "route_entry list" where
  "dashboard_routes =
    [(GET, [], H_get_dashboard)]"

definition stats_routes :: "route_entry list" where
  "stats_routes =
    [(GET, [], H_get_stats),
     (POST, [], H_collect_stats)]"

definition meta_routes :: "route_entry list" where
  "meta_routes =
    [(GET, [Lit ''distributions''], H_get_distributions),
     (GET, [Lit ''distributions'', Text_hole, Lit ''releases''], H_get_distribution_releases),
     (GET, [Lit ''distributions'', Text_hole, Lit ''architectures''], H_get_distribution_architectures),
     (GET, [Lit ''distributions'', Text_hole, Lit ''components''], H_get_distribution_components),
     (GET, [Lit ''distributions'', Text_hole, Lit ''releases'', Text_hole, Lit ''architectures''], H_get_distribution_release_architectures),
     (GET, [Lit ''distributions'', Text_hole, Lit ''releases'', Text_hole, Lit ''components''], H_get_distribution_release_components),
     (GET, [Lit ''distributions'', Text_hole, Lit ''releases'', Text_hole, Lit ''components'', Text_hole, Lit ''architectures''], H_get_distribution_release_component_architectures),
     (GET, [Lit ''public-keys''], H_get_public_key)]"

definition packages_routes :: "route_entry list" where
  "packages_routes =
    [(POST, [], H_submit_package_report),
     (GET, [Lit ''source''], H_get_source_packages),
     (GET, [Lit ''source'', Id_hole], H_get_source_package),
     (GET, [Lit ''binary''], H_get_binary_packages),
     (GET, [Lit ''binary'', Id_hole], H_get_binary_package)]"

definition queue_routes :: "route_entry list" where
  "queue_routes =
    [(GET, [], H_get_queued_jobs),
     (POST, [], H_request_rebuild),
     (GET, [Id_hole], H_get_queued_job),
     (DELETE, [Id_hole], H_drop_queued_job),
     (DELETE, [], H_drop_queued_jobs),
     (POST, [Id_hole, Lit ''ping''], H_ping_job),
     (POST, [Lit ''pop''], H_request_work)]"

definition workers_routes :: "route_entry list" where
  "workers_routes =
    [(GET, [], H_get_workers),
     (POST, [], H_register_worker),
     (GET, [Id_hole], H_get_worker),
     (DELETE, [Id_hole], H_unregister_worker)]"

definition peers_routes :: "route_entry list" where
  "peers_routes =
    [(GET, [], H_list_peers),
     (POST, [Lit ''check''], H_check_peers),
     (GET, [Lit ''package''], H_get_peer_package)]"

definition v1_scopes :: "(string \<times> route_entry list) list" where
  "v1_scopes =
    [(''builds'', builds_routes),
     (''dashboard'', dashboard_routes),
     (''stats'', stats_routes),
     (''meta'', meta_routes),
     (''packages'', packages_routes),
     (''queue'', queue_routes),
     (''workers'', workers_routes),
     (''peers'', peers_routes)]"

fun find_route :: "route_entry list \<Rightarrow> http_method \<Rightarrow> string list \<Rightarrow> (handler \<times> path_arg list) option" where
  "find_route [] m path = None"
| "find_route ((m', p, h) # es) m path =
     (case (if m' = m then match_pattern p path else None) of
        Some as \<Rightarrow> Some (h, as)
      | None \<Rightarrow> find_route es m path)"

text \<open>\<open>NormalizePath\<close> drops empty segments. An id that is not a number is not found.\<close>

definition route_request :: "http_method \<Rightarrow> string list \<Rightarrow> (handler \<times> path_arg list) option" where
  "route_request m path =
     (case filter (\<lambda>s. s \<noteq> []) path of
        api # v1 # scope # rest \<Rightarrow>
          if api = ''api'' \<and> v1 = ''v1'' then
            (case map_of v1_scopes scope of
               None \<Rightarrow> None
             | Some entries \<Rightarrow> find_route entries m rest)
          else None
      | _ \<Rightarrow> None)"

section \<open>Every call reaches its handler\<close>

fun call_target :: "api_call \<Rightarrow> handler \<times> path_arg list" where
  "call_target (Call_get_builds page_arg origin_arg source_arg) = (H_get_builds, [])"
| "call_target (Call_submit_build_report request) = (H_submit_rebuild_report, [])"
| "call_target (Call_get_build i) = (H_get_build, [Id i])"
| "call_target (Call_get_build_log i) = (H_get_build_log, [Id i])"
| "call_target (Call_get_build_artifacts i) = (H_get_build_artifacts, [Id i])"
| "call_target (Call_get_build_artifact i artifact_id) = (H_get_build_artifact, [Id i, Id artifact_id])"
| "call_target (Call_get_build_artifact_diffoscope i artifact_id) = (H_get_build_artifact_diffoscope, [Id i, Id artifact_id])"
| "call_target (Call_get_build_artifact_attestation i artifact_id) = (H_get_build_artifact_attestation, [Id i, Id artifact_id])"
| "call_target (Call_get_dashboard origin_arg) = (H_get_dashboard, [])"
| "call_target Call_get_distributions = (H_get_distributions, [])"
| "call_target (Call_get_distribution_releases distribution) = (H_get_distribution_releases, [Segment distribution])"
| "call_target (Call_get_distribution_architectures distribution) = (H_get_distribution_architectures, [Segment distribution])"
| "call_target (Call_get_distribution_components distribution) = (H_get_distribution_components, [Segment distribution])"
| "call_target (Call_get_distribution_release_architectures distribution release) = (H_get_distribution_release_architectures, [Segment distribution, Segment release])"
| "call_target (Call_get_distribution_release_components distribution release) = (H_get_distribution_release_components, [Segment distribution, Segment release])"
| "call_target (Call_get_distribution_release_component_architectures distribution release component) = (H_get_distribution_release_component_architectures, [Segment distribution, Segment release, Segment component])"
| "call_target Call_get_public_keys = (H_get_public_key, [])"
| "call_target (Call_submit_package_report request) = (H_submit_package_report, [])"
| "call_target (Call_get_source_packages page_arg origin_arg source_arg) = (H_get_source_packages, [])"
| "call_target (Call_get_source_package i) = (H_get_source_package, [Id i])"
| "call_target (Call_get_binary_packages page_arg origin_arg binary_arg) = (H_get_binary_packages, [])"
| "call_target (Call_get_binary_package i) = (H_get_binary_package, [Id i])"
| "call_target (Call_get_queued_jobs page_arg origin_arg source_arg queue_arg) = (H_get_queued_jobs, [])"
| "call_target (Call_request_rebuild request) = (H_request_rebuild, [])"
| "call_target (Call_get_queued_job i) = (H_get_queued_job, [Id i])"
| "call_target (Call_drop_queued_job i) = (H_drop_queued_job, [Id i])"
| "call_target (Call_drop_queued_jobs origin_arg source_arg) = (H_drop_queued_jobs, [])"
| "call_target (Call_request_work request) = (H_request_work, [])"
| "call_target (Call_ping_job i) = (H_ping_job, [Id i])"
| "call_target (Call_get_workers page_arg) = (H_get_workers, [])"
| "call_target (Call_register_worker request) = (H_register_worker, [])"
| "call_target (Call_get_worker i) = (H_get_worker, [Id i])"
| "call_target (Call_unregister_worker i) = (H_unregister_worker, [Id i])"
| "call_target (Call_check_peers request) = (H_check_peers, [])"
| "call_target (Call_get_peer_package_status distribution architecture name version) = (H_get_peer_package, [])"
| "call_target (Call_collect_stats request) = (H_collect_stats, [])"
| "call_target (Call_get_stats stats_arg) = (H_get_stats, [])"

definition id_ok :: "int \<Rightarrow> bool" where
  "id_ok n \<longleftrightarrow> - (2 ^ 31) \<le> n \<and> n < 2 ^ 31"

definition name_ok :: "string \<Rightarrow> bool" where
  "name_ok s \<longleftrightarrow> s \<noteq> [] \<and> CHR ''/'' \<notin> set s \<and> s \<noteq> ''.'' \<and> s \<noteq> ''..''"

fun arg_ok :: "path_arg \<Rightarrow> bool" where
  "arg_ok (Id n) = id_ok n"
| "arg_ok (Segment s) = name_ok s"

end
