(* ===== verification/Attestation.thy ===== *)
theory Attestation
  imports Builds
begin

text \<open>
  Signed attestations (\<open>daemon/src/attestation.rs\<close>) and the key files they are signed with
  (\<open>load_or_create\<close> of \<open>common/src/utils.rs\<close>). The in-toto and PEM crates are parameters: a
  \<open>metablock\<close> is in-toto's pair of metadata and signatures, of which the code reads both fields.
\<close>

section \<open>The crates\<close>

record ('m, 's) metablock =
  signatures :: "'s list"
  metadata :: 'm

text \<open>\<open>Metablock::new\<close> signs metadata with keys; here there is always one.\<close>

record ('m, 's, 'priv, 'pub, 'id) in_toto =
  it_parse :: "bytes \<Rightarrow> ('m, 's) metablock result"
  it_serialize :: "('m, 's) metablock \<Rightarrow> bytes result"
  it_new :: "'m \<Rightarrow> 'priv \<Rightarrow> ('m, 's) metablock result"
  it_sig_key_id :: "'s \<Rightarrow> 'id"
  it_key_id :: "'pub \<Rightarrow> 'id"
  it_public :: "'priv \<Rightarrow> 'pub"
  it_keygen :: "bytes result"
  it_from_pkcs8 :: "bytes \<Rightarrow> 'priv result"
  it_from_spki :: "bytes \<Rightarrow> 'pub result"
  it_as_spki :: "'pub \<Rightarrow> bytes result"

text \<open>The PEM crate: a block is a tag and its contents.\<close>

record pem_crate =
  pem_encode :: "string \<times> bytes \<Rightarrow> bytes"
  pem_parse_many :: "bytes \<Rightarrow> (string \<times> bytes) list result"

section \<open>Keys\<close>

definition pem_public_key :: string where "pem_public_key = ''PUBLIC KEY''"
definition pem_private_key :: string where "pem_private_key = ''PRIVATE KEY''"

definition attestation_keygen :: "('m, 's, 'priv, 'pub, 'id) in_toto \<Rightarrow> (bytes \<times> 'pub) result" where
  "attestation_keygen it =
     (case it_keygen it of
        Inl e \<Rightarrow> Inl e
      | Inr privkey \<Rightarrow> map_sum id (\<lambda>k. (privkey, it_public it k)) (it_from_pkcs8 it privkey))"

definition privkey_to_pem :: "pem_crate \<Rightarrow> bytes \<Rightarrow> bytes" where
  "privkey_to_pem pem privkey = pem_encode pem (pem_private_key, privkey)"

definition pubkey_to_pem ::
  "('m, 's, 'priv, 'pub, 'id) in_toto \<Rightarrow> pem_crate \<Rightarrow> 'pub \<Rightarrow> bytes result" where
  "pubkey_to_pem it pem pubkey =
     map_sum id (\<lambda>spki. pem_encode pem (pem_public_key, spki)) (it_as_spki it pubkey)"

definition keygen_pem ::
  "('m, 's, 'priv, 'pub, 'id) in_toto \<Rightarrow> pem_crate \<Rightarrow> (bytes \<times> bytes) result" where
  "keygen_pem it pem =
     (case attestation_keygen it of
        Inl e \<Rightarrow> Inl e
      | Inr (privkey, pubkey) \<Rightarrow>
          map_sum id (Pair (privkey_to_pem pem privkey)) (pubkey_to_pem it pem pubkey))"

definition pem_to_privkeys ::
  "('m, 's, 'priv, 'pub, 'id) in_toto \<Rightarrow> pem_crate \<Rightarrow> bytes \<Rightarrow> 'priv result list result" where
  "pem_to_privkeys it pem buf =
     map_sum id (\<lambda>pems. map (\<lambda>(tag, contents). it_from_pkcs8 it contents)
       (filter (\<lambda>(tag, contents). tag = pem_private_key) pems)) (pem_parse_many pem buf)"

definition pem_to_pubkeys ::
  "('m, 's, 'priv, 'pub, 'id) in_toto \<Rightarrow> pem_crate \<Rightarrow> bytes \<Rightarrow> 'pub result list result" where
  "pem_to_pubkeys it pem buf =
     map_sum id (\<lambda>pems. map (\<lambda>(tag, contents). it_from_spki it contents)
       (filter (\<lambda>(tag, contents). tag = pem_public_key) pems)) (pem_parse_many pem buf)"

text \<open>
  \<open>load_or_create\<close> with the file before and after. \<open>create\<close> is whether \<open>create_new\<close> succeeds, which it
  never does when the file exists; \<open>readable\<close> is whether an existing file can be read. The file
  stays, empty or in part, when the generator or the write fails.
\<close>

definition load_or_create ::
  "bool \<Rightarrow> bool \<Rightarrow> nat option \<Rightarrow> bytes result \<Rightarrow> bytes option \<Rightarrow> bytes result \<times> bytes option" where
  "load_or_create create readable fault gen file =
     (if create \<and> file = None then
        (case gen of
           Inl e \<Rightarrow> (Inl e, Some [])
         | Inr data \<Rightarrow> map_prod (map_sum id (\<lambda>_. data)) Some (write_all fault data))
      else
        (case file of
           Some data \<Rightarrow> (if readable then Inr data else Inl LibraryError, file)
         | None \<Rightarrow> (Inl LibraryError, file)))"

definition load_or_create_privkey_pem ::
  "('m, 's, 'priv, 'pub, 'id) in_toto \<Rightarrow> pem_crate \<Rightarrow> bool \<Rightarrow> bool \<Rightarrow> nat option \<Rightarrow> bytes option \<Rightarrow>
   'priv result \<times> bytes option" where
  "load_or_create_privkey_pem it pem create readable fault file =
     (case load_or_create create readable fault (map_sum id (privkey_to_pem pem) (it_keygen it)) file of
        (Inl e, file1) \<Rightarrow> (Inl e, file1)
      | (Inr privkey, file1) \<Rightarrow>
          (case pem_to_privkeys it pem privkey of
             Inl e \<Rightarrow> Inl e
           | Inr [] \<Rightarrow> Inl LibraryError
           | Inr (k # _) \<Rightarrow> k, file1))"

section \<open>Attestations\<close>

definition has_signature ::
  "('m, 's, 'priv, 'pub, 'id) in_toto \<Rightarrow> 'pub \<Rightarrow> ('m, 's) metablock \<Rightarrow> bool" where
  "has_signature it pubkey m =
     list_ex (\<lambda>sig. it_sig_key_id it sig = it_key_id it pubkey) (signatures m)"

definition attestation_sign ::
  "('m, 's, 'priv, 'pub, 'id) in_toto \<Rightarrow> 'priv \<Rightarrow> ('m, 's) metablock \<Rightarrow> ('m, 's) metablock result" where
  "attestation_sign it privkey m =
     map_sum id (\<lambda>new. m\<lparr>signatures := signatures m @ signatures new\<rparr>) (it_new it (metadata m) privkey)"

definition to_compressed_bytes ::
  "('m, 's, 'priv, 'pub, 'id) in_toto \<Rightarrow> encoder \<Rightarrow> ('m, 's) metablock \<Rightarrow> bytes result" where
  "to_compressed_bytes it enc m =
     (case it_serialize it m of Inl e \<Rightarrow> Inl e | Inr json \<Rightarrow> zstd_compress enc json)"

text \<open>The attestation in stored bytes, compressed or not.\<close>

definition read_attestation ::
  "('m, 's, 'priv, 'pub, 'id) in_toto \<Rightarrow> (bytes \<Rightarrow> bytes result) \<Rightarrow> bytes \<Rightarrow> ('m, 's) metablock result" where
  "read_attestation it dec b =
     (case (if is_zstd_compressed b then dec b else Inr b) of
        Inl e \<Rightarrow> Inl e
      | Inr decompressed \<Rightarrow> it_parse it decompressed)"

definition compressed_attestation_sign_if_necessary ::
  "('m, 's, 'priv, 'pub, 'id) in_toto \<Rightarrow> encoder \<Rightarrow> (bytes \<Rightarrow> bytes result) \<Rightarrow> 'priv \<Rightarrow> bytes \<Rightarrow>
   (bytes \<times> bool) result" where
  "compressed_attestation_sign_if_necessary it enc dec privkey b =
     (case read_attestation it dec b of
        Inl e \<Rightarrow> Inl e
      | Inr attestation \<Rightarrow>
          if has_signature it (it_public it privkey) attestation then Inr (b, False)
          else
            (case attestation_sign it privkey attestation of
               Inl e \<Rightarrow> Inl e
             | Inr signed_attestation \<Rightarrow>
                 map_sum id (\<lambda>compressed. (compressed, True))
                   (to_compressed_bytes it enc signed_attestation)))"

end
