(* ===== verification/WorkerMain.thy ===== *)
theory WorkerMain
  imports WorkerLoop Client Attestation Workers Sample
begin

text \<open>
  The start of a worker (\<open>worker/src/main.rs\<close>, \<open>auth.rs\<close>, \<open>setup.rs\<close>): its key, its registration with
  the daemon and the single build of the command line. That a registered worker is admitted afterwards
  is a property of the client and the daemon together.
\<close>

section \<open>The key\<close>

record 'priv profile =
  prof_pubkey :: string
  prof_privkey :: 'priv

text \<open>\<open>encode\<close> is the base64 text of the bytes of a public key.\<close>

definition load_key ::
  "('m, 's, 'priv, 'pub, 'id) in_toto \<Rightarrow> ('pub \<Rightarrow> string) \<Rightarrow> bool \<Rightarrow> bool \<Rightarrow> nat option \<Rightarrow> bytes option \<Rightarrow>
   'priv profile result \<times> bytes option" where
  "load_key it encode create readable fault file =
     map_prod (\<lambda>privkey.
         (case privkey of
            Inl e \<Rightarrow> Inl e
          | Inr pkcs8 \<Rightarrow>
              map_sum id (\<lambda>k. \<lparr>prof_pubkey = encode (it_public it k), prof_privkey = k\<rparr>)
                (it_from_pkcs8 it pkcs8))) id
       (load_or_create create readable fault (it_keygen it) file)"

text \<open>\<open>removable\<close> is whether the key file of version 1 can be deleted; a failure is only logged.\<close>

definition load_profile ::
  "('m, 's, 'priv, 'pub, 'id) in_toto \<Rightarrow> ('pub \<Rightarrow> string) \<Rightarrow> bool \<Rightarrow> bool \<Rightarrow> bool \<Rightarrow> nat option \<Rightarrow>
   (string \<rightharpoonup> bytes) \<Rightarrow> 'priv profile result \<times> (string \<rightharpoonup> bytes)" where
  "load_profile it encode removable create readable fault fs =
     (let fs1 = (if removable then fs(''rebuilder.key'' := None) else fs)
      in map_prod id (\<lambda>file. fs1(''rebuilder.v2.key'' := file))
           (load_key it encode create readable fault (fs1 ''rebuilder.v2.key'')))"

definition worker_dir :: "string \<Rightarrow> string" where
  "worker_dir name = ''/var/lib/rebuilderd-worker/'' @ name"

section \<open>Connecting\<close>

text \<open>\<open>system\<close> is the configuration of the system, of which the client uses the cookies of the
  endpoints.\<close>

definition connect_client ::
  "(string \<Rightarrow> string list option) \<Rightarrow> (string \<Rightarrow> string option) result \<Rightarrow> string option \<Rightarrow> worker_config_file \<Rightarrow>
   'priv profile \<Rightarrow> string option \<Rightarrow> client result" where
  "connect_client parse_url system endpoint_arg conf profile cookie =
     (case system of
        Inl e \<Rightarrow> Inl e
      | Inr cookie_of \<Rightarrow>
         (case (case endpoint_arg of Some e \<Rightarrow> Some e | None \<Rightarrow> wc_endpoint conf) of
            None \<Rightarrow> Inl LibraryError
          | Some endpoint \<Rightarrow>
              worker_client (prof_pubkey profile) (wc_signup_secret conf) cookie
                (new_client parse_url cookie_of None (Some endpoint))))"

definition signup_request :: "string option \<Rightarrow> register_worker_request" where
  "signup_request name = \<lparr>rw_name = (case name of Some n \<Rightarrow> n | None \<Rightarrow> ''worker'')\<rparr>"

text \<open>A worker without a signup secret does not register.\<close>

definition worker_connect ::
  "(client \<Rightarrow> register_worker_request \<Rightarrow> unit result) \<Rightarrow> (client \<Rightarrow> worker_action list) \<Rightarrow> client result \<Rightarrow>
   worker_config_file \<Rightarrow> string option \<Rightarrow> worker_action list result" where
  "worker_connect register loop client conf name =
     (case client of
        Inl e \<Rightarrow> Inl e
      | Inr c \<Rightarrow>
         (case (if wc_signup_secret conf \<noteq> None then register c (signup_request name) else Inr ()) of
            Inl e \<Rightarrow> Inl e
          | Inr _ \<Rightarrow> Inr (loop c)))"

section \<open>A single build\<close>

record build_args =
  ba_distro :: string
  ba_artifact_url :: string
  ba_input_url :: "string option"
  ba_script_location :: "string option"
  ba_gen_diffoscope :: bool

definition build_backend :: "worker_config_file \<Rightarrow> build_args \<Rightarrow> backend_config result" where
  "build_backend conf a =
     (case ba_script_location a of
        Some script \<Rightarrow> Inr \<lparr>be_path = script, be_diff_post_script_path = None\<rparr>
      | None \<Rightarrow>
         (case map_of (wc_backends conf) (ba_distro a) of
            None \<Rightarrow> Inl LibraryError
          | Some backend \<Rightarrow> Inr backend))"

definition build_context :: "worker_config_file \<Rightarrow> build_args \<Rightarrow> string option \<Rightarrow> backend_config \<Rightarrow> rebuild_context" where
  "build_context conf a name backend =
     \<lparr>ctx_artifacts = [\<lparr>qa_name = ''anonymous'', qa_version = ''0.0.0'', qa_architecture = ''amd64'',
        qa_url = ba_artifact_url a\<rparr>],
      ctx_input_url = ba_input_url a, ctx_backend = backend, ctx_build = wc_build conf,
      ctx_diffoscope = \<lparr>df_enabled = ba_gen_diffoscope a, df_args = [], df_timeout = None,
        df_max_bytes = None\<rparr>,
      ctx_worker_name = name\<rparr>"

text \<open>What is printed: the diffoscope output of each artifact that is not good.\<close>

definition worker_build ::
  "'link worker_env \<Rightarrow> worker_config_file \<Rightarrow> build_args \<Rightarrow> string option \<Rightarrow> bytes result" where
  "worker_build env conf a name =
     (case build_backend conf a of
        Inl e \<Rightarrow> Inl e
      | Inr backend \<Rightarrow>
          map_sum id (\<lambda>res. concat (map (\<lambda>r.
              if rar_status r = ArtifactGood then []
              else (case rar_diffoscope r of None \<Rightarrow> [] | Some diff \<Rightarrow> diff)) res))
            (fst (rebuild_job env (build_context conf a name backend) [])))"

section \<open>Signing up\<close>

text \<open>A request of a client: the daemon sees the credentials that the client sends.\<close>

definition sent_by :: "client \<Rightarrow> http_request \<Rightarrow> bool" where
  "sent_by c req \<longleftrightarrow> list_all (\<lambda>k. rq_headers req k = map_option Text (map_of (authenticated c) k))
     [auth_cookie_header, worker_key_header, signup_secret_header]"

lemma connect_client_Inr:
  assumes "connect_client parse_url system endpoint_arg conf profile cookie = Inr c"
  shows "cl_worker_key c = Some (prof_pubkey profile) \<and> cl_signup_secret c = wc_signup_secret conf"
  using assms
  by (auto simp: connect_client_def worker_client_def new_client_def Let_def split: sum.splits option.splits)

lemma sent_headers:
  assumes "sent_by c req"
  shows "header req worker_key_header = (case cl_worker_key c of Some k \<Rightarrow> Inr k | None \<Rightarrow> Inl MissingHeader)"
    and "header req signup_secret_header = (case cl_signup_secret c of Some k \<Rightarrow> Inr k | None \<Rightarrow> Inl MissingHeader)"
  using assms
  by (auto simp: sent_by_def header_def authenticated_def auth_cookie_header_def worker_key_header_def
      signup_secret_header_def split: option.split)

lemma upserted_worker_key:
  "nw_key n \<in> w_key ` set (rows (workers (snd (worker_upsert n d))))"
proof -
  have "w_key (fst (worker_upsert n d)) = nw_key n"
    using worker_table.upsert_row_key[of n "workers d"] by (simp only: worker_upsert_def fst_map_prod id_apply)
  then show ?thesis using worker_upsert_row[of n d] by (metis imageI)
qed

lemma get_and_refresh_known:
  assumes "key \<in> w_key ` set (rows (workers d))"
  obtains w d' where "get_and_refresh key now d = (Inr w, d')" "w_key w = key"
proof (cases "filter (\<lambda>w. w_key w = key) (rows (workers d))")
  case Nil
  with assms show thesis by (auto simp: filter_empty_conv)
next
  case (Cons w ws)
  then have "w_key w = key" by (auto simp: filter_eq_Cons_iff)
  with Cons show thesis
    by (intro that[of "w\<lparr>w_last_ping := now, w_online := True\<rparr>"]) (simp_all add: get_and_refresh_def)
qed

text \<open>C27: A worker that signs up is admitted from then on. Let the daemon ask for a signup secret and the
  worker be configured with that secret, and let its key be on the allow list if there is one. Then
  registering is accepted, and each later request of the worker passes the worker check under its own
  key, in every database that still has the worker. With any other secret, or none, registering is
  refused and changes nothing; and a worker whose key is not in the database is refused.\<close>

theorem worker_signup:
  assumes "connect_client parse_url system endpoint_arg conf profile cookie = Inr c"
    and "signup_secret (cfg_worker cfg) = Some secret"
    and "authorized_workers (cfg_worker cfg) = [] \<or> prof_pubkey profile \<in> set (authorized_workers (cfg_worker cfg))"
    and "sent_by c req" "client_ip parse_ip cfg req = Inr ip"
  shows "(if wc_signup_secret conf = Some secret
      then fst (register_worker parse_ip cfg req now request d) = NoContent204 \<and>
        prof_pubkey profile \<in> w_key ` set (rows (workers (snd (register_worker parse_ip cfg req now request d))))
      else register_worker parse_ip cfg req now request d = (Forbidden403, d)) \<and>
    (\<forall>d' req' now'. sent_by c req' \<longrightarrow>
      (if prof_pubkey profile \<in> w_key ` set (rows (workers d'))
       then \<exists>w e. auth_worker cfg req' now' d' = (Inr w, e) \<and> w_key w = prof_pubkey profile
       else auth_worker cfg req' now' d' = (Inl NotRegistered, d')))"
proof -
  note cl = connect_client_Inr[OF assms(1)]
  note hdr = sent_headers[OF assms(4)]
  have allowed: "\<not> not_allow_listed cfg (prof_pubkey profile)"
    using assms(3) by (auto simp: not_allow_listed_iff)
  let ?n = "\<lparr>nw_key = prof_pubkey profile, nw_name = rw_name request, nw_address = ip, nw_status = None,
    nw_last_ping = now, nw_online = True\<rparr>"
  have signup: "signup cfg req = Inr () \<longleftrightarrow> wc_signup_secret conf = Some secret"
    using cl hdr allowed assms(2) by (auto simp: signup_def split: option.split)
  have registered: "if wc_signup_secret conf = Some secret
      then register_worker parse_ip cfg req now request d = (NoContent204, snd (worker_upsert ?n d))
      else register_worker parse_ip cfg req now request d = (Forbidden403, d)"
    using signup cl hdr assms(5) by (auto simp: register_worker_def split: sum.split)
  have "if prof_pubkey profile \<in> w_key ` set (rows (workers d'))
      then \<exists>w e. auth_worker cfg req' now' d' = (Inr w, e) \<and> w_key w = prof_pubkey profile
      else auth_worker cfg req' now' d' = (Inl NotRegistered, d')" if "sent_by c req'" for d' req' now'
  proof -
    have "header req' worker_key_header = Inr (prof_pubkey profile)"
      using sent_headers(1)[OF that] cl by simp
    then have "auth_worker cfg req' now' d' =
        (if prof_pubkey profile \<in> w_key ` set (rows (workers d'))
         then get_and_refresh (prof_pubkey profile) now' d' else (Inl NotRegistered, d'))"
      using allowed assms(2) by (auto simp: auth_worker_def sql_exists_iff image_iff)
    then show ?thesis by (auto intro: get_and_refresh_known[of "prof_pubkey profile" d' now'])
  qed
  then have "\<forall>d' req' now'. sent_by c req' \<longrightarrow>
      (if prof_pubkey profile \<in> w_key ` set (rows (workers d'))
       then \<exists>w e. auth_worker cfg req' now' d' = (Inr w, e) \<and> w_key w = prof_pubkey profile
       else auth_worker cfg req' now' d' = (Inl NotRegistered, d'))" by blast
  with registered upserted_worker_key[of ?n d] show ?thesis by (simp split: if_splits)
qed

definition sample_profile :: "unit profile" where
  "sample_profile = \<lparr>prof_pubkey = ''k2'', prof_privkey = ()\<rparr>"

definition signup_conf :: worker_config_file where
  "signup_conf = default_worker_config\<lparr>wc_signup_secret := Some ''s''\<rparr>"

definition signup_cfg :: config where
  "signup_cfg = sample_cfg\<lparr>cfg_worker := \<lparr>authorized_workers = [], signup_secret = Some ''s''\<rparr>\<rparr>"

definition client_req :: "client \<Rightarrow> http_request" where
  "client_req c = \<lparr>rq_headers = \<lambda>k. map_option Text (map_of (authenticated c) k), rq_peer_addr = Some ''p'',
     rq_accepts_zstd = False\<rparr>"

theorem worker_signup_witness:
  "\<exists>c w e. connect_client (\<lambda>_. Some [[]]) (Inr Map.empty) (Some ''e'') signup_conf sample_profile None = Inr c \<and>
    fst (register_worker Some signup_cfg (client_req c) 5 (signup_request None) sample_db) = NoContent204 \<and>
    auth_worker signup_cfg (client_req c) 9
      (snd (register_worker Some signup_cfg (client_req c) 5 (signup_request None) sample_db)) = (Inr w, e) \<and>
    w_key w = ''k2''"
proof -
  obtain c where c: "connect_client (\<lambda>_. Some [[]]) (Inr Map.empty) (Some ''e'') signup_conf sample_profile None = Inr c"
    by (simp add: connect_client_def signup_conf_def default_worker_config_def worker_client_def new_client_def Let_def)
  have sent: "sent_by c (client_req c)" by (simp add: sent_by_def client_req_def)
  have ip: "client_ip Some signup_cfg (client_req c) = Inr ''p''"
    by (simp add: client_ip_def signup_cfg_def sample_cfg_def client_req_def)
  have facts: "signup_secret (cfg_worker signup_cfg) = Some ''s''" "authorized_workers (cfg_worker signup_cfg) = []"
    "wc_signup_secret signup_conf = Some ''s''" "prof_pubkey sample_profile = ''k2''"
    by (simp_all add: signup_cfg_def signup_conf_def sample_profile_def)
  let ?r = "register_worker Some signup_cfg (client_req c) 5 (signup_request None) sample_db"
  note * = worker_signup[OF c facts(1) disjI1[OF facts(2)] sent ip, of 5 "signup_request None" sample_db]
  have reg: "fst ?r = NoContent204" "''k2'' \<in> w_key ` set (rows (workers (snd ?r)))"
    using conjunct1[OF *] by (simp_all only: facts if_True)
  have "\<exists>w e. auth_worker signup_cfg (client_req c) 9 (snd ?r) = (Inr w, e) \<and> w_key w = ''k2''"
    using conjunct2[OF *] sent reg(2) by (metis facts(4))
  with c reg(1) show ?thesis by blast
qed

end
