(* ===== verification/ClientProps.thy ===== *)
theory ClientProps
  imports Client
begin

text \<open>
  The client and the daemon agree on the interface: every call of the client reaches the handler
  it is meant for, with its arguments, and carries the credentials of the client.
\<close>

section \<open>Numbers in paths\<close>

lemma of_char_digit: "k < 10 \<Longrightarrow> (of_char (digit k) :: nat) = 48 + k"
  by (simp add: digit_def of_char_of)

lemma show_nat_digits: "list_all (\<lambda>c. 48 \<le> (of_char c :: nat) \<and> of_char c \<le> (57 :: nat)) (show_nat n)"
proof (induction n rule: show_nat.induct)
  case (1 n)
  have "of_char (digit (n mod 10)) = 48 + n mod 10" by (rule of_char_digit) simp
  with 1 show ?case by (subst show_nat.simps) (auto simp: of_char_digit)
qed

lemma fold_show_nat: "fold (\<lambda>c n. 10 * n + (of_char c - 48)) (show_nat n) 0 = n"
proof (induction n rule: show_nat.induct)
  case (1 n)
  have "of_char (digit (n mod 10)) = 48 + n mod 10" by (rule of_char_digit) simp
  with 1 show ?case by (subst show_nat.simps) (auto simp: of_char_digit)
qed

lemma parse_digits_show: "parse_digits (show_nat n) = Some (int n)"
  using show_nat_digits[of n] fold_show_nat[of n] by (simp add: parse_digits_def)

lemma show_nat_chars: "c \<in> set (show_nat n) \<Longrightarrow> 48 \<le> (of_char c :: nat) \<and> of_char c \<le> (57 :: nat)"
  using show_nat_digits[of n] by (simp add: list_all_iff)

lemma show_int_chars: "c \<in> set (show_int n) \<Longrightarrow> c \<noteq> CHR ''/'' \<and> c \<noteq> CHR ''.''"
  using show_nat_chars[of c] by (fastforce simp: show_int_def split: if_splits)

text \<open>An id that the client prints into a path is the id that the daemon reads from it.\<close>

lemma parse_i32_show:
  assumes "id_ok n"
  shows "parse_i32 (show_int n) = Some n"
proof (cases "n < 0")
  case True
  with assms show ?thesis by (simp add: parse_i32_def show_int_def parse_digits_show id_ok_def)
next
  case False
  obtain c rest where c: "show_nat (nat n) = c # rest" by (cases "show_nat (nat n)") auto
  then have "c \<noteq> CHR ''-''" "c \<noteq> CHR ''+''" using show_nat_chars[of c "nat n"] by auto
  with c False assms parse_digits_show[of "nat n"] show ?thesis
    by (simp add: parse_i32_def show_int_def id_ok_def)
qed

section \<open>Paths\<close>

lemma split_on_app: "c \<notin> set p \<Longrightarrow> split_on c (p @ c # s) = p # split_on c s"
  by (induction p) auto

lemma split_on_last: "c \<notin> set p \<Longrightarrow> split_on c p = [p]"
  by (induction p) auto

lemma name_ok_show_int: "name_ok (show_int n)"
proof -
  have "set (show_int n) \<inter> {CHR ''/'', CHR ''.''} = {}" using show_int_chars by blast
  moreover have "show_int n \<noteq> []" by (simp add: show_int_def)
  ultimately show ?thesis by (auto simp: name_ok_def)
qed

lemma split_on_path:
  "name_ok p \<Longrightarrow> split_on CHR ''/'' (p @ CHR ''/'' # s) = p # split_on CHR ''/'' s"
  "name_ok p \<Longrightarrow> split_on CHR ''/'' p = [p]"
  by (simp_all add: name_ok_def split_on_app split_on_last)

lemma fold_push_segment:
  "\<forall>s\<in>set ss. name_ok s \<Longrightarrow> base \<noteq> [[]] \<Longrightarrow> base \<noteq> [] \<Longrightarrow> fold push_segment ss base = base @ ss"
proof (induction ss arbitrary: base)
  case (Cons s ss)
  then have "push_segment s base = base @ [s]" by (simp add: push_segment_def name_ok_def)
  moreover have "base @ [s] \<noteq> [[]]" using Cons.prems by (cases base) auto
  ultimately show ?case using Cons by simp
qed simp

lemma url_join_root:
  assumes "cl_path c = [[]]" "split_on CHR ''/'' route = s # ss" "\<forall>x\<in>set (s # ss). name_ok x"
  shows "url_join c route = s # ss"
proof -
  have "push_segment s [[]] = [s]" "s \<noteq> []" using assms(3) by (auto simp: push_segment_def name_ok_def)
  with assms fold_push_segment[of ss "[s]"] show ?thesis by (simp add: url_join_def)
qed

definition plain_call :: "api_call \<Rightarrow> bool" where
  "plain_call a \<longleftrightarrow> list_all arg_ok (snd (call_target a))"

lemmas call_defs = send_encoded_def client_get_def client_post_def client_delete_def send_plain_def

lemma name_ok_simps [simp]:
  "name_ok (show_int n)" "name_ok ''api''" "name_ok ''v1''" "name_ok ''builds''" "name_ok ''log''"
  "name_ok ''artifacts''" "name_ok ''diffoscope''" "name_ok ''attestation''" "name_ok ''dashboard''"
  "name_ok ''meta''" "name_ok ''distributions''" "name_ok ''releases''" "name_ok ''architectures''"
  "name_ok ''components''" "name_ok ''public-keys''" "name_ok ''packages''" "name_ok ''source''"
  "name_ok ''binary''" "name_ok ''queue''" "name_ok ''pop''" "name_ok ''ping''" "name_ok ''workers''"
  "name_ok ''peers''" "name_ok ''check''" "name_ok ''package''" "name_ok ''stats''"
  by (simp_all add: name_ok_show_int) (simp_all add: name_ok_def)

section \<open>Every call is routed\<close>

lemma url_join_split:
  assumes "cl_path c = [[]]" "list_all name_ok (split_on CHR ''/'' route)" "split_on CHR ''/'' route \<noteq> []"
  shows "url_join c route = split_on CHR ''/'' route"
proof -
  obtain s ss where "split_on CHR ''/'' route = s # ss" using assms(3) by (cases "split_on CHR ''/'' route") auto
  with assms show ?thesis by (simp add: url_join_root list_all_iff)
qed

lemma parse_i32_pop: "parse_i32 ''pop'' = None"
  by (simp add: parse_i32_def parse_digits_def)

lemmas routes_defs = v1_scopes_def builds_routes_def dashboard_routes_def stats_routes_def
  meta_routes_def packages_routes_def queue_routes_def workers_routes_def peers_routes_def

lemma name_ok_nonempty: "name_ok s \<Longrightarrow> s \<noteq> []"
  by (simp add: name_ok_def)

lemma show_int_nonempty [simp]: "show_int n \<noteq> []"
  using name_ok_nonempty[OF name_ok_simps(1)] .

lemmas client_call_defs =
  client_get_builds_def client_submit_build_report_def client_get_build_def
  client_get_build_log_def client_get_build_artifacts_def client_get_build_artifact_def
  client_get_build_artifact_diffoscope_def client_get_build_artifact_attestation_def client_get_dashboard_def
  client_get_distributions_def client_get_distribution_releases_def client_get_distribution_architectures_def
  client_get_distribution_components_def client_get_distribution_release_architectures_def client_get_distribution_release_components_def
  client_get_distribution_release_component_architectures_def client_get_public_keys_def client_submit_package_report_def
  client_get_source_packages_def client_get_source_package_def client_get_binary_packages_def
  client_get_binary_package_def client_get_queued_jobs_def client_request_rebuild_def
  client_get_queued_job_def client_drop_queued_job_def client_drop_queued_jobs_def
  client_request_work_def client_ping_job_def client_get_workers_def
  client_register_worker_def client_get_worker_def client_unregister_worker_def
  client_check_peers_def client_get_peer_package_status_def client_collect_stats_def
  client_get_stats_def

text \<open>Every request carries the credentials the client was made with.\<close>

lemma call_headers: "set (authenticated c) \<subseteq> set (hc_headers (call_request c a))"
  by (cases a) (auto simp: client_call_defs call_defs Let_def)

text \<open>C30: Every call of a client whose endpoint is a host reaches the handler it is meant for, with
  its ids and names as the arguments, as long as the ids are \<open>i32\<close> and the names are segments.\<close>

theorem client_calls_routed:
  assumes "plain_call a" "cl_path c = [[]]"
  shows "route_request (hc_method (call_request c a)) (hc_path (call_request c a)) = Some (call_target a)"
  using assms
  by (cases a)
    (simp_all add: plain_call_def client_call_defs call_defs url_join_split split_on_path
      route_request_def routes_defs parse_i32_show parse_i32_pop name_ok_nonempty)

lemma client_calls_routed_witness:
  "route_request (hc_method (call_request \<lparr>cl_path = [[]], cl_is_default_endpoint = True,
       cl_auth_cookie = None, cl_worker_key = None, cl_signup_secret = None\<rparr> (Call_ping_job 7)))
     (hc_path (call_request \<lparr>cl_path = [[]], cl_is_default_endpoint = True,
       cl_auth_cookie = None, cl_worker_key = None, cl_signup_secret = None\<rparr> (Call_ping_job 7))) =
   Some (H_ping_job, [Id 7])"
  using client_calls_routed[of "Call_ping_job 7" "\<lparr>cl_path = [[]], cl_is_default_endpoint = True,
       cl_auth_cookie = None, cl_worker_key = None, cl_signup_secret = None\<rparr>"]
  by (simp add: plain_call_def id_ok_def)

end
