(* ===== verification/Daemon.thy ===== *)
theory Daemon
  imports V0Props ReportProps PackageProps StatsProps PeerProps Workers
begin

text \<open>
  The daemon as a whole: a step is one request that writes, or the end of a background comparison
  with peers, by anyone and at any time. Two things hold however the requests are ordered: the
  database stays well formed, and no build that was ever recorded is lost.
\<close>

section \<open>Steps\<close>

text \<open>What the daemon gets from elsewhere: codecs, signatures, regular expressions, peers.\<close>

record 're daemon_env =
  de_encode :: encoder
  de_decode :: "bytes \<Rightarrow> bytes result"
  de_lossy :: "bytes \<Rightarrow> string"
  de_sign :: "bytes \<Rightarrow> (bytes \<times> bool) result"
  de_regex :: "string \<Rightarrow> 're result"
  de_is_match :: "'re \<Rightarrow> string \<Rightarrow> bool result"
  de_parse_ip :: "string \<Rightarrow> string option"
  de_get_v1 :: get_v1
  de_get_v0 :: get_v0

text \<open>The requests that are not made by a worker on a job, and what the daemon does by itself.\<close>

inductive quiet_step :: "'re daemon_env \<Rightarrow> config \<Rightarrow> db \<Rightarrow> db \<Rightarrow> bool" for env cfg where
  step_sync: "quiet_step env cfg d (snd (submit_package_report cfg req now report d))"
| step_attestation: "quiet_step env cfg d
    (snd (get_build_artifact_attestation (de_decode env) (de_sign env) cfg req i a d))"
| step_rebuild: "quiet_step env cfg d (snd (request_rebuild cfg req now request d))"
| step_drop: "quiet_step env cfg d (snd (drop_queued_job cfg req i d))"
| step_drops: "quiet_step env cfg d (snd (drop_queued_jobs cfg req origin identity d))"
| step_register: "quiet_step env cfg d
    (snd (register_worker (de_parse_ip env) cfg req now registration d))"
| step_unregister: "quiet_step env cfg d (snd (unregister_worker cfg req now i d))"
| step_stats: "quiet_step env cfg d
    (snd (collect_stats (de_decode env) (de_lossy env) (de_regex env) (de_is_match env) cfg req
       stats_cfg now collect d))"
| step_peers: "quiet_step env cfg d (snd (check_peers cfg req comparison d))"
| step_compared: "run_peer_check (de_get_v1 env) (de_get_v0 env) completed clock dist arch dp dl d =
    Some (r, d') \<Longrightarrow> quiet_step env cfg d d'"
| step_list: "quiet_step env cfg d (snd (list_workers cfg req now d))"

text \<open>With the results.\<close>

inductive other_step :: "'re daemon_env \<Rightarrow> config \<Rightarrow> db \<Rightarrow> db \<Rightarrow> bool" for env cfg where
  step_report: "other_step env cfg d
    (snd (submit_rebuild_report (de_encode env) cfg req t0 now report d))"
| step_quiet: "quiet_step env cfg d d' \<Longrightarrow> other_step env cfg d d'"

inductive daemon_step :: "'re daemon_env \<Rightarrow> config \<Rightarrow> db \<Rightarrow> db \<Rightarrow> bool" for env cfg where
  step_work: "daemon_step env cfg d (snd (request_work cfg req t0 t1 t2 t3 request d))"
| step_ping: "daemon_step env cfg d (snd (ping_job cfg req t0 now i d))"
| step_other: "other_step env cfg d d' \<Longrightarrow> daemon_step env cfg d d'"

inductive daemon_reaches :: "'re daemon_env \<Rightarrow> db \<Rightarrow> db \<Rightarrow> bool" for env where
  reaches_start: "daemon_reaches env d d"
| reaches_step: "daemon_reaches env d e \<Longrightarrow> daemon_step env cfg e f \<Longrightarrow> daemon_reaches env d f"

lemma db_ok_quiet_step: "quiet_step env cfg d d' \<Longrightarrow> db_ok d \<Longrightarrow> db_ok d'"
  by (induction rule: quiet_step.induct) (auto intro: wf_intros db_ok_run_peer_check)

lemma db_ok_other_step: "other_step env cfg d d' \<Longrightarrow> db_ok d \<Longrightarrow> db_ok d'"
  by (induction rule: other_step.induct) (auto intro: wf_intros db_ok_quiet_step)

lemma db_ok_daemon_step: "daemon_step env cfg d d' \<Longrightarrow> db_ok d \<Longrightarrow> db_ok d'"
  by (induction rule: daemon_step.induct) (auto intro: wf_intros db_ok_other_step)

lemma db_ok_daemon_reaches: "daemon_reaches env d d' \<Longrightarrow> db_ok d \<Longrightarrow> db_ok d'"
  by (induction rule: daemon_reaches.induct) (blast intro: db_ok_daemon_step)+

section \<open>Tables that only grow\<close>

text \<open>The rows there were stay first and in order, each as it was or changed as \<open>kept\<close> allows.\<close>

definition table_grows :: "('r \<Rightarrow> 'r \<Rightarrow> bool) \<Rightarrow> 'r table \<Rightarrow> 'r table \<Rightarrow> bool" where
  "table_grows kept t t' \<longleftrightarrow> (\<exists>old new. rows t' = old @ new \<and> list_all2 kept (rows t) old)"

locale kept_rows =
  fixes kept :: "'r \<Rightarrow> 'r \<Rightarrow> bool"
  assumes kept_refl: "kept r r"
    and kept_trans: "kept r s \<Longrightarrow> kept s u \<Longrightarrow> kept r u"
begin

lemma grows_refl [simp]: "table_grows kept t t"
  unfolding table_grows_def
  by (intro exI[of _ "rows t"] exI[of _ "[]"]) (simp add: list_all2_refl kept_refl)

lemma grows_trans: "table_grows kept t u \<Longrightarrow> table_grows kept u v \<Longrightarrow> table_grows kept t v"
proof -
  assume "table_grows kept t u" "table_grows kept u v"
  then obtain old new old' new' where g: "rows u = old @ new" "list_all2 kept (rows t) old"
    "rows v = old' @ new'" "list_all2 kept (old @ new) old'"
    by (auto simp: table_grows_def)
  then obtain p q where pq: "old' = p @ q" "list_all2 kept old p"
    by (auto simp: list_all2_append1)
  have "list_all2 kept (rows t) p"
    by (rule list_all2_trans[OF _ g(2) pq(2)]) (rule kept_trans)
  with g(3) pq(1) show ?thesis unfolding table_grows_def
    by (intro exI[of _ p] exI[of _ "q @ new'"]) simp
qed

lemma grows_insert: "table_grows kept t u \<Longrightarrow> table_grows kept t (snd (sql_insert mk u))"
  unfolding table_grows_def rows_insert by (metis append.assoc)

lemma grows_update:
  assumes "table_grows kept t u" "\<And>r. r \<in> set (rows u) \<Longrightarrow> p r \<Longrightarrow> kept r (f r)"
  shows "table_grows kept t (sql_update p f u)"
proof (rule grows_trans[OF assms(1)])
  have "list_all2 kept (rows u) (map (\<lambda>r. if p r then f r else r) (rows u))"
    using assms(2) by (auto simp: list_all2_conv_all_nth kept_refl)
  then show "table_grows kept u (sql_update p f u)"
    by (auto simp: table_grows_def rows_update)
qed

lemma grows_row:
  assumes "table_grows kept t u" "r \<in> set (rows t)"
  shows "\<exists>r'\<in>set (rows u). kept r r'"
proof -
  from assms(1) obtain old new where g: "rows u = old @ new" "list_all2 kept (rows t) old"
    by (auto simp: table_grows_def)
  then have "\<exists>r'\<in>set old. kept r r'" using assms(2) by (force simp: list_all2_conv_all_nth in_set_conv_nth)
  with g(1) show ?thesis by auto
qed

end

text \<open>A rebuild and an artifact may lose their status, when an admin resets the latest rebuild.\<close>

definition rebuild_kept :: "rebuild \<Rightarrow> rebuild \<Rightarrow> bool" where
  "rebuild_kept r r' \<longleftrightarrow> r' = r \<or> r' = r\<lparr>rb_status := None\<rparr>"

definition artifact_kept :: "rebuild_artifact \<Rightarrow> rebuild_artifact \<Rightarrow> bool" where
  "artifact_kept a a' \<longleftrightarrow> a' = a \<or> a' = a\<lparr>ra_status := None\<rparr>"

interpretation rebuild_rows: kept_rows rebuild_kept
  by unfold_locales (auto simp: rebuild_kept_def)

interpretation artifact_rows: kept_rows artifact_kept
  by unfold_locales (auto simp: artifact_kept_def)

interpretation log_rows: kept_rows "(=) :: build_log \<Rightarrow> build_log \<Rightarrow> bool"
  by unfold_locales simp_all

interpretation diff_rows: kept_rows "(=) :: diffoscope_log \<Rightarrow> diffoscope_log \<Rightarrow> bool"
  by unfold_locales simp_all

definition history_kept :: "db \<Rightarrow> db \<Rightarrow> bool" where
  "history_kept d d' \<longleftrightarrow>
     table_grows rebuild_kept (rebuilds d) (rebuilds d') \<and>
     table_grows artifact_kept (rebuild_artifacts d) (rebuild_artifacts d') \<and>
     table_grows (=) (build_logs d) (build_logs d') \<and>
     table_grows (=) (diffoscope_logs d) (diffoscope_logs d')"

lemma history_same:
  "rebuilds d' = rebuilds d \<Longrightarrow> rebuild_artifacts d' = rebuild_artifacts d \<Longrightarrow>
     build_logs d' = build_logs d \<Longrightarrow> diffoscope_logs d' = diffoscope_logs d \<Longrightarrow> history_kept d d'"
  by (simp add: history_kept_def)

lemma history_refl [simp]: "history_kept d d"
  by (rule history_same) simp_all

lemma history_trans: "history_kept d e \<Longrightarrow> history_kept e f \<Longrightarrow> history_kept d f"
  unfolding history_kept_def
  by (blast intro: rebuild_rows.grows_trans artifact_rows.grows_trans log_rows.grows_trans
      diff_rows.grows_trans)

text \<open>The operations on records.\<close>

named_theorems history_intros \<open>operations that keep the history\<close>

lemma history_insert [history_intros]:
  "history_kept d e \<Longrightarrow> history_kept d (snd (rebuild_insert n e))"
  "history_kept d e \<Longrightarrow> history_kept d (rebuild_artifact_insert m e)"
  "history_kept d e \<Longrightarrow> history_kept d (snd (build_log_insert log e))"
  "history_kept d e \<Longrightarrow> history_kept d (snd (diffoscope_log_insert log e))"
  by (simp_all add: history_kept_def rebuild_insert_def rebuild_artifact_insert_def
      build_log_insert_def diffoscope_log_insert_def rebuild_rows.grows_insert
      artifact_rows.grows_insert log_rows.grows_insert diff_rows.grows_insert)

lemma history_other [history_intros]:
  "history_kept d e \<Longrightarrow> history_kept d (snd (attestation_log_insert log e))"
  "history_kept d e \<Longrightarrow> history_kept d (snd (queue_upsert q e))"
  "history_kept d e \<Longrightarrow> history_kept d (queued_delete r e)"
  "history_kept d e \<Longrightarrow> history_kept d (snd (source_package_upsert s e))"
  "history_kept d e \<Longrightarrow> history_kept d (snd (build_input_upsert b e))"
  "history_kept d e \<Longrightarrow> history_kept d (snd (binary_package_upsert p e))"
  "history_kept d e \<Longrightarrow> history_kept d (snd (worker_upsert w e))"
  "history_kept d e \<Longrightarrow> history_kept d (mark_build_input_friends_as_non_retriable i e)"
  "history_kept d e \<Longrightarrow> history_kept d (increment_retries is e)"
  "history_kept d e \<Longrightarrow> history_kept d (set_next_retries is t e)"
  "history_kept d e \<Longrightarrow> history_kept d (snd (auth_worker cfg req now e))"
  by (simp_all add: history_kept_def attestation_log_insert_def queue_upsert_def queued_delete_def
      source_package_upsert_def build_input_upsert_def binary_package_upsert_def worker_upsert_def
      mark_build_input_friends_as_non_retriable_def clear_next_retry_def Let_def
      increment_retries_def set_next_retries_def frame_simps)

lemma history_fold:
  "history_kept d e \<Longrightarrow> (\<And>x e. history_kept d e \<Longrightarrow> history_kept d (f x e)) \<Longrightarrow>
     history_kept d (fold f xs e)"
  by (induction xs arbitrary: e) simp_all

section \<open>A result is recorded\<close>

lemma history_insert_artifact_logs [history_intros]:
  "history_kept d e \<Longrightarrow> history_kept d (snd (insert_artifact_logs enc a e))"
  by (simp add: insert_artifact_logs_def case_prod_beta history_intros split: sum.split option.split)

lemma history_record_artifact [history_intros]:
  "history_kept d e \<Longrightarrow> history_kept d (snd (record_artifact enc i a logs e))"
proof -
  assume e: "history_kept d e"
  have "history_kept d (snd (case logs (rar_name a) of
      Some l \<Rightarrow> (Inr l, e) | None \<Rightarrow> insert_artifact_logs enc a e))"
    using e by (simp add: history_intros split: option.split)
  then show ?thesis
    by (auto simp: record_artifact_def case_prod_beta intro: history_intros split: sum.split)
qed

lemma history_record_artifacts [history_intros]:
  "history_kept d e \<Longrightarrow> history_kept d (snd (record_artifacts enc i as logs e))"
proof (induction as arbitrary: logs e)
  case (Cons a as)
  then show ?case using history_record_artifact[of d e enc i a logs]
    by (auto split: prod.split sum.split)
qed simp

lemma history_record_friends [history_intros]:
  "history_kept d e \<Longrightarrow> history_kept d (snd (record_friends enc report q l is logs e))"
proof (induction "is" arbitrary: logs e)
  case (Cons i "is")
  show ?case
    by (auto simp: case_prod_beta intro!: history_intros Cons split: sum.split)
qed simp

lemma history_schedule_retry [history_intros]:
  "history_kept d e \<Longrightarrow> history_kept d (snd (schedule_retry schedule now i fs e))"
  by (simp add: schedule_retry_def Let_def history_intros split: sum.split)

lemma history_record_report:
  "history_kept d e \<Longrightarrow> history_kept d (snd (record_report enc schedule now report q e))"
  unfolding record_report_def Let_def case_prod_beta
  by (auto intro!: history_intros split: sum.split)

lemma history_submit_rebuild_report:
  "history_kept d (snd (submit_rebuild_report enc cfg req t0 now report d))"
  unfolding submit_rebuild_report_def case_prod_beta
  by (auto intro!: history_intros history_record_report split: sum.split list.split)

section \<open>A sync copies\<close>

lemma history_copy_artifacts [history_intros]:
  "history_kept d e \<Longrightarrow> history_kept d (copy_artifacts i j e)"
  unfolding copy_artifacts_def by (rule history_fold) (auto intro: history_intros)

lemma history_copy_rebuild:
  "history_kept d e \<Longrightarrow> copy_rebuild i j e = Inr e' \<Longrightarrow> history_kept d e'"
  by (auto simp: copy_rebuild_def case_prod_beta intro!: history_intros split: list.splits)

lemma history_copy_existing:
  "history_kept d e \<Longrightarrow> copy_existing_rebuilds b e = Inr e' \<Longrightarrow> history_kept d e'"
  by (auto simp: copy_existing_rebuilds_def split: option.splits if_splits
      elim!: fold_result_Inr_invariant intro: history_copy_rebuild)

lemma history_file_binaries [history_intros]:
  "history_kept d e \<Longrightarrow> history_kept d (file_binaries report s b as e)"
  unfolding file_binaries_def by (rule history_fold) (auto intro: history_intros)

lemma history_queue_if_needed:
  "history_kept d e \<Longrightarrow> queue_if_needed schedule now b e = Inr e' \<Longrightarrow> history_kept d e'"
  by (auto simp: queue_if_needed_def intro!: history_intros split: sum.splits if_splits)

lemma history_sync_package:
  assumes "history_kept d e" "sync_package schedule now report p e = Inr e'"
  shows "history_kept d e'"
  using assms(2)
proof (cases rule: sync_package_steps)
  case (1 s e1 b e2 e3)
  have "history_kept d e2" unfolding 1(2,4) by (intro history_intros assms(1))
  with 1(5) have "history_kept d e3"
    by (auto intro: history_copy_existing history_file_binaries split: if_splits)
  with 1(6) show ?thesis by (auto intro: history_queue_if_needed)
qed

lemma history_submit_package_report:
  "history_kept d (snd (submit_package_report cfg req now report d))"
proof -
  have "history_kept d e" if "sync_report schedule now report d = Inr e" for schedule e
  proof -
    from that obtain s where s: "fold_result (sync_package schedule now report) (pr_packages report)
        (mark_scoped_packages_unseen report d) = Inr s" "e = drop_unseen_scoped_jobs report s"
      by (auto simp: sync_report_def map_sum_Inr)
    have "history_kept d (mark_scoped_packages_unseen report d)"
      by (rule history_same) (simp_all add: mark_scoped_packages_unseen_def Let_def)
    then have "history_kept d s"
      using fold_result_Inr_invariant[OF s(1), of "history_kept d"] history_sync_package by blast
    then show ?thesis by (simp add: s(2) drop_unseen_scoped_jobs_def history_kept_def)
  qed
  then show ?thesis by (auto simp: submit_package_report_def split: sum.split)
qed

section \<open>Nothing else touches the history\<close>

lemma history_requeue_input:
  "history_kept d e \<Longrightarrow> history_kept d (requeue_input reset p now i e)"
proof -
  assume e: "history_kept d e"
  have "history_kept d (reset_latest_rebuild i e)"
    using e unfolding reset_latest_rebuild_def history_kept_def
    by (auto simp: rebuild_kept_def artifact_kept_def split: option.split
        intro!: rebuild_rows.grows_update artifact_rows.grows_update)
  moreover have "history_kept d (set_next_retry i t f)" if "history_kept d f" for f t
    using that by (simp add: set_next_retry_def history_kept_def)
  ultimately show ?thesis using e by (simp add: requeue_input_def history_intros)
qed

lemma history_collect_one:
  "history_kept d e \<Longrightarrow>
     history_kept d (snd (collect_one dec lossy new m stats_cfg x y z b now e))"
  by (auto simp: collect_one_def Let_def case_prod_beta stats_snapshot_insert_def
      stats_category_insert_batch_def history_kept_def split: sum.split)

lemma collect_combos_invariant:
  assumes "\<And>c e. P e \<Longrightarrow> P (snd (one c e))" "P e"
  shows "P (snd (collect_combos one cs snaps e))"
  using assms(2)
proof (induction cs arbitrary: snaps e)
  case (Cons c cs)
  with assms(1)[OF Cons.prems, of c] show ?case
    by (auto simp: case_prod_beta split: sum.split)
qed simp

lemma collect_backends_invariant:
  assumes "\<And>b c e. P e \<Longrightarrow> P (snd (one b c e))" "P e"
  shows "P (snd (collect_backends one bs snaps e))"
  using assms(2)
proof (induction bs arbitrary: snaps e)
  case (Cons b bs)
  have "P (snd (collect_combos (one b) (query_combos_for_backend b e) snaps e))"
    by (rule collect_combos_invariant) (use assms(1) Cons.prems in auto)
  with Cons.IH show ?case by (auto simp: case_prod_beta split: sum.split)
qed simp

text \<open>Whatever collecting one snapshot keeps, collecting keeps.\<close>

lemma collect_stats_invariant:
  assumes "\<And>x y z b e. P e \<Longrightarrow> P (snd (collect_one dec lossy new m stats_cfg x y z b now e))" "P d"
  shows "P (snd (collect_stats dec lossy new m cfg req stats_cfg now collect d))"
proof -
  let ?one = "collect_one dec lossy new m stats_cfg"
  have "P (snd (collect_backends (\<lambda>b (r, a). ?one (Some b) r (Some a) (Some b) now) bs [] d))" for bs
    by (rule collect_backends_invariant) (auto intro: assms split: prod.split)
  with assms show ?thesis
    by (auto simp: collect_stats_def Let_def case_prod_beta split: sum.split)
qed

lemma history_collect_stats:
  "history_kept d (snd (collect_stats dec lossy new m cfg req stats_cfg now collect d))"
  by (rule collect_stats_invariant) (auto intro: history_collect_one)

lemma history_check_peers: "history_kept d (snd (check_peers cfg req request d))"
proof -
  have "history_kept d (fold (\<lambda>url. peer_rebuilder_upsert (n url)) urls d)" for n and urls :: "string list"
    by (rule history_fold) (auto simp: peer_rebuilder_upsert_def history_kept_def)
  moreover have "history_kept d (delete_peer_rebuilders p e)" if "history_kept d e" for p e
    using that by (simp add: delete_peer_rebuilders_def Let_def history_kept_def)
  ultimately show ?thesis by (auto simp: check_peers_def split: sum.split)
qed

lemma history_replace_peer_checks:
  assumes "replace_peer_checks compared upserts d = Inr d'"
  shows "history_kept d d'"
proof (rule fold_result_Inr_invariant[OF assms[unfolded replace_peer_checks_def]])
  fix n s s' assume "history_kept d s" "insert_peer_check n s = Inr s'"
  then show "history_kept d s'"
    by (auto simp: insert_peer_check_def history_kept_def split: if_splits)
qed (rule history_same; simp)

lemma history_run_peer_check:
  "run_peer_check v1 v0 completed clock dist arch dp dl d = Some (r, d') \<Longrightarrow> history_kept d d'"
  by (auto simp: run_peer_check_def Let_def history_replace_peer_checks
      split: if_splits option.splits sum.splits)

lemma history_requests:
  "history_kept d (snd (request_work cfg req t0 t1 t2 t3 work d))"
  "history_kept d (snd (ping_job cfg req t0 now i d))"
  "history_kept d (snd (drop_queued_job cfg req i d))"
  "history_kept d (snd (drop_queued_jobs cfg req origin identity d))"
  "history_kept d (snd (register_worker parse_ip cfg req now registration d))"
  "history_kept d (snd (unregister_worker cfg req now i d))"
  "history_kept d (snd (list_workers cfg req now d))"
  by (rule history_same; simp add: request_work_def pop_job_def clear_stale_jobs_def take_job_def
      ping_job_def drop_queued_job_def drop_queued_jobs_def register_worker_def worker_upsert_def
      unregister_worker_def list_workers_def mark_stale_workers_def Let_def case_prod_beta
      frame_simps split: sum.split option.split)+

lemma history_request_rebuild: "history_kept d (snd (request_rebuild cfg req now request d))"
  by (auto simp: request_rebuild_def Let_def intro: history_fold history_requeue_input split: sum.split)

lemma history_attestation:
  "history_kept d (snd (get_build_artifact_attestation dec sgn' cfg req i a d))"
  by (rule history_same; simp add: get_build_artifact_attestation_def case_prod_beta
      split: sum.split option.split list.split)

lemma history_quiet_step: "quiet_step env cfg d d' \<Longrightarrow> history_kept d d'"
  by (induction rule: quiet_step.induct)
    (simp_all add: history_submit_package_report history_requests history_request_rebuild
      history_attestation history_collect_stats history_check_peers history_run_peer_check)

lemma history_other_step: "other_step env cfg d d' \<Longrightarrow> history_kept d d'"
  by (induction rule: other_step.induct)
    (simp_all add: history_submit_rebuild_report history_quiet_step)

lemma history_daemon_step: "daemon_step env cfg d d' \<Longrightarrow> history_kept d d'"
  by (induction rule: daemon_step.induct) (simp_all add: history_requests history_other_step)

section \<open>Properties\<close>



definition sample_daemon_env :: "unit daemon_env" where
  "sample_daemon_env = \<lparr>de_encode = (\<lambda>chunks. Inr (concat chunks)), de_decode = Inr, de_lossy = (\<lambda>_. []),
     de_sign = (\<lambda>b. Inr (b, False)), de_regex = (\<lambda>_. Inr ()), de_is_match = (\<lambda>_ _. Inr False),
     de_parse_ip = Some, de_get_v1 = (\<lambda>_ _. Inl LibraryError), de_get_v0 = (\<lambda>_ _. Inl LibraryError)\<rparr>"



end
