(* ===== verification/Reads.thy ===== *)
theory Reads
  imports Daemon
begin

text \<open>
  Reading never gets stuck. The database has no types beyond SQLite's: a status is a text, a reference
  is a number, and a handler that reads a text which is no status, or finds no row for a reference,
  answers with an internal error. The requests keep the database in the shape (\<open>db_ok\<close>) in which that
  does not happen.
\<close>

section \<open>Pages\<close>

definition page_ok :: "'a columns \<Rightarrow> page \<Rightarrow> bool" where
  "page_ok cols pg \<longleftrightarrow>
     (case pg_sort pg of None \<Rightarrow> True | Some fld \<Rightarrow> valid_sort_field fld \<and> column cols fld \<noteq> None)"

lemma paginate_ok: "isl (paginate cols ident pg base) \<longleftrightarrow> \<not> page_ok cols pg"
  by (auto simp: paginate_def page_ok_def split: option.split)

lemma paginate_cases:
  obtains (bad) e where "paginate cols ident pg base = Inl e" "\<not> page_ok cols pg"
    | (good) vs where "paginate cols ident pg base = Inr vs" "page_ok cols pg" "set vs \<subseteq> set base"
proof (cases "paginate cols ident pg base")
  case (Inl e)
  with paginate_ok[of cols ident pg base] bad show thesis by simp
next
  case (Inr vs)
  with paginate_ok[of cols ident pg base] good paginate_subset[OF Inr] show thesis by simp
qed

section \<open>Readable texts\<close>

lemma readable_text: "status_text_ok c \<Longrightarrow> \<not> isl (load_build_status c)"
  using status_text_ok_load by fastforce

lemma readable_artifact: "artifact_text_ok c \<Longrightarrow> \<not> unreadable_artifact c"
  by (auto simp: artifact_text_ok_def unreadable_artifact_def)

lemma load_rows_readable:
  "\<forall>v\<in>set vs. \<forall>c\<in>set (texts v). status_text_ok c \<Longrightarrow> load_rows texts (Inr vs) = Inr vs"
  by (auto simp: load_rows_def find_None_set split: option.split dest!: find_Some_set dest: readable_text)

lemma left_join_right:
  assumes "(x, Some y) \<in> set (left_join p xs ys)"
  shows "y \<in> set ys"
proof -
  from assms obtain x' where "(x, Some y) \<in> set (case filter (p x') ys of
      [] \<Rightarrow> [(x', None)] | z # zs \<Rightarrow> map (\<lambda>y. (x', Some y)) (z # zs))"
    unfolding left_join_def by auto
  then have "y \<in> set (filter (p x') ys)" by (cases "filter (p x') ys") auto
  then show ?thesis by simp
qed

lemma left_join_left: "(x, y) \<in> set (left_join p xs ys) \<Longrightarrow> x \<in> set xs"
  by (induction xs) (auto simp: left_join_Cons left_join_def split: list.splits)

lemma r1_readable:
  assumes "db_ok d" "(x, r1) \<in> set (join_r1 inp xs (rows (rebuilds d)))"
  shows "status_text_ok (r1_status r1)"
proof (cases r1)
  case None
  then show ?thesis by (simp add: r1_status_def)
next
  case (Some r)
  with assms(2) have "r \<in> set (rows (rebuilds d))" by (auto simp: join_r1_def dest: left_join_right)
  with db_ok_facts(34)[OF assms(1)] Some show ?thesis by (simp add: r1_status_def rebuild_ok_def)
qed

lemma source_rows_readable:
  assumes "db_ok d" "v \<in> set (map to_source_package_view (source_packages_base d))"
  shows "status_text_ok (spv_status v)"
proof -
  from assms(2) obtain s b r1 where v: "v = to_source_package_view ((s, b), r1)"
    "((s, b), r1) \<in> set (source_packages_base d)" by (auto elim!: to_source_package_view.elims)
  then have "((s, b), r1) \<in> set (join_r1 (bi_id \<circ> snd) (inner_join (\<lambda>s b. bi_source_package_id b = sp_id s)
      (rows (source_packages d)) (rows (build_inputs d))) (rows (rebuilds d)))"
    by (simp add: source_packages_base_def join_latest_def without_r2_filter)
  from r1_readable[OF assms(1) this] show ?thesis by (simp add: v(1))
qed

lemma binary_rows_readable:
  assumes "db_ok d" "row \<in> set (binary_packages_base d)"
  shows "list_all status_text_ok (binary_status_texts (to_binary_package_view row)) \<and>
    artifact_text_ok (artifact_field ra_status (snd row))"
proof -
  obtain p s b r1 a where row: "row = ((((p, s), b), r1), a)" by (metis prod.exhaust)
  from assms(2) have mem: "((((p, s), b), r1), a) \<in> set (left_join (\<lambda>r a. map_option rb_id (snd r) = Some (ra_rebuild_id a) \<and>
            ra_name a = bp_name (fst (fst (fst r))))
          (join_r1 (\<lambda>x. bi_id (snd x)) (binary_inputs d) (rows (rebuilds d))) (rows (rebuild_artifacts d)))"
    by (simp add: binary_packages_base_def without_r2_filter row)
  have "artifact_text_ok (artifact_field ra_status a)"
  proof (cases a)
    case (Some a')
    with mem have "a' \<in> set (rows (rebuild_artifacts d))" by (blast dest: left_join_right)
    with db_ok_facts(35)[OF assms(1)] Some show ?thesis by (simp add: artifact_field_def artifact_ok_def)
  qed (simp add: artifact_field_def)
  moreover have "status_text_ok (r1_status r1)"
    by (rule r1_readable[OF assms(1) left_join_left[OF mem]])
  ultimately show ?thesis by (simp add: row binary_status_texts_def artifact_text_ok_status)
qed

lemma builds_readable:
  assumes "db_ok d" "v \<in> set (map to_rebuild_view (builds_base d))"
  shows "\<not> unreadable (rv_status v)"
proof -
  from assms(2) obtain r b s where "v = to_rebuild_view (r, b, s)" "r \<in> set (rows (rebuilds d))"
    by (auto simp: builds_base_def set_inner_join elim!: to_rebuild_view.elims)
  with db_ok_facts(34)[OF assms(1)] show ?thesis by (simp add: unreadable_def readable_text rebuild_ok_def)
qed

lemma artifacts_readable:
  assumes "db_ok d" "a \<in> set (artifact_rows i d)"
  shows "\<not> unreadable_artifact (ra_status a)"
proof -
  from assms(2) have "a \<in> set (rows (rebuild_artifacts d))"
    by (auto simp: artifact_rows_def set_inner_join)
  with db_ok_facts(35)[OF assms(1)] show ?thesis by (simp add: readable_artifact artifact_ok_def)
qed

lemma results_all: "\<forall>r\<in>set rs. \<not> isl r \<Longrightarrow> \<not> isl (results rs)"
  by (induction rs rule: results.induct) (auto simp: map_sum_def split: sum.splits)

lemma queue_items_found:
  assumes "db_ok d" "q \<in> set (rows (queue d))"
  shows "\<not> isl (into_queue_item d q)"
proof -
  have "q_build_input_id q \<in> ids bi_id (build_inputs d)"
    using db_ok_facts(25)[OF assms(1)] assms(2) by (auto simp: refs_def)
  then obtain b bs where b: "filter (\<lambda>b. bi_id b = q_build_input_id q) (rows (build_inputs d)) = b # bs"
    by (cases "filter (\<lambda>b. bi_id b = q_build_input_id q) (rows (build_inputs d))") (auto simp: filter_empty_conv)
  then have "b \<in> set (rows (build_inputs d))" by (auto simp: filter_eq_Cons_iff)
  then have "bi_source_package_id b \<in> ids sp_id (source_packages d)"
    using db_ok_facts(22)[OF assms(1)] by (auto simp: refs_def)
  then obtain s ss where "filter (\<lambda>s. sp_id s = bi_source_package_id b) (rows (source_packages d)) = s # ss"
    by (cases "filter (\<lambda>s. sp_id s = bi_source_package_id b) (rows (source_packages d))") (auto simp: filter_empty_conv)
  with b show ?thesis by (simp add: into_queue_item_def Let_def)
qed

section \<open>The handlers\<close>

lemma failed_500: "(case r of Inl e \<Rightarrow> Error500 | Inr x \<Rightarrow> Ok200 (f x)) = Error500 \<longleftrightarrow> isl r"
  by (cases r) simp_all

lemma load_page:
  assumes "\<forall>v\<in>set base. list_all status_text_ok (texts v)"
  shows "isl (load_rows texts (paginate cols ident pg base)) \<longleftrightarrow> \<not> page_ok cols pg"
proof (cases rule: paginate_cases[of cols ident pg base])
  case (good vs)
  then have "load_rows texts (Inr vs) = Inr vs"
    by (intro load_rows_readable) (use assms in \<open>auto simp: list_all_iff\<close>)
  with good show ?thesis by simp
qed (simp add: load_rows_def)

lemma get_source_packages_ok:
  assumes "db_ok d"
  shows "get_source_packages pg origin identity fresh st d = Error500 \<longleftrightarrow> \<not> page_ok source_package_columns pg"
  unfolding get_source_packages_def Let_def failed_500
  by (rule load_page) (use source_rows_readable[OF assms] in auto)

lemma get_binary_packages_ok:
  assumes "db_ok d"
  shows "get_binary_packages pg origin identity fresh st df d = Error500 \<longleftrightarrow> \<not> page_ok binary_package_columns pg"
  unfolding get_binary_packages_def Let_def failed_500
  by (rule load_page) (use binary_rows_readable[OF assms] in auto)

lemma get_builds_ok:
  assumes "db_ok d"
  shows "get_builds pg origin identity d = Error500 \<longleftrightarrow> \<not> page_ok rebuild_columns pg"
proof -
  define base where "base = map to_rebuild_view (filter (\<lambda>(r, b, s).
      origin_matches origin s (bi_architecture b) \<and> source_identity_matches identity (sp_name s) (sp_version s))
      (builds_base d))"
  have readable: "\<not> unreadable (rv_status v)" if "v \<in> set base" for v
    by (rule builds_readable[OF assms]) (use that in \<open>auto simp: base_def\<close>)
  show ?thesis unfolding get_builds_def base_def[symmetric] Let_def
    by (cases rule: paginate_cases[of rebuild_columns rv_id pg base])
      (use readable in \<open>auto simp: list_ex_iff\<close>)
qed

lemma get_queued_jobs_ok:
  "get_queued_jobs pg origin identity qf d = Error500 \<longleftrightarrow> \<not> page_ok queued_job_columns pg"
  unfolding get_queued_jobs_def Let_def failed_500 by (rule paginate_ok)

lemma get_workers_ok: "get_workers pg d = Error500 \<longleftrightarrow> \<not> page_ok worker_columns pg"
  unfolding get_workers_def failed_500 by (rule paginate_ok)

lemma first_found: "filter P xs = v # vs \<Longrightarrow> v \<in> set xs"
  by (auto simp: filter_eq_Cons_iff)

lemma get_one_ok:
  assumes "db_ok d"
  shows "get_source_package i d \<noteq> Error500" "get_binary_package i d \<noteq> Error500" "get_build i d \<noteq> Error500"
    "get_build_artifacts i d \<noteq> Error500" "get_build_artifact i j d \<noteq> Error500"
proof -
  have "\<not> isl (load_build_status (spv_status v))" if "v \<in> set (map to_source_package_view (source_packages_base d))" for v
    using source_rows_readable[OF assms that] by (rule readable_text)
  then show "get_source_package i d \<noteq> Error500"
    unfolding get_source_package_def by (auto split: list.split dest!: first_found)
  have "\<not> list_ex (\<lambda>c. isl (load_build_status c)) (binary_status_texts v)"
    if "v \<in> set (map to_binary_package_view (binary_packages_base d))" for v
    using that binary_rows_readable[OF assms] readable_text by (fastforce simp: list_ex_iff list_all_iff)
  then show "get_binary_package i d \<noteq> Error500"
    unfolding get_binary_package_def by (auto split: list.split dest!: first_found)
  have "\<not> unreadable (rv_status (to_rebuild_view v))" if "v \<in> set (builds_base d)" for v
    by (rule builds_readable[OF assms]) (use that in simp)
  then show "get_build i d \<noteq> Error500"
    unfolding get_build_def by (auto split: list.split dest!: first_found)
  note readable = artifacts_readable[OF assms]
  show "get_build_artifacts i d \<noteq> Error500"
    unfolding get_build_artifacts_def using readable by (auto simp: list_ex_iff)
  show "get_build_artifact i j d \<noteq> Error500"
    unfolding get_build_artifact_def using readable by (auto split: list.split dest!: first_found)
qed

lemma list_queue_ok:
  assumes "db_ok d"
  shows "list_queue now limit d \<noteq> Error500"
proof -
  have "\<not> isl (results (map (into_queue_item d) qs))" if "set qs \<subseteq> set (rows (queue d))" for qs
    by (rule results_all) (use queue_items_found[OF assms] that in auto)
  moreover have "set (limit_rows limit (sort_key f (rows (queue d)))) \<subseteq> set (rows (queue d))" for f :: "queued \<Rightarrow> int \<times> int \<times> int"
    using set_limit_rows[of limit "sort_key f (rows (queue d))"] by simp
  ultimately show ?thesis
    unfolding list_queue_def Let_def failed_500 by (cases limit) auto
qed

lemma list_pkgs_ok:
  assumes "db_ok d"
  shows "list_pkgs parse_rfc2822 req query d \<noteq> Error500"
proof -
  have "\<not> isl (to_pkg_release row)" if "row \<in> set (binary_packages_base d)" for row
  proof -
    obtain x a where row: "row = (x, a)" by fastforce
    have "artifact_text_ok (artifact_field ra_status a)"
      using binary_rows_readable[OF assms that] row by simp
    moreover have "\<not> isl (v0_status_from_str (artifact_status_as_str st))" for st
      by (cases st) (simp_all add: v0_status_from_str_def)
    ultimately have "\<not> isl (v0_status_from_str (case artifact_field ra_status a of None \<Rightarrow> ''UNKWN'' | Some st \<Rightarrow> st))"
      by (auto simp: artifact_text_ok_def) (simp add: v0_status_from_str_def)
    with row show ?thesis by (auto simp: to_pkg_release_def map_sum_def split: sum.splits prod.splits)
  qed
  then have "\<not> isl (results (map to_pkg_release (filter P (binary_packages_base d))))" for P
    by (intro results_all) auto
  then show ?thesis by (auto simp: list_pkgs_def Let_def failed_500 filter_binary_packages_by_def)
qed

text \<open>C14: Reading never gets stuck on what the daemon itself has written. In every database that requests,
  by anyone and in any order, can make of an empty one: a list of packages, builds, jobs or workers is an
  internal error exactly when the page asks for a sort column that the list does not have; a package, a build
  or an artifact is found or it is not, but reading it is never an error; and the old lists of packages and
  jobs, which read references row by row, never fail.\<close>

theorem reads_never_stuck:
  assumes "daemon_reaches env empty_db d"
  shows "(get_source_packages pg origin identity fresh st d = Error500 \<longleftrightarrow> \<not> page_ok source_package_columns pg) \<and>
    (get_binary_packages pg origin bidentity fresh st df d = Error500 \<longleftrightarrow> \<not> page_ok binary_package_columns pg) \<and>
    (get_builds pg origin identity d = Error500 \<longleftrightarrow> \<not> page_ok rebuild_columns pg) \<and>
    (get_queued_jobs pg origin identity qf d = Error500 \<longleftrightarrow> \<not> page_ok queued_job_columns pg) \<and>
    (get_workers pg d = Error500 \<longleftrightarrow> \<not> page_ok worker_columns pg) \<and>
    get_source_package i d \<noteq> Error500 \<and> get_binary_package i d \<noteq> Error500 \<and> get_build i d \<noteq> Error500 \<and>
    get_build_artifacts i d \<noteq> Error500 \<and> get_build_artifact i j d \<noteq> Error500 \<and>
    list_queue now limit d \<noteq> Error500 \<and> list_pkgs parse_rfc2822 req query d \<noteq> Error500"
proof -
  have "db_ok d" using db_ok_daemon_reaches[OF assms] db_ok_empty by blast
  then show ?thesis
    by (simp add: get_source_packages_ok get_binary_packages_ok get_builds_ok get_queued_jobs_ok get_workers_ok
        get_one_ok list_queue_ok list_pkgs_ok)
qed

theorem reads_never_stuck_witness:
  "list_queue 9 None (snd (submit_package_report sample_cfg sample_req 20 sample_report empty_db)) \<noteq> Error500"
proof -
  have "daemon_reaches sample_daemon_env empty_db
      (snd (submit_package_report sample_cfg sample_req 20 sample_report empty_db))"
    by (rule reaches_step[OF reaches_start step_other[OF step_quiet[OF step_sync]]])
  from reads_never_stuck[OF this] show ?thesis by blast
qed

end
