(* ===== verification/Schedule.thy ===== *)
theory Schedule
  imports ApiTypes "HOL-Library.AList"
begin

text \<open>
  What the schedulers of rebuildctl share (\<open>tools/src/schedule/mod.rs\<close>, \<open>tools/src/args.rs\<close>,
  \<open>tools/src/decompress.rs\<close>): the selection of packages, fetching an index, and the grouping of
  binary packages under the source they are built from. A glob pattern is the predicate on names
  that the glob crate compiles it to; HTTP, files, codecs and archives are parameters.
\<close>

section \<open>Selection\<close>

type_synonym pattern = "string \<Rightarrow> bool"

record pkgs_sync =
  ps_distro :: string
  ps_components :: "string list"
  ps_source :: string
  ps_architectures :: "string list"
  ps_print_json :: bool
  ps_maintainers :: "string list"
  ps_releases :: "string list"
  ps_pkgs :: "pattern list"
  ps_excludes :: "pattern list"
  ps_sync_method :: "string option"
  ps_github_token :: "string option"

definition match_name :: "string \<Rightarrow> pattern list \<Rightarrow> bool" where
  "match_name pkg_name patterns = list_ex (\<lambda>p. p pkg_name) patterns"

definition pkg_matches :: "string \<Rightarrow> (string list \<Rightarrow> bool) \<Rightarrow> pkgs_sync \<Rightarrow> bool" where
  "pkg_matches pkg_name by_maintainer sync =
     (if match_name pkg_name (ps_excludes sync) then False
      else if ps_maintainers sync = [] \<and> ps_pkgs sync = [] then True
      else by_maintainer (ps_maintainers sync) \<or> match_name pkg_name (ps_pkgs sync))"

text \<open>\<open>http_get\<close> is a request that ends with a success status and its whole body.\<close>

definition fetch_url_or_path ::
  "(string \<Rightarrow> bytes result) \<Rightarrow> (string \<Rightarrow> bytes result) \<Rightarrow> string \<Rightarrow> bytes result" where
  "fetch_url_or_path http_get read_file path =
     (if starts_with ''https://'' path \<or> starts_with ''http://'' path then http_get path
      else read_file path)"

section \<open>Compression\<close>

datatype compressed_with = Gzip | Bzip2 | Xz | Zstd | Unknown_compression

definition detect_compression :: "(bytes \<Rightarrow> string) \<Rightarrow> bytes \<Rightarrow> compressed_with" where
  "detect_compression mime_type bs =
     (let mime = mime_type bs in
      if mime = ''application/gzip'' then Gzip
      else if mime = ''application/x-bzip'' then Bzip2
      else if mime = ''application/x-bzip2'' then Bzip2
      else if mime = ''application/x-xz'' then Xz
      else if mime = ''application/zstd'' then Zstd
      else Unknown_compression)"

text \<open>A reader is what it will have read at its end, or its error.\<close>

fun decompress_stream :: "(compressed_with \<Rightarrow> bytes \<Rightarrow> bytes result) \<Rightarrow> compressed_with \<Rightarrow> bytes \<Rightarrow> bytes result" where
  "decompress_stream decoder Unknown_compression bs = Inr bs"
| "decompress_stream decoder c bs = decoder c bs"

text \<open>An entry of a tar archive.\<close>

record tar_entry =
  te_is_regular :: bool
  te_path :: "string result"
  te_text :: "string result"
  te_bytes :: "bytes result"

section \<open>Groups\<close>

definition plain_group :: "string \<Rightarrow> string \<Rightarrow> string \<Rightarrow> source_package_report" where
  "plain_group name version url =
     \<lparr>spr_name = name, spr_version = version, spr_url = url, spr_artifacts = [],
      spr_fbsd_ports_top_git_hash = None, spr_fbsd_build_timestamp = None,
      spr_fbsd_ports_top_git_timestamp = None\<rparr>"

text \<open>
  The schedulers file every binary package under the group of its key, which the first package of
  a key makes. The hash map of groups is iterated over at the end: an association list.
\<close>

definition push_artifact ::
  "'k \<Rightarrow> source_package_report \<Rightarrow> binary_package_report \<Rightarrow> ('k \<times> source_package_report) list \<Rightarrow>
   ('k \<times> source_package_report) list" where
  "push_artifact k new_group artifact groups =
     (case map_of groups k of
        Some g \<Rightarrow> AList.update k (g\<lparr>spr_artifacts := spr_artifacts g @ [artifact]\<rparr>) groups
      | None \<Rightarrow> AList.update k (new_group\<lparr>spr_artifacts := [artifact]\<rparr>) groups)"

text \<open>What the groups should be: for each key, in the order the keys come first, the group that its
  first package makes, with the artifacts of all its packages.\<close>

definition first_keys :: "'k list \<Rightarrow> 'k list" where
  "first_keys ks = rev (remdups (rev ks))"

definition group_of ::
  "('p \<Rightarrow> 'k) \<Rightarrow> ('p \<Rightarrow> source_package_report) \<Rightarrow> ('p \<Rightarrow> binary_package_report) \<Rightarrow> 'p list \<Rightarrow> 'k \<Rightarrow>
   source_package_report" where
  "group_of key mk_group artifact ps k =
     (let qs = filter (\<lambda>p. key p = k) ps
      in (mk_group (hd qs))\<lparr>spr_artifacts := map artifact qs\<rparr>)"

definition grouped ::
  "('p \<Rightarrow> 'k) \<Rightarrow> ('p \<Rightarrow> source_package_report) \<Rightarrow> ('p \<Rightarrow> binary_package_report) \<Rightarrow> 'p list \<Rightarrow>
   ('k \<times> source_package_report) list" where
  "grouped key mk_group artifact ps =
     map (\<lambda>k. (k, group_of key mk_group artifact ps k)) (first_keys (map key ps))"

lemma first_keys_snoc:
  "first_keys (ks @ [k]) = (if k \<in> set ks then first_keys ks else first_keys ks @ [k])"
  by (simp add: first_keys_def)

lemma first_keys_simps [simp]:
  "set (first_keys ks) = set ks" "distinct (first_keys ks)" "first_keys [] = []"
  by (simp_all add: first_keys_def)

lemma map_of_tabulated: "k \<in> set ks \<Longrightarrow> map_of (map (\<lambda>k. (k, f k)) ks) k = Some (f k)"
  by (simp add: map_of_map_restrict)

lemma update_tabulated:
  "distinct ks \<Longrightarrow> k \<in> set ks \<Longrightarrow>
     AList.update k v (map (\<lambda>k. (k, f k)) ks) = map (\<lambda>k'. (k', if k' = k then v else f k')) ks"
  by (induction ks) auto

lemma update_absent: "k \<notin> fst ` set al \<Longrightarrow> AList.update k v al = al @ [(k, v)]"
  by (induction al) auto

lemma group_of_snoc:
  "group_of key mk_group artifact (ps @ [p]) k =
     (if key p \<noteq> k then group_of key mk_group artifact ps k
      else if k \<in> key ` set ps then
        (group_of key mk_group artifact ps k)\<lparr>spr_artifacts :=
          spr_artifacts (group_of key mk_group artifact ps k) @ [artifact p]\<rparr>
      else (mk_group p)\<lparr>spr_artifacts := [artifact p]\<rparr>)"
proof -
  have "filter (\<lambda>p. key p = k) ps = [] \<longleftrightarrow> k \<notin> key ` set ps" by (auto simp: filter_empty_conv)
  then show ?thesis by (auto simp: group_of_def Let_def hd_append)
qed

text \<open>Filing the packages one after the other makes the groups they should be.\<close>

lemma push_artifact_grouped:
  "push_artifact (key p) (mk_group p) (artifact p) (grouped key mk_group artifact ps) =
     grouped key mk_group artifact (ps @ [p])"
proof (cases "key p \<in> key ` set ps")
  case True
  then have "map_of (grouped key mk_group artifact ps) (key p) = Some (group_of key mk_group artifact ps (key p))"
    unfolding grouped_def by (intro map_of_tabulated) simp
  with True show ?thesis
    by (simp add: push_artifact_def grouped_def update_tabulated first_keys_snoc group_of_snoc cong: if_cong)
next
  case False
  then have "map_of (grouped key mk_group artifact ps) (key p) = None"
    by (simp add: grouped_def map_of_eq_None_iff image_image)
  with False show ?thesis
    by (simp add: push_artifact_def grouped_def update_absent image_image first_keys_snoc group_of_snoc)
      (auto simp: group_of_snoc)
qed

lemma fold_push_artifact:
  "fold (\<lambda>p. push_artifact (key p) (mk_group p) (artifact p)) ps [] = grouped key mk_group artifact ps"
proof (induction ps rule: rev_induct)
  case (snoc p ps)
  then show ?case by (simp add: push_artifact_grouped)
qed (simp add: grouped_def)

text \<open>What the groups of an index hold, for every scheduler that names a group by its key.\<close>

locale package_index =
  fixes key :: "'p \<Rightarrow> 'k"
    and mk_group :: "'p \<Rightarrow> source_package_report"
    and artifact :: "'p \<Rightarrow> binary_package_report"
    and group_key :: "source_package_report \<Rightarrow> 'k"
  assumes group_key: "group_key ((mk_group p)\<lparr>spr_artifacts := as\<rparr>) = key p"
begin

lemma group_of_key:
  assumes "k \<in> key ` set ps"
  shows "group_key (group_of key mk_group artifact ps k) = k"
proof -
  have "filter (\<lambda>p. key p = k) ps \<noteq> []" using assms by (auto simp: filter_empty_conv)
  then have "hd (filter (\<lambda>p. key p = k) ps) \<in> set (filter (\<lambda>p. key p = k) ps)" by (rule hd_in_set)
  then show ?thesis by (simp add: group_of_def Let_def group_key)
qed

lemma index_keys: "map group_key (map snd (grouped key mk_group artifact ps)) = first_keys (map key ps)"
proof -
  have "map (\<lambda>k. group_key (group_of key mk_group artifact ps k)) (first_keys (map key ps)) =
      first_keys (map key ps)"
    by (rule map_idI, rule group_of_key) simp
  then show ?thesis by (simp add: grouped_def o_def)
qed

lemma grouped_named:
  assumes "(k, g) \<in> set (grouped key mk_group artifact ps)"
  shows "group_key g = k"
proof -
  from assms have "k \<in> key ` set ps \<and> g = group_of key mk_group artifact ps k"
    by (auto simp: grouped_def)
  then show ?thesis by (simp only: group_of_key)
qed

lemma index_artifacts:
  assumes "g \<in> snd ` set (grouped key mk_group artifact ps)"
  shows "spr_artifacts g = map artifact (filter (\<lambda>p. key p = group_key g) ps)"
proof -
  from assms have "\<exists>k\<in>key ` set ps. g = group_of key mk_group artifact ps k"
    by (auto simp: grouped_def)
  then obtain k where k: "k \<in> key ` set ps" "g = group_of key mk_group artifact ps k" ..
  with group_of_key[OF k(1)] show ?thesis by (simp add: group_of_def Let_def)
qed

end

end
