(* ===== verification/Debian.thy ===== *)
theory Debian
  imports Schedule
begin

text \<open>
  The scheduler of Debian (\<open>tools/src/schedule/debian.rs\<close>): the parser of the package indices, the
  match of binary packages with their sources, and the reports per release, component and
  architecture. The xz decoder with the splitting into lines is a parameter: \<open>unxz\<close> gives the lines
  read, each of which may be an error.
\<close>

section \<open>Records\<close>

datatype version_constraint = Explicit (constraint_version: string) | Implicit (constraint_version: string)

record debian_source_pkg =
  dsp_base :: string
  dsp_binary :: "string list"
  dsp_version :: string
  dsp_directory :: string
  dsp_architecture :: string
  dsp_uploaders :: "string list"

record debian_bin_pkg =
  dbp_name :: string
  dbp_version :: string
  dbp_source :: "string \<times> version_constraint"
  dbp_architecture :: string
  dbp_filename :: string
  dbp_uploaders :: "string list"

definition debian_by_maintainer :: "debian_bin_pkg \<Rightarrow> string list \<Rightarrow> bool" where
  "debian_by_maintainer pkg maintainers =
     list_ex (\<lambda>uploader. list_ex (\<lambda>m. starts_with m uploader) maintainers) (dbp_uploaders pkg)"

record new_debian_pkg =
  ndp_base :: "string option"
  ndp_binary :: "string list option"
  ndp_source :: "string option"
  ndp_version :: "string option"
  ndp_directory :: "string option"
  ndp_architecture :: "string option"
  ndp_filename :: "string option"
  ndp_uploaders :: "string list"

definition empty_debian_pkg :: new_debian_pkg where
  "empty_debian_pkg = \<lparr>ndp_base = None, ndp_binary = None, ndp_source = None, ndp_version = None,
     ndp_directory = None, ndp_architecture = None, ndp_filename = None, ndp_uploaders = []\<rparr>"

definition to_debian_source :: "new_debian_pkg \<Rightarrow> debian_source_pkg result" where
  "to_debian_source new =
     (case (ndp_base new, ndp_binary new, ndp_version new, ndp_directory new, ndp_architecture new) of
        (Some base, Some binary, Some version, Some directory, Some architecture) \<Rightarrow>
          Inr \<lparr>dsp_base = base, dsp_binary = binary, dsp_version = version,
            dsp_directory = directory, dsp_architecture = architecture,
            dsp_uploaders = ndp_uploaders new\<rparr>
      | _ \<Rightarrow> Inl LibraryError)"

text \<open>The field \<open>Source:\<close> of a binary package: a name, with its version in parentheses if that is
  another one.\<close>

definition debian_source_field :: "string \<Rightarrow> string \<Rightarrow> string option \<Rightarrow> (string \<times> version_constraint) result" where
  "debian_source_field name version src =
     (case src of
        None \<Rightarrow> Inr (name, Implicit version)
      | Some s \<Rightarrow>
         (case split_once '' '' s of
            None \<Rightarrow> Inr (s, Implicit version)
          | Some (n, v) \<Rightarrow>
             (case Option.bind (strip_prefix ''('' v) (strip_suffix '')'') of
                None \<Rightarrow> Inl LibraryError
              | Some v \<Rightarrow> Inr (n, Explicit v))))"

definition to_debian_bin :: "new_debian_pkg \<Rightarrow> debian_bin_pkg result" where
  "to_debian_bin new =
     (case (ndp_base new, ndp_version new) of
        (Some name, Some version) \<Rightarrow>
          (case debian_source_field name version (ndp_source new) of
             Inl e \<Rightarrow> Inl e
           | Inr src \<Rightarrow>
              (case (ndp_architecture new, ndp_filename new) of
                 (Some architecture, Some filename) \<Rightarrow>
                   Inr \<lparr>dbp_name = name, dbp_version = version, dbp_source = src,
                     dbp_architecture = architecture, dbp_filename = filename,
                     dbp_uploaders = ndp_uploaders new\<rparr>
               | _ \<Rightarrow> Inl LibraryError))
      | _ \<Rightarrow> Inl LibraryError)"

section \<open>The parser of an index\<close>

text \<open>A value that ends with a comma goes on in the next line, if that is indented.\<close>

fun continued :: "string \<Rightarrow> string result list \<Rightarrow> (string \<times> string result list) result" where
  "continued v [] = Inr (v, [])"
| "continued v (l # ls) =
     (if ends_with '','' v then
        (case l of
           Inl e \<Rightarrow> Inl e
         | Inr line \<Rightarrow>
             if \<not> starts_with '' '' line then Inr (v, l # ls) else continued (v @ line) ls)
      else Inr (v, l # ls))"

lemma continued_shorter: "continued v ls = Inr (v', ls') \<Longrightarrow> length ls' \<le> length ls"
  by (induction v ls rule: continued.induct) (auto split: if_splits sum.splits)

text \<open>One field; the field \<open>Binary\<close> may take further lines.\<close>

definition debian_field ::
  "string \<Rightarrow> string \<Rightarrow> string result list \<Rightarrow> new_debian_pkg \<Rightarrow> (new_debian_pkg \<times> string result list) result" where
  "debian_field a b ls pkg =
     (if a = ''Package'' then Inr (pkg\<lparr>ndp_base := Some b\<rparr>, ls)
      else if a = ''Binary'' then
        map_sum id (\<lambda>(v, ls'). (pkg\<lparr>ndp_binary := Some (split_str '', '' v)\<rparr>, ls')) (continued b ls)
      else if a = ''Version'' then Inr (pkg\<lparr>ndp_version := Some b\<rparr>, ls)
      else if a = ''Source'' then Inr (pkg\<lparr>ndp_source := Some b\<rparr>, ls)
      else if a = ''Directory'' then Inr (pkg\<lparr>ndp_directory := Some b\<rparr>, ls)
      else if a = ''Filename'' then Inr (pkg\<lparr>ndp_filename := Some b\<rparr>, ls)
      else if a = ''Architecture'' then Inr (pkg\<lparr>ndp_architecture := Some b\<rparr>, ls)
      else if a = ''Uploaders'' then Inr (pkg\<lparr>ndp_uploaders := split_str '', '' b\<rparr>, ls)
      else Inr (pkg, ls))"

lemma debian_field_shorter: "debian_field a b ls pkg = Inr (pkg', ls') \<Longrightarrow> length ls' \<le> length ls"
  by (auto simp: debian_field_def map_sum_Inr dest: continued_shorter split: if_splits)

text \<open>An empty line ends a package. What follows the last empty line is dropped.\<close>

function extract_pkgs ::
  "(new_debian_pkg \<Rightarrow> 'p result) \<Rightarrow> new_debian_pkg \<Rightarrow> string result list \<Rightarrow> 'p list result" where
  "extract_pkgs try_from pkg [] = Inr []"
| "extract_pkgs try_from pkg (Inl e # ls) = Inl e"
| "extract_pkgs try_from pkg (Inr line # ls) =
     (if line = [] then
        (case try_from pkg of
           Inl e \<Rightarrow> Inl e
         | Inr p \<Rightarrow> map_sum id (Cons p) (extract_pkgs try_from empty_debian_pkg ls))
      else
        (case split_once '': '' line of
           None \<Rightarrow> extract_pkgs try_from pkg ls
         | Some (a, b) \<Rightarrow>
            (case debian_field a b ls pkg of
               Inl e \<Rightarrow> Inl e
             | Inr (pkg', ls') \<Rightarrow> extract_pkgs try_from pkg' ls')))"
  by pat_completeness auto
termination
  by (relation "measure (\<lambda>(t, pkg, ls). length ls)")
    (auto simp: less_Suc_eq_le dest: debian_field_shorter)

definition extract_pkgs_compressed ::
  "(bytes \<Rightarrow> string result list) \<Rightarrow> (new_debian_pkg \<Rightarrow> 'p result) \<Rightarrow> bytes \<Rightarrow> 'p list result" where
  "extract_pkgs_compressed unxz try_from bs = extract_pkgs try_from empty_debian_pkg (unxz bs)"

section \<open>Sources\<close>

type_synonym source_bucket = "string \<Rightarrow> debian_source_pkg list option"

definition bucket_push :: "debian_source_pkg \<Rightarrow> source_bucket \<Rightarrow> source_bucket" where
  "bucket_push pkg sources =
     (case sources (dsp_base pkg) of
        Some list \<Rightarrow> sources(dsp_base pkg \<mapsto> list @ [pkg])
      | None \<Rightarrow> sources(dsp_base pkg \<mapsto> [pkg]))"

text \<open>The suffix of a binary-only rebuild, as of \<open>1.0-1+b2\<close>.\<close>

definition bin_nmu :: "string \<Rightarrow> string" where
  "bin_nmu version =
     (case rfind ''+b'' version of
        None \<Rightarrow> []
      | Some i \<Rightarrow> if parse_u64 (drop (i + 2) version) \<noteq> None then drop i version else [])"

definition bucket_get :: "source_bucket \<Rightarrow> debian_bin_pkg \<Rightarrow> debian_source_pkg result" where
  "bucket_get sources pkg =
     (case sources (fst (dbp_source pkg)) of
        None \<Rightarrow> Inl LibraryError
      | Some list \<Rightarrow>
         (case find (\<lambda>src. dsp_version src = constraint_version (snd (dbp_source pkg))) list of
            None \<Rightarrow> Inl LibraryError
          | Some src \<Rightarrow> Inr (src\<lparr>dsp_version := dsp_version src @ bin_nmu (dbp_version pkg)\<rparr>)))"

definition import_sources ::
  "(bytes \<Rightarrow> string result list) \<Rightarrow> bytes \<Rightarrow> source_bucket \<Rightarrow> source_bucket result" where
  "import_sources unxz bs sources =
     map_sum id (\<lambda>pkgs. fold bucket_push pkgs sources) (extract_pkgs_compressed unxz to_debian_source bs)"

text \<open>The directory of the build info; slicing a shorter name panics.\<close>

definition buildinfo_path :: "string \<Rightarrow> string result" where
  "buildinfo_path base =
     (let n = (if starts_with ''lib'' base then 4 else 1)
      in if length base < n then Inl Panicked else Inr (take n base))"

definition buildinfo_url :: "debian_source_pkg \<Rightarrow> string \<Rightarrow> string result" where
  "buildinfo_url src arch =
     map_sum id (\<lambda>directory.
         ''https://buildinfos.debian.net/buildinfo-pool/'' @ directory @ ''/'' @ dsp_base src @ ''/'' @
         dsp_base src @ ''_'' @
         (case split_once '':'' (dsp_version src) of Some (epoch, v) \<Rightarrow> v | None \<Rightarrow> dsp_version src) @
         ''_'' @ arch @ ''.buildinfo'')
       (buildinfo_path (dsp_base src))"

section \<open>Reports\<close>

type_synonym report_key = "string \<times> string \<times> string"
type_synonym sync_state = "(report_key \<times> package_report) list"

definition create_release_group :: "report_key \<Rightarrow> sync_state \<Rightarrow> sync_state" where
  "create_release_group k reports =
     (case k of (release, component, architecture) \<Rightarrow>
        if map_of reports k \<noteq> None then reports
        else reports @ [(k, \<lparr>pr_distribution = ''debian'', pr_release = Some release,
          pr_component = Some component, pr_architecture = architecture, pr_packages = []\<rparr>)])"

definition is_group_of :: "debian_source_pkg \<Rightarrow> source_package_report \<Rightarrow> bool" where
  "is_group_of src p \<longleftrightarrow> dsp_base src = spr_name p \<and> dsp_version src = spr_version p"

text \<open>The first group of the source gets the artifact, or a new one at the end.\<close>

fun push_to_first :: "('g \<Rightarrow> bool) \<Rightarrow> ('g \<Rightarrow> 'g) \<Rightarrow> 'g list \<Rightarrow> 'g list" where
  "push_to_first p f [] = []"
| "push_to_first p f (g # gs) = (if p g then f g # gs else g # push_to_first p f gs)"

definition push_group ::
  "debian_source_pkg \<Rightarrow> binary_package_report \<Rightarrow> string \<Rightarrow> source_package_report list \<Rightarrow>
   source_package_report list result" where
  "push_group src artifact arch packages =
     (if list_ex (is_group_of src) packages then
        Inr (push_to_first (is_group_of src) (\<lambda>g. g\<lparr>spr_artifacts := spr_artifacts g @ [artifact]\<rparr>) packages)
      else
        map_sum id (\<lambda>url. packages @
            [(plain_group (dsp_base src) (dsp_version src) url)\<lparr>spr_artifacts := [artifact]\<rparr>])
          (buildinfo_url src arch))"

definition debian_artifact :: "string \<Rightarrow> debian_bin_pkg \<Rightarrow> binary_package_report" where
  "debian_artifact source bin =
     \<lparr>bpr_name = dbp_name bin, bpr_version = dbp_version bin,
      bpr_architecture = dbp_architecture bin, bpr_url = source @ ''/'' @ dbp_filename bin\<rparr>"

definition sync_state_push ::
  "debian_source_pkg \<Rightarrow> debian_bin_pkg \<Rightarrow> string \<Rightarrow> string \<Rightarrow> string \<Rightarrow> sync_state \<Rightarrow> sync_state result" where
  "sync_state_push src bin source release component reports0 =
     (let k = (release, component, dbp_architecture bin);
          reports = create_release_group k reports0;
          report = the (map_of reports k)
      in map_sum id (\<lambda>packages. AList.update k (report\<lparr>pr_packages := packages\<rparr>) reports)
           (push_group src (debian_artifact source bin) (dbp_architecture bin) (pr_packages report)))"

definition import_binary_pkg ::
  "source_bucket \<Rightarrow> string \<Rightarrow> string \<Rightarrow> pkgs_sync \<Rightarrow> debian_bin_pkg \<Rightarrow> sync_state \<Rightarrow> sync_state result" where
  "import_binary_pkg sources release component sync pkg reports =
     (if \<not> pkg_matches (dbp_name pkg) (debian_by_maintainer pkg) sync \<or>
         dbp_architecture pkg \<notin> set (ps_architectures sync) then Inr reports
      else
        (case bucket_get sources pkg of
           Inl _ \<Rightarrow> Inr reports
         | Inr source \<Rightarrow> sync_state_push source pkg (ps_source sync) release component reports))"

definition create_all_release_groups :: "string \<Rightarrow> string \<Rightarrow> pkgs_sync \<Rightarrow> sync_state \<Rightarrow> sync_state" where
  "create_all_release_groups release component sync reports =
     fold (\<lambda>arch. create_release_group (release, component, arch)) (ps_architectures sync) reports"

definition import_binary_package_file ::
  "(bytes \<Rightarrow> string result list) \<Rightarrow> bytes \<Rightarrow> source_bucket \<Rightarrow> string \<Rightarrow> string \<Rightarrow> pkgs_sync \<Rightarrow>
   sync_state \<Rightarrow> sync_state result" where
  "import_binary_package_file unxz bs sources release component sync reports =
     (case extract_pkgs_compressed unxz to_debian_bin bs of
        Inl e \<Rightarrow> Inl e
      | Inr pkgs \<Rightarrow>
          fold_result (import_binary_pkg sources release component sync) pkgs
            (create_all_release_groups release component sync reports))"

section \<open>The sync\<close>

definition source_component :: "string \<Rightarrow> string" where
  "source_component component =
     (if ends_with ''/debian-installer'' component then
        (case split_once ''/'' component of Some (a, b) \<Rightarrow> a | None \<Rightarrow> component)
      else component)"

definition import_architecture ::
  "(string \<Rightarrow> bytes result) \<Rightarrow> (bytes \<Rightarrow> string result list) \<Rightarrow> pkgs_sync \<Rightarrow> string \<Rightarrow> string \<Rightarrow>
   source_bucket \<Rightarrow> string \<Rightarrow> sync_state \<Rightarrow> sync_state result" where
  "import_architecture fetch unxz sync release component sources arch state =
     (case fetch (ps_source sync @ ''/dists/'' @ release @ ''/'' @ component @ ''/binary-'' @ arch @ ''/Packages.xz'') of
        Inl _ \<Rightarrow> Inr state
      | Inr bs \<Rightarrow> import_binary_package_file unxz bs sources release component sync state)"

definition import_component ::
  "(string \<Rightarrow> bytes result) \<Rightarrow> (bytes \<Rightarrow> string result list) \<Rightarrow> pkgs_sync \<Rightarrow> string \<Rightarrow> string \<Rightarrow>
   source_bucket \<times> sync_state \<Rightarrow> (source_bucket \<times> sync_state) result" where
  "import_component fetch unxz sync release component s =
     (case fetch (ps_source sync @ ''/dists/'' @ release @ ''/'' @ source_component component @ ''/source/Sources.xz'') of
        Inl e \<Rightarrow> Inl e
      | Inr bs \<Rightarrow>
         (case import_sources unxz bs (fst s) of
            Inl e \<Rightarrow> Inl e
          | Inr sources \<Rightarrow>
              map_sum id (Pair sources)
                (fold_result (import_architecture fetch unxz sync release component sources)
                   (ps_architectures sync) (snd s))))"

definition import_release ::
  "(string \<Rightarrow> bytes result) \<Rightarrow> (bytes \<Rightarrow> string result list) \<Rightarrow> pkgs_sync \<Rightarrow> string \<Rightarrow> sync_state \<Rightarrow>
   sync_state result" where
  "import_release fetch unxz sync release state =
     map_sum id snd
       (fold_result (import_component fetch unxz sync release) (ps_components sync) (Map.empty, state))"

definition debian_sync ::
  "(string \<Rightarrow> bytes result) \<Rightarrow> (bytes \<Rightarrow> string result list) \<Rightarrow> pkgs_sync \<Rightarrow> package_report list result" where
  "debian_sync fetch unxz sync =
     map_sum id (map snd) (fold_result (import_release fetch unxz sync) (ps_releases sync) [])"

end
