(* ===== verification/DebianIndex.thy ===== *)
theory DebianIndex
  imports Debian Utils
begin

text \<open>
  The parser of a Debian package index (\<open>tools/src/schedule/debian.rs\<close>) reads back what an index
  says: the order of the fields, fields it does not know, and lines that are no fields do not matter.
\<close>

section \<open>Separators\<close>

lemma split_once_first: "c \<notin> set a \<Longrightarrow> split_once (c # p) (a @ c # p @ b) = Some (a, b)"
  by (induction a) auto

lemma split_once_none: "c \<notin> set a \<Longrightarrow> split_once (c # p) a = None"
  by (induction a) auto

lemma split_str_first:
  "c \<notin> set a \<Longrightarrow> split_str (c # p) (a @ c # p @ b) = a # split_str (c # p) b"
proof (induction a)
  case Nil
  then show ?case by (subst split_str.simps) simp
next
  case (Cons x a)
  then show ?case by (subst split_str.simps) auto
qed

lemma split_str_last: "c \<notin> set a \<Longrightarrow> split_str (c # p) a = [a]"
proof (induction a)
  case Nil
  then show ?case by (subst split_str.simps) simp
next
  case (Cons x a)
  then show ?case by (subst split_str.simps) auto
qed

lemma split_str_join:
  "us \<noteq> [] \<Longrightarrow> \<forall>u\<in>set us. c \<notin> set u \<Longrightarrow> split_str (c # p) (join_with (c # p) us) = us"
proof (induction us rule: induct_list012)
  case (3 u v us)
  then show ?case using split_str_first[of c u p "join_with (c # p) (v # us)"] by simp
qed (simp_all add: split_str_last)

section \<open>A stanza\<close>

definition stanza_fields :: "string list \<Rightarrow> (string \<times> string) list" where
  "stanza_fields ls = List.map_filter (split_once '': '') ls"

text \<open>The value of a field is the last one given.\<close>

definition field_value :: "string \<Rightarrow> string list \<Rightarrow> string option" where
  "field_value k ls = map_of (rev (stanza_fields ls)) k"

definition stanza_pkg :: "string list \<Rightarrow> new_debian_pkg" where
  "stanza_pkg ls = \<lparr>ndp_base = field_value ''Package'' ls, ndp_binary = None,
     ndp_source = field_value ''Source'' ls, ndp_version = field_value ''Version'' ls,
     ndp_directory = field_value ''Directory'' ls, ndp_architecture = field_value ''Architecture'' ls,
     ndp_filename = field_value ''Filename'' ls,
     ndp_uploaders = (case field_value ''Uploaders'' ls of None \<Rightarrow> [] | Some us \<Rightarrow> split_str '', '' us)\<rparr>"

lemma stanza_fields_simps [simp]:
  "stanza_fields [] = []"
  "stanza_fields (l # ls) = (case split_once '': '' l of None \<Rightarrow> stanza_fields ls | Some f \<Rightarrow> f # stanza_fields ls)"
  by (simp_all add: stanza_fields_def split: option.split)

lemma stanza_fields_append [simp]: "stanza_fields (ls @ ms) = stanza_fields ls @ stanza_fields ms"
  by (induction ls) (simp_all split: option.split)

lemma field_value_Nil [simp]: "field_value k [] = None"
  by (simp add: field_value_def)

lemma field_value_snoc:
  "field_value k (ls @ [l]) =
     (case split_once '': '' l of
        Some (a, b) \<Rightarrow> if a = k then Some b else field_value k ls
      | None \<Rightarrow> field_value k ls)"
  by (simp add: field_value_def split: option.split prod.split)

text \<open>Reading the lines of a stanza, whatever was read of it before.\<close>

lemma extract_pkgs_lines:
  assumes "[] \<notin> set ls" "field_value ''Binary'' (before @ ls) = None"
  shows "extract_pkgs try_from (stanza_pkg before) (map Inr ls @ rest) =
    extract_pkgs try_from (stanza_pkg (before @ ls)) rest"
  using assms
proof (induction ls arbitrary: before)
  case Nil
  then show ?case by simp
next
  case (Cons l ls)
  have step: "extract_pkgs try_from (stanza_pkg (before @ [l])) (map Inr ls @ rest) =
      extract_pkgs try_from (stanza_pkg (before @ l # ls)) rest"
    using Cons.IH[of "before @ [l]"] Cons.prems by simp
  have "l \<noteq> []" using Cons.prems(1) by auto
  show ?case
  proof (cases "split_once '': '' l")
    case None
    then have "stanza_pkg (before @ [l]) = stanza_pkg before" by (simp add: stanza_pkg_def field_value_snoc)
    with step None \<open>l \<noteq> []\<close> show ?thesis by simp
  next
    case (Some ab)
    obtain a b where ab: "ab = (a, b)" by fastforce
    have "(''Binary'', b) \<notin> set (stanza_fields (before @ l # ls))"
      using Cons.prems(2) by (auto simp: field_value_def map_of_eq_None_iff image_iff)
    then have "a \<noteq> ''Binary''" using Some ab
      by auto
    then have "debian_field a b (map Inr ls @ rest) (stanza_pkg before) =
        Inr (stanza_pkg (before @ [l]), map Inr ls @ rest)"
      using Some ab by (auto simp: debian_field_def stanza_pkg_def field_value_snoc)
    with step Some ab \<open>l \<noteq> []\<close> show ?thesis by simp
  qed
qed

lemma stanza_pkg_Nil: "stanza_pkg [] = empty_debian_pkg"
  by (simp add: stanza_pkg_def empty_debian_pkg_def)

lemma extract_pkgs_stanza:
  assumes "[] \<notin> set ls" "field_value ''Binary'' ls = None" "try_from (stanza_pkg ls) = Inr p"
  shows "extract_pkgs try_from empty_debian_pkg (map Inr ls @ Inr [] # rest) =
    map_sum id (Cons p) (extract_pkgs try_from empty_debian_pkg rest)"
  using extract_pkgs_lines[of ls "[]" try_from "Inr [] # rest"] assms by (simp add: stanza_pkg_Nil)

section \<open>An index of binary packages\<close>

fun source_text :: "string \<times> version_constraint \<Rightarrow> string" where
  "source_text (n, Implicit v) = n"
| "source_text (n, Explicit v) = n @ '' ('' @ v @ '')''"

text \<open>What a stanza has to say of a package. The source may be left out when it is named like the
  package and has its version.\<close>

definition renders_bin :: "debian_bin_pkg \<Rightarrow> string list \<Rightarrow> bool" where
  "renders_bin p ls \<longleftrightarrow> [] \<notin> set ls \<and> field_value ''Binary'' ls = None \<and>
     field_value ''Package'' ls = Some (dbp_name p) \<and>
     field_value ''Version'' ls = Some (dbp_version p) \<and>
     field_value ''Architecture'' ls = Some (dbp_architecture p) \<and>
     field_value ''Filename'' ls = Some (dbp_filename p) \<and>
     (field_value ''Source'' ls = Some (source_text (dbp_source p)) \<or>
      field_value ''Source'' ls = None \<and> dbp_source p = (dbp_name p, Implicit (dbp_version p))) \<and>
     field_value ''Uploaders'' ls =
       (if dbp_uploaders p = [] then None else Some (join_with '', '' (dbp_uploaders p)))"

text \<open>The packages that an index can name: the name of a source has no space, a source without a version
  has that of the package, and a name of an uploader has no comma.\<close>

definition bin_ok :: "debian_bin_pkg \<Rightarrow> bool" where
  "bin_ok p \<longleftrightarrow> CHR '' '' \<notin> set (fst (dbp_source p)) \<and>
     (case snd (dbp_source p) of Implicit v \<Rightarrow> v = dbp_version p | Explicit v \<Rightarrow> True) \<and>
     list_all (\<lambda>u. CHR '','' \<notin> set u) (dbp_uploaders p)"

definition bin_lines :: "debian_bin_pkg \<Rightarrow> string list" where
  "bin_lines p = map (\<lambda>(a, b). a @ '': '' @ b)
     ([(''Package'', dbp_name p), (''Source'', source_text (dbp_source p)), (''Version'', dbp_version p),
       (''Architecture'', dbp_architecture p), (''Filename'', dbp_filename p)] @
      (if dbp_uploaders p = [] then [] else [(''Uploaders'', join_with '', '' (dbp_uploaders p))]))"

definition index_lines :: "string list list \<Rightarrow> string result list" where
  "index_lines stanzas = concat (map (\<lambda>ls. map Inr ls @ [Inr []]) stanzas)"

lemma source_field_text:
  assumes "CHR '' '' \<notin> set n" "case c of Implicit v \<Rightarrow> v = version | Explicit v \<Rightarrow> True"
  shows "debian_source_field name version (Some (source_text (n, c))) = Inr (n, c)"
proof (cases c)
  case (Explicit v)
  have "split_once '' '' (n @ '' '' @ ''('' @ v @ '')'') = Some (n, ''('' @ v @ '')'')"
    using split_once_first[OF assms(1), of "[]"] by simp
  with Explicit show ?thesis
    by (simp add: debian_source_field_def strip_prefix_def strip_suffix_def suffix_def)
next
  case (Implicit v)
  with assms show ?thesis by (simp add: debian_source_field_def split_once_none)
qed

lemma stanza_of_bin:
  assumes "renders_bin p ls" "bin_ok p"
  shows "to_debian_bin (stanza_pkg ls) = Inr p"
proof -
  obtain n c where src: "dbp_source p = (n, c)" by fastforce
  have "debian_source_field (dbp_name p) (dbp_version p) (field_value ''Source'' ls) = Inr (n, c)"
    using assms src source_field_text[where n = n and c = c and version = "dbp_version p" and name = "dbp_name p"]
    by (auto simp: renders_bin_def bin_ok_def debian_source_field_def)
  moreover have "ndp_uploaders (stanza_pkg ls) = dbp_uploaders p"
    using assms split_str_join[of "dbp_uploaders p" "CHR '',''" "'' ''"]
    by (auto simp: renders_bin_def bin_ok_def stanza_pkg_def list_all_iff)
  ultimately show ?thesis
    using assms(1) src by (simp add: to_debian_bin_def renders_bin_def stanza_pkg_def)
qed

lemma renders_bin_lines: "renders_bin p (bin_lines p)"
proof -
  have "split_once '': '' (a @ '': '' @ b) = Some (a, b)" if "CHR '':'' \<notin> set a" for a b
    using split_once_first[OF that, of "'' ''" b] by simp
  from this[of "''Package''"] this[of "''Source''"] this[of "''Version''"] this[of "''Architecture''"]
    this[of "''Filename''"] this[of "''Uploaders''"]
  have "stanza_fields (bin_lines p) =
      [(''Package'', dbp_name p), (''Source'', source_text (dbp_source p)), (''Version'', dbp_version p),
       (''Architecture'', dbp_architecture p), (''Filename'', dbp_filename p)] @
      (if dbp_uploaders p = [] then [] else [(''Uploaders'', join_with '', '' (dbp_uploaders p))])"
    by (simp add: bin_lines_def)
  then show ?thesis by (simp add: renders_bin_def field_value_def) (auto simp: bin_lines_def)
qed

text \<open>C21: A package index is read back exactly. Whatever stanzas render a list of packages - with the
  fields in any order, among other fields and lines that are no fields - the parser returns those packages
  in that order, their sources with or without a version of their own, and their uploaders.\<close>

theorem debian_index_roundtrip:
  assumes "list_all2 renders_bin pkgs stanzas" "list_all bin_ok pkgs"
  shows "extract_pkgs to_debian_bin empty_debian_pkg (index_lines stanzas) = Inr pkgs"
  using assms
proof (induction rule: list_all2_induct)
  case Nil
  then show ?case by (simp add: index_lines_def)
next
  case (Cons p pkgs ls stanzas)
  then have "to_debian_bin (stanza_pkg ls) = Inr p" by (simp add: stanza_of_bin)
  moreover have "[] \<notin> set ls" "field_value ''Binary'' ls = None"
    using Cons.hyps(1) by (simp_all add: renders_bin_def)
  moreover have "index_lines (ls # stanzas) = map Inr ls @ Inr [] # index_lines stanzas"
    by (simp add: index_lines_def)
  ultimately show ?case using extract_pkgs_stanza[of ls to_debian_bin p] Cons by simp
qed

definition sample_bin :: debian_bin_pkg where
  "sample_bin = \<lparr>dbp_name = ''p'', dbp_version = ''1+b2'', dbp_source = (''s'', Explicit ''1''),
     dbp_architecture = ''amd64'', dbp_filename = ''p.deb'', dbp_uploaders = [''A <a@b>'', ''C <c@d>'']\<rparr>"

theorem debian_index_roundtrip_witness:
  "extract_pkgs to_debian_bin empty_debian_pkg (index_lines [bin_lines sample_bin, bin_lines sample_bin]) =
    Inr [sample_bin, sample_bin]"
  by (rule debian_index_roundtrip)
    (simp_all add: renders_bin_lines, simp add: bin_ok_def sample_bin_def)

end
