(* ===== verification/WorkQueue.thy ===== *)
theory WorkQueue
  imports QueueProps
begin

text \<open>
  The queue as a priority queue: what \<open>request_work\<close> promises to the workers, stated on the sorted list
  of the work there is. A request of an admitted worker takes the head of that list, so workers that ask
  one after the other get the jobs in the documented order, each once.
\<close>

section \<open>The interface\<close>

text \<open>
  \<open>pending\<close> is the list of what can be given out, first things first, and \<open>pop\<close> an operation of a
  caller that takes the first. A caller that is served once is served again.
\<close>

locale dispenser =
  fixes pending :: "'s \<Rightarrow> 'r list"
    and pop :: "'c \<Rightarrow> 's \<Rightarrow> 'r option \<times> 's"
    and served :: "'c \<Rightarrow> 's \<Rightarrow> bool"
    and valid :: "'s \<Rightarrow> bool"
  assumes pop_first: "valid s \<Longrightarrow> served c s \<Longrightarrow>
      fst (pop c s) = (case pending s of [] \<Rightarrow> None | r # _ \<Rightarrow> Some r)"
    and pop_rest: "valid s \<Longrightarrow> served c s \<Longrightarrow> pending (snd (pop c s)) = tl (pending s)"
    and pop_valid: "valid s \<Longrightarrow> valid (snd (pop c s))"
    and pop_served: "served c' s \<Longrightarrow> served c' (snd (pop c s))"
begin

fun pops :: "'c list \<Rightarrow> 's \<Rightarrow> 'r option list" where
  "pops [] s = []"
| "pops (c # cs) s = fst (pop c s) # pops cs (snd (pop c s))"

lemma pops_drain:
  assumes "valid s" "\<forall>c\<in>set cs. served c s"
  shows "pops cs s = map Some (take (length cs) (pending s)) @
    replicate (length cs - length (pending s)) None"
  using assms
proof (induction cs arbitrary: s)
  case (Cons c cs)
  from Cons.prems have "valid (snd (pop c s))" "\<forall>c'\<in>set cs. served c' (snd (pop c s))"
    by (auto intro: pop_valid pop_served)
  from Cons.IH[OF this] Cons.prems show ?case
    by (cases "pending s") (simp_all add: pop_first pop_rest)
qed simp

end

section \<open>The work there is\<close>

text \<open>The jobs that a worker with these architectures and backends can be given at \<open>t2\<close>, when those are
  released that were stale at \<open>t1\<close>.\<close>

definition sorted_work :: "time \<Rightarrow> time \<Rightarrow> pop_queued_job_request \<Rightarrow> db \<Rightarrow> queue_row list" where
  "sorted_work t1 t2 request d = sort_key work_order (work_for t1 t2 request d)"

lemma sort_key_Nil [simp]: "sort_key key xs = [] \<longleftrightarrow> xs = []"
  by (metis set_empty set_sort)

lemma first_by_sort_key: "first_by key xs = (case sort_key key xs of [] \<Rightarrow> None | x # _ \<Rightarrow> Some x)"
proof (induction xs)
  case (Cons x xs)
  then show ?case by (cases "sort_key key xs") auto
qed simp

text \<open>Whether a request passes the check of the worker's key; it does not depend on the time.\<close>

definition admitted :: "config \<Rightarrow> http_request \<Rightarrow> db \<Rightarrow> bool" where
  "admitted cfg req d \<longleftrightarrow> \<not> isl (fst (auth_worker cfg req 0 d))"

definition worker_keys :: "db \<Rightarrow> string set" where
  "worker_keys d = w_key ` set (rows (workers d))"

lemma admitted_iff:
  "\<not> isl (fst (auth_worker cfg req t d)) \<longleftrightarrow>
     authorized_workers (cfg_worker cfg) = [] \<and> signup_secret (cfg_worker cfg) = None \<or>
     (\<exists>k. header req worker_key_header = Inr k \<and> \<not> not_allow_listed cfg k \<and> k \<in> worker_keys d)"
  by (auto simp: auth_worker_def get_and_refresh_def worker_keys_def sql_exists_iff filter_empty_conv
      split: sum.split list.split)

lemma admitted_Inr: "admitted cfg req d \<Longrightarrow> \<exists>w d1. auth_worker cfg req t d = (Inr w, d1)"
proof -
  assume "admitted cfg req d"
  then have "\<not> isl (fst (auth_worker cfg req t d))" by (simp add: admitted_def admitted_iff)
  then show ?thesis by (cases "auth_worker cfg req t d"; cases "fst (auth_worker cfg req t d)") auto
qed

lemma admitted_mono: "worker_keys d \<subseteq> worker_keys d' \<Longrightarrow> admitted cfg req d \<Longrightarrow> admitted cfg req d'"
  by (auto simp: admitted_def admitted_iff)

lemma keys_update:
  assumes "\<And>r. p r \<Longrightarrow> key (f r) = key r"
  shows "key ` set (rows (sql_update p f t)) = key ` set (rows t)"
proof -
  have "map key (rows (sql_update p f t)) = map key (rows t)"
    using assms by (simp add: rows_update)
  then show ?thesis by (metis list.set_map)
qed

lemma worker_keys_update:
  "(\<And>v. w_key (f v) = w_key v) \<Longrightarrow> worker_keys (d\<lparr>workers := sql_update p f (workers d)\<rparr>) = worker_keys d"
  by (simp add: worker_keys_def keys_update)

lemma worker_keys_auth: "worker_keys d \<subseteq> worker_keys (snd (auth_worker cfg req t d))"
proof -
  have refresh: "worker_keys (snd (get_and_refresh k t d)) = worker_keys d" for k
    by (simp add: get_and_refresh_def worker_keys_update split: list.split)
  have "worker_keys d \<subseteq> worker_keys (snd (worker_upsert n d))" for n
  proof (cases "find (\<lambda>r. w_key r = nw_key n) (rows (workers d))")
    case None
    then show ?thesis by (auto simp: worker_keys_def worker_upsert_def sql_upsert_def rows_insert)
  next
    case (Some v)
    have "w_key ` set (rows (sql_update (\<lambda>r. w_key r = nw_key n) (worker_set n) (workers d))) =
        w_key ` set (rows (workers d))"
      by (rule keys_update) (simp add: worker_set_def worker_row_def)
    with Some show ?thesis by (simp add: worker_keys_def worker_upsert_def sql_upsert_def)
  qed
  with refresh show ?thesis by (auto simp: auth_worker_def get_or_create_def split: sum.split)
qed

lemma worker_keys_take [simp]:
  "worker_keys (clear_stale_jobs t d) = worker_keys d"
  "worker_keys (take_job w t j d) = worker_keys d"
  by (simp_all add: worker_keys_def clear_stale_jobs_def take_job_def keys_update)

lemma worker_keys_request_work:
  "worker_keys d \<subseteq> worker_keys (snd (request_work cfg req t0 t1 t2 t3 request d))"
  using worker_keys_auth[of d cfg req t0]
  by (cases "auth_worker cfg req t0 d")
    (auto simp: request_work_unfold split: sum.split option.split)

section \<open>One handout\<close>

lemma inner_join_map:
  assumes "\<And>x. on (f x) = on x"
  shows "inner_join on (map f xs) ys = map (\<lambda>(x, y). (f x, y)) (inner_join on xs ys)"
  unfolding inner_join_def by (simp add: assms map_concat comp_def)

lemma distinct_inner_join:
  assumes "distinct (map key xs)" "distinct (map k ys)" "\<And>x y y'. on x y \<Longrightarrow> on x y' \<Longrightarrow> k y = k y'"
  shows "distinct (map (\<lambda>r. key (fst r)) (inner_join on xs ys))"
  using assms(1)
proof (induction xs)
  case (Cons x xs)
  have "filter (on x) ys = [] \<or> (\<exists>y. filter (on x) ys = [y])"
  proof (cases "filter (on x) ys")
    case (Cons y zs)
    have "distinct (map k (filter (on x) ys))" by (rule distinct_map_filter_list[OF assms(2)])
    moreover have "k z = k y" if "z \<in> set zs" for z
    proof -
      have "\<forall>u\<in>set (y # zs). on x u" unfolding Cons[symmetric] by simp
      with that assms(3) show ?thesis by auto
    qed
    ultimately have "zs = []" unfolding Cons by (cases zs) auto
    with Cons show ?thesis by simp
  qed simp
  moreover have "key x \<notin> (\<lambda>r. key (fst r)) ` set (inner_join on xs ys)"
    using Cons.prems by (auto simp: set_inner_join)
  ultimately show ?case using Cons by (auto simp: inner_join_Cons)
qed (simp add: inner_join_def)

lemma distinct_inputs: "db_ok d \<Longrightarrow> distinct (map (\<lambda>r. bi_id (fst r)) (inputs_with_sources d))"
  unfolding inputs_with_sources_def
  by (rule distinct_inner_join[where k = sp_id]) (auto simp: wf_table_distinct db_ok_facts)

lemma distinct_queue_base: "db_ok d \<Longrightarrow> distinct (map (\<lambda>r. q_id (fst r)) (queue_base d))"
  unfolding queue_base_def
  by (rule distinct_inner_join[OF _ distinct_inputs]) (auto simp: wf_table_distinct db_ok_facts)

text \<open>What is handed out is gone from the list of work, the rest of it stays in its order.\<close>

lemma work_for_take:
  assumes auth: "auth_worker cfg req t0 d = (x, d1)" and "t1 \<le> t3 + seconds ping_deadline"
  shows "work_for t1 t2 request (take_job w t3 j (clear_stale_jobs t1 d1)) =
    filter (\<lambda>r. q_id (fst r) \<noteq> job_id j) (work_for t1 t2 request d)"
proof -
  let ?e = "clear_stale_jobs t1 d1"
  let ?d' = "take_job w t3 j ?e"
  let ?held = "\<lambda>q. if q_id q = job_id j
    then q\<lparr>q_started_at := Some t3, q_worker := Some (w_id w), q_last_ping := Some t3\<rparr> else q"
  have e: "queue_base ?e = queue_base (clear_stale_jobs t1 d)"
    using clear_stale_auth_base[of t1 cfg req t0 d] auth by simp
  have fresh: "\<not> is_stale t1 (?held q)" if "q \<in> set (rows (queue ?e))" for q
    using that assms(2) by (auto simp: clear_stale_jobs_def rows_update is_stale_def)
  have rows: "rows (queue (clear_stale_jobs t1 ?d')) = map ?held (rows (queue ?e))"
  proof -
    have "rows (queue (clear_stale_jobs t1 ?d')) = map (\<lambda>q. if is_stale t1 q
        then q\<lparr>q_worker := None, q_started_at := None, q_last_ping := None\<rparr> else q) (map ?held (rows (queue ?e)))"
      by (simp add: clear_stale_jobs_def[of t1 ?d'] rows_update)
        (simp add: take_job_def rows_update)
    also have "\<dots> = map ?held (rows (queue ?e))"
      unfolding map_map by (rule map_cong[OF refl]) (simp only: comp_def fresh if_False)
    finally show ?thesis .
  qed
  have "inputs_with_sources (clear_stale_jobs t1 ?d') = inputs_with_sources ?e"
    by (simp add: inputs_with_sources_def clear_stale_jobs_def take_job_def)
  with rows have "queue_base (clear_stale_jobs t1 ?d') = map (\<lambda>(q, bs). (?held q, bs)) (queue_base ?e)"
    unfolding queue_base_def by (simp add: inner_join_map)
  moreover have "eligible t2 A B (case r of (q, bs) \<Rightarrow> (?held q, bs)) \<longleftrightarrow>
      eligible t2 A B r \<and> q_id (fst r) \<noteq> job_id j" for A B r
    by (cases r) (auto simp: eligible_def)
  moreover have "map (\<lambda>(q, bs). (?held q, bs)) (filter (\<lambda>r. P r \<and> q_id (fst r) \<noteq> job_id j) rs) =
      filter (\<lambda>r. P r \<and> q_id (fst r) \<noteq> job_id j) rs" for P and rs :: "queue_row list"
    by (rule map_idI) auto
  ultimately show ?thesis
    unfolding work_for_def e[symmetric] by (simp add: filter_map comp_def)
qed

lemma job_id_row: "job_id (to_queued_job r) = q_id (fst r)"
  by (cases r) simp

lemma sorted_work_take:
  assumes "db_ok d" "auth_worker cfg req t0 d = (x, d1)" "t1 \<le> t3 + seconds ping_deadline"
    and "sorted_work t1 t2 request d = r # rs"
  shows "sorted_work t1 t2 request (take_job w t3 (to_queued_job r) (clear_stale_jobs t1 d1)) = rs"
proof -
  have "distinct (map (\<lambda>r. q_id (fst r)) (queue_base (clear_stale_jobs t1 d)))"
    by (intro distinct_queue_base db_ok_clear_stale_jobs assms(1))
  then have "distinct (map (\<lambda>r. q_id (fst r)) (work_for t1 t2 request d))"
    unfolding work_for_def by (rule distinct_map_filter_list)
  then have "distinct (map (\<lambda>r. q_id (fst r)) (sorted_work t1 t2 request d))"
    by (simp add: sorted_work_def distinct_map)
  then have "filter (\<lambda>r'. q_id (fst r') \<noteq> q_id (fst r)) (r # rs) = rs"
    unfolding assms(4) by (auto simp: filter_id_conv image_iff)
  then show ?thesis
    unfolding sorted_work_def work_for_take[OF assms(2,3)] job_id_row filter_sort[symmetric]
    using assms(4) by (simp add: sorted_work_def)
qed

section \<open>The queue is a dispenser\<close>

text \<open>A caller is a worker's request with the readings of the clock that are stored.\<close>

type_synonym work_call = "config \<times> http_request \<times> time \<times> time"

fun ask_work :: "time \<Rightarrow> time \<Rightarrow> pop_queued_job_request \<Rightarrow> work_call \<Rightarrow> db \<Rightarrow> queued_job option \<times> db" where
  "ask_work t1 t2 request (cfg, req, t0, t3) d =
     map_prod (\<lambda>r. case r of Ok200 (Rebuild jb) \<Rightarrow> Some (job jb) | _ \<Rightarrow> None) id
       (request_work cfg req t0 t1 t2 t3 request d)"

fun call_served :: "time \<Rightarrow> work_call \<Rightarrow> db \<Rightarrow> bool" where
  "call_served t1 (cfg, req, t0, t3) d \<longleftrightarrow> admitted cfg req d \<and> t1 \<le> t3 + seconds ping_deadline"

lemma ask_work_step:
  assumes "db_ok d" "call_served t1 c d"
  shows "fst (ask_work t1 t2 request c d) =
      (case map to_queued_job (sorted_work t1 t2 request d) of [] \<Rightarrow> None | j # _ \<Rightarrow> Some j)"
    and "sorted_work t1 t2 request (snd (ask_work t1 t2 request c d)) = tl (sorted_work t1 t2 request d)"
proof -
  obtain cfg req t0 t3 where c: "c = (cfg, req, t0, t3)" by (rule prod_cases4)
  with assms(2) have t3: "t1 \<le> t3 + seconds ping_deadline" by simp
  from assms(2) c admitted_Inr obtain w d1 where auth: "auth_worker cfg req t0 d = (Inr w, d1)" by fastforce
  have first: "first_by work_order (work_for t1 t2 request d) =
      (case sorted_work t1 t2 request d of [] \<Rightarrow> None | r # _ \<Rightarrow> Some r)"
    by (simp add: first_by_sort_key sorted_work_def)
  have idle: "work_for t1 t2 request (clear_stale_jobs t1 d1) = []" if "sorted_work t1 t2 request d = []"
  proof -
    have "\<not> is_stale t1 q" if "q \<in> set (rows (queue (clear_stale_jobs t1 d1)))" for q
      using that by (auto simp: clear_stale_jobs_def rows_update is_stale_def)
    then have "clear_stale_jobs t1 (clear_stale_jobs t1 d1) = clear_stale_jobs t1 d1"
      unfolding clear_stale_jobs_def[of t1 "clear_stale_jobs t1 d1"]
      by (simp add: sql_update_def cong: if_cong map_cong)
    with that show ?thesis
      using clear_stale_auth_base[of t1 cfg req t0 d] auth by (simp add: work_for_def sorted_work_def)
  qed
  show "fst (ask_work t1 t2 request c d) =
      (case map to_queued_job (sorted_work t1 t2 request d) of [] \<Rightarrow> None | j # _ \<Rightarrow> Some j)"
    by (cases "sorted_work t1 t2 request d") (simp_all add: c request_work_unfold auth first)
  show "sorted_work t1 t2 request (snd (ask_work t1 t2 request c d)) = tl (sorted_work t1 t2 request d)"
    by (cases "sorted_work t1 t2 request d")
      (simp_all add: c request_work_unfold auth first sorted_work_take[OF assms(1) auth t3],
        simp add: sorted_work_def idle[unfolded sorted_work_def])
qed

interpretation work: dispenser "\<lambda>d. map to_queued_job (sorted_work t1 t2 request d)"
  "ask_work t1 t2 request" "call_served t1" db_ok for t1 t2 request
proof
  fix d and c c' :: work_call assume "db_ok d"
  obtain cfg req t0 t3 where c: "c = (cfg, req, t0, t3)" by (rule prod_cases4)
  show "db_ok (snd (ask_work t1 t2 request c d))"
    using db_ok_request_work[OF \<open>db_ok d\<close>] by (simp add: c)
qed (auto simp: ask_work_step map_tl intro: admitted_mono[OF worker_keys_request_work])

section \<open>Draining the queue\<close>

fun handouts :: "time \<Rightarrow> time \<Rightarrow> pop_queued_job_request \<Rightarrow> work_call list \<Rightarrow> db \<Rightarrow> queued_job option list" where
  "handouts t1 t2 request [] d = []"
| "handouts t1 t2 request (c # cs) d =
     fst (ask_work t1 t2 request c d) # handouts t1 t2 request cs (snd (ask_work t1 t2 request c d))"

lemma handouts_pops: "handouts t1 t2 request cs d = work.pops t1 t2 request cs d"
  by (induction cs arbitrary: d) simp_all

text \<open>C3: The queue is a priority queue: when admitted workers ask one after the other for what a request
  describes, they are given exactly the free, due and supported jobs, each once and in the order of
  priority, day queued, age of the ports tree and source package; when those are used up they are told
  that there is nothing.\<close>

theorem queue_drains_in_order:
  assumes "db_ok d"
    and "\<forall>(cfg, req, t0, t3)\<in>set calls. admitted cfg req d \<and> t1 \<le> t3 + seconds ping_deadline"
  shows "handouts t1 t2 request calls d =
    map (\<lambda>r. Some (to_queued_job r))
      (take (length calls) (sort_key work_order (work_for t1 t2 request d))) @
    replicate (length calls - length (work_for t1 t2 request d)) None"
proof -
  have "\<forall>c\<in>set calls. call_served t1 c d" using assms(2) by auto
  from work.pops_drain[OF assms(1) this, of t2 request] show ?thesis
    by (simp add: handouts_pops sorted_work_def take_map comp_def)
qed

definition sample_calls :: "work_call list" where
  "sample_calls = replicate 3 (sample_cfg, sample_req, 10, 10)"

theorem queue_drains_in_order_witness:
  "map (map_option job_id) (handouts 10 10 sample_pop sample_calls sample_db2) = [Some 1, Some 2, None]"
proof -
  have "\<forall>(cfg, req, t0, t3)\<in>set sample_calls. admitted cfg req sample_db2 \<and> 10 \<le> t3 + seconds ping_deadline"
    by (simp add: sample_calls_def admitted_iff[folded admitted_def] admitted_def auth_worker_def
        sample_cfg_def seconds_def)
  from queue_drains_in_order[OF sample_db2_ok this, of 10 sample_pop]
  have "map (map_option job_id) (handouts 10 10 sample_pop sample_calls sample_db2) =
      map (\<lambda>r. Some (q_id (fst r))) (take 3 (sort_key work_order (work_for 10 10 sample_pop sample_db2))) @
      replicate (3 - length (work_for 10 10 sample_pop sample_db2)) None"
    by (simp add: sample_calls_def comp_def job_id_row)
  moreover have ids: "map (\<lambda>r. q_id (fst r)) (sort_key work_order (work_for 10 10 sample_pop sample_db2)) = [1, 2]"
    by code_simp
  moreover have "length (work_for 10 10 sample_pop sample_db2) = 2"
    using arg_cong[OF ids, of length] by simp
  ultimately show ?thesis by (auto simp: map_eq_Cons_conv numeral_eq_Suc)
qed

end
