(* ===== verification/Exclusive.thy ===== *)
theory Exclusive
  imports Daemon QueueProps
begin

text \<open>
  A worker keeps its job: over all interleavings of requests, by workers, administrators and readers, a
  job that a worker holds is given to nobody else before the worker has been silent for the ping
  deadline. The run of the daemon is watched from outside: the watcher notes for every job the worker
  that last heard of it, with the time.
\<close>

section \<open>Operations that change no holder\<close>

text \<open>Every row that is left is as far as its input and holder go the one that was, or it has a new id.\<close>

definition same_holder :: "queued \<Rightarrow> queued \<Rightarrow> bool" where
  "same_holder q q' \<longleftrightarrow>
     q_id q' = q_id q \<and> q_build_input_id q' = q_build_input_id q \<and> q_worker q' = q_worker q \<and>
     q_last_ping q' = q_last_ping q"

definition holders_kept :: "queued table \<Rightarrow> queued table \<Rightarrow> bool" where
  "holders_kept t t' \<longleftrightarrow> seq t \<le> seq t' \<and>
     (\<forall>q'\<in>set (rows t'). seq t < q_id q' \<or> (\<exists>q\<in>set (rows t). same_holder q q'))"

lemma holders_refl [simp]: "holders_kept t t"
  by (auto simp: holders_kept_def same_holder_def)

lemma holders_trans: "holders_kept t u \<Longrightarrow> holders_kept u v \<Longrightarrow> holders_kept t v"
  unfolding holders_kept_def same_holder_def by (metis le_less_trans order_trans)

lemma holders_insert:
  "holders_kept t u \<Longrightarrow> q_id (mk (seq u + 1)) = seq u + 1 \<Longrightarrow> holders_kept t (snd (sql_insert mk u))"
  by (rule holders_trans, assumption) (auto simp: holders_kept_def rows_insert seq_simps same_holder_def)

lemma holders_update:
  assumes "holders_kept t u" "\<And>q. q \<in> set (rows u) \<Longrightarrow> p q \<Longrightarrow> same_holder q (f q)"
  shows "holders_kept t (sql_update p f u)"
  by (rule holders_trans[OF assms(1)])
    (use assms(2) in \<open>auto simp: holders_kept_def rows_update seq_simps same_holder_def\<close>)

lemma holders_delete: "holders_kept t u \<Longrightarrow> holders_kept t (sql_delete p u)"
  by (rule holders_trans, assumption) (auto simp: holders_kept_def rows_delete seq_simps same_holder_def)

definition nobody_takes :: "db \<Rightarrow> db \<Rightarrow> bool" where
  "nobody_takes d e \<longleftrightarrow> holders_kept (queue d) (queue e)"

named_theorems holder_intros \<open>operations that change no holder\<close>

lemma nobody_takes_refl [simp]: "nobody_takes d d"
  by (simp add: nobody_takes_def)

lemma nobody_takes_same: "queue e = queue d \<Longrightarrow> nobody_takes d e"
  by (simp add: nobody_takes_def)

lemma nobody_takes_queue_upsert [holder_intros]:
  assumes "nobody_takes d e" shows "nobody_takes d (snd (queue_upsert n e))"
proof (cases "find (\<lambda>r. q_build_input_id r = nq_build_input_id n) (rows (queue e))")
  case None
  then show ?thesis using assms
    by (simp add: nobody_takes_def queue_upsert_def sql_upsert_def holders_insert queued_row_def)
next
  case (Some q)
  then show ?thesis using assms
    by (auto simp: nobody_takes_def queue_upsert_def sql_upsert_def same_holder_def queued_set_def
        intro!: holders_update)
qed

lemma nobody_takes_deletes [holder_intros]:
  "nobody_takes d e \<Longrightarrow> nobody_takes d (queued_delete r e)"
  "nobody_takes d e \<Longrightarrow> nobody_takes d (mark_build_input_friends_as_non_retriable i e)"
  "nobody_takes d e \<Longrightarrow> nobody_takes d (drop_unseen_scoped_jobs report e)"
  by (simp_all add: nobody_takes_def queued_delete_def mark_build_input_friends_as_non_retriable_def
      clear_next_retry_def drop_unseen_scoped_jobs_def Let_def holders_delete)

text \<open>Most operations on records leave the queue alone.\<close>

lemma nobody_takes_other [holder_intros]:
  "nobody_takes d e \<Longrightarrow> nobody_takes d (snd (auth_worker cfg req now e))"
  "nobody_takes d e \<Longrightarrow> nobody_takes d (snd (build_log_insert log e))"
  "nobody_takes d e \<Longrightarrow> nobody_takes d (increment_retries is e)"
  "nobody_takes d e \<Longrightarrow> nobody_takes d (set_next_retries is t e)"
  "nobody_takes d e \<Longrightarrow> nobody_takes d (set_next_retry i t e)"
  "nobody_takes d e \<Longrightarrow> nobody_takes d (reset_latest_rebuild i e)"
  "nobody_takes d e \<Longrightarrow> nobody_takes d (snd (source_package_upsert s e))"
  "nobody_takes d e \<Longrightarrow> nobody_takes d (snd (build_input_upsert b e))"
  "nobody_takes d e \<Longrightarrow> nobody_takes d (mark_scoped_packages_unseen report e)"
  "nobody_takes d e \<Longrightarrow> nobody_takes d (snd (binary_package_upsert p e))"
  "nobody_takes d e \<Longrightarrow> nobody_takes d (snd (rebuild_insert r e))"
  "nobody_takes d e \<Longrightarrow> nobody_takes d (rebuild_artifact_insert a e)"
  "nobody_takes d e \<Longrightarrow> nobody_takes d (snd (diffoscope_log_insert log e))"
  "nobody_takes d e \<Longrightarrow> nobody_takes d (snd (attestation_log_insert log e))"
  by (simp_all add: nobody_takes_def build_log_insert_def increment_retries_def binary_package_upsert_def
      rebuild_insert_def rebuild_artifact_insert_def diffoscope_log_insert_def attestation_log_insert_def set_next_retries_def
      set_next_retry_def reset_latest_rebuild_def source_package_upsert_def build_input_upsert_def
      mark_scoped_packages_unseen_def Let_def frame_simps split: option.split)

lemma nobody_takes_fold:
  "nobody_takes d e \<Longrightarrow> (\<And>x e. nobody_takes d e \<Longrightarrow> nobody_takes d (f x e)) \<Longrightarrow>
     nobody_takes d (fold f xs e)"
  by (induction xs arbitrary: e) simp_all

section \<open>Results and syncs\<close>

lemma nobody_takes_artifacts [holder_intros]:
  "nobody_takes d e \<Longrightarrow> nobody_takes d (snd (record_artifacts enc i as logs e))"
proof (induction as arbitrary: logs e)
  case (Cons a as)
  have "nobody_takes d (snd (insert_artifact_logs enc a e))"
    using Cons.prems
    by (simp add: insert_artifact_logs_def case_prod_beta holder_intros split: sum.split option.split)
  then have "nobody_takes d (snd (record_artifact enc i a logs e))"
    using Cons.prems
    by (auto simp: record_artifact_def case_prod_beta intro!: holder_intros split: sum.split option.split)
  with Cons.IH show ?case by (auto split: prod.split sum.split)
qed simp

lemma nobody_takes_friends [holder_intros]:
  "nobody_takes d e \<Longrightarrow> nobody_takes d (snd (record_friends enc report q l is logs e))"
proof (induction "is" arbitrary: logs e)
  case (Cons i "is")
  show ?case by (auto simp: case_prod_beta intro!: holder_intros Cons split: sum.split)
qed simp

lemma nobody_takes_submit_rebuild_report:
  "nobody_takes d (snd (submit_rebuild_report enc cfg req t0 now report d))"
  unfolding submit_rebuild_report_def record_report_def schedule_retry_def Let_def case_prod_beta
  by (auto intro!: holder_intros split: sum.split list.split)

lemma nobody_takes_copy_existing:
  assumes "nobody_takes d e" "copy_existing_rebuilds b e = Inr e'"
  shows "nobody_takes d e'"
proof -
  have copy: "nobody_takes d f'" if "nobody_takes d f" "copy_rebuild i j f = Inr f'" for i j f f'
    using that unfolding copy_rebuild_def copy_artifacts_def case_prod_beta
    by (auto split: list.splits intro!: nobody_takes_fold holder_intros)
  from assms show ?thesis
    by (auto simp: copy_existing_rebuilds_def split: option.splits if_splits
        elim!: fold_result_Inr_invariant intro: copy)
qed

lemma nobody_takes_sync_package:
  assumes "nobody_takes d e" "sync_package schedule now report p e = Inr e'"
  shows "nobody_takes d e'"
  using assms(2)
proof (cases rule: sync_package_steps)
  case (1 s e1 b e2 e3)
  have "nobody_takes d e2" unfolding 1(2,4) by (intro holder_intros assms(1))
  then have "nobody_takes d (file_binaries report (sp_id s) (bi_id b) (spr_artifacts p) e2)"
    unfolding file_binaries_def by (rule nobody_takes_fold) (auto intro: holder_intros)
  with 1(5) have "nobody_takes d e3" by (auto intro: nobody_takes_copy_existing split: if_splits)
  with 1(6) show ?thesis
    by (auto simp: queue_if_needed_def intro!: holder_intros split: sum.splits if_splits)
qed

lemma nobody_takes_submit_package_report:
  "nobody_takes d (snd (submit_package_report cfg req now report d))"
proof -
  have "nobody_takes d e" if "sync_report schedule now report d = Inr e" for schedule e
  proof -
    from that obtain s where s: "fold_result (sync_package schedule now report) (pr_packages report)
        (mark_scoped_packages_unseen report d) = Inr s" "e = drop_unseen_scoped_jobs report s"
      by (auto simp: sync_report_def map_sum_Inr)
    have "nobody_takes d s"
      by (rule fold_result_Inr_invariant[OF s(1)])
        (auto intro: holder_intros nobody_takes_sync_package)
    then show ?thesis by (simp add: s(2) holder_intros)
  qed
  then show ?thesis by (auto simp: submit_package_report_def split: sum.split)
qed

section \<open>All other requests\<close>

lemma nobody_takes_request_rebuild: "nobody_takes d (snd (request_rebuild cfg req now request d))"
proof -
  have "nobody_takes d (requeue_input reset p now i e)" if "nobody_takes d e" for reset p i e
    using that unfolding requeue_input_def by (auto intro!: holder_intros)
  then show ?thesis
    by (auto simp: request_rebuild_def Let_def intro!: nobody_takes_fold split: sum.split)
qed

lemma nobody_takes_collect_stats:
  "nobody_takes d (snd (collect_stats dec lossy new m cfg req stats_cfg now collect d))"
  by (rule collect_stats_invariant)
    (auto simp: collect_one_def Let_def case_prod_beta stats_snapshot_insert_def
      stats_category_insert_batch_def nobody_takes_def split: sum.split)

lemma nobody_takes_run_peer_check:
  assumes "run_peer_check v1 v0 completed clock dist arch dp dl d = Some (r, d')"
  shows "nobody_takes d d'"
proof -
  have "nobody_takes d e" if "replace_peer_checks compared upserts d = Inr e" for compared upserts e
  proof (rule fold_result_Inr_invariant[OF that[unfolded replace_peer_checks_def]])
    fix n s s' assume "nobody_takes d s" "insert_peer_check n s = Inr s'"
    then show "nobody_takes d s'" by (auto simp: insert_peer_check_def nobody_takes_def split: if_splits)
  qed (rule nobody_takes_same; simp)
  with assms show ?thesis
    by (auto simp: run_peer_check_def Let_def split: if_splits option.splits sum.splits)
qed

lemma nobody_takes_check_peers: "nobody_takes d (snd (check_peers cfg req request d))"
proof -
  have "nobody_takes d (fold (\<lambda>url. peer_rebuilder_upsert (n url)) urls d)" for n and urls :: "string list"
    by (rule nobody_takes_fold) (auto simp: peer_rebuilder_upsert_def nobody_takes_def)
  moreover have "nobody_takes d (delete_peer_rebuilders p e)" if "nobody_takes d e" for p e
    using that by (simp add: delete_peer_rebuilders_def Let_def nobody_takes_def)
  ultimately show ?thesis by (auto simp: check_peers_def split: sum.split)
qed

lemma nobody_takes_workers:
  "nobody_takes d (snd (register_worker parse_ip cfg req now registration d))"
  "nobody_takes d (snd (unregister_worker cfg req now i d))"
  "nobody_takes d (snd (list_workers cfg req now d))"
  "nobody_takes d (snd (get_build_artifact_attestation dec sgn' cfg req i a d))"
  by (rule nobody_takes_same; simp add: register_worker_def worker_upsert_def unregister_worker_def
      list_workers_def mark_stale_workers_def get_build_artifact_attestation_def Let_def case_prod_beta
      frame_simps split: sum.split option.split list.split)+

lemma nobody_takes_drops:
  "nobody_takes d (snd (drop_queued_job cfg req i d))"
  "nobody_takes d (snd (drop_queued_jobs cfg req origin identity d))"
  by (auto simp: drop_queued_job_def drop_queued_jobs_def nobody_takes_def Let_def holders_delete
      split: sum.split)

lemma nobody_takes_quiet_step: "quiet_step env cfg d d' \<Longrightarrow> nobody_takes d d'"
  by (induction rule: quiet_step.induct)
    (simp_all add: nobody_takes_submit_package_report nobody_takes_request_rebuild
      nobody_takes_collect_stats nobody_takes_run_peer_check
      nobody_takes_check_peers nobody_takes_workers nobody_takes_drops)

lemma nobody_takes_other_step: "other_step env cfg d d' \<Longrightarrow> nobody_takes d d'"
  by (induction rule: other_step.induct)
    (simp_all add: nobody_takes_submit_rebuild_report nobody_takes_quiet_step)

section \<open>Watching the daemon\<close>

text \<open>
  The database, the latest reading of the clock and, for every job, the worker that last got it or
  pinged it with success, and when. The clock does not go back between requests; a request reads it as
  often as the code does.
\<close>

type_synonym contacts = "int \<Rightarrow> (int \<times> time) option"
type_synonym watched = "db \<times> time \<times> contacts"

inductive watched_step :: "'re daemon_env \<Rightarrow> watched \<Rightarrow> watched \<Rightarrow> bool" for env where
  handed_out: "request_work cfg req t0 t1 t2 t3 request d = (Ok200 (Rebuild jb), e) \<Longrightarrow>
    fst (auth_worker cfg req t0 d) = Inr w \<Longrightarrow> now \<le> t1 \<Longrightarrow> t1 \<le> t3 \<Longrightarrow>
    watched_step env (d, now, contacts) (e, t3, contacts(job_id (job jb) \<mapsto> (w_id w, t3)))"
| not_handed_out: "request_work cfg req t0 t1 t2 t3 request d = (r, e) \<Longrightarrow>
    \<not> is_rebuild r \<Longrightarrow> now \<le> t1 \<Longrightarrow> watched_step env (d, now, contacts) (e, t1, contacts)"
| pinged: "ping_job cfg req t0 t i d = (NoContent204, e) \<Longrightarrow>
    fst (auth_worker cfg req t0 d) = Inr w \<Longrightarrow> now \<le> t \<Longrightarrow>
    watched_step env (d, now, contacts) (e, t, contacts(i \<mapsto> (w_id w, t)))"
| not_pinged: "ping_job cfg req t0 t i d = (r, e) \<Longrightarrow> r \<noteq> NoContent204 \<Longrightarrow> now \<le> t \<Longrightarrow>
    watched_step env (d, now, contacts) (e, t, contacts)"
| other_request: "other_step env cfg d e \<Longrightarrow> now \<le> t \<Longrightarrow>
    watched_step env (d, now, contacts) (e, t, contacts)"

inductive watched_reaches :: "'re daemon_env \<Rightarrow> watched \<Rightarrow> watched \<Rightarrow> bool" for env where
  watched_start: "watched_reaches env s s"
| watched_next: "watched_reaches env s u \<Longrightarrow> watched_step env u v \<Longrightarrow> watched_reaches env s v"

text \<open>Until its worker has been silent for too long, a job that is still queued is the worker's.\<close>

definition contact_ok :: "db \<Rightarrow> time \<Rightarrow> contacts \<Rightarrow> bool" where
  "contact_ok d now contacts \<longleftrightarrow>
     (\<forall>j w t. contacts j = Some (w, t) \<longrightarrow> j \<le> seq (queue d) \<and>
        (now \<le> t + seconds ping_deadline \<longrightarrow>
           (\<forall>q\<in>set (rows (queue d)). q_id q = j \<longrightarrow> q_worker q = Some w \<and> q_last_ping q = Some t)))"

lemma contact_okD:
  assumes "contact_ok d now contacts" "contacts (q_id q) = Some (w, t)" "q \<in> set (rows (queue d))"
    and "now \<le> t + seconds ping_deadline"
  shows "q_worker q = Some w \<and> q_last_ping q = Some t"
  using assms unfolding contact_ok_def by blast

lemma contact_ok_kept:
  assumes "contact_ok d now contacts" "nobody_takes d e" "now \<le> t"
  shows "contact_ok e t contacts"
  unfolding contact_ok_def
proof (intro allI impI conjI ballI)
  fix j w s assume c: "contacts j = Some (w, s)"
  with assms(1) have j: "j \<le> seq (queue d)" by (simp add: contact_ok_def)
  with assms(2) show "j \<le> seq (queue e)" by (simp add: nobody_takes_def holders_kept_def)
  fix q assume q: "t \<le> s + seconds ping_deadline" "q \<in> set (rows (queue e))" "q_id q = j"
  with assms(2) j obtain q0 where "q0 \<in> set (rows (queue d))" "same_holder q0 q"
    by (auto simp: nobody_takes_def holders_kept_def)
  with contact_okD[OF assms(1), of q0 w s] c q assms(3)
  show "q_worker q = Some w" "q_last_ping q = Some s" by (auto simp: same_holder_def)
qed

text \<open>Releasing stale jobs takes none of those.\<close>

lemma contact_ok_clear_stale:
  assumes "contact_ok d now contacts" "now \<le> t"
  shows "contact_ok (clear_stale_jobs t d) t contacts"
  unfolding contact_ok_def
proof (intro allI impI conjI ballI)
  fix j w s assume c: "contacts j = Some (w, s)"
  with assms(1) show "j \<le> seq (queue (clear_stale_jobs t d))"
    by (simp add: contact_ok_def clear_stale_jobs_def seq_simps)
  fix q assume q: "t \<le> s + seconds ping_deadline" "q \<in> set (rows (queue (clear_stale_jobs t d)))" "q_id q = j"
  from q(2) obtain q0 where q0: "q0 \<in> set (rows (queue d))" "q_id q0 = q_id q"
    "q = q0 \<or> is_stale t q0"
    by (auto simp: clear_stale_jobs_def rows_update)
  with contact_okD[OF assms(1), of q0 w s] c q assms(2)
  have held: "q_worker q0 = Some w" "q_last_ping q0 = Some s" by auto
  then have "\<not> is_stale t q0" using q(1) by (simp add: is_stale_def)
  with q0 held show "q_worker q = Some w" "q_last_ping q = Some s" by auto
qed

lemma contact_ok_rows:
  assumes "contact_ok d now contacts" "now \<le> t" "seq (queue e) = seq (queue d)" "i \<le> seq (queue d)"
    and "\<And>q'. q' \<in> set (rows (queue e)) \<Longrightarrow>
      q' \<in> set (rows (queue d)) \<and> q_id q' \<noteq> i \<or>
      q_id q' = i \<and> q_worker q' = Some w \<and> q_last_ping q' = Some t"
  shows "contact_ok e t (contacts(i \<mapsto> (w, t)))"
  unfolding contact_ok_def
proof (intro allI impI conjI ballI)
  fix j v s assume c: "(contacts(i \<mapsto> (w, t))) j = Some (v, s)"
  with assms(1,3,4) show "j \<le> seq (queue e)" by (auto simp: contact_ok_def split: if_splits)
  fix q assume q: "t \<le> s + seconds ping_deadline" "q \<in> set (rows (queue e))" "q_id q = j"
  from assms(5)[OF q(2)] have "q_worker q = Some v \<and> q_last_ping q = Some s"
  proof
    assume "q \<in> set (rows (queue d)) \<and> q_id q \<noteq> i"
    with contact_okD[OF assms(1), of q v s] c q assms(2) show ?thesis by auto
  qed (use c q(3) in auto)
  then show "q_worker q = Some v" "q_last_ping q = Some s" by simp_all
qed

lemma clear_stale_seq: "seq (queue (clear_stale_jobs t d)) = seq (queue d)"
  by (simp add: clear_stale_jobs_def seq_simps)

lemma contact_ok_handout:
  assumes ok: "db_ok d" "contact_ok d now contacts" and t: "now \<le> t1" "t1 \<le> t3"
    and run: "request_work cfg req t0 t1 t2 t3 request d = (Ok200 (Rebuild jb), e)"
    and w: "fst (auth_worker cfg req t0 d) = Inr w"
  shows "contact_ok e t3 (contacts(job_id (job jb) \<mapsto> (w_id w, t3)))"
  using run
proof (cases rule: request_work_cases)
  case (2 v d1 r)
  obtain q b s where r: "r = (q, b, s)" by (cases r)
  let ?c = "clear_stale_jobs t1 d"
  have j: "job_id (job jb) = q_id q" using 2(3) r by simp
  have v: "v = w" using w 2(1) by simp
  have rows: "rows (queue e) = map (\<lambda>q'. if q_id q' = q_id q
      then q'\<lparr>q_started_at := Some t3, q_worker := Some (w_id w), q_last_ping := Some t3\<rparr> else q')
      (rows (queue ?c))"
    using take_job_queue[OF 2(1), of v t3 "to_queued_job r" t1] 2(4) r v by simp
  have seq: "seq (queue e) = seq (queue ?c)"
    using 2(4) clear_stale_auth_queue[of t1 cfg req t0 d] 2(1)
    by (simp add: take_job_def seq_simps)
  have "q \<in> set (rows (queue ?c))"
    using work_for_free first_by_Some[OF 2(2)] r by blast
  then have "q_id q \<le> seq (queue ?c)"
    using db_ok_clear_stale_jobs[OF ok(1), of t1] by (auto simp: wf_table_def db_ok_facts dest: db_ok_facts(6))
  then show ?thesis
    unfolding j
    by (intro contact_ok_rows[OF contact_ok_clear_stale[OF ok(2) t(1)] t(2) seq])
      (auto simp: rows split: if_splits)
qed simp

lemma contact_ok_ping:
  assumes ok: "db_ok d" "contact_ok d now contacts" "now \<le> t"
    and run: "ping_job cfg req t0 t i d = (NoContent204, e)" "fst (auth_worker cfg req t0 d) = Inr w"
  shows "contact_ok e t (contacts(i \<mapsto> (w_id w, t)))"
proof -
  obtain d1 where auth: "auth_worker cfg req t0 d = (Inr w, d1)" using run(2) by (metis prod.collapse)
  then have queue1: "queue d1 = queue d" using auth_worker_queue(1)[of cfg req t0 d] by simp
  let ?p = "\<lambda>q. q_id q = i \<and> q_worker q = Some (w_id w)"
  from run(1) auth have hit: "1 \<le> sql_count ?p (queue d)" and
    e: "e = d1\<lparr>queue := sql_update ?p (\<lambda>q. q\<lparr>q_last_ping := Some t\<rparr>) (queue d1)\<rparr>"
    by (auto simp: ping_job_def Let_def queue1 split: if_splits)
  from hit have "filter ?p (rows (queue d)) \<noteq> []" by (auto simp: sql_count_def)
  then obtain q where q: "q \<in> set (rows (queue d))" "q_id q = i" "q_worker q = Some (w_id w)"
    by (auto simp: filter_empty_conv)
  have wf: "wf_table q_id (queue d)" using ok(1) by (simp add: db_ok_facts)
  with q(1,2) have "i \<le> seq (queue d)" by (auto simp: wf_table_def)
  moreover have "q' = q" if "q' \<in> set (rows (queue d))" "q_id q' = i" for q'
    using wf_table_id_unique[OF wf that(1) q(1)] that(2) q(2) by simp
  moreover have "rows (queue e) = map (\<lambda>r. if ?p r then r\<lparr>q_last_ping := Some t\<rparr> else r) (rows (queue d))"
    "seq (queue e) = seq (queue d)"
    by (simp_all add: e queue1 rows_update seq_simps)
  ultimately show ?thesis
    using q(3) by (intro contact_ok_rows[OF ok(2,3)]) (auto split: if_splits)
qed

lemma contact_ok_idle:
  assumes "contact_ok d now contacts" "now \<le> t1"
    and "request_work cfg req t0 t1 t2 t3 request d = (r, e)" "\<not> is_rebuild r"
  shows "contact_ok e t1 contacts"
proof -
  have "contact_ok (clear_stale_jobs t1 d) t1 contacts" by (rule contact_ok_clear_stale[OF assms(1,2)])
  moreover have "queue e = queue (clear_stale_jobs t1 d) \<or> nobody_takes d e"
    using assms(3,4) clear_stale_auth_queue[of t1 cfg req t0 d] nobody_takes_other(1)[of d d cfg req t0]
    by (cases "auth_worker cfg req t0 d")
      (auto simp: request_work_unfold is_rebuild_def split: sum.splits option.splits)
  ultimately show ?thesis
    using contact_ok_kept[OF assms(1) _ assms(2)] by (auto simp: contact_ok_def)
qed

lemma ping_refused: "ping_job cfg req t0 t i d = (r, e) \<Longrightarrow> r \<noteq> NoContent204 \<Longrightarrow> nobody_takes d e"
proof -
  assume run: "ping_job cfg req t0 t i d = (r, e)" "r \<noteq> NoContent204"
  obtain x d1 where auth: "auth_worker cfg req t0 d = (x, d1)" by (rule prod.exhaust)
  have d1: "nobody_takes d d1" using nobody_takes_other(1)[of d d cfg req t0] auth by simp
  show ?thesis
  proof (cases x)
    case (Inl err)
    with run auth d1 show ?thesis by (simp add: ping_job_def)
  next
    case (Inr w)
    let ?p = "\<lambda>q. q_id q = i \<and> q_worker q = Some (w_id w)"
    from run auth Inr have "sql_count ?p (queue d1) < 1"
      and e: "e = d1\<lparr>queue := sql_update ?p (\<lambda>q. q\<lparr>q_last_ping := Some t\<rparr>) (queue d1)\<rparr>"
      by (auto simp: ping_job_def Let_def split: if_splits)
    then have "\<forall>q\<in>set (rows (queue d1)). \<not> ?p q" by (auto simp: sql_count_def filter_empty_conv)
    then have "map (\<lambda>q. if ?p q then q\<lparr>q_last_ping := Some t\<rparr> else q) (rows (queue d1)) = rows (queue d1)"
      by (intro map_idI) auto
    then have "sql_update ?p (\<lambda>q. q\<lparr>q_last_ping := Some t\<rparr>) (queue d1) = queue d1"
      by (simp add: sql_update_def)
    with d1 show ?thesis by (simp add: e nobody_takes_def)
  qed
qed

definition watched_ok :: "watched \<Rightarrow> bool" where
  "watched_ok s \<longleftrightarrow> (case s of (d, now, contacts) \<Rightarrow> db_ok d \<and> contact_ok d now contacts)"

lemma watched_step_ok: "watched_step env s u \<Longrightarrow> watched_ok s \<Longrightarrow> watched_ok u"
proof (induction rule: watched_step.induct)
  case (handed_out cfg req t0 t1 t2 t3 request d jb e w now contacts)
  then show ?case
    using contact_ok_handout[of d now contacts t1 t3 cfg req t0 t2 request jb e w]
      db_ok_request_work[of d cfg req t0 t1 t2 t3 request] by (simp add: watched_ok_def)
next
  case (not_handed_out cfg req t0 t1 t2 t3 request d r e now contacts)
  then show ?case
    using contact_ok_idle[of d now contacts t1] db_ok_request_work[of d cfg req t0 t1 t2 t3 request]
    by (simp add: watched_ok_def)
next
  case (pinged cfg req t0 t i d e w now contacts)
  then show ?case
    using contact_ok_ping[of d now contacts t cfg req t0 i e w] db_ok_ping_job[of d cfg req t0 t i]
    by (simp add: watched_ok_def)
next
  case (not_pinged cfg req t0 t i d r e now contacts)
  then show ?case
    using contact_ok_kept[of d now contacts e t] ping_refused[of cfg req t0 t i d r e]
      db_ok_ping_job[of d cfg req t0 t i] by (simp add: watched_ok_def)
next
  case (other_request cfg d e now t contacts)
  then show ?case
    using contact_ok_kept[of d now contacts e t] nobody_takes_other_step db_ok_other_step
    by (auto simp: watched_ok_def)
qed

lemma watched_reaches_ok: "watched_reaches env s u \<Longrightarrow> watched_ok s \<Longrightarrow> watched_ok u"
  by (induction rule: watched_reaches.induct) (auto intro: watched_step_ok)

text \<open>C2: However the requests of workers, administrators and readers are interleaved, a job that was
  handed out is handed out again only when the worker that last got or pinged it has been silent for
  longer than the ping deadline.\<close>

theorem exclusive_handouts:
  assumes "db_ok d0" and "watched_reaches env (d0, start, Map.empty) (d, now, contacts)"
    and "request_work cfg req t0 t1 t2 t3 request d = (Ok200 (Rebuild jb), e)" "now \<le> t1"
    and "contacts (job_id (job jb)) = Some (w, t)"
  shows "t + seconds ping_deadline < t1"
proof (rule ccontr)
  assume "\<not> t + seconds ping_deadline < t1"
  then have t1: "t1 \<le> t + seconds ping_deadline" by simp
  have inv: "contact_ok d now contacts"
    using watched_reaches_ok[OF assms(2)] assms(1) by (simp add: watched_ok_def contact_ok_def)
  from assms(3) obtain q b s where q: "(q, b, s) \<in> set (work_for t1 t2 request d)"
    and j: "job_id (job jb) = q_id q"
    by (cases rule: request_work_cases) (auto dest!: first_by_Some)
  from work_for_free[OF q] have free: "q \<in> set (rows (queue (clear_stale_jobs t1 d)))" "q_worker q = None"
    by simp_all
  from contact_okD[OF contact_ok_clear_stale[OF inv assms(4)] _ free(1) t1] assms(5) j free(2)
  show False by simp
qed

lemma exclusive_handouts_witness:
  "\<exists>jb1 e1 jb2 e2. request_work sample_cfg sample_req 10 10 10 10 sample_pop sample_db = (Ok200 (Rebuild jb1), e1) \<and>
    request_work sample_cfg sample_req (10 + seconds 600) (10 + seconds 600) (10 + seconds 600) (10 + seconds 600)
      sample_pop e1 = (Ok200 (Rebuild jb2), e2) \<and> job_id (job jb1) = job_id (job jb2) \<and>
    10 + seconds ping_deadline < 10 + seconds 600"
proof -
  let ?work = "\<lambda>t. request_work sample_cfg sample_req t t t t sample_pop"
  have again: "is_rebuild (fst (?work (10 + seconds 600) (snd (?work 10 sample_db))))"
    "case fst (?work (10 + seconds 600) (snd (?work 10 sample_db))) of Ok200 (Rebuild jb) \<Rightarrow> job_id (job jb) = 1 | _ \<Rightarrow> False"
    "case fst (?work 10 sample_db) of Ok200 (Rebuild jb) \<Rightarrow> job_id (job jb) = 1 | _ \<Rightarrow> False"
    by code_simp+
  obtain jb1 e1 where 1: "?work 10 sample_db = (Ok200 (Rebuild jb1), e1)"
    by (rule is_rebuildD[OF sample_pop_rebuild])
  then obtain jb2 e2 where 2: "?work (10 + seconds 600) e1 = (Ok200 (Rebuild jb2), e2)"
    using again(1) by (metis is_rebuildD snd_conv)
  have jobs: "job_id (job jb1) = 1" "job_id (job jb2) = 1" using again(2,3) 1 2 by simp_all
  obtain w d1 where w: "auth_worker sample_cfg sample_req 10 sample_db = (Inr w, d1)"
    using 1 by (cases rule: request_work_cases)
  have "watched_step sample_daemon_env (sample_db, 10, Map.empty)
      (e1, 10, Map.empty(job_id (job jb1) \<mapsto> (w_id w, 10)))"
    by (rule handed_out[OF 1]) (simp_all add: w)
  then have run: "watched_reaches sample_daemon_env (sample_db, 10, Map.empty)
      (e1, 10, Map.empty(job_id (job jb1) \<mapsto> (w_id w, 10)))"
    by (rule watched_next[OF watched_start])
  have "10 + seconds ping_deadline < 10 + seconds 600"
    by (rule exclusive_handouts[OF sample_db_ok(1) run 2]) (simp_all add: jobs seconds_def)
  with 1 2 jobs show ?thesis by (intro exI[of _ jb1] exI[of _ e1] exI[of _ jb2] exI[of _ e2] conjI) simp_all
qed

end
