(* ===== verification/Provenance.thy ===== *)
theory Provenance
  imports Exclusive WorkerLoop
begin

text \<open>
  Where a GOOD comes from. The daemon and its workers are put together: the daemon hands out jobs, a
  worker runs one and sends what \<open>worker_rebuild\<close> sends, and everything else happens in between. Then
  every result that the database calls GOOD, also a result that was copied to another package, goes back
  to a worker whose rebuild of the same input was equal, byte by byte, to what was published.
\<close>

section \<open>Results and the origins they are earned for\<close>

text \<open>Every GOOD in the database is for a build input whose origin is in \<open>G\<close>.\<close>

type_synonym origin = "string \<times> string \<times> string"

definition earned :: "origin set \<Rightarrow> db \<Rightarrow> bool" where
  "earned G d \<longleftrightarrow>
     (\<forall>r\<in>set (rows (rebuilds d)). rb_status r = Some (build_status_as_str Good) \<longrightarrow>
        (\<exists>b\<in>set (rows (build_inputs d)). bi_id b = rb_build_input_id r \<and> input_origin b \<in> G))"

text \<open>\<open>e\<close> has the build inputs of \<open>d\<close>, and its results are earned.\<close>

definition merit :: "origin set \<Rightarrow> db \<Rightarrow> db \<Rightarrow> bool" where
  "merit G d e \<longleftrightarrow> inputs_kept d e \<and> earned G e"

named_theorems merit_intros \<open>operations that add no unearned result\<close>

lemma earned_mono: "earned G d \<Longrightarrow> G \<subseteq> G' \<Longrightarrow> earned G' d"
  unfolding earned_def by blast

lemma earned_inputs: "earned G d \<Longrightarrow> inputs_kept d e \<Longrightarrow> rebuilds e = rebuilds d \<Longrightarrow> earned G e"
  unfolding earned_def by (metis inputs_kept_row)

lemma merit_inputs: "merit G d e \<Longrightarrow> inputs_kept e f \<Longrightarrow> rebuilds f = rebuilds e \<Longrightarrow> merit G d f"
  unfolding merit_def by (blast intro: inputs_kept_trans earned_inputs)

lemma merit_same: "merit G d e \<Longrightarrow> build_inputs f = build_inputs e \<Longrightarrow> rebuilds f = rebuilds e \<Longrightarrow> merit G d f"
  by (rule merit_inputs) (simp_all add: inputs_kept_refl)

lemma merit_refl: "earned G d \<Longrightarrow> merit G d d"
  by (simp add: merit_def inputs_kept_refl)

lemma merit_trans: "merit G d e \<Longrightarrow> merit G e f \<Longrightarrow> merit G d f"
  unfolding merit_def by (blast intro: inputs_kept_trans)

lemma merit_fold:
  "merit G d e \<Longrightarrow> (\<And>x e. merit G d e \<Longrightarrow> merit G d (f x e)) \<Longrightarrow> merit G d (fold f xs e)"
  by (induction xs arbitrary: e) simp_all

text \<open>Operations on records that touch neither table.\<close>

lemma merit_other [merit_intros]:
  "merit G d e \<Longrightarrow> merit G d (snd (auth_worker cfg req now e))"
  "merit G d e \<Longrightarrow> merit G d (snd (build_log_insert log e))"
  "merit G d e \<Longrightarrow> merit G d (snd (queue_upsert q e))"
  "merit G d e \<Longrightarrow> merit G d (queued_delete r e)"
  "merit G d e \<Longrightarrow> merit G d (drop_unseen_scoped_jobs report e)"
  "merit G d e \<Longrightarrow> merit G d (snd (source_package_upsert s e))"
  "merit G d e \<Longrightarrow> merit G d (mark_scoped_packages_unseen report e)"
  "merit G d e \<Longrightarrow> merit G d (snd (binary_package_upsert p e))"
  "merit G d e \<Longrightarrow> merit G d (rebuild_artifact_insert a e)"
  "merit G d e \<Longrightarrow> merit G d (snd (diffoscope_log_insert log e))"
  "merit G d e \<Longrightarrow> merit G d (snd (attestation_log_insert log e))"
  "merit G d e \<Longrightarrow> merit G d (clear_stale_jobs now e)"
  "merit G d e \<Longrightarrow> merit G d (take_job w now j e)"
  by (erule merit_same; simp add: build_log_insert_def queue_upsert_def queued_delete_def
      drop_unseen_scoped_jobs_def source_package_upsert_def binary_package_upsert_def
      rebuild_artifact_insert_def diffoscope_log_insert_def attestation_log_insert_def
      clear_stale_jobs_def take_job_def frame_simps)+

text \<open>Updates of build inputs keep their origins.\<close>

lemma inputs_kept_update:
  assumes "\<And>b. bi_id (f b) = bi_id b \<and> input_origin (f b) = input_origin b"
  shows "inputs_kept d (d\<lparr>build_inputs := sql_update p f (build_inputs d)\<rparr>)"
  by (rule inputs_kept_map) (simp add: rows_update assms)

lemma merit_input_updates [merit_intros]:
  "merit G d e \<Longrightarrow> merit G d (increment_retries is e)"
  "merit G d e \<Longrightarrow> merit G d (set_next_retries is t e)"
  "merit G d e \<Longrightarrow> merit G d (set_next_retry i s e)"
  "merit G d e \<Longrightarrow> merit G d (clear_next_retry is e)"
  unfolding increment_retries_def set_next_retries_def set_next_retry_def clear_next_retry_def
  by (erule merit_inputs[OF _ inputs_kept_update]; simp add: input_origin_def)+

lemma merit_give_up [merit_intros]:
  "merit G d e \<Longrightarrow> merit G d (mark_build_input_friends_as_non_retriable i e)"
  unfolding mark_build_input_friends_as_non_retriable_def Let_def
  by (rule merit_same[OF merit_input_updates(4)]) simp_all

lemma merit_build_input_upsert [merit_intros]:
  "merit G d e \<Longrightarrow> merit G d (snd (build_input_upsert b e))"
  by (erule merit_inputs[OF _ inputs_kept_upsert]) (simp add: build_input_upsert_def)

lemma merit_reset [merit_intros]: "merit G d e \<Longrightarrow> merit G d (reset_latest_rebuild i e)"
  by (auto simp: merit_def earned_def reset_latest_rebuild_def rows_update inputs_kept_def
      split: option.split)

text \<open>A new row is earned if its input is.\<close>

lemma merit_rebuild_insert:
  assumes "merit G d e"
    and "nrb_status n = Some (build_status_as_str Good) \<Longrightarrow>
      \<exists>b\<in>set (rows (build_inputs d)). bi_id b = nrb_build_input_id n \<and> input_origin b \<in> G"
  shows "merit G d (snd (rebuild_insert n e))"
proof -
  have "\<exists>b\<in>set (rows (build_inputs e)). bi_id b = nrb_build_input_id n \<and> input_origin b \<in> G"
    if "nrb_status n = Some (build_status_as_str Good)"
    using assms(2)[OF that] assms(1) unfolding merit_def by (metis inputs_kept_row)
  with assms(1) show ?thesis
    by (auto simp: merit_def earned_def rebuild_insert_def rows_insert inputs_kept_def)
qed

section \<open>A result\<close>

lemma merit_artifacts [merit_intros]:
  "merit G d e \<Longrightarrow> merit G d (snd (record_artifacts enc i as logs e))"
proof (induction as arbitrary: logs e)
  case (Cons a as)
  have "merit G d (snd (insert_artifact_logs enc a e))"
    using Cons.prems
    by (simp add: insert_artifact_logs_def case_prod_beta merit_intros split: sum.split option.split)
  then have "merit G d (snd (record_artifact enc i a logs e))"
    using Cons.prems
    by (auto simp: record_artifact_def case_prod_beta intro!: merit_intros split: sum.split option.split)
  with Cons.IH show ?case by (auto split: prod.split sum.split)
qed simp

lemma merit_friends:
  assumes "merit G d e"
    and "rr_status report = Good \<Longrightarrow>
      \<forall>i\<in>set is. \<exists>b\<in>set (rows (build_inputs d)). bi_id b = i \<and> input_origin b \<in> G"
  shows "merit G d (snd (record_friends enc report q l is logs e))"
  using assms
proof (induction "is" arbitrary: logs e)
  case (Cons i "is")
  let ?n = "\<lparr>nrb_build_input_id = i, nrb_started_at = q_started_at q, nrb_built_at = Some (rr_built_at report),
      nrb_build_log_id = l, nrb_status = Some (build_status_as_str (rr_status report))\<rparr>"
  have "merit G d (snd (rebuild_insert ?n e))"
    by (rule merit_rebuild_insert[OF Cons.prems(1)])
      (use Cons.prems(2) build_status_as_str_inject[of "rr_status report" Good] in auto)
  then show ?case using Cons.prems(2)
    by (auto simp: case_prod_beta intro!: merit_intros Cons.IH split: sum.split)
qed simp

lemma merit_record_report:
  assumes "db_ok d" "merit G d d" "b \<in> set (rows (build_inputs d))" "bi_id b = q_build_input_id q"
    and "rr_status report = Good \<Longrightarrow> input_origin b \<in> G"
  shows "merit G d (snd (record_report enc schedule now report q d))"
proof -
  let ?friends = "get_build_input_friends (q_build_input_id q) d"
  have "\<forall>i\<in>set ?friends. \<exists>b'\<in>set (rows (build_inputs d)). bi_id b' = i \<and> input_origin b' \<in> G"
    if "rr_status report = Good"
    using friends_of_row[OF assms(1,3)] assms(4) assms(5)[OF that]
    by (auto simp: get_build_input_friends_def)
  from merit_friends[OF _ this] have friends:
    "merit G d e \<Longrightarrow> merit G d (snd (record_friends enc report q l ?friends logs e))" for l logs e by blast
  show ?thesis
    unfolding record_report_def schedule_retry_def Let_def case_prod_beta
    by (auto intro!: merit_intros assms(2) friends split: sum.split)
qed

lemma merit_submit_rebuild_report:
  assumes "db_ok d" "earned G d"
    and "\<And>q b. rr_status report = Good \<Longrightarrow> q \<in> set (rows (queue d)) \<Longrightarrow> q_id q = rr_queue_id report \<Longrightarrow>
      b \<in> set (rows (build_inputs d)) \<Longrightarrow> bi_id b = q_build_input_id q \<Longrightarrow> input_origin b \<in> G"
  shows "merit G d (snd (submit_rebuild_report enc cfg req t0 now report d))"
proof -
  obtain x d1 where auth: "auth_worker cfg req t0 d = (x, d1)" by (rule prod.exhaust)
  have d1: "merit G d d1" using merit_other(1)[OF merit_refl[OF assms(2)], of cfg req t0] auth by simp
  have frame: "queue d1 = queue d" "build_inputs d1 = build_inputs d"
    using auth_worker_queue[of cfg req t0 d] auth by simp_all
  have ok: "db_ok d1" using db_ok_auth_worker[OF assms(1), of cfg req t0] auth by simp
  show ?thesis
  proof (cases "\<exists>q qs w. x = Inr w \<and> filter (\<lambda>q. q_id q = rr_queue_id report) (rows (queue d1)) = q # qs")
    case False
    with auth d1 show ?thesis
      by (auto simp: submit_rebuild_report_def split: sum.split list.split)
  next
    case True
    then obtain q qs w where q: "x = Inr w"
      "filter (\<lambda>q. q_id q = rr_queue_id report) (rows (queue d1)) = q # qs" by blast
    then have row: "q \<in> set (rows (queue d))" "q_id q = rr_queue_id report"
      by (auto simp: filter_eq_Cons_iff frame)
    from queued_input[OF assms(1) row(1)] obtain b where
      b: "b \<in> set (rows (build_inputs d))" "bi_id b = q_build_input_id q" by auto
    have "merit G d1 (snd (record_report enc (cfg_schedule cfg) now report q d1))"
      by (rule merit_record_report[OF ok merit_refl, of G b])
        (use d1 b assms(3)[OF _ row b] in \<open>simp_all add: merit_def frame\<close>)
    from merit_trans[OF d1 this] show ?thesis
      using auth q by (simp add: submit_rebuild_report_def)
  qed
qed

section \<open>A sync copies results to friends only\<close>

lemma merit_copy_existing:
  assumes "db_ok e" "merit G d e" "b \<in> set (rows (build_inputs e))" "copy_existing_rebuilds b e = Inr e'"
  shows "merit G d e'"
proof (cases "e' = e")
  case False
  with assms(4) obtain f where f: "f \<in> set (build_input_friends (bi_id b) e)" and
    run: "fold_result (copy_rebuild (bi_id b))
      (map rb_id (filter (\<lambda>r. rb_build_input_id r = f) (rows (rebuilds e)))) e = Inr e'"
    by (auto simp: copy_existing_rebuilds_def split: option.splits if_splits dest!: first_by_Some)
  let ?rs = "filter (\<lambda>r. rb_build_input_id r = f) (rows (rebuilds e))"
  obtain new where new: "rows (rebuilds e') = rows (rebuilds e) @ new" "\<forall>r\<in>set new. rb_build_input_id r = bi_id b"
    "map (history_entry e') new = map (history_entry e) ?rs"
    using copy_rebuilds_history[OF assms(1), of "bi_id b" ?rs] assms(3) run by auto
  have inputs: "build_inputs e' = build_inputs e"
    using copy_existing_ok[OF assms(1), of b] assms(3,4) only_rebuilds_frame(2) by fastforce
  have "\<exists>b'\<in>set (rows (build_inputs e)). bi_id b' = rb_build_input_id r \<and> input_origin b' \<in> G"
    if r: "r \<in> set new" "rb_status r = Some (build_status_as_str Good)" for r
  proof -
    from r(1) have "history_entry e' r \<in> set (map (history_entry e) ?rs)" by (simp flip: new(3))
    then obtain r0 where r0: "r0 \<in> set (rows (rebuilds e))" "rb_build_input_id r0 = f" "rb_status r0 = rb_status r"
      by (auto simp: history_entry_def)
    with assms(2) r(2) obtain b0 where b0: "b0 \<in> set (rows (build_inputs e))" "bi_id b0 = f" "input_origin b0 \<in> G"
      unfolding merit_def earned_def by force
    with friend_row[OF assms(1,3) b0(1)] f have "input_origin b \<in> G" by simp
    with assms(3) new(2) r(1) show ?thesis by auto
  qed
  with assms(2) show ?thesis
    by (auto simp: merit_def earned_def inputs inputs_kept_def new(1))
qed (use assms(2) in simp)

lemma merit_sync_package:
  assumes "db_ok e" "merit G d e" "sync_package schedule now report p e = Inr e'"
  shows "merit G d e'"
  using assms(3)
proof (cases rule: sync_package_steps)
  case (1 s e1 b e2 e3)
  let ?e2 = "file_binaries report (sp_id s) (bi_id b) (spr_artifacts p) e2"
  have ok1: "db_ok e1" and s: "s \<in> set (rows (source_packages e1))"
    using db_ok_source_package_upsert[OF assms(1)] by (simp_all add: 1(1,2))
  have ok2: "db_ok e2"
    unfolding 1(4) by (rule db_ok_build_input_upsert[OF ok1]) (use s in \<open>simp add: new_input_of_def\<close>)
  have b: "b \<in> set (rows (build_inputs e2))" by (simp add: 1(3,4))
  have "sp_id s \<in> ids sp_id (source_packages e2)" using s by (simp add: 1(4) build_input_upsert_def)
  from file_binaries_ok[OF ok2 this, of "bi_id b"] b obtain t where
    ok3: "db_ok ?e2" and t: "?e2 = e2\<lparr>binary_packages := t\<rparr>" by blast
  have "merit G d e2" unfolding 1(2,4) by (intro merit_intros assms(2))
  then have "merit G d ?e2" by (rule merit_same) (simp_all add: t)
  with 1(5) ok3 b t have "merit G d e3"
    by (auto intro: merit_copy_existing split: if_splits)
  with 1(6) show ?thesis
    by (auto simp: queue_if_needed_def intro!: merit_intros split: sum.splits if_splits)
qed

lemma merit_submit_package_report:
  assumes "db_ok d" "earned G d"
  shows "merit G d (snd (submit_package_report cfg req now report d))"
proof -
  have "merit G d e" if "sync_report schedule now report d = Inr e" for schedule e
  proof -
    from that obtain s where s: "fold_result (sync_package schedule now report) (pr_packages report)
        (mark_scoped_packages_unseen report d) = Inr s" "e = drop_unseen_scoped_jobs report s"
      by (auto simp: sync_report_def map_sum_Inr)
    have "db_ok s \<and> merit G d s"
    proof (rule fold_result_Inr_invariant[OF s(1)])
      show "db_ok (mark_scoped_packages_unseen report d) \<and> merit G d (mark_scoped_packages_unseen report d)"
        using assms by (simp add: db_ok_mark_scoped merit_intros merit_refl)
      fix p u u' assume "db_ok u \<and> merit G d u" "sync_package schedule now report p u = Inr u'"
      then show "db_ok u' \<and> merit G d u'"
        using sync_package_ok[of u schedule now report p] by (auto intro: merit_sync_package)
    qed
    then show ?thesis by (simp add: s(2) merit_intros)
  qed
  then show ?thesis using assms(2) by (auto simp: submit_package_report_def merit_refl split: sum.split)
qed

section \<open>Nothing else makes results\<close>

lemma merit_request_rebuild:
  assumes "earned G d" shows "merit G d (snd (request_rebuild cfg req now request d))"
proof -
  have "merit G d (requeue_input reset p now i e)" if "merit G d e" for reset p i e
    using that unfolding requeue_input_def by (auto intro!: merit_intros)
  with assms show ?thesis
    by (auto simp: request_rebuild_def Let_def merit_refl intro!: merit_fold split: sum.split)
qed

lemma merit_collect_stats:
  assumes "earned G d" shows "merit G d (snd (collect_stats dec lossy new m cfg req stats_cfg now collect d))"
  by (rule collect_stats_invariant)
    (auto simp: collect_one_def Let_def case_prod_beta stats_snapshot_insert_def
      stats_category_insert_batch_def merit_refl assms elim!: merit_same split: sum.split)

lemma merit_run_peer_check:
  assumes "earned G d" "run_peer_check v1 v0 completed clock dist arch dp dl d = Some (r, d')"
  shows "merit G d d'"
proof -
  have "build_inputs e = build_inputs d \<and> rebuilds e = rebuilds d"
    if "replace_peer_checks compared upserts d = Inr e" for compared upserts e
  proof (rule fold_result_Inr_invariant[OF that[unfolded replace_peer_checks_def]])
    fix n s s' assume "build_inputs s = build_inputs d \<and> rebuilds s = rebuilds d" "insert_peer_check n s = Inr s'"
    then show "build_inputs s' = build_inputs d \<and> rebuilds s' = rebuilds d"
      by (auto simp: insert_peer_check_def split: if_splits)
  qed simp
  then have "merit G d e" if "replace_peer_checks compared upserts d = Inr e" for compared upserts e
    using that merit_same[OF merit_refl[OF assms(1)]] by blast
  with assms show ?thesis
    by (auto simp: run_peer_check_def Let_def merit_refl split: if_splits option.splits sum.splits)
qed

lemma merit_check_peers:
  assumes "earned G d" shows "merit G d (snd (check_peers cfg req request d))"
proof -
  have "merit G d (fold (\<lambda>url. peer_rebuilder_upsert (n url)) urls d)" for n and urls :: "string list"
    by (rule merit_fold) (auto simp: peer_rebuilder_upsert_def merit_refl assms elim!: merit_same)
  moreover have "merit G d (delete_peer_rebuilders p e)" if "merit G d e" for p e
    using that by (rule merit_same) (simp_all add: delete_peer_rebuilders_def Let_def)
  ultimately show ?thesis using assms by (auto simp: check_peers_def merit_refl split: sum.split)
qed

lemma merit_requests:
  assumes "earned G d"
  shows "merit G d (snd (register_worker parse_ip cfg req now registration d))"
    "merit G d (snd (unregister_worker cfg req now i d))"
    "merit G d (snd (list_workers cfg req now d))"
    "merit G d (snd (get_build_artifact_attestation dec sgn' cfg req i a d))"
    "merit G d (snd (drop_queued_job cfg req i d))"
    "merit G d (snd (drop_queued_jobs cfg req origin identity d))"
    "merit G d (snd (ping_job cfg req t0 now i d))"
  by (rule merit_same[OF merit_refl[OF assms]];
      simp add: register_worker_def worker_upsert_def unregister_worker_def list_workers_def
        mark_stale_workers_def get_build_artifact_attestation_def drop_queued_job_def drop_queued_jobs_def
        ping_job_def Let_def case_prod_beta frame_simps split: sum.split option.split list.split)+

lemma merit_request_work:
  assumes "earned G d" shows "merit G d (snd (request_work cfg req t0 t1 t2 t3 request d))"
  unfolding request_work_def pop_job_def case_prod_beta
  by (auto intro!: merit_intros merit_refl assms split: sum.split option.split)

lemma merit_quiet_step:
  "quiet_step env cfg d d' \<Longrightarrow> db_ok d \<Longrightarrow> earned G d \<Longrightarrow> merit G d d'"
  by (induction rule: quiet_step.induct)
    (simp_all add: merit_submit_package_report merit_request_rebuild merit_collect_stats
      merit_run_peer_check merit_check_peers merit_requests)

section \<open>Jobs keep their inputs\<close>

definition jobs_kept :: "db \<Rightarrow> db \<Rightarrow> bool" where
  "jobs_kept d e \<longleftrightarrow> seq (queue d) \<le> seq (queue e) \<and>
     (\<forall>q'\<in>set (rows (queue e)). seq (queue d) < q_id q' \<or>
        (\<exists>q\<in>set (rows (queue d)). q_id q = q_id q' \<and> q_build_input_id q = q_build_input_id q'))"

lemma jobs_kept_nobody_takes: "nobody_takes d e \<Longrightarrow> jobs_kept d e"
  by (auto simp: nobody_takes_def holders_kept_def jobs_kept_def same_holder_def) metis

lemma jobs_kept_update:
  assumes "jobs_kept d e" "\<And>q. q_id (g q) = q_id q \<and> q_build_input_id (g q) = q_build_input_id q"
  shows "jobs_kept d (e\<lparr>queue := sql_update p g (queue e)\<rparr>)"
  using assms(1) unfolding jobs_kept_def by (auto simp: rows_update seq_simps assms(2))

lemma jobs_kept_auth: "jobs_kept d (snd (auth_worker cfg req t0 d))"
  by (rule jobs_kept_nobody_takes) (simp add: nobody_takes_def frame_simps)

lemma jobs_kept_request_work: "jobs_kept d (snd (request_work cfg req t0 t1 t2 t3 request d))"
proof -
  have stale: "jobs_kept d (clear_stale_jobs t1 (snd (auth_worker cfg req t0 d)))"
    unfolding clear_stale_jobs_def by (rule jobs_kept_update[OF jobs_kept_auth]) simp
  have "jobs_kept d (take_job w t3 j (clear_stale_jobs t1 (snd (auth_worker cfg req t0 d))))" for w j
    using jobs_kept_update[OF stale, of "\<lambda>q. q\<lparr>q_started_at := Some t3, q_worker := Some (w_id w),
      q_last_ping := Some t3\<rparr>" "\<lambda>q. q_id q = job_id j"]
    by (simp add: take_job_def jobs_kept_def)
  with stale jobs_kept_auth show ?thesis
    by (auto simp: request_work_def pop_job_def case_prod_beta split: sum.split option.split)
qed

lemma jobs_kept_ping_job: "jobs_kept d (snd (ping_job cfg req t0 now i d))"
proof -
  have "jobs_kept d (e\<lparr>queue := sql_update p (\<lambda>q. q\<lparr>q_last_ping := s\<rparr>) (queue e)\<rparr>)"
    if "jobs_kept d e" for e p s
    by (rule jobs_kept_update[OF that]) simp
  with jobs_kept_auth show ?thesis
    by (auto simp: ping_job_def case_prod_beta Let_def split: sum.split)
qed

definition job_origin :: "queued_job \<Rightarrow> origin" where
  "job_origin j = (job_url j, job_backend j, job_architecture j)"

text \<open>A job that was handed out is for the origin that was handed out with it, as long as it is queued.\<close>

definition jobs_known :: "queued_job_with_artifacts list \<Rightarrow> db \<Rightarrow> bool" where
  "jobs_known handed d \<longleftrightarrow>
     (\<forall>jb\<in>set handed. job_id (job jb) \<le> seq (queue d) \<and>
        (\<forall>q\<in>set (rows (queue d)). q_id q = job_id (job jb) \<longrightarrow>
           (\<exists>b\<in>set (rows (build_inputs d)). bi_id b = q_build_input_id q \<and> input_origin b = job_origin (job jb))))"

lemma jobs_known_kept:
  assumes "jobs_known handed d" "jobs_kept d e" "inputs_kept d e"
  shows "jobs_known handed e"
  unfolding jobs_known_def
proof (intro ballI conjI impI)
  fix jb assume jb: "jb \<in> set handed"
  with assms(1) have bound: "job_id (job jb) \<le> seq (queue d)" by (simp add: jobs_known_def)
  with assms(2) show "job_id (job jb) \<le> seq (queue e)" by (simp add: jobs_kept_def)
  fix q assume q: "q \<in> set (rows (queue e))" "q_id q = job_id (job jb)"
  with assms(2) bound obtain q0 where q0: "q0 \<in> set (rows (queue d))" "q_id q0 = q_id q"
    "q_build_input_id q0 = q_build_input_id q"
    by (auto simp: jobs_kept_def)
  with assms(1) jb q obtain b where "b \<in> set (rows (build_inputs d))" "bi_id b = q_build_input_id q"
    "input_origin b = job_origin (job jb)"
    unfolding jobs_known_def by metis
  with assms(3) show "\<exists>b\<in>set (rows (build_inputs e)). bi_id b = q_build_input_id q \<and>
      input_origin b = job_origin (job jb)"
    by (metis inputs_kept_row)
qed

lemma handed_out_job:
  assumes "db_ok d" "request_work cfg req t0 t1 t2 t3 request d = (Ok200 (Rebuild jb), e)"
  shows "jobs_known [jb] d"
proof -
  from assms(2) obtain q b s where row: "(q, b, s) \<in> set (work_for t1 t2 request d)"
    and j: "job jb = to_queued_job (q, b, s)"
    by (cases rule: request_work_cases) (auto dest!: first_by_Some)
  from row have q: "q \<in> set (rows (queue (clear_stale_jobs t1 d)))" "b \<in> set (rows (build_inputs d))"
    "q_build_input_id q = bi_id b"
    by (auto simp: work_for_def eligible_def set_queue_base clear_stale_jobs_def)
  then obtain q0 where q0: "q0 \<in> set (rows (queue d))" "q_id q0 = q_id q" "q_build_input_id q0 = bi_id b"
    by (auto simp: clear_stale_jobs_def rows_update split: if_splits)
  have wf: "wf_table q_id (queue d)" using assms(1) by (simp add: db_ok_facts)
  have "q' = q0" if "q' \<in> set (rows (queue d))" "q_id q' = q_id q" for q'
    using wf_table_id_unique[OF wf that(1) q0(1)] that(2) q0(2) by simp
  moreover have "q_id q \<le> seq (queue d)" using wf q0 by (auto simp: wf_table_def)
  ultimately show ?thesis using q0(3) q(2)
    by (auto simp: jobs_known_def j job_origin_def input_origin_def)
qed

section \<open>The daemon and its workers\<close>

text \<open>What a worker was given and what it sent, with all it ran on.\<close>

record 'link worker_run =
  wr_env :: "'link worker_env"
  wr_arch :: string
  wr_show_error :: "error \<Rightarrow> bytes"
  wr_answers :: round_answers
  wr_conf :: worker_config_file
  wr_name :: "string option"
  wr_job :: queued_job_with_artifacts
  wr_report :: rebuild_report

definition made_by_worker :: "'link worker_run \<Rightarrow> bool" where
  "made_by_worker run \<longleftrightarrow>
     ra_request_work (wr_answers run) (pop_request (wr_arch run) (wr_conf run)) = Inr (Rebuild (wr_job run)) \<and>
     Sent (wr_report run) \<in> set (fst (worker_rebuild (wr_env run) (wr_arch run) (wr_show_error run)
       (wr_answers run) (wr_conf run) (wr_name run)))"

text \<open>The worker compares the files itself, and can read them.\<close>

definition compares_itself :: "'link worker_run \<Rightarrow> bool" where
  "compares_itself run \<longleftrightarrow> (\<forall>k. \<exists>n. we_reads (wr_env run) k = Inr n) \<and>
     (\<forall>(k, b)\<in>set (wc_backends (wr_conf run)). be_diff_post_script_path b = None)"

text \<open>The database, the jobs handed out so far and the runs that were reported so far.\<close>

type_synonym 'link audited = "db \<times> queued_job_with_artifacts list \<times> 'link worker_run list"

inductive audited_step :: "'re daemon_env \<Rightarrow> 'link audited \<Rightarrow> 'link audited \<Rightarrow> bool" for env where
  audited_handout: "request_work cfg req t0 t1 t2 t3 request d = (Ok200 (Rebuild jb), e) \<Longrightarrow>
    audited_step env (d, handed, runs) (e, jb # handed, runs)"
| audited_idle: "request_work cfg req t0 t1 t2 t3 request d = (res, e) \<Longrightarrow> \<not> is_rebuild res \<Longrightarrow>
    audited_step env (d, handed, runs) (e, handed, runs)"
| audited_ping: "ping_job cfg req t0 now i d = (res, e) \<Longrightarrow>
    audited_step env (d, handed, runs) (e, handed, runs)"
| audited_report: "wr_job run \<in> set handed \<Longrightarrow> made_by_worker run \<Longrightarrow>
    submit_rebuild_report (de_encode env) cfg req t0 now (wr_report run) d = (res, e) \<Longrightarrow>
    audited_step env (d, handed, runs) (e, handed, run # runs)"
| audited_quiet: "quiet_step env cfg d e \<Longrightarrow> audited_step env (d, handed, runs) (e, handed, runs)"

inductive audited_reaches :: "'re daemon_env \<Rightarrow> 'link audited \<Rightarrow> 'link audited \<Rightarrow> bool" for env where
  audited_start: "audited_reaches env s s"
| audited_next: "audited_reaches env s u \<Longrightarrow> audited_step env u v \<Longrightarrow> audited_reaches env s v"

definition good_origins :: "'link worker_run list \<Rightarrow> origin set" where
  "good_origins runs =
     (\<lambda>run. job_origin (job (wr_job run))) ` {run \<in> set runs. rr_status (wr_report run) = Good}"

definition audited_ok :: "'link audited \<Rightarrow> bool" where
  "audited_ok s \<longleftrightarrow> (case s of (d, handed, runs) \<Rightarrow>
     db_ok d \<and> jobs_known handed d \<and> earned (good_origins runs) d \<and>
     (\<forall>run\<in>set runs. made_by_worker run \<and> wr_job run \<in> set handed))"

lemma audited_ok_keeps:
  assumes "audited_ok (d, handed, runs)" "db_ok e" "merit (good_origins runs) d e" "jobs_kept d e"
  shows "audited_ok (e, handed, runs)"
  using assms jobs_known_kept by (auto simp: audited_ok_def merit_def)

lemma made_by_worker_report:
  assumes "made_by_worker run"
  obtains backend where "map_of (wc_backends (wr_conf run)) (job_distribution (job (wr_job run))) = Some backend"
    and "job_report (wr_env run) (wr_show_error run) (ra_now (wr_answers run)) (job_id (job (wr_job run)))
      (rebuild_job (wr_env run) (job_context (wr_conf run) (wr_name run) backend (wr_job run)) []) =
        Inr (wr_report run)"
proof -
  from assms obtain actions res where run: "worker_rebuild (wr_env run) (wr_arch run) (wr_show_error run)
      (wr_answers run) (wr_conf run) (wr_name run) = (actions, res)" "Sent (wr_report run) \<in> set actions"
    by (cases "worker_rebuild (wr_env run) (wr_arch run) (wr_show_error run)
      (wr_answers run) (wr_conf run) (wr_name run)") (simp add: made_by_worker_def)
  from worker_rebuild_sends[OF this] assms that show thesis by (auto simp: made_by_worker_def)
qed

lemma audited_step_ok: "audited_step env s u \<Longrightarrow> audited_ok s \<Longrightarrow> audited_ok u"
proof (induction rule: audited_step.induct)
  case (audited_handout cfg req t0 t1 t2 t3 request d jb e handed runs)
  then have ok: "db_ok d" "earned (good_origins runs) d" by (simp_all add: audited_ok_def)
  have e: "e = snd (request_work cfg req t0 t1 t2 t3 request d)" using audited_handout.hyps by simp
  have kept: "db_ok e" "merit (good_origins runs) d e" "jobs_kept d e"
    unfolding e by (auto intro: db_ok_request_work merit_request_work jobs_kept_request_work ok)
  from audited_ok_keeps[OF audited_handout.prems kept] show ?case
    using jobs_known_kept[OF handed_out_job[OF ok(1) audited_handout.hyps] kept(3)] kept(2)
    by (auto simp: audited_ok_def jobs_known_def merit_def)
next
  case (audited_idle cfg req t0 t1 t2 t3 request d res e handed runs)
  then have ok: "db_ok d" "earned (good_origins runs) d" by (simp_all add: audited_ok_def)
  have e: "e = snd (request_work cfg req t0 t1 t2 t3 request d)" using audited_idle.hyps by simp
  show ?case by (rule audited_ok_keeps[OF audited_idle.prems]; unfold e)
      (auto intro: db_ok_request_work merit_request_work jobs_kept_request_work ok)
next
  case (audited_ping cfg req t0 now i d res e handed runs)
  then have ok: "db_ok d" "earned (good_origins runs) d" by (simp_all add: audited_ok_def)
  have e: "e = snd (ping_job cfg req t0 now i d)" using audited_ping.hyps by simp
  show ?case by (rule audited_ok_keeps[OF audited_ping.prems]; unfold e)
      (auto intro: db_ok_ping_job merit_requests jobs_kept_ping_job ok)
next
  case (audited_report run handed cfg req t0 now d res e runs)
  then have ok: "db_ok d" "earned (good_origins runs) d" "jobs_known handed d" by (simp_all add: audited_ok_def)
  have e: "e = snd (submit_rebuild_report (de_encode env) cfg req t0 now (wr_report run) d)"
    using audited_report.hyps by simp
  obtain backend where "job_report (wr_env run) (wr_show_error run) (ra_now (wr_answers run))
      (job_id (job (wr_job run)))
      (rebuild_job (wr_env run) (job_context (wr_conf run) (wr_name run) backend (wr_job run)) []) =
        Inr (wr_report run)"
    using made_by_worker_report[OF audited_report.hyps(2)] by blast
  then have i: "rr_queue_id (wr_report run) = job_id (job (wr_job run))" by (auto dest: job_report_Inr)
  have "merit (good_origins (run # runs)) d e"
    unfolding e
  proof (rule merit_submit_rebuild_report[OF ok(1)])
    show "earned (good_origins (run # runs)) d"
      by (rule earned_mono[OF ok(2)]) (auto simp: good_origins_def)
    fix q b
    assume good: "rr_status (wr_report run) = Good" and q: "q \<in> set (rows (queue d))"
      "q_id q = rr_queue_id (wr_report run)" and b: "b \<in> set (rows (build_inputs d))" "bi_id b = q_build_input_id q"
    from ok(3) audited_report.hyps(1) q i obtain b' where b': "b' \<in> set (rows (build_inputs d))"
      "bi_id b' = q_build_input_id q" "input_origin b' = job_origin (job (wr_job run))"
      unfolding jobs_known_def by metis
    have "wf_table bi_id (build_inputs d)" using ok(1) by (simp add: db_ok_facts)
    from wf_table_id_unique[OF this b(1) b'(1)] b(2) b'(2,3)
    have "input_origin b = job_origin (job (wr_job run))" by simp
    with good show "input_origin b \<in> good_origins (run # runs)" by (auto simp: good_origins_def)
  qed
  moreover have "db_ok e" unfolding e by (rule db_ok_submit_rebuild_report[OF ok(1)])
  moreover have "jobs_kept d e"
    unfolding e by (rule jobs_kept_nobody_takes[OF nobody_takes_submit_rebuild_report])
  ultimately show ?case using audited_report jobs_known_kept[OF ok(3)]
    by (auto simp: audited_ok_def merit_def)
next
  case (audited_quiet cfg d e handed runs)
  then have "db_ok d" "earned (good_origins runs) d" by (simp_all add: audited_ok_def)
  with audited_quiet show ?case
    by (intro audited_ok_keeps[OF audited_quiet.prems])
      (auto intro: db_ok_quiet_step merit_quiet_step jobs_kept_nobody_takes nobody_takes_quiet_step)
qed

lemma audited_reaches_ok: "audited_reaches env s u \<Longrightarrow> audited_ok s \<Longrightarrow> audited_ok u"
  by (induction rule: audited_reaches.induct) (auto intro: audited_step_ok)


text \<open>The job of the sample database, done by a worker whose script leaves the published file.\<close>

definition audit_env :: "unit worker_env" where
  "audit_env = tiny_env\<lparr>we_script := (\<lambda>run dir log. (Inr (True, dir, [''a'' \<mapsto> [1, 2]]), log))\<rparr>"

definition audit_job :: queued_job_with_artifacts where
  "audit_job = \<lparr>job = to_queued_job (sample_queued, sample_input 1 1, sample_source 1 ''r''),
     artifacts = map (\<lambda>n. \<lparr>qa_name = n, qa_version = ''1'', qa_architecture = ''amd64'', qa_url = ''a''\<rparr>)
       [''x'', ''y'']\<rparr>"

definition audit_report :: rebuild_report where
  "audit_report = \<lparr>rr_queue_id = 1, rr_built_at = 9, rr_build_log = [], rr_status = Good,
     rr_artifacts = [plain_report ''x'' ArtifactGood, plain_report ''y'' ArtifactGood]\<rparr>"

definition audit_backend :: backend_config where
  "audit_backend = \<lparr>be_path = ''rebuild.sh'', be_diff_post_script_path = None\<rparr>"

definition audit_run :: "unit worker_run" where
  "audit_run =
     \<lparr>wr_env = audit_env, wr_arch = ''amd64'', wr_show_error = (\<lambda>_. []),
      wr_answers = \<lparr>ra_request_work = (\<lambda>_. Inr (Rebuild audit_job)), ra_pings = [],
        ra_submit = (\<lambda>_. Inr ()), ra_now = 9\<rparr>,
      wr_conf = default_worker_config\<lparr>wc_backends := [(''d'', audit_backend)]\<rparr>, wr_name = None,
      wr_job = audit_job, wr_report = audit_report\<rparr>"

definition audit_db :: db where
  "audit_db = snd (request_work sample_cfg sample_req 10 10 10 10 sample_pop sample_db)"

definition audit_end :: db where
  "audit_end = snd (submit_rebuild_report (de_encode sample_daemon_env) sample_cfg sample_req 20 20
     audit_report audit_db)"

lemma audit_handout:
  "request_work sample_cfg sample_req 10 10 10 10 sample_pop sample_db = (Ok200 (Rebuild audit_job), audit_db)"
proof -
  have "fst (request_work sample_cfg sample_req 10 10 10 10 sample_pop sample_db) = Ok200 (Rebuild audit_job)"
    by code_simp
  then show ?thesis by (simp add: audit_db_def prod_eq_iff)
qed

lemma audit_run_made: "made_by_worker audit_run"
proof -
  let ?ctx = "job_context (wr_conf audit_run) None audit_backend audit_job"
  have run: "rebuild_job audit_env ?ctx [] = (Inr (rr_artifacts audit_report), [])"
    by code_simp
  have "job_report audit_env (\<lambda>_. []) 9 1 (rebuild_job audit_env ?ctx []) = Inr audit_report"
    unfolding run
    by (simp add: job_report_def rebuild_outcome_def overall_status_def plain_report_def
        zstd_compress_def tiny_env_def audit_env_def audit_report_def)
  then show ?thesis
    by (simp add: made_by_worker_def worker_rebuild_def rebuild_with_http_pings audit_run_def audit_job_def
        default_worker_config_def sample_rows Let_def)
qed

lemma audit_reached: "audited_reaches sample_daemon_env (sample_db, [], []) (audit_end, [audit_job], [audit_run])"
proof -
  have run: "wr_report audit_run = audit_report" "wr_job audit_run \<in> set [audit_job]"
    by (simp_all add: audit_run_def)
  have "submit_rebuild_report (de_encode sample_daemon_env) sample_cfg sample_req 20 20 (wr_report audit_run) audit_db =
      (fst (submit_rebuild_report (de_encode sample_daemon_env) sample_cfg sample_req 20 20 audit_report audit_db),
       audit_end)"
    by (simp add: audit_end_def run(1))
  from audited_next[OF audited_next[OF audited_start audited_handout[OF audit_handout]]
      audited_report[OF run(2) audit_run_made this]]
  show ?thesis .
qed

lemma audit_result: "\<exists>r\<in>set (rows (rebuilds audit_end)). rb_status r = Some ''GOOD''"
proof -
  have ok: "db_ok audit_db" by (simp add: audit_db_def db_ok_request_work sample_db_ok(1))
  have "list_ex (\<lambda>q. q_id q = 1) (rows (queue audit_db))" by code_simp
  then obtain q where q: "q \<in> set (rows (queue audit_db))" "q_id q = rr_queue_id audit_report"
    by (auto simp: list_ex_iff audit_report_def)
  obtain w e where auth: "auth_worker sample_cfg sample_req 20 audit_db = (Inr w, e)"
    by (cases "get_or_create (case header sample_req worker_key_header of Inl _ \<Rightarrow> ''unauthenticated'' | Inr k \<Rightarrow> k)
        ''anonymous'' 20 audit_db") (simp add: auth_worker_def sample_cfg_def)
  have "total_encoder (de_encode sample_daemon_env)"
    by (simp add: total_encoder_def sample_daemon_env_def)
  from submit_accepted[OF ok auth this q, of 20] obtain log_id logs f where
    f: "history f (q_build_input_id q) = history audit_db (q_build_input_id q) @
      (if q_build_input_id q \<in> set (build_input_friends (q_build_input_id q) audit_db)
       then [report_entry audit_report q log_id logs] else [])"
    and run: "submit_rebuild_report (de_encode sample_daemon_env) sample_cfg sample_req 20 20 audit_report audit_db =
      (if rr_status audit_report \<noteq> Good
       then schedule_retry (cfg_schedule sample_cfg) 20 (q_build_input_id q)
         (get_build_input_friends (q_build_input_id q) f) f
       else (NoContent204, f))" by metis
  have "audit_end = f" using run by (simp add: audit_end_def audit_report_def)
  with f friends_self[OF ok queued_input[OF ok q(1)]]
  have "history audit_end (q_build_input_id q) =
      history audit_db (q_build_input_id q) @ [report_entry audit_report q log_id logs]" by simp
  then have "report_entry audit_report q log_id logs \<in> set (history audit_end (q_build_input_id q))" by simp
  then show ?thesis by (auto simp: history_def history_entry_def report_entry_def audit_report_def)
qed


end
