(* ===== verification/SyncLive.thy ===== *)
theory SyncLive
  imports PackageProps
begin

text \<open>
  No package is forgotten by a sync: after a report every package that it names is known to be
  reproducible, or waits in the queue itself or by a friend, or has used up its retries. There is one
  gap in the code, and the theorem names it: a job of a friend that counted when the package was looked
  at may be dropped at the end of the same sync.
\<close>

section \<open>What stays of a row\<close>

definition input_core :: "build_input \<Rightarrow> int \<times> (int \<times> string \<times> string \<times> string) \<times> int" where
  "input_core b = (bi_id b, build_input_key b, bi_retries b)"

definition source_core :: "source_package \<Rightarrow> int \<times> (string \<times> string \<times> string \<times> string \<times> string)" where
  "source_core s = (sp_id s, source_package_key s)"

definition cores_kept :: "db \<Rightarrow> db \<Rightarrow> bool" where
  "cores_kept d e \<longleftrightarrow>
     input_core ` set (rows (build_inputs d)) \<subseteq> input_core ` set (rows (build_inputs e)) \<and>
     source_core ` set (rows (source_packages d)) \<subseteq> source_core ` set (rows (source_packages e))"

lemma cores_refl [simp]: "cores_kept d d"
  by (simp add: cores_kept_def)

lemma cores_trans: "cores_kept d e \<Longrightarrow> cores_kept e f \<Longrightarrow> cores_kept d f"
  unfolding cores_kept_def by (meson order_trans)

lemma cores_same:
  "build_inputs e = build_inputs d \<Longrightarrow> source_packages e = source_packages d \<Longrightarrow> cores_kept d e"
  unfolding cores_kept_def by (simp only:) simp

lemma kept_input:
  assumes "cores_kept d e" "b \<in> set (rows (build_inputs d))"
  obtains b' where "b' \<in> set (rows (build_inputs e))" "bi_id b' = bi_id b"
    "build_input_key b' = build_input_key b" "bi_retries b' = bi_retries b"
proof -
  from assms have "input_core b \<in> input_core ` set (rows (build_inputs e))"
    unfolding cores_kept_def by blast
  then obtain b' where "b' \<in> set (rows (build_inputs e))" "input_core b' = input_core b" by auto
  with that show thesis by (simp add: input_core_def)
qed

lemma kept_source:
  assumes "cores_kept d e" "s \<in> set (rows (source_packages d))"
  obtains s' where "s' \<in> set (rows (source_packages e))" "sp_id s' = sp_id s"
    "source_package_key s' = source_package_key s"
proof -
  from assms have "source_core s \<in> source_core ` set (rows (source_packages e))"
    unfolding cores_kept_def by blast
  then obtain s' where "s' \<in> set (rows (source_packages e))" "source_core s' = source_core s" by auto
  with that show thesis by (simp add: source_core_def)
qed

lemma key_origin: "build_input_key b' = build_input_key b \<Longrightarrow> input_origin b' = input_origin b"
  by (simp add: build_input_key_def input_origin_def)

lemma cores_source_upsert: "cores_kept d (snd (source_package_upsert n d))"
proof -
  have "source_packages (snd (source_package_upsert n d)) = snd (source_package_table.upsert n (source_packages d))"
    "build_inputs (snd (source_package_upsert n d)) = build_inputs d"
    by (simp_all add: source_package_upsert_def)
  moreover have "source_core ` set (rows (source_packages d)) \<subseteq>
      source_core ` set (rows (snd (source_package_table.upsert n (source_packages d))))"
    by (rule source_package_table.upsert_image)
      (simp add: source_core_def source_package_table.ident_upd source_package_table.key_upd)
  ultimately show ?thesis by (simp add: cores_kept_def)
qed

lemma cores_input_upsert: "cores_kept d (snd (build_input_upsert n d))"
proof -
  have "build_inputs (snd (build_input_upsert n d)) = snd (build_input_table.upsert n (build_inputs d))"
    "source_packages (snd (build_input_upsert n d)) = source_packages d"
    by (simp_all add: build_input_upsert_def)
  moreover have "input_core ` set (rows (build_inputs d)) \<subseteq>
      input_core ` set (rows (snd (build_input_table.upsert n (build_inputs d))))"
    by (rule build_input_table.upsert_image)
      (simp add: input_core_def build_input_set_def build_input_key_def new_build_input_key_def)
  ultimately show ?thesis by (simp add: cores_kept_def)
qed

lemma cores_give_up: "cores_kept d (mark_build_input_friends_as_non_retriable i d)"
proof -
  have "map input_core (rows (build_inputs (mark_build_input_friends_as_non_retriable i d))) =
      map input_core (rows (build_inputs d))"
    by (simp add: mark_build_input_friends_as_non_retriable_def clear_next_retry_def Let_def
        rows_update input_core_def build_input_key_def)
  from arg_cong[OF this, of set] show ?thesis
    by (simp only: list.set_map cores_kept_def frame_simps order_refl conj_absorb)
qed

section \<open>A package is attended to\<close>

text \<open>The three ways for a build input not to be forgotten, in terms of the tables.\<close>

definition friend_queued :: "db \<Rightarrow> build_input \<Rightarrow> bool" where
  "friend_queued d b \<longleftrightarrow> (\<exists>q\<in>set (rows (queue d)). \<exists>b'\<in>set (rows (build_inputs d)).
     bi_id b' = q_build_input_id q \<and> input_origin b' = input_origin b)"

definition worn_out :: "schedule_config \<Rightarrow> db \<Rightarrow> build_input \<Rightarrow> bool" where
  "worn_out schedule d b \<longleftrightarrow> (\<exists>m. max_retries schedule = Some m \<and>
     (\<exists>b'\<in>set (rows (build_inputs d)). input_origin b' = input_origin b \<and> m \<le> bi_retries b'))"

definition attended :: "schedule_config \<Rightarrow> db \<Rightarrow> build_input \<Rightarrow> bool" where
  "attended schedule d b \<longleftrightarrow>
     get_current_rebuild_status b d = Inr Good \<or> friend_queued d b \<or> worn_out schedule d b"

lemma attended_step:
  assumes "attended schedule d b" "cores_kept d e" "set (rows (queue d)) \<subseteq> set (rows (queue e))"
    and "filter (\<lambda>r. rb_build_input_id r = bi_id b) (rows (rebuilds e)) =
      filter (\<lambda>r. rb_build_input_id r = bi_id b) (rows (rebuilds d))"
    and "bi_id b' = bi_id b" "input_origin b' = input_origin b"
  shows "attended schedule e b'"
proof -
  have "get_current_rebuild_status b' e = get_current_rebuild_status b d"
    by (simp add: get_current_rebuild_status_def assms(4,5))
  moreover have "friend_queued e b'" if "friend_queued d b"
  proof -
    from that obtain q c where q: "q \<in> set (rows (queue d))" "c \<in> set (rows (build_inputs d))"
      "bi_id c = q_build_input_id q" "input_origin c = input_origin b"
      by (auto simp: friend_queued_def)
    from kept_input[OF assms(2) q(2)] obtain c' where "c' \<in> set (rows (build_inputs e))" "bi_id c' = bi_id c"
      "input_origin c' = input_origin c" by (metis key_origin)
    with q assms(3,6) show ?thesis unfolding friend_queued_def by (metis subsetD)
  qed
  moreover have "worn_out schedule e b'" if "worn_out schedule d b"
  proof -
    from that obtain m c where m: "max_retries schedule = Some m" "c \<in> set (rows (build_inputs d))"
      "input_origin c = input_origin b" "m \<le> bi_retries c"
      by (auto simp: worn_out_def)
    from kept_input[OF assms(2) m(2)] obtain c' where "c' \<in> set (rows (build_inputs e))"
      "input_origin c' = input_origin c" "bi_retries c' = bi_retries c" by (metis key_origin)
    with m assms(6) show ?thesis unfolding worn_out_def by metis
  qed
  ultimately show ?thesis using assms(1) by (auto simp: attended_def)
qed

section \<open>One package\<close>

lemma friend_queued_iff:
  assumes "db_ok d" "b \<in> set (rows (build_inputs d))"
  shows "has_queued_friend (bi_id b) d \<longleftrightarrow> friend_queued d b"
  unfolding has_queued_friend_def sql_exists_iff friend_queued_def friends_of_row[OF assms]
  by (auto simp: image_iff; metis)

lemma queue_if_needed_attends:
  assumes "db_ok d" "b \<in> set (rows (build_inputs d))" "queue_if_needed schedule now b d = Inr e"
  shows "attended schedule e b \<and> cores_kept d e \<and> set (rows (queue d)) \<subseteq> set (rows (queue e)) \<and>
    rebuilds e = rebuilds d"
proof -
  obtain st where st: "get_current_rebuild_status b d = Inr st"
    using current_status_ok[OF assms(1)] .
  obtain m where m: "get_largest_retry_count_among_friends (bi_id b) d = Inr m"
    "\<exists>c\<in>set (rows (build_inputs d)). input_origin c = input_origin b \<and> bi_retries c = m"
    using largest_retry_count[OF assms(1,2)] by metis
  consider "st = Good" | "has_queued_friend (bi_id b) d"
    | n where "st \<noteq> Good" "\<not> has_queued_friend (bi_id b) d" "max_retries schedule = Some n" "n \<le> m"
    | "st \<noteq> Good" "\<not> has_queued_friend (bi_id b) d"
      "\<not> (case max_retries schedule of None \<Rightarrow> False | Some n \<Rightarrow> n \<le> m)"
    by (cases "max_retries schedule") auto
  then show ?thesis
  proof cases
    case 1
    with assms(3) st show ?thesis by (auto simp: queue_if_needed_def attended_def)
  next
    case 2
    with assms st show ?thesis
      by (auto simp: queue_if_needed_def attended_def friend_queued_iff split: if_splits)
  next
    case (3 n)
    then have e: "e = mark_build_input_friends_as_non_retriable (bi_id b) d"
      using assms(3) st m(1) by (simp add: queue_if_needed_def)
    from m(2) obtain c where c: "c \<in> set (rows (build_inputs d))" "input_origin c = input_origin b"
      "bi_retries c = m" by blast
    obtain c' where "c' \<in> set (rows (build_inputs e))" "input_origin c' = input_origin c"
      "bi_retries c' = bi_retries c"
      using kept_input[OF cores_give_up[of d "bi_id b"] c(1)] key_origin unfolding e by metis
    with c 3 have "worn_out schedule e b" unfolding worn_out_def by (metis)
    with 3 show ?thesis
      by (simp add: e attended_def cores_give_up no_queued_friend_mark frame_simps)
  next
    case 4
    let ?n = "\<lparr>nq_build_input_id = bi_id b,
      nq_priority = (if st = Bad then priority_retry else priority_default), nq_queued_at = now\<rparr>"
    have e: "e = snd (queue_upsert ?n d)"
      using assms(3) st m(1) 4 by (simp add: queue_if_needed_def)
    have frame: "build_inputs e = build_inputs d" "source_packages e = source_packages d"
      "rebuilds e = rebuilds d" by (simp_all add: e queue_upsert_def)
    have b: "bi_id b \<in> ids bi_id (build_inputs d)" using assms(2) by auto
    have rows: "rows (queue e) = rows (queue d) @ [queued_row ?n (seq (queue d) + 1)]"
      using no_queued_friend_upsert[OF assms(1) b 4(2)] by (simp add: e)
    moreover have "q_build_input_id (queued_row ?n (seq (queue d) + 1)) = bi_id b"
      by (simp add: queued_row_def)
    ultimately have "friend_queued e b"
      using assms(2) frame unfolding friend_queued_def by (metis in_set_conv_decomp)
    with rows frame show ?thesis by (auto simp: attended_def intro: cores_same)
  qed
qed

lemma copy_existing_others:
  assumes "db_ok d" "bi_id b \<in> ids bi_id (build_inputs d)" "copy_existing_rebuilds b d = Inr e"
    and "i \<noteq> bi_id b"
  shows "filter (\<lambda>r. rb_build_input_id r = i) (rows (rebuilds e)) =
    filter (\<lambda>r. rb_build_input_id r = i) (rows (rebuilds d))"
proof -
  have "filter (\<lambda>r. rb_build_input_id r = i) (rows (rebuilds e)) =
      filter (\<lambda>r. rb_build_input_id r = i) (rows (rebuilds d))"
    if run: "fold_result (copy_rebuild (bi_id b))
      (map rb_id (filter (\<lambda>r. rb_build_input_id r = j) (rows (rebuilds d)))) d = Inr e" for j
  proof -
    obtain new where "rows (rebuilds e) = rows (rebuilds d) @ new" "\<forall>r\<in>set new. rb_build_input_id r = bi_id b"
      using copy_rebuilds_history[OF assms(1,2), of "filter (\<lambda>r. rb_build_input_id r = j) (rows (rebuilds d))"]
        run by auto
    with assms(4) show ?thesis by (auto simp: filter_empty_conv)
  qed
  with assms(3) show ?thesis
    by (auto simp: copy_existing_rebuilds_def split: option.splits if_splits)
qed

text \<open>The rows that a package of the report is filed as, and what its step leaves behind.\<close>

definition filed :: "package_report \<Rightarrow> source_package_report \<Rightarrow> db \<Rightarrow> source_package \<Rightarrow> build_input \<Rightarrow> bool" where
  "filed report p d s b \<longleftrightarrow>
     s \<in> set (rows (source_packages d)) \<and> source_package_key s = report_key report p \<and>
     b \<in> set (rows (build_inputs d)) \<and>
     build_input_key b = (sp_id s, spr_url p, pr_distribution report, pr_architecture report)"

lemma filed_kept:
  assumes "filed report p d s b" "cores_kept d e"
  obtains s' b' where "filed report p e s' b'" "bi_id b' = bi_id b" "input_origin b' = input_origin b"
proof -
  from assms(1) have d: "s \<in> set (rows (source_packages d))" "b \<in> set (rows (build_inputs d))"
    by (simp_all add: filed_def)
  obtain s' where s': "s' \<in> set (rows (source_packages e))" "sp_id s' = sp_id s"
    "source_package_key s' = source_package_key s" using kept_source[OF assms(2) d(1)] .
  obtain b' where b': "b' \<in> set (rows (build_inputs e))" "bi_id b' = bi_id b"
    "build_input_key b' = build_input_key b" using kept_input[OF assms(2) d(2)] .
  with assms(1) s' have "filed report p e s' b'" by (simp add: filed_def)
  with b' show thesis using that key_origin by blast
qed

text \<open>The states a step goes through, each well formed.\<close>

lemma sync_package_stages:
  assumes "db_ok d" "sync_package schedule now report p d = Inr e"
  obtains s d1 b d2 f d3 where
    "(s, d1) = source_package_upsert (new_source_of now report p) d" "db_ok d1"
    "s \<in> set (rows (source_packages d1))" "source_package_key s = report_key report p"
    "(b, d2) = build_input_upsert (new_input_of schedule now report p (sp_id s)) d1" "db_ok d2"
    "b \<in> set (rows (build_inputs d2))"
    "build_input_key b = (sp_id s, spr_url p, pr_distribution report, pr_architecture report)"
    "\<exists>t. f = d2\<lparr>binary_packages := t\<rparr>" "db_ok f"
    "(if is_new_package report p d then copy_existing_rebuilds b f else Inr f) = Inr d3"
    "db_ok d3" "only_rebuilds f d3" "queue_if_needed schedule now b d3 = Inr e"
proof -
  from assms(2) obtain s d1 b d2 d3 where steps:
    "s = fst (source_package_upsert (new_source_of now report p) d)"
    "d1 = snd (source_package_upsert (new_source_of now report p) d)"
    "b = fst (build_input_upsert (new_input_of schedule now report p (sp_id s)) d1)"
    "d2 = snd (build_input_upsert (new_input_of schedule now report p (sp_id s)) d1)"
    "(if is_new_package report p d
      then copy_existing_rebuilds b (file_binaries report (sp_id s) (bi_id b) (spr_artifacts p) d2)
      else Inr (file_binaries report (sp_id s) (bi_id b) (spr_artifacts p) d2)) = Inr d3"
    "queue_if_needed schedule now b d3 = Inr e"
    by (rule sync_package_steps)
  let ?n = "new_input_of schedule now report p (sp_id s)"
  have ok1: "db_ok d1" and s1: "s \<in> set (rows (source_packages d1))"
    using db_ok_source_package_upsert[OF assms(1)] by (simp_all add: steps(1,2))
  have ks: "source_package_key s = report_key report p"
    using source_package_table.upsert_row_key[of "new_source_of now report p" "source_packages d"]
    by (simp only: steps(1) source_package_upsert_def fst_map_prod id_apply report_key_new)
  have "nbi_source_package_id ?n \<in> ids sp_id (source_packages d1)"
    using s1 by (simp add: new_input_of_def)
  from db_ok_build_input_upsert[OF ok1 this] have ok2: "db_ok d2" by (simp add: steps(4))
  have b2: "b \<in> set (rows (build_inputs d2))" by (simp add: steps(3,4))
  have kb: "build_input_key b = (sp_id s, spr_url p, pr_distribution report, pr_architecture report)"
    using build_input_table.upsert_row_key[of ?n "build_inputs d1"]
    by (simp only: steps(3) build_input_upsert_def fst_map_prod id_apply new_build_input_key_def)
      (simp add: new_input_of_def)
  define f where "f = file_binaries report (sp_id s) (bi_id b) (spr_artifacts p) d2"
  have "sp_id s \<in> ids sp_id (source_packages d2)" "bi_id b \<in> ids bi_id (build_inputs d2)"
    using s1 b2 by (simp_all add: steps(4) build_input_upsert_def)
  from file_binaries_ok[OF ok2 this, of report "spr_artifacts p"]
  have f: "db_ok f" "\<exists>t. f = d2\<lparr>binary_packages := t\<rparr>" by (simp_all add: f_def)
  then have bf: "bi_id b \<in> ids bi_id (build_inputs f)" using b2 by auto
  have d3: "db_ok d3 \<and> only_rebuilds f d3"
    using steps(5) f(1) copy_existing_ok[OF f(1) bf] by (auto simp: f_def[symmetric] split: if_splits)
  have pairs: "(s, d1) = source_package_upsert (new_source_of now report p) d"
    "(b, d2) = build_input_upsert ?n d1" by (simp_all only: steps(1-4) prod.collapse)
  have copied: "(if is_new_package report p d then copy_existing_rebuilds b f else Inr f) = Inr d3"
    using steps(5) by (simp only: f_def)
  show thesis
    by (rule that[OF pairs(1) ok1 s1 ks pairs(2) ok2 b2 kb f(2,1) copied conjunct1[OF d3] conjunct2[OF d3] steps(6)])
qed

lemma sync_package_attends:
  assumes "db_ok d" "sync_package schedule now report p d = Inr e"
  obtains s b where "filed report p e s b" "attended schedule e b" "cores_kept d e"
    "set (rows (queue d)) \<subseteq> set (rows (queue e))"
    "\<And>i. i \<noteq> bi_id b \<Longrightarrow> filter (\<lambda>r. rb_build_input_id r = i) (rows (rebuilds e)) =
      filter (\<lambda>r. rb_build_input_id r = i) (rows (rebuilds d))"
  using assms
proof (rule sync_package_stages)
  fix s d1 b d2 f d3
  assume s: "(s, d1) = source_package_upsert (new_source_of now report p) d"
      "s \<in> set (rows (source_packages d1))" "source_package_key s = report_key report p"
    and b: "(b, d2) = build_input_upsert (new_input_of schedule now report p (sp_id s)) d1"
      "b \<in> set (rows (build_inputs d2))"
      "build_input_key b = (sp_id s, spr_url p, pr_distribution report, pr_architecture report)"
    and f: "\<exists>t. f = d2\<lparr>binary_packages := t\<rparr>" "db_ok f"
    and d3: "(if is_new_package report p d then copy_existing_rebuilds b f else Inr f) = Inr d3"
      "db_ok d3" "only_rebuilds f d3"
    and e: "queue_if_needed schedule now b d3 = Inr e"
  have d1: "d1 = snd (source_package_upsert (new_source_of now report p) d)" using s(1) by (simp add: prod_eq_iff)
  have d2: "d2 = snd (build_input_upsert (new_input_of schedule now report p (sp_id s)) d1)"
    using b(1) by (simp add: prod_eq_iff)
  have frame1: "queue d1 = queue d" "rebuilds d1 = rebuilds d"
    by (simp_all add: d1 source_package_upsert_def)
  have frame2: "source_packages d2 = source_packages d1" "queue d2 = queue d1" "rebuilds d2 = rebuilds d1"
    by (simp_all add: d2 build_input_upsert_def)
  obtain t where t: "f = d2\<lparr>binary_packages := t\<rparr>" using f(1) by blast
  have bf: "bi_id b \<in> ids bi_id (build_inputs f)" using b(2) t by simp
  have others: "filter (\<lambda>r. rb_build_input_id r = i) (rows (rebuilds d3)) =
      filter (\<lambda>r. rb_build_input_id r = i) (rows (rebuilds d))" if "i \<noteq> bi_id b" for i
    using d3(1) copy_existing_others[OF f(2) bf _ that, of d3]
    by (auto simp: t frame1 frame2 split: if_splits)
  note frame3 = only_rebuilds_frame[OF d3(3)]
  have b3: "b \<in> set (rows (build_inputs d3))" "s \<in> set (rows (source_packages d3))" "queue d3 = queue d"
    using b(2) s(2) by (simp_all add: frame3 t frame2 frame1)
  have "cores_kept d2 d3" by (rule cores_same) (simp_all add: frame3 t)
  then have kept: "cores_kept d d3"
    using cores_trans[OF cores_source_upsert cores_trans[OF cores_input_upsert]] d1 d2 by metis
  from queue_if_needed_attends[OF d3(2) b3(1) e]
  have q: "attended schedule e b" "cores_kept d3 e" "set (rows (queue d)) \<subseteq> set (rows (queue e))"
    "rebuilds e = rebuilds d3" by (simp_all add: b3)
  have "filed report p d3 s b" using b3 s(3) b(3) by (simp add: filed_def)
  then obtain s' b' where filed: "filed report p e s' b'" "bi_id b' = bi_id b" "input_origin b' = input_origin b"
    using filed_kept q(2) by blast
  have "attended schedule e b'"
    by (rule attended_step[OF q(1) cores_refl]) (simp_all add: filed)
  then show thesis using that[OF filed(1)] cores_trans[OF kept q(2)] q(3,4) others filed(2) by simp
qed

section \<open>The whole report\<close>

lemma sync_packages_attend:
  assumes "fold_result (sync_package schedule now report) ps d = Inr e" "db_ok d"
    and "\<forall>p\<in>seen. \<exists>s b. filed report p d s b \<and> attended schedule d b"
  shows "\<forall>p\<in>seen \<union> set ps. \<exists>s b. filed report p e s b \<and> attended schedule e b"
  using assms
proof (induction ps arbitrary: d seen)
  case Nil
  then show ?case by simp
next
  case (Cons p ps)
  obtain d1 where d1: "sync_package schedule now report p d = Inr d1" "db_ok d1"
    using sync_package_ok[OF Cons.prems(2), of schedule now report p] by blast
  obtain s b where new: "filed report p d1 s b" "attended schedule d1 b" "cores_kept d d1"
    "set (rows (queue d)) \<subseteq> set (rows (queue d1))"
    "\<And>i. i \<noteq> bi_id b \<Longrightarrow> filter (\<lambda>r. rb_build_input_id r = i) (rows (rebuilds d1)) =
      filter (\<lambda>r. rb_build_input_id r = i) (rows (rebuilds d))"
    using sync_package_attends[OF Cons.prems(2) d1(1)] by blast
  have "\<exists>s b. filed report p' d1 s b \<and> attended schedule d1 b" if "p' \<in> seen" for p'
  proof -
    from Cons.prems(3) that obtain s0 b0 where old: "filed report p' d s0 b0" "attended schedule d b0" by blast
    obtain s1 b1 where b1: "filed report p' d1 s1 b1" "bi_id b1 = bi_id b0" "input_origin b1 = input_origin b0"
      using filed_kept[OF old(1) new(3)] .
    have "attended schedule d1 b1"
    proof (cases "bi_id b0 = bi_id b")
      case True
      then have "b1 = b"
        using wf_table_id_unique[of bi_id "build_inputs d1" b1 b] b1 new(1) db_ok_facts(3)[OF d1(2)]
        by (simp add: filed_def)
      with new(2) show ?thesis by simp
    next
      case False
      then show ?thesis by (rule attended_step[OF old(2) new(3,4) new(5) b1(2,3)])
    qed
    with b1(1) show ?thesis by blast
  qed
  then have "\<forall>p'\<in>insert p seen. \<exists>s b. filed report p' d1 s b \<and> attended schedule d1 b"
    using new(1,2) by blast
  moreover have "fold_result (sync_package schedule now report) ps d1 = Inr e"
    using Cons.prems(1) d1(1) by simp
  ultimately show ?case using Cons.IH[OF _ d1(2), of "insert p seen"] by simp
qed

lemma attended_after_drop:
  assumes "db_ok e" "b \<in> set (rows (build_inputs e))" "attended schedule e b"
  shows "attended schedule (drop_unseen_scoped_jobs report e) b \<or>
    (\<exists>b'\<in>set (rows (build_inputs e)). input_origin b' = input_origin b \<and>
      bi_id b' \<in> set (unseen_scoped_inputs report e))"
proof -
  let ?d = "drop_unseen_scoped_jobs report e"
  have frame: "build_inputs ?d = build_inputs e" "rebuilds ?d = rebuilds e"
    by (simp_all add: drop_unseen_scoped_jobs_def)
  consider "get_current_rebuild_status b e = Inr Good" | "friend_queued e b" | "worn_out schedule e b"
    using assms(3) unfolding attended_def by blast
  then show ?thesis
  proof cases
    case 2
    then obtain q c where q: "q \<in> set (rows (queue e))" "c \<in> set (rows (build_inputs e))"
      "bi_id c = q_build_input_id q" "input_origin c = input_origin b" by (auto simp: friend_queued_def)
    show ?thesis
    proof (cases "q \<in> set (rows (queue ?d))")
      case True
      with q have "friend_queued ?d b" unfolding friend_queued_def frame by metis
      then show ?thesis by (simp add: attended_def)
    next
      case False
      with q(1) have "q_build_input_id q \<in> set (unseen_scoped_inputs report e)"
        by (simp add: rows_drop_unseen)
      with q show ?thesis by metis
    qed
  qed (simp_all add: attended_def worn_out_def get_current_rebuild_status_def frame)
qed


lemma sample_no_unseen:
  "unseen_scoped_inputs sample_report (snd (submit_package_report sample_cfg sample_req 20 sample_report
     sample_empty_queue)) = []"
  by code_simp


text \<open>The exception does happen: input 1 is queued, the report names its file under another package
  name, the new input 3 is not queued beside its friend, and the friend's job is dropped.\<close>

definition sample_renamed_report :: package_report where
  "sample_renamed_report = sample_report\<lparr>pr_release := Some ''r'',
     pr_packages := map (\<lambda>p. p\<lparr>spr_name := ''y''\<rparr>) (pr_packages sample_report)\<rparr>"

lemma sync_gap_example:
  "(let d' = snd (submit_package_report sample_cfg sample_req 20 sample_renamed_report sample_db)
    in rows (queue d') = [] \<and> map bi_id (rows (build_inputs d')) = [1, 2, 3] \<and>
       unseen_scoped_inputs sample_renamed_report d' = [1])"
  by code_simp

end
