(* ===== verification/SyncAgain.thy ===== *)
theory SyncAgain
  imports SyncLive
begin

text \<open>
  Reporting the same packages again changes nothing of what the workers see: the second sync leaves the
  queue and the results as they are, so a sync can be repeated as often as one likes.
\<close>

section \<open>Upserts that hit\<close>

context keyed_table begin

lemma upsert_hit_map:
  assumes "nkey n \<in> key ` set (rows t)" "unique_on key t"
    and "\<And>r. key r = nkey n \<Longrightarrow> f (upd n r) = f r"
  shows "map f (rows (snd (upsert n t))) = map f (rows t)"
proof -
  from assms(1) obtain r where "r \<in> set (rows t)" "key r = nkey n" by (metis imageE)
  from upsert_hit[OF this assms(2)] show ?thesis using assms(3) by (simp add: rows_update)
qed

end

section \<open>A package that is attended to\<close>

text \<open>What the second sync leaves as it was.\<close>

definition same_work :: "db \<Rightarrow> db \<Rightarrow> bool" where
  "same_work d e \<longleftrightarrow>
     rows (queue e) = rows (queue d) \<and> rebuilds e = rebuilds d \<and> rebuild_artifacts e = rebuild_artifacts d \<and>
     map input_core (rows (build_inputs e)) = map input_core (rows (build_inputs d)) \<and>
     map source_core (rows (source_packages e)) = map source_core (rows (source_packages d))"

lemma same_work_refl [simp]: "same_work d d"
  by (simp add: same_work_def)

lemma same_work_trans: "same_work d e \<Longrightarrow> same_work e f \<Longrightarrow> same_work d f"
  by (simp add: same_work_def)

lemma same_work_cores: "same_work d e \<Longrightarrow> cores_kept d e"
  unfolding same_work_def cores_kept_def by (metis list.set_map order_refl)

lemma same_work_attended:
  assumes "same_work d e" "attended schedule d b" "bi_id b' = bi_id b" "input_origin b' = input_origin b"
  shows "attended schedule e b'"
  using assms(1) by (intro attended_step[OF assms(2) same_work_cores[OF assms(1)] _ _ assms(3,4)])
    (simp_all add: same_work_def)

lemma same_work_frame:
  "queue e = queue d \<Longrightarrow> rebuilds e = rebuilds d \<Longrightarrow> rebuild_artifacts e = rebuild_artifacts d \<Longrightarrow>
     build_inputs e = build_inputs d \<Longrightarrow> source_packages e = source_packages d \<Longrightarrow> same_work d e"
  by (simp add: same_work_def)

lemma same_work_give_up:
  assumes "\<not> has_queued_friend i d"
  shows "same_work d (mark_build_input_friends_as_non_retriable i d)"
  using no_queued_friend_mark[OF assms]
  by (simp add: same_work_def frame_simps)
    (simp add: mark_build_input_friends_as_non_retriable_def clear_next_retry_def Let_def
      rows_update input_core_def build_input_key_def)

lemma queue_if_needed_idle:
  assumes "db_ok d" "b \<in> set (rows (build_inputs d))" "attended schedule d b"
    and "queue_if_needed schedule now b d = Inr e"
  shows "same_work d e"
proof -
  obtain st where st: "get_current_rebuild_status b d = Inr st"
    using current_status_ok[OF assms(1)] .
  show ?thesis
  proof (cases "st \<noteq> Good \<and> \<not> has_queued_friend (bi_id b) d")
    case False
    with st assms(4) show ?thesis by (auto simp: queue_if_needed_def split: if_splits)
  next
    case True
    then have "worn_out schedule d b"
      using assms(3) st friend_queued_iff[OF assms(1,2)] by (simp add: attended_def)
    then obtain m c where m: "max_retries schedule = Some m" "c \<in> set (rows (build_inputs d))"
      "input_origin c = input_origin b" "m \<le> bi_retries c" by (auto simp: worn_out_def)
    obtain n where n: "get_largest_retry_count_among_friends (bi_id b) d = Inr n"
      "\<And>b'. b' \<in> set (rows (build_inputs d)) \<Longrightarrow> input_origin b' = input_origin b \<Longrightarrow> bi_retries b' \<le> n"
      using largest_retry_count[OF assms(1,2)] by metis
    have "m \<le> n" using n(2)[OF m(2,3)] m(4) by simp
    with True st n(1) m(1) assms(4) have "e = mark_build_input_friends_as_non_retriable (bi_id b) d"
      by (simp add: queue_if_needed_def)
    with True same_work_give_up show ?thesis by simp
  qed
qed

section \<open>One package again\<close>

definition on_file :: "package_report \<Rightarrow> db \<Rightarrow> bool" where
  "on_file report d \<longleftrightarrow> (\<forall>r\<in>set (rows (source_packages d)).
     source_package_key r \<in> report_key report ` set (pr_packages report) \<longrightarrow>
       sp_release r = pr_release report \<and> sp_component r = pr_component report)"

lemma not_new_again:
  assumes "on_file report d" "p \<in> set (pr_packages report)" "filed report p d s b"
  shows "\<not> is_new_package report p d"
proof -
  have "sp_release s = pr_release report \<and> sp_component s = pr_component report"
    using assms unfolding on_file_def filed_def by (metis imageI)
  with assms(3) show ?thesis
    by (auto simp: is_new_package_def sql_exists_iff filed_def source_package_key_def report_key_def)
qed

lemma source_upsert_again:
  assumes "db_ok d" "filed report p d s b"
  shows "sp_id (fst (source_package_upsert (new_source_of now report p) d)) = sp_id s \<and>
    same_work d (snd (source_package_upsert (new_source_of now report p) d))"
proof -
  let ?n = "new_source_of now report p"
  have s: "s \<in> set (rows (source_packages d))" "source_package_key s = new_source_package_key ?n"
    using assms(2) by (simp_all add: filed_def report_key_new)
  then have mem: "new_source_package_key ?n \<in> source_package_key ` set (rows (source_packages d))"
    by (metis imageI)
  have "map source_core (rows (snd (source_package_table.upsert ?n (source_packages d)))) =
      map source_core (rows (source_packages d))"
    by (rule source_package_table.upsert_hit_map[OF mem db_ok_facts(15)[OF assms(1)]])
      (simp add: source_core_def source_package_table.ident_upd source_package_table.key_upd)
  moreover have "fst (source_package_table.upsert ?n (source_packages d)) = source_package_set ?n s"
    using source_package_table.upsert_hit[OF s db_ok_facts(15)[OF assms(1)]] by simp
  ultimately show ?thesis
    by (simp add: source_package_upsert_def same_work_def source_package_table.ident_upd)
qed

lemma input_upsert_again:
  assumes "db_ok d" "b \<in> set (rows (build_inputs d))" "build_input_key b = new_build_input_key n"
  shows "bi_id (fst (build_input_upsert n d)) = bi_id b \<and>
    input_origin (fst (build_input_upsert n d)) = input_origin b \<and>
    same_work d (snd (build_input_upsert n d))"
proof -
  have mem: "new_build_input_key n \<in> build_input_key ` set (rows (build_inputs d))"
    using assms(2,3) by (metis imageI)
  have "map input_core (rows (snd (build_input_table.upsert n (build_inputs d)))) =
      map input_core (rows (build_inputs d))"
    by (rule build_input_table.upsert_hit_map[OF mem db_ok_facts(16)[OF assms(1)]])
      (simp add: input_core_def build_input_set_def build_input_key_def new_build_input_key_def)
  moreover have "fst (build_input_table.upsert n (build_inputs d)) = build_input_set n b"
    using build_input_table.upsert_hit[OF assms(2,3) db_ok_facts(16)[OF assms(1)]] by simp
  moreover have "input_origin (build_input_set n b) = input_origin b"
    using assms(3) by (simp add: input_origin_def build_input_set_def build_input_key_def new_build_input_key_def)
  ultimately show ?thesis
    by (simp add: build_input_upsert_def same_work_def build_input_table.ident_upd)
qed

lemma sync_package_again:
  assumes "db_ok d" "on_file report d" "p \<in> set (pr_packages report)"
    and "filed report p d s0 b0" "attended schedule d b0"
    and "sync_package schedule now report p d = Inr e"
  shows "same_work d e"
  using assms(1,6)
proof (rule sync_package_stages)
  fix s :: source_package and d1 b d2 f d3
  let ?n = "new_input_of schedule now report p (sp_id s)"
  assume s: "(s, d1) = source_package_upsert (new_source_of now report p) d" "db_ok d1"
    and b: "(b, d2) = build_input_upsert ?n d1" "b \<in> set (rows (build_inputs d2))"
    and f: "\<exists>t. f = d2\<lparr>binary_packages := t\<rparr>"
    and d3: "(if is_new_package report p d then copy_existing_rebuilds b f else Inr f) = Inr d3" "db_ok d3"
    and e: "queue_if_needed schedule now b d3 = Inr e"
  have d1: "d1 = snd (source_package_upsert (new_source_of now report p) d)"
    and s': "sp_id s = sp_id s0" and w1: "same_work d d1"
    using source_upsert_again[OF assms(1,4), of now] by (simp_all flip: s(1))
  have "build_inputs d1 = build_inputs d" by (simp add: d1 source_package_upsert_def)
  moreover have "build_input_key b0 = new_build_input_key ?n"
    using assms(4) s' by (simp add: filed_def new_build_input_key_def new_input_of_def)
  ultimately have b': "bi_id b = bi_id b0" "input_origin b = input_origin b0" and w2: "same_work d1 d2"
    using input_upsert_again[OF s(2), of b0 ?n] assms(4) by (simp_all add: filed_def flip: b(1))
  obtain t where t: "d3 = d2\<lparr>binary_packages := t\<rparr>"
    using f d3(1) not_new_again[OF assms(2,3,4)] by auto
  have "same_work d2 d3" by (rule same_work_frame) (simp_all add: t)
  then have w3: "same_work d d3" using same_work_trans[OF same_work_trans[OF w1 w2]] by simp
  have "attended schedule d3 b" by (rule same_work_attended[OF w3 assms(5) b'])
  moreover have "b \<in> set (rows (build_inputs d3))" using b(2) t by simp
  ultimately show ?thesis
    using same_work_trans[OF w3] queue_if_needed_idle[OF d3(2) _ _ e] by blast
qed

lemma on_file_step:
  assumes "db_ok d" "on_file report d" "sync_package schedule now report p d = Inr e"
  shows "on_file report e"
proof -
  let ?n = "new_source_of now report p"
  obtain e' where "sync_package schedule now report p d = Inr e'"
    "source_packages e' = snd (source_package_table.upsert ?n (source_packages d))"
    using sync_package_ok[OF assms(1), of schedule now report p] by blast
  with assms(3) have e: "source_packages e = snd (source_package_table.upsert ?n (source_packages d))" by simp
  obtain i where "fst (source_package_table.upsert ?n (source_packages d)) = source_package_row ?n i"
    using source_upsert_fst by blast
  then have "sp_release r = pr_release report \<and> sp_component r = pr_component report"
    if "r = fst (source_package_table.upsert ?n (source_packages d))" for r
    using that by (simp add: source_package_row_def new_source_of_def)
  with assms(2) show ?thesis
    unfolding on_file_def e source_package_table.upsert_rows[OF db_ok_facts(15)[OF assms(1)]] by blast
qed

lemma sync_packages_again:
  assumes "db_ok d" "on_file report d" "set ps \<subseteq> set (pr_packages report)"
    and "\<forall>p\<in>set ps. \<exists>s b. filed report p d s b \<and> attended schedule d b"
    and "fold_result (sync_package schedule now report) ps d = Inr e"
  shows "same_work d e"
  using assms
proof (induction ps arbitrary: d)
  case Nil
  then show ?case by simp
next
  case (Cons p ps)
  obtain d1 where d1: "sync_package schedule now report p d = Inr d1" "db_ok d1"
    using sync_package_ok[OF Cons.prems(1), of schedule now report p] by blast
  obtain s b where sb: "filed report p d s b" "attended schedule d b" using Cons.prems(4) by auto
  have w: "same_work d d1"
    by (rule sync_package_again[OF Cons.prems(1,2) _ sb d1(1)]) (use Cons.prems(3) in simp)
  have "\<exists>s b. filed report p' d1 s b \<and> attended schedule d1 b" if "p' \<in> set ps" for p'
  proof -
    from Cons.prems(4) that obtain s0 b0 where old: "filed report p' d s0 b0" "attended schedule d b0" by auto
    obtain s1 b1 where "filed report p' d1 s1 b1" "bi_id b1 = bi_id b0" "input_origin b1 = input_origin b0"
      using filed_kept[OF old(1) same_work_cores[OF w]] .
    with same_work_attended[OF w old(2)] show ?thesis by blast
  qed
  moreover have "fold_result (sync_package schedule now report) ps d1 = Inr e"
    using Cons.prems(5) d1(1) by simp
  ultimately have "same_work d1 e"
    using Cons.IH[OF d1(2) on_file_step[OF Cons.prems(1,2) d1(1)]] Cons.prems(3) by simp
  then show ?case by (rule same_work_trans[OF w])
qed

section \<open>Where inputs come from\<close>

lemma queue_if_needed_keys:
  assumes "queue_if_needed schedule now b d = Inr e"
  shows "map build_input_key (rows (build_inputs e)) = map build_input_key (rows (build_inputs d)) \<and>
    source_packages e = source_packages d"
proof -
  have "e = d \<or> e = mark_build_input_friends_as_non_retriable (bi_id b) d \<or> (\<exists>n. e = snd (queue_upsert n d))"
    using assms by (auto simp: queue_if_needed_def split: sum.splits if_splits)
  then show ?thesis
    by (auto simp: queue_upsert_def mark_build_input_friends_as_non_retriable_def clear_next_retry_def Let_def
        rows_update build_input_key_def)
qed

lemma sync_package_inputs:
  assumes "db_ok d" "sync_package schedule now report p d = Inr e" "b \<in> set (rows (build_inputs e))"
  shows "(\<exists>b0\<in>set (rows (build_inputs d)). build_input_key b0 = build_input_key b) \<or>
    (\<exists>s\<in>set (rows (source_packages e)). sp_id s = bi_source_package_id b \<and> source_package_key s = report_key report p)"
  using assms(1,2)
proof (rule sync_package_stages)
  fix s :: source_package and d1 c d2 f d3
  let ?n = "new_input_of schedule now report p (sp_id s)"
  assume s: "(s, d1) = source_package_upsert (new_source_of now report p) d" "db_ok d1"
      "s \<in> set (rows (source_packages d1))" "source_package_key s = report_key report p"
    and c: "(c, d2) = build_input_upsert ?n d1"
      "build_input_key c = (sp_id s, spr_url p, pr_distribution report, pr_architecture report)"
    and f: "\<exists>t. f = d2\<lparr>binary_packages := t\<rparr>"
    and d3: "only_rebuilds f d3" and e: "queue_if_needed schedule now c d3 = Inr e"
  have d1: "d1 = snd (source_package_upsert (new_source_of now report p) d)" using s(1) by (simp add: prod_eq_iff)
  have d2: "c = fst (build_input_upsert ?n d1)" "d2 = snd (build_input_upsert ?n d1)"
    using c(1) by (simp_all add: prod_eq_iff)
  have frame: "build_inputs d1 = build_inputs d" "source_packages d2 = source_packages d1"
    by (simp_all add: d1 d2 source_package_upsert_def build_input_upsert_def)
  have same: "build_inputs d3 = build_inputs d2" "source_packages d3 = source_packages d2"
    using only_rebuilds_frame[OF d3] f by auto
  note keys = queue_if_needed_keys[OF e]
  have "build_input_key b \<in> set (map build_input_key (rows (build_inputs d2)))"
    using assms(3) keys same(1) by (metis image_eqI list.set_map)
  then consider b' where "b' \<in> set (rows (build_inputs d))" "build_input_key b' = build_input_key b"
    | "build_input_key b = build_input_key c"
    using build_input_table.upsert_rows[OF db_ok_facts(16)[OF s(2)], of ?n]
    by (auto simp: d2 build_input_upsert_def frame)
  then show ?thesis
  proof cases
    case 2
    with c(2) have "bi_source_package_id b = sp_id s" by (simp add: build_input_key_def)
    moreover have "s \<in> set (rows (source_packages e))" using s(3) keys same frame by simp
    ultimately show ?thesis using s(4) by auto
  qed auto
qed

lemma sync_packages_cores:
  assumes "db_ok d" "fold_result (sync_package schedule now report) ps d = Inr e"
  shows "cores_kept d e"
  using assms
proof (induction ps arbitrary: d)
  case Nil
  then show ?case by simp
next
  case (Cons p ps)
  obtain d1 where d1: "sync_package schedule now report p d = Inr d1" "db_ok d1"
    using sync_package_ok[OF Cons.prems(1), of schedule now report p] by blast
  have "cores_kept d d1" using sync_package_attends[OF Cons.prems(1) d1(1)] by blast
  with Cons.IH[OF d1(2)] Cons.prems(2) d1(1) cores_trans show ?case by auto
qed

lemma sync_packages_inputs:
  assumes "fold_result (sync_package schedule now report) ps d = Inr e" "db_ok d"
    and "b \<in> set (rows (build_inputs e))"
  shows "(\<exists>b0\<in>set (rows (build_inputs d)). build_input_key b0 = build_input_key b) \<or>
    (\<exists>s\<in>set (rows (source_packages e)). sp_id s = bi_source_package_id b \<and>
       source_package_key s \<in> report_key report ` set ps)"
  using assms(1,2)
proof (induction ps arbitrary: d)
  case Nil
  then show ?case using assms(3) by auto
next
  case (Cons p ps)
  obtain d1 where d1: "sync_package schedule now report p d = Inr d1" "db_ok d1"
    using sync_package_ok[OF Cons.prems(2), of schedule now report p] by blast
  have e: "fold_result (sync_package schedule now report) ps d1 = Inr e"
    using Cons.prems(1) d1(1) by simp
  from Cons.IH[OF e d1(2)] show ?case
  proof
    assume "\<exists>b0\<in>set (rows (build_inputs d1)). build_input_key b0 = build_input_key b"
    then obtain b1 where b1: "b1 \<in> set (rows (build_inputs d1))" "build_input_key b1 = build_input_key b" by blast
    have src: "bi_source_package_id b1 = bi_source_package_id b" using b1(2) by (simp add: build_input_key_def)
    from sync_package_inputs[OF Cons.prems(2) d1(1) b1(1)] show ?thesis
    proof
      assume "\<exists>s\<in>set (rows (source_packages d1)). sp_id s = bi_source_package_id b1 \<and>
        source_package_key s = report_key report p"
      then obtain s where s: "s \<in> set (rows (source_packages d1))" "sp_id s = bi_source_package_id b1"
        "source_package_key s = report_key report p" by blast
      obtain s' where "s' \<in> set (rows (source_packages e))" "sp_id s' = sp_id s"
        "source_package_key s' = source_package_key s"
        using kept_source[OF sync_packages_cores[OF d1(2) e] s(1)] .
      with s src show ?thesis by auto
    qed (use b1(2) in auto)
  qed auto
qed

section \<open>The second report\<close>

lemma map_source_marked:
  assumes "db_ok d"
  shows "map source_core (rows (source_packages (mark_scoped_packages_unseen report d))) =
    map source_core (rows (source_packages d))"
  by (simp add: rows_marked_unseen[OF assms] marked_unseen_def source_core_def source_package_key_def)

lemma marked_frame:
  assumes "db_ok d"
  shows "same_work d (mark_scoped_packages_unseen report d)"
  by (simp add: same_work_def frame_simps map_source_marked[OF assms])
    (simp add: mark_scoped_packages_unseen_def Let_def)

lemma same_input_row:
  assumes "same_work d e" "b \<in> set (rows (build_inputs e))"
  obtains b0 where "b0 \<in> set (rows (build_inputs d))" "bi_id b0 = bi_id b" "build_input_key b0 = build_input_key b"
proof -
  have "input_core b \<in> set (map input_core (rows (build_inputs e)))" using assms(2) by simp
  also have "map input_core (rows (build_inputs e)) = map input_core (rows (build_inputs d))"
    using assms(1) unfolding same_work_def by blast
  finally obtain b0 where "b0 \<in> set (rows (build_inputs d))" "input_core b0 = input_core b" by auto
  with that show thesis by (simp add: input_core_def)
qed

lemma scope_key:
  "build_input_key b' = build_input_key b \<Longrightarrow> sp_distribution s' = sp_distribution s \<Longrightarrow>
     sp_release s' = sp_release s \<Longrightarrow> sp_component s' = sp_component s \<Longrightarrow>
     in_scope report (b', s') = in_scope report (b, s)"
  by (simp add: in_scope_def build_input_key_def)

text \<open>The state after the packages of a report: whatever is in its scope and not reported is unseen.\<close>

definition swept :: "package_report \<Rightarrow> db \<Rightarrow> bool" where
  "swept report e \<longleftrightarrow> (\<forall>s\<in>set (rows (source_packages e)). \<forall>b\<in>set (rows (build_inputs e)).
     bi_source_package_id b = sp_id s \<and> in_scope report (b, s) \<and>
     source_package_key s \<notin> report_key report ` set (pr_packages report) \<longrightarrow> \<not> sp_seen_in_last_sync s)"

lemma packages_sweep:
  assumes "db_ok d"
    and "fold_result (sync_package schedule now report) (pr_packages report) (mark_scoped_packages_unseen report d) = Inr e"
  shows "swept report e" "on_file report e"
    "s \<in> set (rows (source_packages e)) \<Longrightarrow> source_package_key s \<in> report_key report ` set (pr_packages report) \<Longrightarrow>
      sp_seen_in_last_sync s"
proof -
  let ?m = "mark_scoped_packages_unseen report d"
  have okm: "db_ok ?m" by (rule db_ok_mark_scoped[OF assms(1)])
  note src = sync_packages_sources[OF assms(2) okm]
  obtain e' where "fold_result (sync_package schedule now report) (pr_packages report) ?m = Inr e'" "sync_progress ?m e'"
    using sync_packages_progress[OF okm] by blast
  with assms(2) have oke: "db_ok e" by (simp add: sync_progress_def)
  have raw: "sp_seen_in_last_sync s \<and> sp_release s = pr_release report \<and> sp_component s = pr_component report"
    if "s \<in> set (rows (source_packages e))" "source_package_key s \<in> report_key report ` set (pr_packages report)" for s
  proof -
    from conjunct1[OF src] that obtain p i where "s = source_package_row (new_source_of now report p) i"
      by blast
    then show ?thesis by (simp add: source_package_row_def new_source_of_def)
  qed
  then show "on_file report e" by (simp add: on_file_def)
  show "s \<in> set (rows (source_packages e)) \<Longrightarrow> source_package_key s \<in> report_key report ` set (pr_packages report) \<Longrightarrow>
      sp_seen_in_last_sync s" for s using raw by blast
  show "swept report e"
    unfolding swept_def
  proof (intro ballI impI)
    fix s b assume s: "s \<in> set (rows (source_packages e))" and b: "b \<in> set (rows (build_inputs e))"
      and sb: "bi_source_package_id b = sp_id s \<and> in_scope report (b, s) \<and>
        source_package_key s \<notin> report_key report ` set (pr_packages report)"
    from conjunct1[OF conjunct2[OF src]] s sb have "s \<in> set (rows (source_packages ?m))" by blast
    then obtain s0 where s0: "s0 \<in> set (rows (source_packages d))" "s = marked_unseen report d s0"
      by (auto simp: rows_marked_unseen[OF assms(1)])
    have same: "sp_id s = sp_id s0" "sp_distribution s = sp_distribution s0" "sp_release s = sp_release s0"
      "sp_component s = sp_component s0" by (simp_all add: s0(2) marked_unseen_def)
    from sync_packages_inputs[OF assms(2) okm b]
    have "\<exists>b0\<in>set (rows (build_inputs ?m)). build_input_key b0 = build_input_key b"
    proof
      assume "\<exists>s'\<in>set (rows (source_packages e)). sp_id s' = bi_source_package_id b \<and>
        source_package_key s' \<in> report_key report ` set (pr_packages report)"
      then obtain s' where s': "s' \<in> set (rows (source_packages e))" "sp_id s' = bi_source_package_id b"
        "source_package_key s' \<in> report_key report ` set (pr_packages report)" by blast
      have "s' = s" by (rule wf_table_id_unique[OF db_ok_facts(13)[OF oke] s'(1) s]) (simp only: s'(2) sb)
      with s'(3) sb show ?thesis by simp
    qed
    then obtain b0 where "b0 \<in> set (rows (build_inputs d))" "build_input_key b0 = build_input_key b"
      by (auto simp: frame_simps)
    moreover from this(2) have "bi_source_package_id b0 = sp_id s0 \<and> in_scope report (b0, s0)"
      using sb scope_key[of b0 b s0 s report] same by (simp add: build_input_key_def)
    ultimately show "\<not> sp_seen_in_last_sync s" by (auto simp: s0(2) marked_unseen_def)
  qed
qed

lemma unseen_scoped_iff:
  "i \<in> set (unseen_scoped_inputs report d) \<longleftrightarrow>
     (\<exists>b\<in>set (rows (build_inputs d)). \<exists>s\<in>set (rows (source_packages d)). i = bi_id b \<and>
        sp_id s = bi_source_package_id b \<and> in_scope report (b, s) \<and> \<not> sp_seen_in_last_sync s)"
  by (auto simp: unseen_scoped_inputs_def inputs_of_sources_def set_inner_join image_iff Bex_def)

lemma unseen_again:
  assumes "db_ok d" "swept report d" "same_work d e"
    and "fold_result (sync_package schedule now report) (pr_packages report) (mark_scoped_packages_unseen report d) = Inr e"
  shows "set (unseen_scoped_inputs report e) \<subseteq> set (unseen_scoped_inputs report d)"
proof
  fix i assume "i \<in> set (unseen_scoped_inputs report e)"
  then obtain b s where bs: "b \<in> set (rows (build_inputs e))" "s \<in> set (rows (source_packages e))"
    "sp_id s = bi_source_package_id b" "in_scope report (b, s)" "\<not> sp_seen_in_last_sync s" "i = bi_id b"
    unfolding unseen_scoped_iff by blast
  have new: "source_package_key s \<notin> report_key report ` set (pr_packages report)"
    using packages_sweep(3)[OF assms(1,4) bs(2)] bs(5) by blast
  with conjunct1[OF conjunct2[OF sync_packages_sources[OF assms(4) db_ok_mark_scoped[OF assms(1)]]]] bs(2)
  have "s \<in> set (rows (source_packages (mark_scoped_packages_unseen report d)))" by blast
  then obtain s0 where s0: "s0 \<in> set (rows (source_packages d))" "s = marked_unseen report d s0"
    by (auto simp: rows_marked_unseen[OF assms(1)])
  have same: "sp_id s = sp_id s0" "sp_distribution s = sp_distribution s0" "sp_release s = sp_release s0"
    "sp_component s = sp_component s0" "source_package_key s = source_package_key s0"
    by (simp_all add: s0(2) marked_unseen_def source_package_key_def)
  obtain b0 where b0: "b0 \<in> set (rows (build_inputs d))" "bi_id b0 = bi_id b" "build_input_key b0 = build_input_key b"
    using same_input_row[OF assms(3) bs(1)] .
  have scope: "bi_source_package_id b0 = sp_id s0" "in_scope report (b0, s0)"
    using bs(3,4) same b0(3) scope_key[of b0 b s0 s report] by (simp_all add: build_input_key_def)
  with assms(2) s0(1) b0(1) new same(5) have "\<not> sp_seen_in_last_sync s0" unfolding swept_def by auto
  with scope s0(1) b0 bs(6) show "i \<in> set (unseen_scoped_inputs report d)"
    unfolding unseen_scoped_iff by metis
qed

lemma after_report:
  assumes "db_ok d" "admin cfg req = Inr ()" "d' = snd (submit_package_report cfg req now report d)"
  shows "db_ok d'" "swept report d'" "on_file report d'"
    "\<And>q. q \<in> set (rows (queue d')) \<Longrightarrow> q_worker q = None \<Longrightarrow>
       q_build_input_id q \<notin> set (unseen_scoped_inputs report d')"
    "\<And>p. p \<in> set (pr_packages report) \<Longrightarrow> \<exists>s b. filed report p d' s b \<and>
       (attended (cfg_schedule cfg) d' b \<or>
        (\<exists>b'\<in>set (rows (build_inputs d')). input_origin b' = input_origin b \<and>
           bi_id b' \<in> set (unseen_scoped_inputs report d')))"
proof -
  let ?m = "mark_scoped_packages_unseen report d"
  obtain e where e: "sync_progress ?m e"
    "fold_result (sync_package (cfg_schedule cfg) now report) (pr_packages report) ?m = Inr e"
    "submit_package_report cfg req now report d = (NoContent204, drop_unseen_scoped_jobs report e)"
    by (rule submit_package_report_run[OF assms(1,2), where now = now and report = report]) auto
  then have d': "d' = drop_unseen_scoped_jobs report e" using assms(3) by simp
  have same: "source_packages d' = source_packages e" "build_inputs d' = build_inputs e"
    "unseen_scoped_inputs report d' = unseen_scoped_inputs report e"
    by (simp_all add: d' drop_unseen_scoped_jobs_def unseen_scoped_inputs_def inputs_of_sources_def)
  show "db_ok d'" using db_ok_submit_package_report[OF assms(1)] assms(3) by simp
  show "swept report d'" "on_file report d'"
    using packages_sweep(1,2)[OF assms(1) e(2)] by (simp_all add: swept_def on_file_def same)
  show "q \<in> set (rows (queue d')) \<Longrightarrow> q_worker q = None \<Longrightarrow>
      q_build_input_id q \<notin> set (unseen_scoped_inputs report d')" for q
    by (simp add: d' rows_drop_unseen same(3)[unfolded d'])
  fix p assume "p \<in> set (pr_packages report)"
  then obtain s b where sb: "filed report p e s b" "attended (cfg_schedule cfg) e b"
    using sync_packages_attend[OF e(2) db_ok_mark_scoped[OF assms(1)], of "{}"] by auto
  have "db_ok e" using e(1) by (simp add: sync_progress_def)
  from attended_after_drop[OF this _ sb(2), of report, folded d'] sb(1)
  show "\<exists>s b. filed report p d' s b \<and> (attended (cfg_schedule cfg) d' b \<or>
      (\<exists>b'\<in>set (rows (build_inputs d')). input_origin b' = input_origin b \<and>
         bi_id b' \<in> set (unseen_scoped_inputs report d')))"
    by (intro exI[of _ s] exI[of _ b]) (simp add: filed_def same)
qed



end
