(* ===== verification/LogProps.thy ===== *)
theory LogProps
  imports Builds
begin

text \<open>
  Logs survive storage: what a worker uploads, compressed or not, is what a client reads. The zstd
  library is a parameter; \<open>zstd_ok\<close> states what its documentation promises of it.
\<close>

text \<open>
  The encoder makes one frame of all the slices written to it, in their order. \<open>left st\<close> is what
  a decoder in state \<open>st\<close> has yet to return, if its input is a frame: a read returns a part of it,
  and nothing only at its end. Of other inputs nothing is said.
\<close>

definition zstd_ok ::
  "(bytes list \<Rightarrow> bytes result) \<Rightarrow> (bytes \<Rightarrow> 'st result) \<Rightarrow> ('st \<Rightarrow> (bytes \<times> 'st) result) \<Rightarrow>
   (bytes \<Rightarrow> bytes) \<Rightarrow> ('st \<Rightarrow> bytes option) \<Rightarrow> bool" where
  "zstd_ok enc dec_new dec_read frame left \<longleftrightarrow>
     (\<forall>slices. enc slices = Inr (frame (concat slices))) \<and>
     (\<forall>d. take 4 (frame d) = zstd_magic) \<and>
     (\<forall>d. \<exists>st. dec_new (frame d) = Inr st \<and> left st = Some d) \<and>
     (\<forall>st rest. left st = Some rest \<longrightarrow>
        (\<exists>buf st' rest'. dec_read st = Inr (buf, st') \<and> left st' = Some rest' \<and>
           rest = buf @ rest' \<and> (rest \<noteq> [] \<longrightarrow> buf \<noteq> [])))"

lemma read_loop_left:
  assumes "zstd_ok enc dec_new dec_read frame left" "left st = Some rest" "length rest < fuel"
  shows "zstd_read_loop fuel dec_read st data = Some (Inr (data @ rest))"
  using assms(2,3)
proof (induction fuel arbitrary: st rest data)
  case (Suc fuel)
  obtain buf st' rest' where r: "dec_read st = Inr (buf, st')" "left st' = Some rest'"
    "rest = buf @ rest'" "rest \<noteq> [] \<longrightarrow> buf \<noteq> []"
    using assms(1) Suc.prems(1) unfolding zstd_ok_def by blast
  show ?case
  proof (cases "buf = []")
    case True
    with r have "rest = []" by blast
    with r True show ?thesis by simp
  next
    case False
    then have "length rest' < fuel" using r(3) Suc.prems(2) by (cases buf) simp_all
    with Suc.IH[OF r(2)] r False show ?thesis by simp
  qed
qed simp

lemma decompress_frame:
  assumes "zstd_ok enc dec_new dec_read frame left" "length d < fuel"
  shows "zstd_decompress fuel dec_new dec_read (frame d) = Some (Inr d)"
proof -
  obtain st where "dec_new (frame d) = Inr st" "left st = Some d"
    using assms(1) unfolding zstd_ok_def by blast
  with read_loop_left[OF assms(1), of st d fuel "[]"] assms(2) show ?thesis
    by (simp add: zstd_decompress_def)
qed

lemma compress_frame:
  assumes "zstd_ok enc dec_new dec_read frame left"
  shows "zstd_compress enc d = Inr (frame d)"
proof -
  have "concat (chunks zstd_chunk_size d) = d" by (rule concat_chunks) (simp add: zstd_chunk_size_def)
  with assms show ?thesis by (simp add: zstd_ok_def zstd_compress_def)
qed


text \<open>A codec that stores, with two bytes per read.\<close>

lemma store_codec_ok:
  "zstd_ok (\<lambda>slices. Inr (zstd_magic @ concat slices)) (\<lambda>b. Inr (drop 4 b))
     (\<lambda>st. Inr (take 2 st, drop 2 st)) (\<lambda>d. zstd_magic @ d) Some"
  by (auto simp: zstd_ok_def zstd_magic_def)


end
