(* ===== verification/Archlinux.thy ===== *)
theory Archlinux
  imports Schedule
begin

text \<open>
  The scheduler of Arch Linux (\<open>tools/src/schedule/archlinux.rs\<close>). The archive of an index is read
  by crates: parameters.
\<close>

section \<open>Mirrors\<close>

lemma mirror_rest_shorter:
  assumes "dropWhile (\<lambda>c. c \<noteq> CHR ''$'') mirror \<noteq> []"
  shows "length (dropWhile (\<lambda>c. c \<noteq> CHR ''/'') (dropWhile (\<lambda>c. c \<noteq> CHR ''$'') mirror)) < length mirror"
proof -
  obtain x xs where s: "dropWhile (\<lambda>c. c \<noteq> CHR ''$'') mirror = x # xs" using assms by (meson neq_Nil_conv)
  then have "x = CHR ''$''" using hd_dropWhile[OF assms] by simp
  with s have "dropWhile (\<lambda>c. c \<noteq> CHR ''/'') (dropWhile (\<lambda>c. c \<noteq> CHR ''$'') mirror) =
      dropWhile (\<lambda>c. c \<noteq> CHR ''/'') xs" by simp
  moreover have "length (x # xs) \<le> length mirror" unfolding s[symmetric] by (rule length_dropWhile_le)
  moreover have "length (dropWhile (\<lambda>c. c \<noteq> CHR ''/'') xs) \<le> length xs" by (rule length_dropWhile_le)
  ultimately show ?thesis by simp
qed

text \<open>The text up to a dollar sign is copied, the name from there to the next slash replaced.\<close>

function mirror_loop :: "string \<Rightarrow> string \<Rightarrow> string \<Rightarrow> string result" where
  "mirror_loop repo arch mirror =
     (let txt = takeWhile (\<lambda>c. c \<noteq> CHR ''$'') mirror;
          s = dropWhile (\<lambda>c. c \<noteq> CHR ''$'') mirror
      in if s = [] then Inr txt
         else
           (let var = takeWhile (\<lambda>c. c \<noteq> CHR ''/'') s;
                rest = dropWhile (\<lambda>c. c \<noteq> CHR ''/'') s
            in if var = ''$repo'' then map_sum id (\<lambda>r. txt @ repo @ r) (mirror_loop repo arch rest)
               else if var = ''$arch'' then map_sum id (\<lambda>r. txt @ arch @ r) (mirror_loop repo arch rest)
               else Inl LibraryError))"
  by pat_completeness auto

termination
  by (relation "measure (\<lambda>(repo, arch, mirror). length mirror)") (use mirror_rest_shorter in auto)

declare mirror_loop.simps [simp del]

definition mirror_to_url :: "string \<Rightarrow> string \<Rightarrow> string \<Rightarrow> string \<Rightarrow> string result" where
  "mirror_to_url mirror repo arch file =
     map_sum id (\<lambda>url. (if ends_with ''/'' url then url else url @ ''/'') @ file)
       (mirror_loop repo arch mirror)"

section \<open>The index of Arch Linux\<close>

record arch_pkg =
  arp_name :: string
  arp_base :: string
  arp_filename :: string
  arp_version :: string
  arp_architecture :: string
  arp_packager :: string

definition arch_by_maintainer :: "arch_pkg \<Rightarrow> string list \<Rightarrow> bool" where
  "arch_by_maintainer pkg maintainers = list_ex (\<lambda>m. starts_with m (arp_packager pkg)) maintainers"

record new_arch_pkg =
  nar_name :: "string list"
  nar_base :: "string list"
  nar_filename :: "string list"
  nar_version :: "string list"
  nar_architecture :: "string list"
  nar_packager :: "string list"

definition empty_arch_pkg :: new_arch_pkg where
  "empty_arch_pkg = \<lparr>nar_name = [], nar_base = [], nar_filename = [], nar_version = [],
     nar_architecture = [], nar_packager = []\<rparr>"

definition first_value :: "string list \<Rightarrow> string result" where
  "first_value vs = (case vs of [] \<Rightarrow> Inl LibraryError | v # _ \<Rightarrow> Inr v)"

definition to_arch_pkg :: "new_arch_pkg \<Rightarrow> arch_pkg result" where
  "to_arch_pkg n =
     (case (first_value (nar_name n), first_value (nar_base n), first_value (nar_filename n),
            first_value (nar_version n), first_value (nar_architecture n), first_value (nar_packager n)) of
        (Inr name, Inr base, Inr filename, Inr version, Inr architecture, Inr packager) \<Rightarrow>
          Inr \<lparr>arp_name = name, arp_base = base, arp_filename = filename, arp_version = version,
            arp_architecture = architecture, arp_packager = packager\<rparr>
      | _ \<Rightarrow> Inl LibraryError)"

definition set_arch_field :: "string \<Rightarrow> string list \<Rightarrow> new_arch_pkg \<Rightarrow> new_arch_pkg" where
  "set_arch_field key vs pkg =
     (if key = ''%FILENAME%'' then pkg\<lparr>nar_filename := vs\<rparr>
      else if key = ''%NAME%'' then pkg\<lparr>nar_name := vs\<rparr>
      else if key = ''%BASE%'' then pkg\<lparr>nar_base := vs\<rparr>
      else if key = ''%VERSION%'' then pkg\<lparr>nar_version := vs\<rparr>
      else if key = ''%ARCH%'' then pkg\<lparr>nar_architecture := vs\<rparr>
      else if key = ''%PACKAGER%'' then pkg\<lparr>nar_packager := vs\<rparr>
      else pkg)"

text \<open>A line is a key, the lines after it up to an empty one are its values.\<close>

function arch_fields :: "string list \<Rightarrow> new_arch_pkg \<Rightarrow> new_arch_pkg" where
  "arch_fields [] pkg = pkg"
| "arch_fields (key # ls) pkg =
     arch_fields (tl (dropWhile (\<lambda>v. v \<noteq> []) ls)) (set_arch_field key (takeWhile (\<lambda>v. v \<noteq> []) ls) pkg)"
  by pat_completeness auto
termination
  by (relation "measure (length \<circ> fst)") (simp_all add: less_Suc_eq_le order_trans[OF diff_le_self length_dropWhile_le])

fun arch_entries :: "tar_entry result list \<Rightarrow> arch_pkg list \<Rightarrow> arch_pkg list result" where
  "arch_entries [] pkgs = Inr pkgs"
| "arch_entries (Inl e # es) pkgs = Inl e"
| "arch_entries (Inr entry # es) pkgs =
     (if te_is_regular entry then
        (case te_text entry of
           Inl e \<Rightarrow> Inl e
         | Inr content \<Rightarrow>
             (case to_arch_pkg (arch_fields (split_on CHR 0x0A content) empty_arch_pkg) of
                Inl e \<Rightarrow> Inl e
              | Inr pkg \<Rightarrow> arch_entries es (pkgs @ [pkg])))
      else arch_entries es pkgs)"

definition arch_extract_pkgs ::
  "(bytes \<Rightarrow> string) \<Rightarrow> (compressed_with \<Rightarrow> bytes \<Rightarrow> bytes result) \<Rightarrow>
   (bytes \<Rightarrow> tar_entry result list result) \<Rightarrow> bytes \<Rightarrow> arch_pkg list result" where
  "arch_extract_pkgs mime_type decoder untar bs =
     (case decompress_stream decoder (detect_compression mime_type bs) bs of
        Inl e \<Rightarrow> Inl e
      | Inr tar \<Rightarrow>
         (case untar tar of Inl e \<Rightarrow> Inl e | Inr es \<Rightarrow> arch_entries es []))"

section \<open>The report of Arch Linux\<close>

definition arch_source :: "pkgs_sync \<Rightarrow> string" where
  "arch_source sync =
     (if ends_with ''.db'' (ps_source sync)
      then ''https://mirrors.kernel.org/archlinux/$repo/os/$arch'' else ps_source sync)"

definition arch_artifact :: "arch_pkg \<times> string \<Rightarrow> binary_package_report" where
  "arch_artifact pu = \<lparr>bpr_name = arp_name (fst pu), bpr_version = arp_version (fst pu),
     bpr_architecture = arp_architecture (fst pu), bpr_url = snd pu\<rparr>"

definition arch_group :: "arch_pkg \<times> string \<Rightarrow> source_package_report" where
  "arch_group pu = plain_group (arp_base (fst pu)) (arp_version (fst pu)) (snd pu)"

fun arch_bases ::
  "(string \<Rightarrow> string result) \<Rightarrow> pkgs_sync \<Rightarrow> arch_pkg list \<Rightarrow>
   (string \<times> source_package_report) list \<Rightarrow> (string \<times> source_package_report) list result" where
  "arch_bases url_of sync [] bases = Inr bases"
| "arch_bases url_of sync (pkg # pkgs) bases =
     (if \<not> pkg_matches (arp_name pkg) (arch_by_maintainer pkg) sync then arch_bases url_of sync pkgs bases
      else
        (case url_of (arp_filename pkg) of
           Inl e \<Rightarrow> Inl e
         | Inr url \<Rightarrow>
             arch_bases url_of sync pkgs
               (push_artifact (arp_base pkg) (arch_group (pkg, url)) (arch_artifact (pkg, url)) bases)))"

definition arch_report ::
  "(string \<Rightarrow> bytes result) \<Rightarrow> (bytes \<Rightarrow> arch_pkg list result) \<Rightarrow> pkgs_sync \<Rightarrow> string \<Rightarrow> string \<Rightarrow>
   package_report result" where
  "arch_report fetch extract sync arch component =
     (case mirror_to_url (arch_source sync) component arch (component @ ''.db'') of
        Inl e \<Rightarrow> Inl e
      | Inr db \<Rightarrow>
         (case fetch db of
            Inl e \<Rightarrow> Inl e
          | Inr bs \<Rightarrow>
             (case extract bs of
                Inl e \<Rightarrow> Inl e
              | Inr pkgs \<Rightarrow>
                  map_sum id (\<lambda>bases. \<lparr>pr_distribution = ''archlinux'', pr_release = None,
                      pr_component = Some component, pr_architecture = arch,
                      pr_packages = map snd bases\<rparr>)
                    (arch_bases (\<lambda>file. mirror_to_url (arch_source sync) component arch file) sync pkgs []))))"

definition arch_sync ::
  "(string \<Rightarrow> bytes result) \<Rightarrow> (bytes \<Rightarrow> arch_pkg list result) \<Rightarrow> pkgs_sync \<Rightarrow> package_report list result" where
  "arch_sync fetch extract sync =
     results (concat (map (\<lambda>arch. map (arch_report fetch extract sync arch) (ps_components sync))
       (ps_architectures sync)))"

end
