(* ===== verification/Fedora.thy ===== *)
theory Fedora
  imports Schedule
begin

text \<open>
  The schedulers of Fedora (\<open>tools/src/schedule/fedora.rs\<close>) and Tails
  (\<open>tools/src/schedule/tails.rs\<close>). XML, URLs and regular expressions are read by crates: parameters.
\<close>

section \<open>Fedora\<close>

record repomd_item =
  rmi_type :: "string option"
  rmi_location :: "string option"

record rpm_package =
  rpm_name :: string
  rpm_arch :: string
  rpm_epoch :: string
  rpm_ver :: string
  rpm_rel :: string
  rpm_packager :: string
  rpm_href :: string
  rpm_sourcerpm :: string

definition get_primary_location_from_xml :: "(bytes \<Rightarrow> repomd_item list result) \<Rightarrow> bytes \<Rightarrow> string result" where
  "get_primary_location_from_xml parse_repomd bs =
     (case parse_repomd bs of
        Inl e \<Rightarrow> Inl e
      | Inr items \<Rightarrow>
         (case find (\<lambda>x. rmi_type x = Some ''primary'') items of
            None \<Rightarrow> Inl LibraryError
          | Some primary \<Rightarrow>
             (case rmi_location primary of None \<Rightarrow> Inl LibraryError | Some href \<Rightarrow> Inr href)))"

definition rpm_by_maintainer :: "rpm_package \<Rightarrow> string list \<Rightarrow> bool" where
  "rpm_by_maintainer pkg maintainers = list_ex (\<lambda>m. starts_with m (rpm_packager pkg)) maintainers"

definition rpm_version :: "rpm_package \<Rightarrow> string" where
  "rpm_version pkg = rpm_ver pkg @ ''-'' @ rpm_rel pkg"

definition rpm_artifact :: "string \<Rightarrow> rpm_package \<Rightarrow> binary_package_report" where
  "rpm_artifact url pkg = \<lparr>bpr_name = rpm_name pkg, bpr_version = rpm_version pkg,
     bpr_architecture = rpm_arch pkg, bpr_url = url @ rpm_href pkg\<rparr>"

definition rpm_group :: "string \<Rightarrow> rpm_package \<Rightarrow> source_package_report" where
  "rpm_group url pkg = plain_group (rpm_sourcerpm pkg) (rpm_version pkg) (url @ rpm_href pkg)"

definition fedora_bases ::
  "string \<Rightarrow> pkgs_sync \<Rightarrow> rpm_package list \<Rightarrow> (string \<times> source_package_report) list" where
  "fedora_bases url sync pkgs =
     fold (\<lambda>pkg. push_artifact (rpm_sourcerpm pkg) (rpm_group url pkg) (rpm_artifact url pkg))
       (filter (\<lambda>pkg. pkg_matches (rpm_name pkg) (rpm_by_maintainer pkg) sync) pkgs) []"

definition fedora_url :: "pkgs_sync \<Rightarrow> string \<Rightarrow> string \<Rightarrow> string \<Rightarrow> string" where
  "fedora_url sync release component arch =
     ps_source sync @ ''/'' @ release @ ''/'' @ component @ ''/'' @ arch @ ''/os/''"

definition fedora_report ::
  "(string \<Rightarrow> bytes result) \<Rightarrow> (bytes \<Rightarrow> repomd_item list result) \<Rightarrow>
   (bytes \<Rightarrow> rpm_package list result) \<Rightarrow> (bytes \<Rightarrow> string) \<Rightarrow> (compressed_with \<Rightarrow> bytes \<Rightarrow> bytes result) \<Rightarrow>
   pkgs_sync \<Rightarrow> string \<Rightarrow> string \<Rightarrow> string \<Rightarrow> package_report result" where
  "fedora_report fetch parse_repomd parse_package_index mime_type decoder sync release component arch =
     (let url = fedora_url sync release component arch
      in case fetch (url @ ''repodata/repomd.xml'') of
           Inl e \<Rightarrow> Inl e
         | Inr bs \<Rightarrow>
            (case get_primary_location_from_xml parse_repomd bs of
               Inl e \<Rightarrow> Inl e
             | Inr location \<Rightarrow>
                (case fetch (url @ location) of
                   Inl e \<Rightarrow> Inl e
                 | Inr bs \<Rightarrow>
                    (case decompress_stream decoder (detect_compression mime_type bs) bs of
                       Inl e \<Rightarrow> Inl e
                     | Inr data \<Rightarrow>
                        (case parse_package_index data of
                           Inl e \<Rightarrow> Inl e
                         | Inr packages \<Rightarrow>
                             Inr \<lparr>pr_distribution = ''fedora'', pr_release = None,
                               pr_component = Some component, pr_architecture = arch,
                               pr_packages = map snd (fedora_bases url sync packages)\<rparr>)))))"

definition fedora_sync ::
  "(string \<Rightarrow> string \<Rightarrow> string \<Rightarrow> package_report result) \<Rightarrow> pkgs_sync \<Rightarrow> package_report list result" where
  "fedora_sync report sync =
     results (concat (map (\<lambda>release. concat (map (\<lambda>component. map (report release component)
       (ps_architectures sync)) (ps_components sync))) (ps_releases sync)))"

section \<open>Tails\<close>

text \<open>
  \<open>extend_url\<close> appends segments to the path of the source and is \<open>None\<close> for a URL that cannot be a
  base; \<open>first_version arch text\<close> is the first version the regular expression captures.
\<close>

definition tails_filename :: "string \<Rightarrow> string \<Rightarrow> string \<Rightarrow> string" where
  "tails_filename architecture version ext =
     ''tails-'' @ architecture @ ''-'' @ version @ ''.'' @ ext"

fun tails_group ::
  "(string list \<Rightarrow> string option) \<Rightarrow> string \<Rightarrow> string \<Rightarrow> string \<Rightarrow> string list \<Rightarrow>
   source_package_report option \<Rightarrow> source_package_report option result" where
  "tails_group extend_url release architecture version [] g = Inr g"
| "tails_group extend_url release architecture version (ext # exts) g =
     (let filename = tails_filename architecture version ext
      in case extend_url [release, ''tails-'' @ architecture @ ''-'' @ version, filename] of
           None \<Rightarrow> Inl LibraryError
         | Some url \<Rightarrow>
            (let artifact = \<lparr>bpr_name = filename, bpr_version = version,
                   bpr_architecture = architecture, bpr_url = url\<rparr>
             in tails_group extend_url release architecture version exts
                  (Some (case g of
                     Some g \<Rightarrow> g\<lparr>spr_artifacts := spr_artifacts g @ [artifact]\<rparr>
                   | None \<Rightarrow> (plain_group ''tails'' version url)\<lparr>spr_artifacts := [artifact]\<rparr>))))"

definition tails_report ::
  "(string list \<Rightarrow> string option) \<Rightarrow> (string \<Rightarrow> string result) \<Rightarrow> (string \<Rightarrow> string \<Rightarrow> string option) \<Rightarrow>
   string \<Rightarrow> string \<Rightarrow> package_report result" where
  "tails_report extend_url http_text first_version release architecture =
     (case extend_url [release] of
        None \<Rightarrow> Inl LibraryError
      | Some url \<Rightarrow>
         (case http_text url of
            Inl e \<Rightarrow> Inl e
          | Inr directory_list \<Rightarrow>
             (case first_version architecture directory_list of
                None \<Rightarrow> Inl LibraryError
              | Some version \<Rightarrow>
                 (case tails_group extend_url release architecture version [''img'', ''iso''] None of
                    Inl e \<Rightarrow> Inl e
                  | Inr None \<Rightarrow> Inl Panicked
                  | Inr (Some g) \<Rightarrow>
                      Inr \<lparr>pr_distribution = ''tails'', pr_release = Some release,
                        pr_component = None, pr_architecture = architecture, pr_packages = [g]\<rparr>))))"

text \<open>\<open>parse_url\<close> gives the function that appends segments to the source.\<close>

definition tails_sync ::
  "(string \<Rightarrow> (string list \<Rightarrow> string option) option) \<Rightarrow> (string \<Rightarrow> string result) \<Rightarrow>
   (string \<Rightarrow> string \<Rightarrow> string option) \<Rightarrow> pkgs_sync \<Rightarrow> package_report list result" where
  "tails_sync parse_url http_text first_version sync =
     (case parse_url (ps_source sync) of
        None \<Rightarrow> Inl LibraryError
      | Some extend_url \<Rightarrow>
          results (concat (map (\<lambda>release. map (tails_report extend_url http_text first_version release)
            (ps_architectures sync)) (ps_releases sync))))"

end
