(* ===== verification/Freebsd.thy ===== *)
theory Freebsd
  imports Schedule
begin

text \<open>
  The scheduler of FreeBSD (\<open>tools/src/schedule/freebsd.rs\<close>): the package site of a release and
  architecture, the times of the commits the ports were built from, and one group per port. The
  archive, JSON, timestamps and HTTP are read by crates: parameters.
\<close>

section \<open>Packages\<close>

record fbsd_annotations =
  fba_ports_top_git_hash :: "string option"
  fba_build_timestamp :: "string option"

record fbsd_pkg =
  fbp_name :: string
  fbp_origin :: string
  fbp_version :: string
  fbp_arch :: string
  fbp_annotations :: "fbsd_annotations option"

record fbsd_info =
  fbi_pkg :: fbsd_pkg
  fbi_pkg_url :: string
  fbi_build_timestamp :: "time option"
  fbi_git_hash :: "string option"

text \<open>The package site does not name maintainers.\<close>

definition fbsd_by_maintainer :: "string list \<Rightarrow> bool" where
  "fbsd_by_maintainer maintainers = False"

section \<open>Times of commits\<close>

record github_answer =
  gh_success :: bool
  gh_date :: "string result"

text \<open>\<open>send url headers\<close> is GitHub's answer; without a token it is not asked.\<close>

definition fetch_github_commit_timestamp ::
  "(string \<Rightarrow> (string \<times> string) list \<Rightarrow> github_answer result) \<Rightarrow> (string \<Rightarrow> time result) \<Rightarrow>
   string \<Rightarrow> string option \<Rightarrow> time option" where
  "fetch_github_commit_timestamp send parse_from_rfc3339 git_hash github_token =
     (case github_token of
        None \<Rightarrow> None
      | Some token \<Rightarrow>
         (case send (''https://api.github.com/repos/freebsd/freebsd-ports/commits/'' @ git_hash)
                 [(''Authorization'', ''Bearer '' @ token), (''User-Agent'', ''rebuilderd''),
                  (''Accept'', ''application/vnd.github+json''),
                  (''X-GitHub-Api-Version'', ''2022-11-28'')] of
            Inl _ \<Rightarrow> None
          | Inr response \<Rightarrow>
              if \<not> gh_success response then None
              else
                (case gh_date response of
                   Inl _ \<Rightarrow> None
                 | Inr date \<Rightarrow> (case parse_from_rfc3339 date of Inl _ \<Rightarrow> None | Inr dt \<Rightarrow> Some dt))))"

definition fetched_timestamps ::
  "(string \<Rightarrow> string option \<Rightarrow> time option) \<Rightarrow> string option \<Rightarrow> fbsd_info list \<Rightarrow> string \<Rightarrow> time option" where
  "fetched_timestamps fetch_commit github_token infos =
     (if github_token = None then Map.empty
      else
        (let unique_hashes = remdups (List.map_filter fbi_git_hash infos)
         in fold (\<lambda>h ts. case fetch_commit h github_token of
               Some t \<Rightarrow> ts(h \<mapsto> t)
             | None \<Rightarrow> ts) unique_hashes Map.empty))"

text \<open>The earliest time a package of the commit was built stands in, or corrects what was fetched.\<close>

definition approximate :: "fbsd_info \<Rightarrow> (string \<Rightarrow> time option) \<Rightarrow> string \<Rightarrow> time option" where
  "approximate info ts =
     (case (fbi_git_hash info, fbi_build_timestamp info) of
        (Some h, Some build_ts) \<Rightarrow>
          (case ts h of
             Some t \<Rightarrow> ts(h \<mapsto> (if build_ts < t then build_ts else t))
           | None \<Rightarrow> ts(h \<mapsto> build_ts))
      | _ \<Rightarrow> ts)"

definition commit_timestamps ::
  "(string \<Rightarrow> string option \<Rightarrow> time option) \<Rightarrow> string option \<Rightarrow> fbsd_info list \<Rightarrow> string \<Rightarrow> time option" where
  "commit_timestamps fetch_commit github_token infos =
     fold approximate infos (fetched_timestamps fetch_commit github_token infos)"

section \<open>The report\<close>

fun find_packagesite :: "tar_entry result list \<Rightarrow> bytes option result" where
  "find_packagesite [] = Inr None"
| "find_packagesite (Inl e # es) = Inl e"
| "find_packagesite (Inr entry # es) =
     (case te_path entry of
        Inl e \<Rightarrow> Inl e
      | Inr path \<Rightarrow>
          if path = ''packagesite.yaml'' then map_sum id Some (te_bytes entry)
          else find_packagesite es)"

definition fbsd_pkg_url :: "pkgs_sync \<Rightarrow> string \<Rightarrow> string \<Rightarrow> fbsd_pkg \<Rightarrow> string" where
  "fbsd_pkg_url sync release arch pkg =
     ps_source sync @ ''/FreeBSD:'' @ release @ '':'' @ arch @ ''/latest/All/'' @ fbp_name pkg @ ''-'' @
     fbp_version pkg @ ''.pkg''"

definition fbsd_info_of ::
  "(string \<Rightarrow> time option) \<Rightarrow> pkgs_sync \<Rightarrow> string \<Rightarrow> string \<Rightarrow> fbsd_pkg \<Rightarrow> fbsd_info" where
  "fbsd_info_of parse_timestamp sync release arch pkg =
     \<lparr>fbi_pkg = pkg, fbi_pkg_url = fbsd_pkg_url sync release arch pkg,
      fbi_build_timestamp =
        Option.bind (Option.bind (fbp_annotations pkg) fba_build_timestamp) parse_timestamp,
      fbi_git_hash = Option.bind (fbp_annotations pkg) fba_ports_top_git_hash\<rparr>"

text \<open>A line that is not a package is skipped, a line that cannot be read ends the sync.\<close>

fun package_infos ::
  "(string \<Rightarrow> fbsd_pkg result) \<Rightarrow> (string \<Rightarrow> time option) \<Rightarrow> pkgs_sync \<Rightarrow> string \<Rightarrow> string \<Rightarrow>
   string result list \<Rightarrow> fbsd_info list result" where
  "package_infos parse_pkg parse_timestamp sync release arch [] = Inr []"
| "package_infos parse_pkg parse_timestamp sync release arch (Inl e # ls) = Inl e"
| "package_infos parse_pkg parse_timestamp sync release arch (Inr line # ls) =
     (let rest = package_infos parse_pkg parse_timestamp sync release arch ls
      in if trim line = [] then rest
         else
           (case parse_pkg line of
              Inl _ \<Rightarrow> rest
            | Inr pkg \<Rightarrow>
                if \<not> pkg_matches (fbp_name pkg) fbsd_by_maintainer sync then rest
                else map_sum id (Cons (fbsd_info_of parse_timestamp sync release arch pkg)) rest))"

definition fbsd_key :: "fbsd_info \<Rightarrow> string \<times> string" where
  "fbsd_key info = (fbp_origin (fbi_pkg info), fbp_version (fbi_pkg info))"

definition fbsd_artifact :: "fbsd_info \<Rightarrow> binary_package_report" where
  "fbsd_artifact info =
     \<lparr>bpr_name = fbp_name (fbi_pkg info), bpr_version = fbp_version (fbi_pkg info),
      bpr_architecture = fbp_arch (fbi_pkg info), bpr_url = fbi_pkg_url info\<rparr>"

definition fbsd_group :: "(string \<Rightarrow> time option) \<Rightarrow> fbsd_info \<Rightarrow> source_package_report" where
  "fbsd_group ts info =
     \<lparr>spr_name = fbp_origin (fbi_pkg info), spr_version = fbp_version (fbi_pkg info),
      spr_url = fbi_pkg_url info, spr_artifacts = [],
      spr_fbsd_ports_top_git_hash = fbi_git_hash info,
      spr_fbsd_build_timestamp = fbi_build_timestamp info,
      spr_fbsd_ports_top_git_timestamp = Option.bind (fbi_git_hash info) ts\<rparr>"

text \<open>Packages are sorted by name, so that the first package of a port does not depend on the site.\<close>

definition fbsd_groups ::
  "(string \<Rightarrow> time option) \<Rightarrow> fbsd_info list \<Rightarrow> ((string \<times> string) \<times> source_package_report) list" where
  "fbsd_groups ts infos =
     fold (\<lambda>info. push_artifact (fbsd_key info) (fbsd_group ts info) (fbsd_artifact info))
       (sort_key (\<lambda>info. fbp_name (fbi_pkg info)) infos) []"

definition fbsd_source_packages ::
  "(string \<Rightarrow> string option \<Rightarrow> time option) \<Rightarrow> pkgs_sync \<Rightarrow> fbsd_info list \<Rightarrow> source_package_report list" where
  "fbsd_source_packages fetch_commit sync infos =
     map snd (fbsd_groups (commit_timestamps fetch_commit (ps_github_token sync) infos) infos)"

text \<open>A site that cannot be fetched, or has no index, is skipped: no report is made for it.\<close>

definition freebsd_report ::
  "(string \<Rightarrow> bytes result) \<Rightarrow> (bytes \<Rightarrow> tar_entry result list result) \<Rightarrow> (bytes \<Rightarrow> string result list) \<Rightarrow>
   (string \<Rightarrow> fbsd_pkg result) \<Rightarrow> (string \<Rightarrow> time option) \<Rightarrow>
   (string \<Rightarrow> string option \<Rightarrow> time option) \<Rightarrow> pkgs_sync \<Rightarrow> string \<Rightarrow> string \<Rightarrow> package_report option result" where
  "freebsd_report fetch untar lines_of parse_pkg parse_timestamp fetch_commit sync release arch =
     (case fetch (ps_source sync @ ''/FreeBSD:'' @ release @ '':'' @ arch @ ''/latest/packagesite.pkg'') of
        Inl _ \<Rightarrow> Inr None
      | Inr bs \<Rightarrow>
         (case untar bs of
            Inl e \<Rightarrow> Inl e
          | Inr entries \<Rightarrow>
             (case find_packagesite entries of
                Inl e \<Rightarrow> Inl e
              | Inr None \<Rightarrow> Inr None
              | Inr (Some content) \<Rightarrow>
                 (case package_infos parse_pkg parse_timestamp sync release arch (lines_of content) of
                    Inl e \<Rightarrow> Inl e
                  | Inr infos \<Rightarrow>
                      Inr (Some \<lparr>pr_distribution = ''freebsd'', pr_release = Some release,
                        pr_component = None, pr_architecture = arch,
                        pr_packages = fbsd_source_packages fetch_commit sync infos\<rparr>)))))"

definition freebsd_sync ::
  "(string \<Rightarrow> string \<Rightarrow> package_report option result) \<Rightarrow> pkgs_sync \<Rightarrow> package_report list result" where
  "freebsd_sync report sync =
     map_sum id (List.map_filter (\<lambda>r. r))
       (results (concat (map (\<lambda>release. map (report release) (ps_architectures sync)) (ps_releases sync))))"

end
