(* ===== verification/ScheduleProps.thy ===== *)
theory ScheduleProps
  imports Archlinux Fedora Freebsd Debian "HOL-Library.Multiset"
begin

text \<open>
  What the schedulers report: every selected package once, under the source it was built from, and
  the same report however an index is ordered.
\<close>

section \<open>Names of groups\<close>

interpretation arch_index: package_index "\<lambda>pu. arp_base (fst pu)" arch_group arch_artifact spr_name
  by unfold_locales (simp add: arch_group_def plain_group_def)

interpretation fedora_index: package_index rpm_sourcerpm "rpm_group url" "rpm_artifact url" spr_name
  for url
  by unfold_locales (simp add: rpm_group_def plain_group_def)

interpretation fbsd_index:
  package_index fbsd_key "fbsd_group ts" fbsd_artifact "\<lambda>g. (spr_name g, spr_version g)" for ts
  by unfold_locales (simp add: fbsd_group_def fbsd_key_def)

section \<open>Arch Linux\<close>

definition arch_selected :: "pkgs_sync \<Rightarrow> arch_pkg \<Rightarrow> bool" where
  "arch_selected sync pkg \<longleftrightarrow> pkg_matches (arp_name pkg) (arch_by_maintainer pkg) sync"

lemma arch_bases_run:
  assumes "arch_bases url_of sync pkgs bases = Inr out"
  shows "\<exists>pus. map fst pus = filter (arch_selected sync) pkgs \<and>
    list_all (\<lambda>(p, u). url_of (arp_filename p) = Inr u) pus \<and>
    out = fold (\<lambda>pu. push_artifact (arp_base (fst pu)) (arch_group pu) (arch_artifact pu)) pus bases"
  using assms
proof (induction url_of sync pkgs bases rule: arch_bases.induct)
  case (1 url_of sync bases)
  then show ?case by (intro exI[of _ "[]"]) simp
next
  case (2 url_of sync pkg pkgs bases)
  show ?case
  proof (cases "arch_selected sync pkg")
    case False
    with 2 show ?thesis by (simp add: arch_selected_def)
  next
    case True
    then have sel: "pkg_matches (arp_name pkg) (arch_by_maintainer pkg) sync"
      by (simp add: arch_selected_def)
    with 2(3) obtain url where url: "url_of (arp_filename pkg) = Inr url"
      "arch_bases url_of sync pkgs
        (push_artifact (arp_base pkg) (arch_group (pkg, url)) (arch_artifact (pkg, url)) bases) = Inr out"
      by (auto split: sum.splits)
    from 2(2)[OF _ url] sel obtain pus where "map fst pus = filter (arch_selected sync) pkgs"
      "list_all (\<lambda>(p, u). url_of (arp_filename p) = Inr u) pus"
      "out = fold (\<lambda>pu. push_artifact (arp_base (fst pu)) (arch_group pu) (arch_artifact pu)) pus
        (push_artifact (arp_base pkg) (arch_group (pkg, url)) (arch_artifact (pkg, url)) bases)"
      by blast
    with url(1) True show ?thesis by (intro exI[of _ "(pkg, url) # pus"]) simp
  qed
qed


section \<open>FreeBSD\<close>

lemma approximate_at:
  "approximate info ts h = (case (fbi_git_hash info, fbi_build_timestamp info) of
     (Some h', Some t) \<Rightarrow>
       (if h' = h then Some (case ts h of Some t' \<Rightarrow> min t t' | None \<Rightarrow> t) else ts h)
   | _ \<Rightarrow> ts h)"
  by (auto simp: approximate_def min_def split: option.split)

lemma approximate_commutes: "approximate x \<circ> approximate y = approximate y \<circ> approximate x"
  by (rule ext, rule ext) (auto simp: approximate_at min_def split: option.split)

lemma fold_fetched:
  "fold (\<lambda>h ts. case fetch_commit h token of Some t \<Rightarrow> ts(h \<mapsto> t) | None \<Rightarrow> ts) hs ts h =
     (if h \<in> set hs \<and> fetch_commit h token \<noteq> None then fetch_commit h token else ts h)"
  by (induction hs arbitrary: ts) (auto split: option.splits)

lemma fetched_timestamps_cong:
  assumes "set infos = set infos'"
  shows "fetched_timestamps fetch_commit token infos = fetched_timestamps fetch_commit token infos'"
proof -
  have "set (List.map_filter fbi_git_hash infos) = set (List.map_filter fbi_git_hash infos')"
    using assms by (simp add: List.map_filter_def)
  then show ?thesis by (simp add: fetched_timestamps_def fold_fetched fun_eq_iff)
qed


section \<open>Debian\<close>

text \<open>What a binary package of the index becomes: it and its source, if it is selected and has one.\<close>

definition debian_entry ::
  "source_bucket \<Rightarrow> pkgs_sync \<Rightarrow> debian_bin_pkg \<Rightarrow> (debian_source_pkg \<times> debian_bin_pkg) option" where
  "debian_entry sources sync pkg =
     (if pkg_matches (dbp_name pkg) (debian_by_maintainer pkg) sync \<and>
         dbp_architecture pkg \<in> set (ps_architectures sync) then
        (case bucket_get sources pkg of Inl _ \<Rightarrow> None | Inr src \<Rightarrow> Some (src, pkg))
      else None)"

definition debian_entries ::
  "source_bucket \<Rightarrow> pkgs_sync \<Rightarrow> string \<Rightarrow> debian_bin_pkg list \<Rightarrow> (debian_source_pkg \<times> debian_bin_pkg) list" where
  "debian_entries sources sync arch pkgs =
     filter (\<lambda>(src, bin). dbp_architecture bin = arch) (List.map_filter (debian_entry sources sync) pkgs)"

definition debian_key :: "debian_source_pkg \<times> debian_bin_pkg \<Rightarrow> string \<times> string" where
  "debian_key e = (dsp_base (fst e), dsp_version (fst e))"

definition debian_group :: "string \<Rightarrow> debian_source_pkg \<times> debian_bin_pkg \<Rightarrow> source_package_report" where
  "debian_group arch e = plain_group (dsp_base (fst e)) (dsp_version (fst e))
     (case buildinfo_url (fst e) arch of Inl _ \<Rightarrow> [] | Inr url \<Rightarrow> url)"

abbreviation debian_grouped ::
  "string \<Rightarrow> string \<Rightarrow> (debian_source_pkg \<times> debian_bin_pkg) list \<Rightarrow>
   ((string \<times> string) \<times> source_package_report) list" where
  "debian_grouped source arch \<equiv> grouped debian_key (debian_group arch) (\<lambda>e. debian_artifact source (snd e))"

interpretation debian_index:
  package_index debian_key "debian_group arch" "\<lambda>e. debian_artifact source (snd e)"
    "\<lambda>g. (spr_name g, spr_version g)" for arch source
  by unfold_locales (simp add: debian_group_def debian_key_def plain_group_def)

lemma push_to_first_update:
  "distinct (map fst al) \<Longrightarrow> (\<forall>(k, g)\<in>set al. P g \<longleftrightarrow> k = k0) \<Longrightarrow> map_of al k0 = Some g0 \<Longrightarrow>
     push_to_first P f (map snd al) = map snd (AList.update k0 (f g0) al)"
  by (induction al) auto

lemma grouped_facts:
  "distinct (map fst (grouped key mk_group artifact ps))"
  "fst ` set (grouped key mk_group artifact ps) = key ` set ps"
  by (simp_all add: grouped_def o_def image_image)

lemma push_group_grouped:
  assumes "push_group src (debian_artifact source bin) arch (map snd (debian_grouped source arch es)) = Inr packages"
  shows "packages = map snd (debian_grouped source arch (es @ [(src, bin)]))"
proof -
  let ?gs = "debian_grouped source arch es" and ?k = "debian_key (src, bin)"
  have is_group: "\<forall>(k, g)\<in>set ?gs. is_group_of src g \<longleftrightarrow> k = ?k"
    using debian_index.grouped_named[where ps = es and arch = arch and source = source] by (fastforce simp: is_group_of_def debian_key_def)
  have known: "list_ex (is_group_of src) (map snd ?gs) \<longleftrightarrow> ?k \<in> fst ` set ?gs"
    using is_group by (force simp: list_ex_iff)
  have "packages = map snd (push_artifact ?k (debian_group arch (src, bin)) (debian_artifact source bin) ?gs)"
  proof (cases "map_of ?gs ?k")
    case None
    then have "?k \<notin> fst ` set ?gs" by (simp add: map_of_eq_None_iff)
    with assms known None show ?thesis
      by (auto simp: push_group_def push_artifact_def debian_group_def update_absent map_sum_Inr)
  next
    case (Some g)
    then have "?k \<in> fst ` set ?gs" by (metis domI dom_map_of_conv_image_fst)
    with assms known Some is_group show ?thesis
      by (simp add: push_group_def push_artifact_def
          push_to_first_update[OF grouped_facts(1) is_group Some])
  qed
  with push_artifact_grouped[of debian_key "(src, bin)" "debian_group arch"
      "\<lambda>e. debian_artifact source (snd e)" es] show ?thesis by simp
qed

text \<open>The reports of a release and component after some packages of the index.\<close>

definition reports_hold ::
  "source_bucket \<Rightarrow> pkgs_sync \<Rightarrow> string \<Rightarrow> string \<Rightarrow> debian_bin_pkg list \<Rightarrow> sync_state \<Rightarrow> bool" where
  "reports_hold sources sync release component pkgs reports \<longleftrightarrow>
     (\<forall>arch\<in>set (ps_architectures sync). \<exists>r. map_of reports (release, component, arch) = Some r \<and>
        pr_packages r = map snd (debian_grouped (ps_source sync) arch (debian_entries sources sync arch pkgs)))"

lemma map_of_create_group:
  "map_of (create_release_group k reports) k' =
     (if k' = k \<and> map_of reports k = None then
        (case k of (release, component, architecture) \<Rightarrow>
          Some \<lparr>pr_distribution = ''debian'', pr_release = Some release,
            pr_component = Some component, pr_architecture = architecture, pr_packages = []\<rparr>)
      else map_of reports k')"
  by (auto simp: create_release_group_def map_of_append map_add_def split: prod.split option.split)

lemma debian_entries_snoc:
  "debian_entries sources sync arch (pkgs @ [pkg]) = debian_entries sources sync arch pkgs @
     (case debian_entry sources sync pkg of
        Some (src, bin) \<Rightarrow> if dbp_architecture bin = arch then [(src, bin)] else []
      | None \<Rightarrow> [])"
  by (auto simp: debian_entries_def List.map_filter_def split: option.split)

lemma import_binary_pkg_holds:
  assumes "reports_hold sources sync release component pkgs reports"
    and "import_binary_pkg sources release component sync pkg reports = Inr reports'"
  shows "reports_hold sources sync release component (pkgs @ [pkg]) reports'"
proof (cases "debian_entry sources sync pkg")
  case None
  then have "reports' = reports"
    using assms(2) by (auto simp: debian_entry_def import_binary_pkg_def split: if_splits sum.splits)
  with assms(1) None show ?thesis by (simp add: reports_hold_def debian_entries_snoc)
next
  case (Some e)
  then obtain src where e: "e = (src, pkg)" "bucket_get sources pkg = Inr src"
    "dbp_architecture pkg \<in> set (ps_architectures sync)"
    by (auto simp: debian_entry_def split: if_splits sum.splits)
  let ?k = "(release, component, dbp_architecture pkg)"
  from assms(1) e(3) obtain r where r: "map_of reports ?k = Some r"
    "pr_packages r = map snd (debian_grouped (ps_source sync) (dbp_architecture pkg)
       (debian_entries sources sync (dbp_architecture pkg) pkgs))"
    unfolding reports_hold_def by blast
  then have same: "create_release_group ?k reports = reports" by (simp add: create_release_group_def)
  from assms(2) Some e same r(1) obtain packages where
    "push_group src (debian_artifact (ps_source sync) pkg) (dbp_architecture pkg) (pr_packages r) = Inr packages"
    and reports': "reports' = AList.update ?k (r\<lparr>pr_packages := packages\<rparr>) reports"
    by (auto simp: debian_entry_def import_binary_pkg_def sync_state_push_def Let_def map_sum_Inr split: if_splits)
  then have packages: "packages = map snd (debian_grouped (ps_source sync) (dbp_architecture pkg)
      (debian_entries sources sync (dbp_architecture pkg) (pkgs @ [pkg])))"
    using push_group_grouped[of src "ps_source sync" pkg] r(2) Some e(1) by (simp add: debian_entries_snoc)
  show ?thesis unfolding reports_hold_def
  proof
    fix arch assume "arch \<in> set (ps_architectures sync)"
    with assms(1) packages Some e(1) show "\<exists>r. map_of reports' (release, component, arch) = Some r \<and>
        pr_packages r = map snd (debian_grouped (ps_source sync) arch
          (debian_entries sources sync arch (pkgs @ [pkg])))"
      by (cases "arch = dbp_architecture pkg")
        (auto simp: reports' reports_hold_def update_conv' debian_entries_snoc)
  qed
qed

lemma import_binary_pkgs_hold:
  assumes "reports_hold sources sync release component done reports"
    and "fold_result (import_binary_pkg sources release component sync) pkgs reports = Inr reports'"
  shows "reports_hold sources sync release component (done @ pkgs) reports'"
  using assms
proof (induction pkgs arbitrary: "done" reports)
  case (Cons pkg pkgs)
  then obtain e where "import_binary_pkg sources release component sync pkg reports = Inr e"
    "fold_result (import_binary_pkg sources release component sync) pkgs e = Inr reports'"
    by (auto split: sum.splits)
  with Cons.IH[OF import_binary_pkg_holds[OF Cons.prems(1)]] show ?case by simp
qed simp

lemma create_all_hold:
  "reports_hold sources sync release component [] (create_all_release_groups release component sync [])"
proof -
  have "(\<forall>arch\<in>set archs. \<exists>r. map_of (fold (\<lambda>arch. create_release_group (release, component, arch)) archs st)
        (release, component, arch) = Some r \<and> pr_packages r = []) \<and>
      (\<forall>k r. map_of (fold (\<lambda>arch. create_release_group (release, component, arch)) archs st) k = Some r \<longrightarrow>
        pr_packages r = [])"
    if "\<forall>k r. map_of st k = Some r \<longrightarrow> pr_packages r = []" for archs st
    using that
  proof (induction archs rule: rev_induct)
    case (snoc a archs)
    then show ?case by (auto simp: map_of_create_group split: if_splits prod.splits)
  qed simp
  from this[of "[]"] show ?thesis
    by (simp add: reports_hold_def create_all_release_groups_def debian_entries_def grouped_def
        List.map_filter_def)
qed

text \<open>C22: The first package file of a release and component makes, for every architecture asked
  for, a report that lists each source of the selected binary packages once, with exactly the
  binary packages of that architecture built from it; the version of a source carries the suffix of
  a binary-only rebuild. An architecture without packages gets an empty report.\<close>

theorem debian_file_exact:
  assumes "import_binary_package_file unxz bs sources release component sync [] = Inr reports"
    and "arch \<in> set (ps_architectures sync)"
  shows "\<exists>pkgs r. extract_pkgs_compressed unxz to_debian_bin bs = Inr pkgs \<and>
    map_of reports (release, component, arch) = Some r \<and>
    map (\<lambda>g. (spr_name g, spr_version g)) (pr_packages r) =
      first_keys (map debian_key (debian_entries sources sync arch pkgs)) \<and>
    list_all (\<lambda>g. spr_artifacts g =
      map (\<lambda>e. debian_artifact (ps_source sync) (snd e))
        (filter (\<lambda>e. debian_key e = (spr_name g, spr_version g)) (debian_entries sources sync arch pkgs)))
      (pr_packages r)"
proof -
  from assms(1) obtain pkgs where pkgs: "extract_pkgs_compressed unxz to_debian_bin bs = Inr pkgs"
    "fold_result (import_binary_pkg sources release component sync) pkgs
       (create_all_release_groups release component sync []) = Inr reports"
    by (auto simp: import_binary_package_file_def split: sum.splits)
  from import_binary_pkgs_hold[OF create_all_hold pkgs(2)] assms(2) obtain r where
    r: "map_of reports (release, component, arch) = Some r"
    "pr_packages r = map snd (debian_grouped (ps_source sync) arch (debian_entries sources sync arch pkgs))"
    by (auto simp: reports_hold_def)
  have "list_all (\<lambda>g. spr_artifacts g =
      map (\<lambda>e. debian_artifact (ps_source sync) (snd e))
        (filter (\<lambda>e. debian_key e = (spr_name g, spr_version g)) (debian_entries sources sync arch pkgs)))
      (pr_packages r)"
    using debian_index.index_artifacts unfolding r(2) list_all_iff by fastforce
  moreover have "map (\<lambda>g. (spr_name g, spr_version g)) (pr_packages r) =
      first_keys (map debian_key (debian_entries sources sync arch pkgs))"
    unfolding r(2) by (rule debian_index.index_keys)
  ultimately show ?thesis using pkgs(1) r(1) by blast
qed

section \<open>Examples\<close>

definition sample_sync :: "string \<Rightarrow> string \<Rightarrow> pkgs_sync" where
  "sample_sync source arch = \<lparr>ps_distro = ''d'', ps_components = [''core''], ps_source = source,
     ps_architectures = [arch], ps_print_json = False, ps_maintainers = [], ps_releases = [],
     ps_pkgs = [], ps_excludes = [\<lambda>n. n = ''x''], ps_sync_method = None, ps_github_token = None\<rparr>"

definition sample_arch_pkg :: "string \<Rightarrow> string \<Rightarrow> arch_pkg" where
  "sample_arch_pkg name base = \<lparr>arp_name = name, arp_base = base, arp_filename = name,
     arp_version = ''1'', arp_architecture = ''any'', arp_packager = []\<rparr>"

definition sample_arch_pkgs :: "arch_pkg list" where
  "sample_arch_pkgs = [sample_arch_pkg ''a'' ''p'', sample_arch_pkg ''x'' ''p'',
     sample_arch_pkg ''b'' ''q'', sample_arch_pkg ''c'' ''p'']"

definition sample_arch_run :: "package_report result" where
  "sample_arch_run = arch_report (\<lambda>_. Inr []) (\<lambda>_. Inr sample_arch_pkgs)
     (sample_sync ''m/$repo/$arch'' ''any'') ''any'' ''core''"

lemma not_isl: "\<not> isl r \<Longrightarrow> \<exists>x. r = Inr x"
  by (cases r) auto


definition sample_fbsd_info :: "string \<Rightarrow> fbsd_info" where
  "sample_fbsd_info name = \<lparr>fbi_pkg = \<lparr>fbp_name = name, fbp_origin = ''lang/p'', fbp_version = ''1'',
     fbp_arch = ''amd64'', fbp_annotations = None\<rparr>, fbi_pkg_url = ''u/'' @ name,
     fbi_build_timestamp = None, fbi_git_hash = None\<rparr>"


definition sample_debian_lines :: "string result list" where
  "sample_debian_lines = [Inr ''Package: p'', Inr ''Version: 1+b2'', Inr ''Source: s (1)'',
     Inr ''Architecture: amd64'', Inr ''Filename: p.deb'', Inr []]"

definition sample_debian_sources :: source_bucket where
  "sample_debian_sources = bucket_push \<lparr>dsp_base = ''s'', dsp_binary = [''p''], dsp_version = ''1'',
     dsp_directory = ''d'', dsp_architecture = ''any'', dsp_uploaders = []\<rparr> Map.empty"

definition sample_debian_run :: "sync_state result" where
  "sample_debian_run = import_binary_package_file (\<lambda>_. sample_debian_lines) [] sample_debian_sources
     ''sid'' ''main'' (sample_sync ''m'' ''amd64'') []"

lemma debian_file_exact_witness:
  "\<exists>reports r. sample_debian_run = Inr reports \<and> map_of reports (''sid'', ''main'', ''amd64'') = Some r \<and>
     map (\<lambda>g. (spr_name g, spr_version g)) (pr_packages r) = [(''s'', ''1+b2'')]"
proof -
  have "\<not> isl sample_debian_run" by code_simp
  then obtain reports where run: "sample_debian_run = Inr reports" using not_isl by blast
  have "''amd64'' \<in> set (ps_architectures (sample_sync ''m'' ''amd64''))" by (simp add: sample_sync_def)
  from debian_file_exact[OF run[unfolded sample_debian_run_def] this] obtain pkgs r where r:
    "extract_pkgs_compressed (\<lambda>_. sample_debian_lines) to_debian_bin [] = Inr pkgs"
    "map_of reports (''sid'', ''main'', ''amd64'') = Some r"
    "map (\<lambda>g. (spr_name g, spr_version g)) (pr_packages r) = first_keys (map debian_key
       (debian_entries sample_debian_sources (sample_sync ''m'' ''amd64'') ''amd64'' pkgs))" by blast
  have "(case extract_pkgs_compressed (\<lambda>_. sample_debian_lines) to_debian_bin [] of Inl _ \<Rightarrow> False
      | Inr pkgs \<Rightarrow> first_keys (map debian_key (debian_entries sample_debian_sources
          (sample_sync ''m'' ''amd64'') ''amd64'' pkgs)) = [(''s'', ''1+b2'')])" by code_simp
  with r(1) have keys: "first_keys (map debian_key (debian_entries sample_debian_sources
      (sample_sync ''m'' ''amd64'') ''amd64'' pkgs)) = [(''s'', ''1+b2'')]" by simp
  show ?thesis
    by (intro exI[of _ reports] exI[of _ r] conjI run r(2)) (simp only: r(3) keys)
qed

end
