(* ===== verification/Rebuildctl.thy ===== *)
theory Rebuildctl
  imports Client Schedule Packages
begin

text \<open>
  The commands of rebuildctl (\<open>tools/src/main.rs\<close> with the arguments of \<open>tools/src/args.rs\<close> and the
  profiles of \<open>tools/src/config.rs\<close>): which calls a command makes, in which order, and what it
  prints of the answers. The text on the terminal, the pager and the command line parser are not
  modelled; a list that is printed is the list of its records.
\<close>

section \<open>Arguments\<close>

record pkgs_filter =
  pf_name :: "string option"
  pf_status :: "build_status option"
  pf_distro :: "string option"
  pf_suite :: "string option"
  pf_architecture :: "string option"

record pkgs_requeue =
  prq_name :: "string option"
  prq_status :: "build_status option"
  prq_distro :: "string option"
  prq_suite :: "string option"
  prq_architecture :: "string option"
  prq_priority :: int
  prq_reset :: bool
  prq_clear_queue :: bool

record queue_list_args =
  ql_head :: bool
  ql_planned :: bool
  ql_distro :: "string option"
  ql_release :: "string option"
  ql_architecture :: "string option"

record queue_push_args =
  qp_distro :: string
  qp_component :: string
  qp_name :: string
  qp_version :: "string option"
  qp_architecture :: "string option"
  qp_priority :: int

record queue_drop_args =
  qd_distro :: string
  qd_suite :: "string option"
  qd_architecture :: "string option"
  qd_name :: "string option"
  qd_version :: "string option"

section \<open>Calls in a row\<close>

text \<open>The calls that were made and their answers, up to the first that fails. The type \<open>'w\<close> is the
  world at the other end of the client, which an answer may change.\<close>

fun run_calls ::
  "(api_call \<Rightarrow> 'w \<Rightarrow> 'a result \<times> 'w) \<Rightarrow> api_call list \<Rightarrow> 'w \<Rightarrow> (api_call list \<times> 'a list result) \<times> 'w" where
  "run_calls answer [] w = (([], Inr []), w)"
| "run_calls answer (c # cs) w =
     (case answer c w of
        (Inl e, w1) \<Rightarrow> (([c], Inl e), w1)
      | (Inr x, w1) \<Rightarrow>
          (case run_calls answer cs w1 of
             ((made, r), w2) \<Rightarrow> ((c # made, map_sum id (Cons x) r), w2)))"

section \<open>Requeueing\<close>

definition requeue_request :: "pkgs_requeue \<Rightarrow> build_status \<Rightarrow> queue_job_request" where
  "requeue_request a status =
     \<lparr>qr_distribution = prq_distro a, qr_release = None, qr_component = prq_suite a,
      qr_name = prq_name a, qr_version = None, qr_architecture = prq_architecture a,
      qr_status = Some status, qr_priority = Some (Priority (prq_priority a)), qr_reset = prq_reset a\<rparr>"

definition requeue_drop :: "pkgs_requeue \<Rightarrow> api_call" where
  "requeue_drop a =
     Call_drop_queued_jobs
       (Some \<lparr>of_distribution = prq_distro a, of_release = None, of_component = prq_suite a,
          of_architecture = prq_architecture a\<rparr>)
       (Some \<lparr>sif_name = prq_name a, sif_search_type = Exact, sif_version = None\<rparr>)"

definition requeue_statuses :: "pkgs_requeue \<Rightarrow> build_status list" where
  "requeue_statuses a =
     (case prq_status a of Some status \<Rightarrow> [status] | None \<Rightarrow> [Bad, Fail, Unknown])"

text \<open>The result is the number printed: what the daemon counted, over all statuses.\<close>

definition requeue ::
  "(api_call \<Rightarrow> 'w \<Rightarrow> int result \<times> 'w) \<Rightarrow> pkgs_requeue \<Rightarrow> 'w \<Rightarrow> (api_call list \<times> int result) \<times> 'w" where
  "requeue answer a w =
     (case run_calls answer (if prq_clear_queue a then [requeue_drop a] else []) w of
        ((drops, Inl e), w1) \<Rightarrow> ((drops, Inl e), w1)
      | ((drops, Inr _), w1) \<Rightarrow>
          (case run_calls answer
               (map (\<lambda>st. Call_request_rebuild (requeue_request a st)) (requeue_statuses a)) w1 of
             ((made, counts), w2) \<Rightarrow> ((drops @ made, map_sum id sum_list counts), w2)))"

section \<open>Syncing\<close>

datatype sync_outcome = Printed_json "package_report list" | Sent_reports "api_call list \<times> unit list result"

definition sync_reports ::
  "(pkgs_sync \<Rightarrow> package_report list result) \<Rightarrow> (pkgs_sync \<Rightarrow> package_report list result) \<Rightarrow>
   (pkgs_sync \<Rightarrow> package_report list result) \<Rightarrow> (pkgs_sync \<Rightarrow> package_report list result) \<Rightarrow>
   (pkgs_sync \<Rightarrow> package_report list result) \<Rightarrow> pkgs_sync \<Rightarrow> package_report list result" where
  "sync_reports archlinux debian fedora freebsd tails sync =
     (let m = (case ps_sync_method sync of Some m \<Rightarrow> m | None \<Rightarrow> ps_distro sync)
      in if m = ''archlinux'' then archlinux sync
         else if m = ''debian'' then debian sync
         else if m = ''fedora'' then fedora sync
         else if m = ''freebsd'' then freebsd sync
         else if m = ''tails'' then tails sync
         else Inl LibraryError)"

definition ctl_sync ::
  "(pkgs_sync \<Rightarrow> package_report list result) \<Rightarrow> (api_call \<Rightarrow> 'w \<Rightarrow> unit result \<times> 'w) \<Rightarrow> pkgs_sync \<Rightarrow> 'w \<Rightarrow>
   sync_outcome result \<times> 'w" where
  "ctl_sync reports_of answer sync w =
     (case reports_of sync of
        Inl e \<Rightarrow> (Inl e, w)
      | Inr reports0 \<Rightarrow>
          (let reports = sort_key pr_distribution reports0
           in if ps_print_json sync then (Inr (Printed_json reports), w)
              else map_prod (\<lambda>sent. Inr (Sent_reports sent)) id
                (run_calls answer (map Call_submit_package_report reports) w)))"

record sync_profile =
  pro_distro :: string
  pro_sync_method :: "string option"
  pro_suite :: "string option"
  pro_components :: "string list"
  pro_releases :: "string list"
  pro_architecture :: "string option"
  pro_architectures :: "string list"
  pro_source :: string
  pro_maintainers :: "string list"
  pro_pkgs :: "string list"
  pro_excludes :: "string list"
  pro_github_token :: "string option"
  pro_peer_rebuilders :: "string list"
  pro_peer_release_aliases :: "string list"

text \<open>\<open>compile\<close> is the parser of the glob crate.\<close>

definition patterns_from :: "(string \<Rightarrow> pattern result) \<Rightarrow> string list \<Rightarrow> pattern list result" where
  "patterns_from compile patterns = results (map compile patterns)"

definition push_option :: "'a option \<Rightarrow> 'a list \<Rightarrow> 'a list" where
  "push_option x xs = (case x of None \<Rightarrow> xs | Some v \<Rightarrow> xs @ [v])"

definition profile_sync ::
  "(string \<Rightarrow> pattern result) \<Rightarrow> string option \<Rightarrow> bool \<Rightarrow> (string \<times> sync_profile) list \<Rightarrow> string \<Rightarrow>
   pkgs_sync result" where
  "profile_sync compile env_token print_json profiles name =
     (case map_of profiles name of
        None \<Rightarrow> Inl LibraryError
      | Some p \<Rightarrow>
         (case patterns_from compile (pro_pkgs p) of
            Inl e \<Rightarrow> Inl e
          | Inr pkgs \<Rightarrow>
             (case patterns_from compile (pro_excludes p) of
                Inl e \<Rightarrow> Inl e
              | Inr excludes \<Rightarrow>
                  Inr \<lparr>ps_distro = pro_distro p,
                    ps_components = push_option (pro_suite p) (pro_components p),
                    ps_source = pro_source p,
                    ps_architectures = push_option (pro_architecture p) (pro_architectures p),
                    ps_print_json = print_json, ps_maintainers = pro_maintainers p,
                    ps_releases = pro_releases p, ps_pkgs = pkgs, ps_excludes = excludes,
                    ps_sync_method = pro_sync_method p,
                    ps_github_token = (case pro_github_token p of None \<Rightarrow> env_token | t \<Rightarrow> t)\<rparr>)))"

section \<open>Listing packages\<close>

definition pkgs_origin :: "pkgs_filter \<Rightarrow> origin_filter" where
  "pkgs_origin f = \<lparr>of_distribution = pf_distro f, of_release = None, of_component = pf_suite f,
     of_architecture = pf_architecture f\<rparr>"

definition pkgs_identity :: "pkgs_filter \<Rightarrow> binary_identity_filter" where
  "pkgs_identity f = \<lparr>bif_name = pf_name f, bif_search_type = Exact, bif_version = None,
     bif_source_name = None\<rparr>"

definition sorted_page :: "string \<Rightarrow> int option \<Rightarrow> page" where
  "sorted_page fld after = \<lparr>pg_limit = Some 1000, pg_before = None, pg_after = after,
     pg_sort = Some fld, pg_direction = None\<rparr>"

text \<open>UNKWN also selects the packages without a status.\<close>

definition status_selected :: "build_status option \<Rightarrow> binary_package_view \<Rightarrow> bool" where
  "status_selected wanted v =
     (case wanted of
        None \<Rightarrow> True
      | Some status \<Rightarrow>
          bpv_status v = Some (build_status_as_str status) \<or> (status = Unknown \<and> bpv_status v = None))"

text \<open>The loop ends at the first empty page; what is printed is one batch per page.\<close>

fun pkgs_ls_loop ::
  "nat \<Rightarrow> (page \<Rightarrow> 'w \<Rightarrow> binary_package_view result_page result \<times> 'w) \<Rightarrow> build_status option \<Rightarrow> int option \<Rightarrow>
   'w \<Rightarrow> ((binary_package_view list list \<times> unit result) \<times> 'w) option" where
  "pkgs_ls_loop 0 get wanted after w = None"
| "pkgs_ls_loop (Suc fuel) get wanted after w =
     (case get (sorted_page ''name'' after) w of
        (Inl e, w1) \<Rightarrow> Some (([], Inl e), w1)
      | (Inr rs, w1) \<Rightarrow>
          if records rs = [] then Some (([], Inr ()), w1)
          else map_option (map_prod (map_prod (Cons (filter (status_selected wanted) (records rs))) id) id)
            (pkgs_ls_loop fuel get wanted (Some (bpv_id (last (records rs)))) w1))"

definition pkgs_ls ::
  "nat \<Rightarrow> (page option \<Rightarrow> origin_filter option \<Rightarrow> binary_identity_filter option \<Rightarrow> 'w \<Rightarrow>
     binary_package_view result_page result \<times> 'w) \<Rightarrow> pkgs_filter \<Rightarrow> 'w \<Rightarrow>
   ((binary_package_view list list \<times> unit result) \<times> 'w) option" where
  "pkgs_ls fuel list_packages f w =
     pkgs_ls_loop fuel (\<lambda>pg. list_packages (Some pg) (Some (pkgs_origin f)) (Some (pkgs_identity f)))
       (pf_status f) None w"

section \<open>One package\<close>

definition lookup_package ::
  "(page option \<Rightarrow> origin_filter option \<Rightarrow> binary_identity_filter option \<Rightarrow> 'w \<Rightarrow>
     binary_package_view result_page result \<times> 'w) \<Rightarrow> pkgs_filter \<Rightarrow> 'w \<Rightarrow> binary_package_view result \<times> 'w" where
  "lookup_package list_packages f w =
     (case list_packages None (Some (pkgs_origin f)) (Some (pkgs_identity f)) w of
        (Inl e, w1) \<Rightarrow> (Inl e, w1)
      | (Inr rs, w1) \<Rightarrow>
          (if total rs \<noteq> 1 then Inl LibraryError
           else if records rs = [] then Inl Panicked
           else Inr (last (records rs)), w1))"

definition log_call :: "binary_package_view \<Rightarrow> api_call result" where
  "log_call p =
     (case bpv_build_id p of None \<Rightarrow> Inl LibraryError | Some b \<Rightarrow> Inr (Call_get_build_log b))"

definition artifact_call :: "(int \<Rightarrow> int \<Rightarrow> api_call) \<Rightarrow> binary_package_view \<Rightarrow> api_call result" where
  "artifact_call call p =
     (case (bpv_build_id p, bpv_artifact_id p) of
        (Some b, Some a) \<Rightarrow> Inr (call b a)
      | _ \<Rightarrow> Inl LibraryError)"

section \<open>The queue\<close>

definition queue_origin :: "queue_list_args \<Rightarrow> origin_filter option" where
  "queue_origin a =
     (if ql_distro a \<noteq> None \<or> ql_release a \<noteq> None \<or> ql_architecture a \<noteq> None
      then Some \<lparr>of_distribution = ql_distro a, of_release = ql_release a, of_component = None,
             of_architecture = ql_architecture a\<rparr>
      else None)"

text \<open>An answer comes with the time at which it is filtered.\<close>

fun queue_ls_loop ::
  "nat \<Rightarrow> (page \<Rightarrow> 'w \<Rightarrow> (queued_job result_page \<times> time) result \<times> 'w) \<Rightarrow> bool \<Rightarrow> int option \<Rightarrow> nat \<Rightarrow>
   'w \<Rightarrow> ((queued_job list list \<times> unit result) \<times> 'w) option" where
  "queue_ls_loop 0 get planned after output_lines_limit w = None"
| "queue_ls_loop (Suc fuel) get planned after output_lines_limit w =
     (if output_lines_limit = 0 then Some (([], Inr ()), w)
      else
        (case get (sorted_page ''priority'' after) w of
           (Inl e, w1) \<Rightarrow> Some (([], Inl e), w1)
         | (Inr (rs, now), w1) \<Rightarrow>
             if records rs = [] then Some (([], Inr ()), w1)
             else
               (let shown = take output_lines_limit
                      (filter (\<lambda>j. planned \<or> is_due j now) (records rs))
                in map_option (map_prod (map_prod (Cons shown) id) id)
                     (queue_ls_loop fuel get planned (Some (job_id (last (records rs))))
                        (output_lines_limit - length shown) w1))))"

definition queue_ls ::
  "nat \<Rightarrow> (page option \<Rightarrow> origin_filter option \<Rightarrow> 'w \<Rightarrow> (queued_job result_page \<times> time) result \<times> 'w) \<Rightarrow>
   queue_list_args \<Rightarrow> 'w \<Rightarrow> ((queued_job list list \<times> unit result) \<times> 'w) option" where
  "queue_ls fuel list_jobs a w =
     queue_ls_loop fuel (\<lambda>pg. list_jobs (Some pg) (queue_origin a)) (ql_planned a) None
       (if ql_head a then 25 else 2 ^ 64 - 1) w"

definition queue_push :: "queue_push_args \<Rightarrow> api_call" where
  "queue_push a =
     Call_request_rebuild
       \<lparr>qr_distribution = Some (qp_distro a), qr_release = None, qr_component = Some (qp_component a),
        qr_name = Some (qp_name a), qr_version = qp_version a, qr_architecture = qp_architecture a,
        qr_status = None, qr_priority = Some (Priority (qp_priority a)), qr_reset = False\<rparr>"

definition queue_drop :: "queue_drop_args \<Rightarrow> api_call" where
  "queue_drop a =
     Call_drop_queued_jobs
       (Some \<lparr>of_distribution = Some (qd_distro a), of_release = qd_suite a, of_component = None,
          of_architecture = qd_architecture a\<rparr>)
       (Some \<lparr>sif_name = qd_name a, sif_search_type = Exact, sif_version = qd_version a\<rparr>)"

section \<open>Peers\<close>

text \<open>The pairs of a local release and the name the peers have for it.\<close>

definition peer_alias :: "string list \<Rightarrow> nat \<Rightarrow> string \<Rightarrow> string" where
  "peer_alias aliases i local_rel =
     (if i < length aliases \<and> aliases ! i \<noteq> [] then aliases ! i else local_rel)"

definition release_pairs :: "sync_profile \<Rightarrow> (string option \<times> string option) list" where
  "release_pairs p =
     (if pro_releases p = [] then [(None, None)]
      else map (\<lambda>(i, r). (Some r, Some (peer_alias (pro_peer_release_aliases p) i r)))
        (enumerate 0 (pro_releases p)))"

definition profile_peer_calls :: "sync_profile \<Rightarrow> api_call list" where
  "profile_peer_calls p =
     (if pro_peer_rebuilders p = [] then []
      else concat (map (\<lambda>arch. map (\<lambda>(local_rel, alias). Call_check_peers
               \<lparr>cp_distribution = pro_distro p, cp_architecture = arch, cp_release = local_rel,
                cp_release_alias = alias, cp_urls = pro_peer_rebuilders p\<rparr>) (release_pairs p))
             (pro_architectures p)))"

definition peers_check_calls :: "(string \<times> sync_profile) list \<Rightarrow> string option \<Rightarrow> api_call list" where
  "peers_check_calls profiles selected =
     concat (map (\<lambda>(name, p). profile_peer_calls p)
       (filter (\<lambda>(name, p). selected = None \<or> selected = Some name) profiles))"

end
