(* ===== verification/CtlProps.thy ===== *)
theory CtlProps
  imports Rebuildctl BuildProps WorkQueue
begin

text \<open>
  rebuildctl against the daemon: the listing of packages ends and is complete. The pages come from
  the model of the daemon's handler, on a database that does not change in between.
\<close>

section \<open>Pages by a column\<close>

text \<open>The page that the commands ask for, of any column that is never \<open>NULL\<close>.\<close>

lemma find_id:
  "distinct (map ident base) \<Longrightarrow> v \<in> set base \<Longrightarrow> find (\<lambda>r. ident r = ident v) base = Some v"
  by (induction base) (auto simp: image_iff)

lemma paginate_sorted:
  assumes "column cols fld = Some f" "valid_sort_field fld" "\<And>v. f v \<noteq> Null"
    and "distinct (map ident base)" "case after of None \<Rightarrow> True | Some v \<Rightarrow> v \<in> set base"
  shows "paginate cols ident (sorted_page fld (map_option ident after)) base =
    Inr (take 1000 (rows_after (\<lambda>v. (f v, ident v)) (map_option (\<lambda>v. (f v, ident v)) after) base))"
proof -
  have "anchor ident f base (ident v) = f v" if "v \<in> set base" for v
    using find_id[OF assms(4) that] by (simp add: anchor_def)
  with assms(1-3,5) show ?thesis
    by (cases after)
      (simp_all add: paginate_def sorted_page_def limit_rows_def order_rows_def rows_after_def row_greater_def)
qed

lemma distinct_with_id: "distinct (map ident base) \<Longrightarrow> distinct (map (\<lambda>v. (f v, ident v)) base)"
  by (simp add: distinct_map inj_on_def)

lemma next_page:
  assumes "distinct (map key base)" "pg = take 1000 (rows_after key after base)" "pg \<noteq> []"
  shows "last pg \<in> set base"
    and "rows_after key after base = pg @ rows_after key (Some (key (last pg))) base"
    and "length (rows_after key (Some (key (last pg))) base) < length (rows_after key after base)"
proof -
  have "set pg \<subseteq> set base" by (auto simp: assms(2) rows_after_def dest: in_set_takeD)
  with last_in_set[OF assms(3)] show "last pg \<in> set base" by blast
  show split: "rows_after key after base = pg @ rows_after key (Some (key (last pg))) base"
    by (rule rows_after_step[OF assms(1) _ assms(2,3)]) simp
  show "length (rows_after key (Some (key (last pg))) base) < length (rows_after key after base)"
    using assms(3) by (subst split) (cases pg; simp)
qed

definition name_key :: "binary_package_view \<Rightarrow> sql_value \<times> int" where
  "name_key v = (Text_value (bpv_name v), bpv_id v)"

lemma name_column: "column binary_package_columns ''name'' = Some (\<lambda>v. Text_value (bpv_name v))"
  by (simp add: column_def binary_package_columns_def to_uppercase_def ascii_upper_def char_of_def of_char_def)

lemma sort_fields: "valid_sort_field ''name''" "valid_sort_field ''priority''"
  by (simp_all add: valid_sort_field_def is_ascii_alphanumeric_def)

lemma paginate_by_name:
  assumes "distinct (map bpv_id base)" "case after of None \<Rightarrow> True | Some v \<Rightarrow> v \<in> set base"
  shows "paginate binary_package_columns bpv_id (sorted_page ''name'' (map_option bpv_id after)) base =
    Inr (take 1000 (rows_after name_key (map_option name_key after) base))"
  using paginate_sorted[OF name_column sort_fields(1) _ assms] by (simp add: name_key_def[abs_def])

section \<open>The daemon's answers\<close>

definition listed_rows :: "origin_filter \<Rightarrow> binary_identity_filter \<Rightarrow> db \<Rightarrow> binary_row list" where
  "listed_rows origin identity d =
     filter (\<lambda>((((p, s), b), r1), a). origin_matches origin s (bp_architecture p) \<and>
       binary_identity_matches identity (bp_name p) (bp_version p) (sp_name s) \<and>
       bp_seen_in_last_sync p) (binary_packages_base d)"

definition listed_packages :: "origin_filter \<Rightarrow> binary_identity_filter \<Rightarrow> db \<Rightarrow> binary_package_view list" where
  "listed_packages origin identity d = map to_binary_package_view (listed_rows origin identity d)"

text \<open>A client without filters of freshness, status and peers.\<close>

definition daemon_packages ::
  "page option \<Rightarrow> origin_filter option \<Rightarrow> binary_identity_filter option \<Rightarrow> db \<Rightarrow>
   binary_package_view result_page result \<times> db" where
  "daemon_packages pg origin identity d =
     (case get_binary_packages
          (case pg of None \<Rightarrow> default_page | Some p \<Rightarrow> p)
          (case origin of None \<Rightarrow> \<lparr>of_distribution = None, of_release = None, of_component = None,
             of_architecture = None\<rparr> | Some f \<Rightarrow> f)
          (case identity of None \<Rightarrow> \<lparr>bif_name = None, bif_search_type = Exact, bif_version = None,
             bif_source_name = None\<rparr> | Some f \<Rightarrow> f)
          \<lparr>seen_only = None\<rparr> \<lparr>sf_status = None\<rparr> \<lparr>has_disagreement = None, df_peer = []\<rparr> d of
        Ok200 r \<Rightarrow> Inr r
      | _ \<Rightarrow> Inl LibraryError, d)"

lemma binary_row_texts:
  assumes "db_ok d" "((((p, s), b), r1), a) \<in> set (binary_packages_base d)"
  shows "status_text_ok (artifact_field ra_status a) \<and> status_text_ok (r1_status r1)"
proof -
  from assms(2) have mem: "(((p, s), b), r1) \<in> set (join_r1 (\<lambda>x. bi_id (snd x)) (binary_inputs d) (rows (rebuilds d)))"
    and a: "a = None \<or> (\<exists>a'. a = Some a' \<and> a' \<in> set (rows (rebuild_artifacts d)))"
    by (auto simp: binary_packages_base_def without_r2_filter dest: left_join_leftD)
      (cases a, auto dest: left_join_SomeD)
  from mem have "r1 = None \<or> (\<exists>r. r1 = Some r \<and> r \<in> set (rows (rebuilds d)))"
    by (cases r1) (auto simp: join_r1_def dest: left_join_SomeD)
  then have "status_text_ok (r1_status r1)"
    using db_ok_facts(34)[OF assms(1)] by (auto simp: r1_status_def rebuild_ok_def)
  moreover have "status_text_ok (artifact_field ra_status a)"
    using a db_ok_facts(35)[OF assms(1)]
    by (auto simp: artifact_field_def artifact_ok_def artifact_text_ok_status)
  ultimately show ?thesis by simp
qed

lemma load_rows_ok:
  assumes "\<forall>v\<in>set vs. \<forall>c\<in>set (texts v). status_text_ok c"
  shows "load_rows texts (Inr vs) = Inr vs"
proof -
  have "find (\<lambda>c. isl (load_build_status c)) (concat (map texts vs)) = None"
    using assms status_text_ok_load by (fastforce simp: find_None_iff)
  then show ?thesis by (simp add: load_rows_def)
qed

lemma listed_texts:
  assumes "db_ok d" "v \<in> set (listed_packages origin identity d)"
  shows "\<forall>c\<in>set (binary_status_texts v). status_text_ok c"
  using assms binary_row_texts[OF assms(1)]
  by (fastforce simp: listed_packages_def listed_rows_def binary_status_texts_def)

lemma daemon_pages:
  assumes "db_ok d" "distinct (map bpv_id (listed_packages origin identity d))"
    and "case after of None \<Rightarrow> True | Some v \<Rightarrow> v \<in> set (listed_packages origin identity d)"
  shows "\<exists>n. daemon_packages (Some (sorted_page ''name'' (map_option bpv_id after))) (Some origin) (Some identity) d =
    (Inr \<lparr>total = n, records = map coalesce_status
      (take 1000 (rows_after name_key (map_option name_key after) (listed_packages origin identity d)))\<rparr>, d)"
proof -
  let ?base = "listed_packages origin identity d"
  let ?page = "take 1000 (rows_after name_key (map_option name_key after) ?base)"
  have "set ?page \<subseteq> set ?base"
    using paginate_subset[OF paginate_by_name[OF assms(2,3)]] .
  then have "load_rows binary_status_texts (Inr ?page) = Inr ?page"
    using listed_texts[OF assms(1)] by (intro load_rows_ok) blast
  moreover have "map to_binary_package_view (filter (\<lambda>((((p, s), b), r1), a).
      origin_matches origin s (bp_architecture p) \<and>
      binary_identity_matches identity (bp_name p) (bp_version p) (sp_name s) \<and>
      bp_seen_in_last_sync p = True \<and>
      disagreement_matches None (matching_peer_ids origin [] d) p d \<and>
      binary_status_matches \<lparr>sf_status = None\<rparr> (r1_status r1) (artifact_field ra_status a))
      (binary_packages_base d)) = ?base"
    by (simp add: listed_packages_def listed_rows_def disagreement_matches_def binary_status_matches_def)
  ultimately show ?thesis
    using paginate_by_name[OF assms(2,3)]
    by (simp add: daemon_packages_def get_binary_packages_def Let_def)
qed

section \<open>The listing\<close>

lemma coalesce_id [simp]: "bpv_id (coalesce_status v) = bpv_id v"
  by (simp add: coalesce_status_def)

lemma distinct_name_key: "distinct (map bpv_id base) \<Longrightarrow> distinct (map name_key base)"
  unfolding name_key_def[abs_def] by (rule distinct_with_id)

lemma pkgs_ls_pages:
  assumes "db_ok d" "distinct (map bpv_id (listed_packages origin identity d))"
    and "case after of None \<Rightarrow> True | Some v \<Rightarrow> v \<in> set (listed_packages origin identity d)"
    and "length (rows_after name_key (map_option name_key after) (listed_packages origin identity d)) < fuel"
  shows "\<exists>pages. pkgs_ls_loop fuel (\<lambda>pg. daemon_packages (Some pg) (Some origin) (Some identity)) wanted
      (map_option bpv_id after) d = Some ((pages, Inr ()), d) \<and>
    concat pages = filter (status_selected wanted) (map coalesce_status
      (rows_after name_key (map_option name_key after) (listed_packages origin identity d)))"
  using assms(3,4)
proof (induction fuel arbitrary: after)
  case (Suc fuel)
  let ?base = "listed_packages origin identity d"
  define rest where "rest = rows_after name_key (map_option name_key after) ?base"
  define pg where "pg = take 1000 rest"
  obtain n where page: "daemon_packages (Some (sorted_page ''name'' (map_option bpv_id after)))
      (Some origin) (Some identity) d = (Inr \<lparr>total = n, records = map coalesce_status pg\<rparr>, d)"
    using daemon_pages[OF assms(1,2) Suc.prems(1)] unfolding pg_def rest_def by blast
  show ?case
  proof (cases "pg = []")
    case True
    then have "rest = []" by (simp add: pg_def)
    with page True show ?thesis unfolding rest_def[symmetric] by simp
  next
    case False
    let ?last = "last pg"
    note nxt = next_page[OF distinct_name_key[OF assms(2)] pg_def[unfolded rest_def] False]
    have step: "rest = pg @ rows_after name_key (Some (name_key ?last)) ?base"
      unfolding rest_def by (rule nxt(2))
    have "length (rows_after name_key (map_option name_key (Some ?last)) ?base) < fuel"
      using Suc.prems(2) nxt(3) by simp
    from Suc.IH[OF _ this] nxt(1) obtain pages where pages:
      "pkgs_ls_loop fuel (\<lambda>pg. daemon_packages (Some pg) (Some origin) (Some identity)) wanted
        (Some (bpv_id ?last)) d = Some ((pages, Inr ()), d)"
      "concat pages = filter (status_selected wanted) (map coalesce_status
        (rows_after name_key (Some (name_key ?last)) ?base))" by auto
    have all: "map coalesce_status rest =
        map coalesce_status pg @ map coalesce_status (rows_after name_key (Some (name_key ?last)) ?base)"
      using arg_cong[OF step, of "map coalesce_status"] by simp
    from page pages False show ?thesis
      unfolding rest_def[symmetric] all by (simp add: last_map)
  qed
qed simp



section \<open>The queue\<close>

definition listed_jobs :: "origin_filter \<Rightarrow> db \<Rightarrow> queued_job list" where
  "listed_jobs origin d =
     map to_queued_job (filter (\<lambda>(q, b, s). origin_matches origin s (bi_architecture b)) (queue_base d))"

definition daemon_jobs ::
  "time \<Rightarrow> page option \<Rightarrow> origin_filter option \<Rightarrow> db \<Rightarrow> (queued_job result_page \<times> time) result \<times> db" where
  "daemon_jobs now pg origin d =
     (case get_queued_jobs
          (case pg of None \<Rightarrow> default_page | Some p \<Rightarrow> p)
          (case origin of None \<Rightarrow> any_origin | Some f \<Rightarrow> f)
          \<lparr>sif_name = None, sif_search_type = Exact, sif_version = None\<rparr> \<lparr>qf_started = None\<rparr> d of
        Ok200 r \<Rightarrow> Inr (r, now)
      | _ \<Rightarrow> Inl LibraryError, d)"

definition priority_key :: "queued_job \<Rightarrow> sql_value \<times> int" where
  "priority_key j = (Int_value (prio (job_priority j)), job_id j)"

lemma priority_column: "column queued_job_columns ''priority'' = Some (\<lambda>j. Int_value (prio (job_priority j)))"
  by (simp add: column_def queued_job_columns_def to_uppercase_def ascii_upper_def char_of_def of_char_def)

lemma distinct_listed_jobs: "db_ok d \<Longrightarrow> distinct (map job_id (listed_jobs origin d))"
  unfolding listed_jobs_def map_map o_def job_id_row
  by (rule distinct_map_filter_list) (rule distinct_queue_base)

lemma daemon_job_pages:
  assumes "db_ok d" "case after of None \<Rightarrow> True | Some j \<Rightarrow> j \<in> set (listed_jobs (case origin of None \<Rightarrow> any_origin | Some f \<Rightarrow> f) d)"
  shows "\<exists>n. daemon_jobs now (Some (sorted_page ''priority'' (map_option job_id after))) origin d =
    (Inr (\<lparr>total = n, records = take 1000 (rows_after priority_key (map_option priority_key after)
      (listed_jobs (case origin of None \<Rightarrow> any_origin | Some f \<Rightarrow> f) d))\<rparr>, now), d)"
proof -
  let ?o = "case origin of None \<Rightarrow> any_origin | Some f \<Rightarrow> f"
  have "paginate queued_job_columns job_id (sorted_page ''priority'' (map_option job_id after)) (listed_jobs ?o d) =
      Inr (take 1000 (rows_after priority_key (map_option priority_key after) (listed_jobs ?o d)))"
    using paginate_sorted[OF priority_column sort_fields(2) _ distinct_listed_jobs[OF assms(1)] assms(2)]
    by (simp add: priority_key_def[abs_def])
  moreover have "map to_queued_job (filter (\<lambda>(q, b, s). origin_matches ?o s (bi_architecture b) \<and>
      source_identity_matches \<lparr>sif_name = None, sif_search_type = Exact, sif_version = None\<rparr> (sp_name s) (sp_version s) \<and>
      (False \<longrightarrow> q_started_at q \<noteq> None)) (queue_base d)) = listed_jobs ?o d"
    by (simp add: listed_jobs_def source_identity_matches_def name_matches_def is_or_any_def)
  ultimately show ?thesis by (simp add: daemon_jobs_def get_queued_jobs_def Let_def)
qed

lemma take_filter_step:
  "take n (filter p (xs @ ys)) =
     take n (filter p xs) @ take (n - length (take n (filter p xs))) (filter p ys)"
  by (simp add: min_def)

lemma queue_ls_pages:
  fixes origin :: "origin_filter option"
  defines "base d \<equiv> listed_jobs (case origin of None \<Rightarrow> any_origin | Some f \<Rightarrow> f) d"
  assumes "db_ok d" "case after of None \<Rightarrow> True | Some j \<Rightarrow> j \<in> set (base d)"
    and "length (rows_after priority_key (map_option priority_key after) (base d)) < fuel"
  shows "\<exists>pages. queue_ls_loop fuel (\<lambda>pg. daemon_jobs now (Some pg) origin) planned
      (map_option job_id after) limit d = Some ((pages, Inr ()), d) \<and>
    concat pages = take limit (filter (\<lambda>j. planned \<or> is_due j now)
      (rows_after priority_key (map_option priority_key after) (base d)))"
  using assms(3,4)
proof (induction fuel arbitrary: after limit)
  case (Suc fuel)
  define rest where "rest = rows_after priority_key (map_option priority_key after) (base d)"
  define pg where "pg = take 1000 rest"
  let ?due = "\<lambda>j. planned \<or> is_due j now"
  obtain n where page: "daemon_jobs now (Some (sorted_page ''priority'' (map_option job_id after))) origin d =
      (Inr (\<lparr>total = n, records = pg\<rparr>, now), d)"
    using daemon_job_pages[OF assms(2), of origin after now] Suc.prems(1)
    unfolding pg_def rest_def base_def by blast
  consider (none) "limit = 0" | (empty) "0 < limit" "pg = []" | (more) "0 < limit" "pg \<noteq> []" by blast
  then show ?case
  proof cases
    case none
    then show ?thesis by simp
  next
    case empty
    then have "rest = []" by (simp add: pg_def)
    with page empty show ?thesis unfolding rest_def[symmetric] by simp
  next
    case more
    let ?last = "last pg"
    have "distinct (map priority_key (base d))"
      unfolding base_def priority_key_def[abs_def] by (rule distinct_with_id[OF distinct_listed_jobs[OF assms(2)]])
    note nxt = next_page[OF this pg_def[unfolded rest_def] more(2)]
    define shown where "shown = take limit (filter ?due pg)"
    have step: "rest = pg @ rows_after priority_key (Some (priority_key ?last)) (base d)"
      unfolding rest_def by (rule nxt(2))
    have "length (rows_after priority_key (map_option priority_key (Some ?last)) (base d)) < fuel"
      using Suc.prems(2) nxt(3) by simp
    from Suc.IH[OF _ this, of "limit - length shown"] nxt(1) obtain pages where pages:
      "queue_ls_loop fuel (\<lambda>pg. daemon_jobs now (Some pg) origin) planned (Some (job_id ?last))
        (limit - length shown) d = Some ((pages, Inr ()), d)"
      "concat pages = take (limit - length shown) (filter ?due
        (rows_after priority_key (Some (priority_key ?last)) (base d)))" by auto
    have "queue_ls_loop (Suc fuel) (\<lambda>pg. daemon_jobs now (Some pg) origin) planned (map_option job_id after) limit d =
        Some ((shown # pages, Inr ()), d)"
      using page pages(1) more by (simp add: shown_def Let_def)
    moreover have "take limit (filter ?due rest) = concat (shown # pages)"
      by (subst step, subst take_filter_step) (simp add: shown_def pages(2))
    ultimately show ?thesis unfolding rest_def[symmetric] by simp
  qed
qed simp

text \<open>C19: \<open>rebuildctl queue ls\<close> ends, and prints the queued jobs that the filter selects and that are
  due (all of them with \<open>--planned\<close>) by priority, each once, the first 25 of them with \<open>--head\<close>.\<close>

theorem queue_ls_complete:
  assumes "db_ok d"
    and "jobs = listed_jobs (case queue_origin a of None \<Rightarrow> any_origin | Some f \<Rightarrow> f) d" "length jobs < fuel"
  shows "\<exists>pages. queue_ls fuel (daemon_jobs now) a d = Some ((pages, Inr ()), d) \<and>
    concat pages = take (if ql_head a then 25 else 2 ^ 64 - 1) (filter (\<lambda>j. ql_planned a \<or> is_due j now)
      (sort_key (\<lambda>j. (Int_value (prio (job_priority j)), job_id j)) jobs))"
  using queue_ls_pages[OF assms(1), of "queue_origin a" None fuel now "ql_planned a"
      "if ql_head a then 25 else 2 ^ 64 - 1"] assms(2,3)
  by (simp add: queue_ls_def rows_after_def priority_key_def[abs_def])

lemma queue_ls_complete_witness:
  "\<exists>pages. queue_ls 9 (daemon_jobs 10) \<lparr>ql_head = True, ql_planned = False, ql_distro = None,
      ql_release = None, ql_architecture = None\<rparr> sample_db = Some ((pages, Inr ()), sample_db) \<and> map job_id (concat pages) = [1]"
proof -
  let ?a = "\<lparr>ql_head = True, ql_planned = False, ql_distro = None, ql_release = None, ql_architecture = None\<rparr>"
  let ?jobs = "listed_jobs any_origin sample_db"
  have "map job_id ?jobs = [1] \<and> list_all (\<lambda>j. is_due j 10) ?jobs" by code_simp
  then obtain j where "?jobs = [j]" "is_due j 10" "job_id j = 1" by (auto simp: list_all_iff)
  with queue_ls_complete[OF sample_db_ok(1) refl, of ?a 9 10] obtain pages where
    "queue_ls 9 (daemon_jobs 10) ?a sample_db = Some ((pages, Inr ()), sample_db)" "concat pages = [j]" "job_id j = 1"
    by (auto simp: queue_origin_def)
  then show ?thesis by (intro exI[of _ pages]) simp
qed

end
