(* ===== verification/AttestationProps.thy ===== *)
theory AttestationProps
  imports Attestation Sample BuildProps LogProps "HOL-Library.Sublist"
begin

text \<open>
  What a reader of an attestation gets when the daemon signs transparently: the attestation with the
  daemon's signature, which is made once and kept.
\<close>

section \<open>What the crates promise\<close>

text \<open>Serialised metadata parses back, a new metablock has a signature of the key it was made with,
  and a zstd frame decodes to what was encoded.\<close>

definition crates_ok ::
  "('m, 's, 'priv, 'pub, 'id) in_toto \<Rightarrow> encoder \<Rightarrow> (bytes \<Rightarrow> bytes result) \<Rightarrow> bool" where
  "crates_ok it enc dec \<longleftrightarrow>
     (\<forall>m json. it_serialize it m = Inr json \<longrightarrow> it_parse it json = Inr m) \<and>
     (\<forall>md k new. it_new it md k = Inr new \<longrightarrow>
        it_key_id it (it_public it k) \<in> it_sig_key_id it ` set (signatures new)) \<and>
     (\<forall>slices z. enc slices = Inr z \<longrightarrow> is_zstd_compressed z \<and> dec z = Inr (concat slices))"

lemma zstd_compress_read:
  assumes "crates_ok it enc dec" "zstd_compress enc json = Inr z"
  shows "read_attestation it dec z = it_parse it json"
proof -
  have "concat (chunks zstd_chunk_size json) = json"
    by (rule concat_chunks) (simp add: zstd_chunk_size_def)
  with assms show ?thesis by (auto simp: crates_ok_def zstd_compress_def read_attestation_def)
qed

section \<open>Signing\<close>

text \<open>The result has the key's signature, keeps the metadata and the signatures that were there, and
  is itself not signed again.\<close>

lemma sign_if_necessary:
  assumes ok: "crates_ok it enc dec"
    and run: "compressed_attestation_sign_if_necessary it enc dec k b = Inr (s, new)"
  shows "\<exists>m m'. read_attestation it dec b = Inr m \<and> read_attestation it dec s = Inr m' \<and>
      has_signature it (it_public it k) m' \<and> metadata m' = metadata m \<and>
      prefix (signatures m) (signatures m') \<and> (\<not> new \<longrightarrow> s = b)"
    and "compressed_attestation_sign_if_necessary it enc dec k s = Inr (s, False)"
proof -
  obtain m where m: "read_attestation it dec b = Inr m"
    using run by (auto simp: compressed_attestation_sign_if_necessary_def split: sum.splits)
  have "\<exists>m'. read_attestation it dec s = Inr m' \<and> has_signature it (it_public it k) m' \<and>
      metadata m' = metadata m \<and> prefix (signatures m) (signatures m') \<and> (\<not> new \<longrightarrow> s = b)"
  proof (cases "has_signature it (it_public it k) m")
    case True
    with run m show ?thesis by (simp add: compressed_attestation_sign_if_necessary_def)
  next
    case False
    with run m obtain m' where m': "attestation_sign it k m = Inr m'"
        "to_compressed_bytes it enc m' = Inr s" "new"
      by (auto simp: compressed_attestation_sign_if_necessary_def map_sum_Inr split: sum.splits)
    from m'(1) obtain more where more: "it_new it (metadata m) k = Inr more"
        "m' = m\<lparr>signatures := signatures m @ signatures more\<rparr>"
      by (auto simp: attestation_sign_def map_sum_Inr)
    then have "has_signature it (it_public it k) m'"
      using ok by (fastforce simp: crates_ok_def has_signature_def list_ex_iff)
    moreover obtain json where json: "it_serialize it m' = Inr json" "zstd_compress enc json = Inr s"
      using m'(2) by (auto simp: to_compressed_bytes_def split: sum.splits)
    moreover have "it_parse it json = Inr m'" using ok json(1) by (simp add: crates_ok_def)
    ultimately show ?thesis
      using zstd_compress_read[OF ok json(2)] more(2) m'(3) by simp
  qed
  with m show "\<exists>m m'. read_attestation it dec b = Inr m \<and> read_attestation it dec s = Inr m' \<and>
      has_signature it (it_public it k) m' \<and> metadata m' = metadata m \<and>
      prefix (signatures m) (signatures m') \<and> (\<not> new \<longrightarrow> s = b)" by blast
  then show "compressed_attestation_sign_if_necessary it enc dec k s = Inr (s, False)"
    by (auto simp: compressed_attestation_sign_if_necessary_def)
qed

section \<open>Serving\<close>

text \<open>The stored attestation of an artifact of a build.\<close>

definition stored_attestation :: "int \<Rightarrow> int \<Rightarrow> db \<Rightarrow> bytes option" where
  "stored_attestation i artifact_id d =
     (case filter (\<lambda>a. ra_id a = artifact_id) (artifact_rows i d) of
        [] \<Rightarrow> None
      | a # _ \<Rightarrow> joined_attestation d a)"

lemma find_update:
  assumes "find P xs = Some x" "\<And>y. P (if q y then f y else y) = P y"
  shows "find P (map (\<lambda>y. if q y then f y else y) xs) = Some (if q x then f x else x)"
  using assms(1) by (induction xs) (simp_all add: assms(2) split: if_splits)

lemma artifact_rows_mem: "a \<in> set (artifact_rows i d) \<Longrightarrow> a \<in> set (rows (rebuild_artifacts d))"
  by (auto simp: artifact_rows_def inner_join_def)

lemma filter_unique_key:
  assumes "distinct (map f xs)" "x \<in> set xs" "f x = k"
  shows "filter (\<lambda>y. f y = k) xs = [x]"
  using assms by (induction xs) (auto simp: filter_empty_conv intro: rev_image_eqI)

lemma stored_attestation_update:
  assumes "stored_attestation i artifact_id d = Some old"
    and "filter (\<lambda>a. ra_id a = artifact_id) (rows (rebuild_artifacts d)) = a # as"
    and "ra_attestation_log_id a = Some n" "db_ok d"
  shows "stored_attestation i artifact_id
    (d\<lparr>attestation_logs := sql_update (\<lambda>l. al_id l = n) (\<lambda>l. l\<lparr>al_attestation_log := s\<rparr>)
        (attestation_logs d)\<rparr>) = Some s" (is "stored_attestation i artifact_id ?e = _")
proof -
  from assms(1) obtain a' as' where row: "filter (\<lambda>a. ra_id a = artifact_id) (artifact_rows i d) = a' # as'"
    "joined_attestation d a' = Some old"
    by (auto simp: stored_attestation_def split: list.splits)
  then have "a' \<in> set (artifact_rows i d)" "ra_id a' = artifact_id" by (auto simp: filter_eq_Cons_iff)
  with filter_unique_key[OF wf_table_distinct artifact_rows_mem, of ra_id d a' i artifact_id] assms(2,4)
  have a: "a' = a" by (simp add: db_ok_facts)
  from row(2) obtain l where "find (\<lambda>l. null_eq (ra_attestation_log_id a) (Some (al_id l)))
      (rows (attestation_logs d)) = Some l"
    by (auto simp: joined_attestation_def a)
  from find_update[OF this, of "\<lambda>l. al_id l = n" "\<lambda>l. l\<lparr>al_attestation_log := s\<rparr>"]
  have "joined_attestation ?e a = Some (if al_id l = n then s else al_attestation_log l)"
    by (simp add: joined_attestation_def rows_update)
  moreover have "al_id l = n"
    using \<open>find _ _ = Some l\<close> assms(3) by (auto simp: find_Some_iff)
  moreover have "artifact_rows i ?e = artifact_rows i d" by (simp add: artifact_rows_def)
  ultimately show ?thesis using row(1) a by (simp add: stored_attestation_def)
qed

lemma get_attestation_cases:
  assumes "get_build_artifact_attestation dec sgn' cfg req i a d = (Ok200 reply, e)"
    and "cfg_transparently_sign_attestations cfg"
  shows "\<exists>old s new. stored_attestation i a d = Some old \<and> sgn' old = Inr (s, new) \<and>
    Ok200 reply = forward_compressed_data dec req ''application/json; charset=utf-8'' (if new then s else old) \<and>
    (if new then \<exists>r rs n. filter (\<lambda>r. ra_id r = a) (rows (rebuild_artifacts d)) = r # rs \<and>
        ra_attestation_log_id r = Some n \<and>
        e = d\<lparr>attestation_logs := sql_update (\<lambda>l. al_id l = n) (\<lambda>l. l\<lparr>al_attestation_log := s\<rparr>)
          (attestation_logs d)\<rparr>
      else e = d)"
proof -
  obtain r rs where r: "filter (\<lambda>r. ra_id r = a) (artifact_rows i d) = r # rs"
    using assms(1) by (cases "filter (\<lambda>r. ra_id r = a) (artifact_rows i d)")
      (simp_all add: get_build_artifact_attestation_def)
  with assms(1) obtain old where old: "joined_attestation d r = Some old"
    by (cases "joined_attestation d r") (simp_all add: get_build_artifact_attestation_def)
  with assms r obtain s new where s: "sgn' old = Inr (s, new)"
    by (cases "sgn' old") (auto simp: get_build_artifact_attestation_def)
  show ?thesis
  proof (cases new)
    case False
    with assms r old s show ?thesis
      by (auto simp: get_build_artifact_attestation_def stored_attestation_def)
  next
    case True
    with assms r old s obtain q qs where q: "filter (\<lambda>r. ra_id r = a) (rows (rebuild_artifacts d)) = q # qs"
      by (cases "filter (\<lambda>r. ra_id r = a) (rows (rebuild_artifacts d))")
        (simp_all add: get_build_artifact_attestation_def)
    with True assms r old s obtain n where "ra_attestation_log_id q = Some n"
      by (cases "ra_attestation_log_id q") (simp_all add: get_build_artifact_attestation_def)
    with True assms r old s q show ?thesis
      by (auto simp: get_build_artifact_attestation_def stored_attestation_def)
  qed
qed

lemma get_attestation_signed:
  assumes "stored_attestation i a d = Some s" "sgn' s = Inr (s, False)"
    and "cfg_transparently_sign_attestations cfg"
  shows "get_build_artifact_attestation dec sgn' cfg req i a d =
    (forward_compressed_data dec req ''application/json; charset=utf-8'' s, d)"
  using assms
  by (auto simp: get_build_artifact_attestation_def stored_attestation_def split: list.splits)

text \<open>C16: Reading an attestation signs it at most once: what is stored afterwards has the daemon's
  signature beside those that were there, over the same metadata, and every later reader gets the same
  answer without another write.\<close>

theorem attestation_signed_once:
  assumes crates: "crates_ok it enc dec" and ok: "db_ok d"
    and on: "cfg_transparently_sign_attestations cfg"
    and run: "get_build_artifact_attestation dec
        (compressed_attestation_sign_if_necessary it enc dec k) cfg req i a d = (Ok200 reply, e)"
  shows "(\<exists>old m s m'. stored_attestation i a d = Some old \<and> read_attestation it dec old = Inr m \<and>
      stored_attestation i a e = Some s \<and> read_attestation it dec s = Inr m' \<and>
      has_signature it (it_public it k) m' \<and> metadata m' = metadata m \<and>
      prefix (signatures m) (signatures m')) \<and>
    get_build_artifact_attestation dec
      (compressed_attestation_sign_if_necessary it enc dec k) cfg req i a e = (Ok200 reply, e)"
proof -
  let ?sign = "compressed_attestation_sign_if_necessary it enc dec k"
  obtain old s new where old: "stored_attestation i a d = Some old" and signed: "?sign old = Inr (s, new)"
    and reply: "Ok200 reply =
      forward_compressed_data dec req ''application/json; charset=utf-8'' (if new then s else old)"
    and e: "if new then \<exists>r rs n. filter (\<lambda>r. ra_id r = a) (rows (rebuild_artifacts d)) = r # rs \<and>
        ra_attestation_log_id r = Some n \<and>
        e = d\<lparr>attestation_logs := sql_update (\<lambda>l. al_id l = n) (\<lambda>l. l\<lparr>al_attestation_log := s\<rparr>)
          (attestation_logs d)\<rparr>
      else e = d"
    using get_attestation_cases[OF run on] by blast
  note S = sign_if_necessary[OF crates signed]
  have same: "(if new then s else old) = s" using S(1) by auto
  have stored: "stored_attestation i a e = Some s"
  proof (cases new)
    case True
    with e stored_attestation_update[OF old _ _ ok] show ?thesis by auto
  qed (use e old same in auto)
  with get_attestation_signed[OF stored, of ?sign, OF S(2) on] reply same have
    "get_build_artifact_attestation dec ?sign cfg req i a e = (Ok200 reply, e)" by simp
  with S(1) old stored show ?thesis by blast
qed

text \<open>Crates whose keys are numbers, whose signatures are their keys, and a codec that stores.\<close>

definition toy_crates :: "(unit, nat, nat, nat, nat) in_toto" where
  "toy_crates =
     \<lparr>it_parse = (\<lambda>b. Inr \<lparr>signatures = map unat b, metadata = ()\<rparr>),
      it_serialize = (\<lambda>m. if \<forall>n\<in>set (signatures m). n < 256 then Inr (map of_nat (signatures m))
         else Inl LibraryError),
      it_new = (\<lambda>_ k. Inr \<lparr>signatures = [k], metadata = ()\<rparr>),
      it_sig_key_id = id, it_key_id = id, it_public = id, it_keygen = Inr [7],
      it_from_pkcs8 = (\<lambda>b. Inr 7), it_from_spki = (\<lambda>b. Inr 7), it_as_spki = (\<lambda>k. Inr [7])\<rparr>"

definition toy_decode :: "bytes \<Rightarrow> bytes result" where "toy_decode b = Inr (drop 4 b)"

lemma toy_crates_ok: "crates_ok toy_crates (\<lambda>slices. Inr (zstd_magic @ concat slices)) toy_decode"
  by (auto simp: crates_ok_def toy_crates_def toy_decode_def is_zstd_compressed_def zstd_magic_def
      unat_of_nat take_bit_nat_eq_self map_idI split: if_splits)

definition attested_db :: db where
  "attested_db = rebuild_artifact_insert
     \<lparr>nra_rebuild_id = 1, nra_name = ''y'', nra_diffoscope_log_id = None,
      nra_attestation_log_id = Some 1, nra_status = Some ''BAD''\<rparr>
     (snd (attestation_log_insert [3] sample_db))"

lemma attested_db_ok: "db_ok attested_db"
  unfolding attested_db_def
  by (rule db_ok_rebuild_artifact_insert[OF db_ok_attestation_log_insert[OF sample_db_ok(1)]])
    (simp_all add: attestation_log_insert_def sql_insert_def sample_db_def sample_db_with_def
      sample_base_def empty_db_def sample_rebuild_def)

lemma chunks_short: "d \<noteq> [] \<Longrightarrow> length d \<le> n \<Longrightarrow> chunks n d = [d]"
  by (cases d; subst chunks.simps, subst chunks.simps) auto

lemma attested_rows:
  "artifact_rows 1 attested_db = rows (rebuild_artifacts attested_db)"
  "filter (\<lambda>a. ra_id a = 2) (rows (rebuild_artifacts attested_db)) =
     [\<lparr>ra_id = 2, ra_rebuild_id = 1, ra_name = ''y'', ra_diffoscope_log_id = None,
       ra_attestation_log_id = Some 1, ra_status = Some ''BAD''\<rparr>]"
  "ra_attestation_log_id a = Some 1 \<Longrightarrow> joined_attestation attested_db a = Some [3]"
  by (simp_all add: attested_db_def rebuild_artifact_insert_def attestation_log_insert_def sql_insert_def
      rebuild_artifact_row_def artifact_rows_def inner_join_def joined_attestation_def
      sample_db_def sample_db_with_def sample_base_def empty_db_def sample_rows)

lemma sign_toy:
  "compressed_attestation_sign_if_necessary toy_crates (\<lambda>slices. Inr (zstd_magic @ concat slices))
     toy_decode 7 [3] = Inr (zstd_magic @ [3, 7], True)"
  by (simp add: compressed_attestation_sign_if_necessary_def read_attestation_def is_zstd_compressed_def
      zstd_magic_def toy_crates_def has_signature_def attestation_sign_def to_compressed_bytes_def
      zstd_compress_def chunks_short zstd_chunk_size_def)

lemma attestation_signed_once_witness:
  "\<exists>reply e. get_build_artifact_attestation toy_decode (compressed_attestation_sign_if_necessary toy_crates
      (\<lambda>slices. Inr (zstd_magic @ concat slices)) toy_decode 7) sample_cfg sample_req 1 2 attested_db =
        (Ok200 reply, e) \<and>
    get_build_artifact_attestation toy_decode (compressed_attestation_sign_if_necessary toy_crates
      (\<lambda>slices. Inr (zstd_magic @ concat slices)) toy_decode 7) sample_cfg sample_req 1 2 e =
        (Ok200 reply, e)"
proof -
  let ?run = "get_build_artifact_attestation toy_decode (compressed_attestation_sign_if_necessary toy_crates
      (\<lambda>slices. Inr (zstd_magic @ concat slices)) toy_decode 7) sample_cfg sample_req 1 2"
  have "fst (?run attested_db) =
      Ok200 \<lparr>content_type = ''application/json; charset=utf-8'', zstd_encoded = False, body = [3, 7]\<rparr>"
    by (simp add: get_build_artifact_attestation_def attested_rows sign_toy sample_cfg_def)
      (simp add: forward_compressed_data_def is_zstd_compressed_def zstd_magic_def toy_decode_def
        sample_req_def)
  then obtain reply e where run: "?run attested_db = (Ok200 reply, e)"
    by (cases "?run attested_db") simp
  have "cfg_transparently_sign_attestations sample_cfg" by (simp add: sample_cfg_def)
  then have "?run e = (Ok200 reply, e)"
    using attestation_signed_once[OF toy_crates_ok attested_db_ok _ run] by blast
  with run show ?thesis by (intro exI[of _ reply] exI[of _ e] conjI)
qed

end
