(* ===== verification/Migrations.thy ===== *)
theory Migrations
  imports Prelude "HOL-Library.Sublist"
begin

text \<open>
  The start of the daemon's database: \<open>setup\<close> of \<open>daemon/src/db.rs\<close>, which applies the pending
  migrations one by one, the runner of migrations that have hooks in code
  (\<open>daemon/src/code_migrations/code_migration.rs\<close>) and the one that has them, which compresses the
  stored logs (\<open>daemon/src/code_migrations/compress_logs.rs\<close>). The SQL of a migration and diesel's
  list of the pending ones are parameters.
\<close>

section \<open>Steps that may fail\<close>

text \<open>A step on the database returns its result with the database it leaves; \<open>?\<close> stops at the first
  error.\<close>

type_synonym 'd db_step = "'d \<Rightarrow> unit result \<times> 'd"

fun run_steps :: "'d db_step list \<Rightarrow> 'd db_step" where
  "run_steps [] d = (Inr (), d)"
| "run_steps (f # fs) d =
     (case f d of
        (Inl e, d1) \<Rightarrow> (Inl e, d1)
      | (Inr _, d1) \<Rightarrow> run_steps fs d1)"

definition in_transaction :: "'d db_step \<Rightarrow> 'd db_step" where
  "in_transaction f d = (case f d of (Inl e, _) \<Rightarrow> (Inl e, d) | (Inr u, d1) \<Rightarrow> (Inr u, d1))"

section \<open>The compression of logs\<close>

record old_build =
  ob_id :: int
  ob_diffoscope :: "bytes option"
  ob_build_log :: bytes
  ob_attestation :: "bytes option"

text \<open>The table \<open>builds\<close> of that time and, as \<open>'o\<close>, the other tables.\<close>

record 'o old_db =
  old_builds :: "old_build list"
  other_tables :: 'o

text \<open>One \<open>UPDATE\<close> of a column by a function that may fail: an error changes no row.\<close>

definition update_all :: "(old_build \<Rightarrow> old_build result) \<Rightarrow> 'o old_db db_step" where
  "update_all f d =
     (case results (map f (old_builds d)) of
        Inl e \<Rightarrow> (Inl e, d)
      | Inr rs \<Rightarrow> (Inr (), d\<lparr>old_builds := rs\<rparr>))"

definition recode_opt :: "(bytes \<Rightarrow> bytes result) \<Rightarrow> bytes option \<Rightarrow> bytes option result" where
  "recode_opt f b = (case b of None \<Rightarrow> Inr None | Some b \<Rightarrow> map_sum id Some (f b))"

text \<open>The three statements of \<open>post_up\<close>, and of \<open>pre_down\<close> with the decoder.\<close>

definition recode_builds :: "(bytes \<Rightarrow> bytes result) \<Rightarrow> 'o old_db db_step" where
  "recode_builds f = run_steps
     [update_all (\<lambda>b. map_sum id (\<lambda>z. b\<lparr>ob_build_log := z\<rparr>) (f (ob_build_log b))),
      update_all (\<lambda>b. map_sum id (\<lambda>z. b\<lparr>ob_diffoscope := z\<rparr>) (recode_opt f (ob_diffoscope b))),
      update_all (\<lambda>b. map_sum id (\<lambda>z. b\<lparr>ob_attestation := z\<rparr>) (recode_opt f (ob_attestation b)))]"

section \<open>Migrations with code\<close>

record 'd code_migration =
  cm_prepare :: "'d db_step"
  cm_pre_up :: "'d db_step"
  cm_post_up :: "'d db_step"
  cm_pre_down :: "'d db_step"
  cm_post_down :: "'d db_step"

definition skip_step :: "'d db_step" where
  "skip_step d = (Inr (), d)"

definition unit_code_migration :: "'d code_migration" where
  "unit_code_migration =
     \<lparr>cm_prepare = skip_step, cm_pre_up = skip_step, cm_post_up = skip_step,
      cm_pre_down = skip_step, cm_post_down = skip_step\<rparr>"

text \<open>\<open>registered\<close> is what registering the SQL functions with the connection returns. A panic in such a
  function is an error of its statement.\<close>

definition compress_logs_migration ::
  "unit result \<Rightarrow> (bytes \<Rightarrow> bytes result) \<Rightarrow> (bytes \<Rightarrow> bytes result) \<Rightarrow> 'o old_db code_migration" where
  "compress_logs_migration registered encode_all decode_all =
     unit_code_migration
       \<lparr>cm_prepare := (\<lambda>d. (registered, d)), cm_post_up := recode_builds encode_all,
        cm_pre_down := recode_builds decode_all\<rparr>"

record 'd migration =
  mig_name :: string
  mig_version :: string
  mig_run :: "'d db_step"
  mig_run_in_transaction :: bool

definition get_code_migration :: "'d code_migration \<Rightarrow> 'd migration \<Rightarrow> 'd code_migration" where
  "get_code_migration compress_logs m =
     (if mig_name m = ''2025-05-20-210543_compress-logs'' then compress_logs else unit_code_migration)"

text \<open>A database is its contents and the versions in diesel's table of applied migrations, which has
  the version as its key.\<close>

type_synonym 'd versioned = "'d \<times> string list"

definition on_contents :: "'d db_step \<Rightarrow> 'd versioned db_step" where
  "on_contents f = (\<lambda>(d, vs). map_prod id (\<lambda>d1. (d1, vs)) (f d))"

definition record_version :: "string \<Rightarrow> 'd versioned db_step" where
  "record_version v = (\<lambda>(d, vs). if v \<in> set vs then (Inl LibraryError, (d, vs)) else (Inr (), (d, vs @ [v])))"

definition migration_steps :: "'d code_migration \<Rightarrow> 'd migration \<Rightarrow> 'd db_step list" where
  "migration_steps cm m = [cm_prepare cm, cm_pre_up cm, mig_run m, cm_post_up cm]"

definition run_code_backed_migration ::
  "'d code_migration \<Rightarrow> 'd migration \<Rightarrow> 'd versioned db_step" where
  "run_code_backed_migration compress_logs m =
     (let apply_migration = run_steps
            (map on_contents (migration_steps (get_code_migration compress_logs m) m) @
             [record_version (mig_version m)])
      in if mig_run_in_transaction m then in_transaction apply_migration else apply_migration)"

section \<open>Starting up\<close>

text \<open>
  \<open>pending\<close> is diesel's \<open>pending_migrations\<close> for the versions that are applied. The loop has fuel,
  since it ends when diesel says that nothing is pending.
\<close>

fun setup_loop ::
  "nat \<Rightarrow> (string list \<Rightarrow> 'd migration list result) \<Rightarrow> 'd code_migration \<Rightarrow> bool \<Rightarrow> 'd versioned \<Rightarrow>
   (bool result \<times> 'd versioned) option" where
  "setup_loop 0 pending compress_logs changed c = None"
| "setup_loop (Suc fuel) pending compress_logs changed c =
     (case pending (snd c) of
        Inl e \<Rightarrow> Some (Inl e, c)
      | Inr [] \<Rightarrow> Some (Inr changed, c)
      | Inr (next_migration # _) \<Rightarrow>
          (case run_code_backed_migration compress_logs next_migration c of
             (Inl e, c1) \<Rightarrow> Some (Inl e, c1)
           | (Inr _, c1) \<Rightarrow> setup_loop fuel pending compress_logs True c1))"

text \<open>\<open>vacuum\<close> and \<open>analyze\<close> are the results of the two statements, which change no contents.\<close>

definition db_setup ::
  "nat \<Rightarrow> (string list \<Rightarrow> 'd migration list result) \<Rightarrow> 'd code_migration \<Rightarrow> unit result \<Rightarrow> unit result \<Rightarrow>
   'd versioned \<Rightarrow> (unit result \<times> 'd versioned) option" where
  "db_setup fuel pending compress_logs vacuum analyze c =
     map_option (\<lambda>(r, c1).
       (case r of
          Inl e \<Rightarrow> (Inl e, c1)
        | Inr changed \<Rightarrow>
            (if changed then
               (case vacuum of Inl e \<Rightarrow> (Inl e, c1) | Inr _ \<Rightarrow> (analyze, c1))
             else (Inr (), c1)))) (setup_loop fuel pending compress_logs False c)"

section \<open>What a run leaves\<close>

lemma run_steps_append:
  "run_steps (fs @ gs) d = (case run_steps fs d of (Inl e, d1) \<Rightarrow> (Inl e, d1) | (Inr _, d1) \<Rightarrow> run_steps gs d1)"
  by (induction fs arbitrary: d) (auto split: prod.split sum.split)

lemma run_steps_contents:
  "run_steps (map on_contents fs) (d, vs) = map_prod id (\<lambda>d1. (d1, vs)) (run_steps fs d)"
  by (induction fs arbitrary: d) (auto simp: on_contents_def split: prod.split sum.split)

text \<open>A migration that succeeds records its version; one that fails records nothing, and if it runs in a
  transaction it also changes nothing.\<close>

lemma run_code_backed_migration_ok:
  assumes "run_code_backed_migration cl m (d, vs) = (Inr u, c1)"
  shows "\<exists>d1. run_steps (migration_steps (get_code_migration cl m) m) d = (Inr (), d1) \<and>
    c1 = (d1, vs @ [mig_version m]) \<and> mig_version m \<notin> set vs"
  using assms
  by (cases "run_steps (migration_steps (get_code_migration cl m) m) d";
      cases "fst (run_steps (migration_steps (get_code_migration cl m) m) d)";
      auto simp: run_code_backed_migration_def Let_def in_transaction_def run_steps_append
        run_steps_contents record_version_def split: if_splits)+

lemma run_code_backed_migration_error:
  assumes "run_code_backed_migration cl m (d, vs) = (Inl e, c1)"
  shows "snd c1 = vs" and "mig_run_in_transaction m \<Longrightarrow> c1 = (d, vs)"
  using assms
  by (cases "run_steps (migration_steps (get_code_migration cl m) m) d";
      cases "fst (run_steps (migration_steps (get_code_migration cl m) m) d)";
      auto simp: run_code_backed_migration_def Let_def in_transaction_def run_steps_append
        run_steps_contents record_version_def split: if_splits)+

section \<open>All pending migrations\<close>

text \<open>\<open>pending_exact\<close> is diesel's documentation: the migrations that are not applied, by ascending version.\<close>

definition pending_of :: "'d migration list \<Rightarrow> string list \<Rightarrow> 'd migration list" where
  "pending_of source vs = sort_key mig_version (filter (\<lambda>m. mig_version m \<notin> set vs) source)"

definition pending_exact :: "(string list \<Rightarrow> 'd migration list result) \<Rightarrow> 'd migration list \<Rightarrow> bool" where
  "pending_exact pending source \<longleftrightarrow> (\<forall>vs. pending vs = Inr (pending_of source vs))"

text \<open>The reference: the migrations of a list, one after the other.\<close>

fun migrate_all :: "'d code_migration \<Rightarrow> 'd migration list \<Rightarrow> 'd versioned db_step" where
  "migrate_all cl [] c = (Inr (), c)"
| "migrate_all cl (m # ms) c =
     (case run_code_backed_migration cl m c of
        (Inl e, c1) \<Rightarrow> (Inl e, c1)
      | (Inr _, c1) \<Rightarrow> migrate_all cl ms c1)"

lemma pending_step:
  assumes "distinct (map mig_version source)" "pending_of source vs = m # ms"
  shows "pending_of source (vs @ [mig_version m]) = ms"
proof -
  have sorted: "m # ms = filter (\<lambda>m. mig_version m \<notin> set vs) (sort_key mig_version source)"
    using assms(2) by (simp add: pending_of_def filter_sort)
  have "distinct (map mig_version (sort_key mig_version source))"
    using assms(1) by (simp add: distinct_map)
  then have "distinct (map mig_version (filter (\<lambda>m. mig_version m \<notin> set vs) (sort_key mig_version source)))"
    by (rule distinct_map_filter)
  then have "mig_version m \<notin> mig_version ` set ms" unfolding sorted[symmetric] by simp
  then have keep: "filter (\<lambda>x. mig_version x \<noteq> mig_version m) ms = ms"
    by (simp add: filter_id_conv) (metis imageI)
  have "pending_of source (vs @ [mig_version m]) =
      filter (\<lambda>x. mig_version x \<noteq> mig_version m)
        (filter (\<lambda>m. mig_version m \<notin> set vs) (sort_key mig_version source))"
    by (simp add: pending_of_def filter_sort conj_commute)
  also have "\<dots> = ms" unfolding sorted[symmetric] using keep by simp
  finally show ?thesis .
qed

lemma setup_loop_migrates:
  assumes "pending_exact pending source" "distinct (map mig_version source)"
    and "length (pending_of source (snd c)) < fuel"
  shows "\<exists>changed. setup_loop fuel pending cl b c =
    Some (map_prod (map_sum id (\<lambda>_. changed)) id (migrate_all cl (pending_of source (snd c)) c)) \<and>
    (changed \<longleftrightarrow> b \<or> pending_of source (snd c) \<noteq> [])"
  using assms(3)
proof (induction fuel arbitrary: b c)
  case (Suc fuel)
  have now: "pending (snd c) = Inr (pending_of source (snd c))"
    using assms(1) by (simp add: pending_exact_def)
  show ?case
  proof (cases "pending_of source (snd c)")
    case (Cons m ms)
    obtain r c1 where run: "run_code_backed_migration cl m c = (r, c1)" by (rule prod.exhaust)
    show ?thesis
    proof (cases r)
      case (Inr u)
      with run run_code_backed_migration_ok[of cl m "fst c" "snd c" u c1]
      have "snd c1 = snd c @ [mig_version m]" by auto
      with pending_step[OF assms(2) Cons] have next_ms: "pending_of source (snd c1) = ms" by simp
      with Suc.IH[of c1 True] Suc.prems Cons show ?thesis by (auto simp: run Inr now)
    qed (auto simp: run Cons now)
  qed (simp add: now)
qed simp

text \<open>A run over a list of migrations stops between two of them.\<close>

lemma migrate_all_prefix:
  assumes "\<forall>m\<in>set ms. mig_run_in_transaction m"
  shows "\<exists>applied d1. prefix applied ms \<and> migrate_all cl applied (d, vs) = (Inr (), d1, vs @ map mig_version applied) \<and>
    snd (migrate_all cl ms (d, vs)) = (d1, vs @ map mig_version applied) \<and>
    (fst (migrate_all cl ms (d, vs)) = Inr () \<longleftrightarrow> applied = ms)"
  using assms
proof (induction ms arbitrary: d vs)
  case (Cons m ms)
  obtain r c1 where run: "run_code_backed_migration cl m (d, vs) = (r, c1)" by (rule prod.exhaust)
  show ?case
  proof (cases r)
    case (Inl e)
    with run run_code_backed_migration_error(2)[of cl m d vs e c1] Cons.prems
    have "migrate_all cl (m # ms) (d, vs) = (Inl e, d, vs)" by simp
    then show ?thesis by (intro exI[of _ "[]"] exI[of _ d]) simp
  next
    case (Inr u)
    with run run_code_backed_migration_ok[of cl m d vs u c1] obtain d1 where
      c1: "c1 = (d1, vs @ [mig_version m])" by blast
    from Cons.IH[of d1 "vs @ [mig_version m]"] Cons.prems obtain applied d2 where rest:
      "prefix applied ms"
      "migrate_all cl applied c1 = (Inr (), d2, (vs @ [mig_version m]) @ map mig_version applied)"
      "snd (migrate_all cl ms c1) = (d2, (vs @ [mig_version m]) @ map mig_version applied)"
      "fst (migrate_all cl ms c1) = Inr () \<longleftrightarrow> applied = ms" unfolding c1 by auto
    then show ?thesis
      by (intro exI[of _ "m # applied"] exI[of _ d2]) (simp add: run Inr)
  qed
qed simp

lemma pending_length: "length (pending_of source vs) \<le> length source"
  by (simp add: pending_of_def)

lemma pending_after:
  assumes "distinct (map mig_version source)"
  shows "pending_of source vs = applied @ ms \<Longrightarrow> pending_of source (vs @ map mig_version applied) = ms"
proof (induction applied arbitrary: vs)
  case (Cons m applied)
  from pending_step[OF assms, of vs m "applied @ ms"] Cons.prems
  have "pending_of source (vs @ [mig_version m]) = applied @ ms" by simp
  from Cons.IH[OF this] show ?case by simp
qed simp

text \<open>C23: The start of the database ends. It applies the pending migrations in the order of their versions,
  each with its hooks, and stops between two of them: what it leaves is exactly what the applied ones
  make, with their versions recorded, and when it succeeds nothing is pending any more.\<close>

theorem setup_applies_pending:
  assumes diesel: "pending_exact pending source" "distinct (map mig_version source)"
    and transactions: "\<forall>m\<in>set source. mig_run_in_transaction m"
    and fuel: "length source < fuel"
  shows "\<exists>r applied d1. db_setup fuel pending cl vacuum analyze (d, vs) =
      Some (r, d1, vs @ map mig_version applied) \<and>
    prefix applied (pending_of source vs) \<and>
    migrate_all cl applied (d, vs) = (Inr (), d1, vs @ map mig_version applied) \<and>
    (r = Inr () \<longrightarrow> pending_of source (vs @ map mig_version applied) = [])"
proof -
  have "length (pending_of source (snd (d, vs))) < fuel" using pending_length fuel by (metis le_less_trans)
  from setup_loop_migrates[OF diesel this] obtain changed where loop:
    "setup_loop fuel pending cl False (d, vs) =
       Some (map_prod (map_sum id (\<lambda>_. changed)) id (migrate_all cl (pending_of source vs) (d, vs)))" by force
  have "\<forall>m\<in>set (pending_of source vs). mig_run_in_transaction m"
    using transactions by (simp add: pending_of_def)
  from migrate_all_prefix[OF this] obtain applied d1 where run: "prefix applied (pending_of source vs)"
    "migrate_all cl applied (d, vs) = (Inr (), d1, vs @ map mig_version applied)"
    "snd (migrate_all cl (pending_of source vs) (d, vs)) = (d1, vs @ map mig_version applied)"
    "fst (migrate_all cl (pending_of source vs) (d, vs)) = Inr () \<longleftrightarrow> applied = pending_of source vs" by blast
  obtain r where all: "migrate_all cl (pending_of source vs) (d, vs) = (r, d1, vs @ map mig_version applied)"
    using run(3) by (metis prod.collapse)
  have "\<exists>r'. db_setup fuel pending cl vacuum analyze (d, vs) = Some (r', d1, vs @ map mig_version applied) \<and>
      (r' = Inr () \<longrightarrow> r = Inr ())"
    by (cases r; cases vacuum) (auto simp: db_setup_def loop all)
  moreover have "r = Inr () \<Longrightarrow> pending_of source (vs @ map mig_version applied) = []"
    using run(4) all pending_after[OF diesel(2), of vs applied "[]"] by simp
  ultimately show ?thesis using run(1,2) by blast
qed

definition sample_migrations :: "nat migration list" where
  "sample_migrations =
     [\<lparr>mig_name = ''b'', mig_version = ''2'', mig_run = (\<lambda>d. (Inr (), d * 3)), mig_run_in_transaction = True\<rparr>,
      \<lparr>mig_name = ''a'', mig_version = ''1'', mig_run = (\<lambda>d. (Inr (), d + 1)), mig_run_in_transaction = True\<rparr>]"

lemma setup_applies_pending_witness:
  "\<exists>r applied d1. db_setup 3
      (\<lambda>vs. Inr (pending_of sample_migrations vs))
      unit_code_migration (Inr ()) (Inr ()) (0, []) = Some (r, d1, map mig_version applied) \<and>
    migrate_all unit_code_migration applied (0, []) = (Inr (), d1, map mig_version applied)"
  using setup_applies_pending[where pending = "\<lambda>vs. Inr (pending_of sample_migrations vs)" and source = sample_migrations and
      fuel = 3 and cl = unit_code_migration and vacuum = "Inr ()" and analyze = "Inr ()" and d = 0 and vs = "[]"]
  by (auto simp: pending_exact_def sample_migrations_def)

end
