(* ===== verification/Cookie.thy ===== *)
theory Cookie
  imports Client
begin

text \<open>
  The shared secret of a machine: how the daemon finds or makes the auth cookie and writes it down
  (\<open>daemon/src/config.rs\<close>), and how configuration and cookie are read from files
  (\<open>common/src/config.rs\<close>, \<open>common/src/auth.rs\<close>). The files are a map from paths to the texts that
  can be read, and the environment is a record; the TOML parser, the random string and the failures
  of the system calls are parameters.
\<close>

section \<open>Files and the environment\<close>

type_synonym files = "string \<Rightarrow> string option"

text \<open>\<open>REBUILDERD_COOKIE_PATH\<close>, \<open>HTTP_ADDR\<close>, and the directories that \<open>dirs_next\<close> finds.\<close>

record host =
  cookie_path_var :: "string option"
  http_addr_var :: "string option"
  config_dir :: "string option"
  data_dir :: "string option"

definition read_text :: "files \<Rightarrow> string \<Rightarrow> string result" where
  "read_text fs path = (case fs path of Some text \<Rightarrow> Inr text | None \<Rightarrow> Inl LibraryError)"

text \<open>\<open>Path::join\<close> with a file name.\<close>

definition path_join :: "string \<Rightarrow> string \<Rightarrow> string" where
  "path_join dir name =
     (if dir = [] \<or> last dir = CHR ''/'' then dir @ name else dir @ ''/'' @ name)"

text \<open>\<open>Path::parent\<close> is there unless the path is empty or the root.\<close>

definition has_parent :: "string \<Rightarrow> bool" where
  "has_parent path \<longleftrightarrow> list_ex (\<lambda>c. c \<noteq> CHR ''/'') path"

definition system_config_path :: string where "system_config_path = ''/etc/rebuilderd.conf''"
definition system_cookie_path :: string where
  "system_cookie_path = ''/var/lib/rebuilderd/auth-cookie''"

section \<open>Configuration files\<close>

definition config_path :: "host \<Rightarrow> string option" where
  "config_path h = map_option (\<lambda>dir. path_join dir ''rebuilderd.conf'') (config_dir h)"

definition load_from :: "(string \<Rightarrow> config_file result) \<Rightarrow> files \<Rightarrow> string \<Rightarrow> config_file option result" where
  "load_from toml fs path =
     (case fs path of Some buf \<Rightarrow> map_sum id Some (toml buf) | None \<Rightarrow> Inr None)"

definition load_files ::
  "(string \<Rightarrow> config_file result) \<Rightarrow> files \<Rightarrow> host \<Rightarrow> string option \<Rightarrow> config_file result" where
  "load_files toml fs h path =
     load_config (load_from toml fs ''/etc/rebuilderd.conf'')
       (map_option (load_from toml fs) (config_path h)) (map_option (load_from toml fs) path)"

section \<open>Finding the cookie\<close>

text \<open>\<open>toml\<close> reads the table \<open>auth\<close> of a file.\<close>

definition read_cookie_from_config ::
  "(string \<Rightarrow> auth_config result) \<Rightarrow> files \<Rightarrow> string \<Rightarrow> string option result" where
  "read_cookie_from_config toml fs path =
     (case fs path of Some buf \<Rightarrow> map_sum id ac_cookie (toml buf) | None \<Rightarrow> Inr None)"

definition found_cookie :: "(string \<Rightarrow> auth_config result) \<Rightarrow> host \<Rightarrow> files \<Rightarrow> string result" where
  "found_cookie toml h fs =
     find_auth_cookie (map_option (read_text fs) (cookie_path_var h))
       (map_option (\<lambda>dir. read_cookie_from_config toml fs (path_join dir ''rebuilderd.conf''))
         (config_dir h))
       (read_cookie_from_config toml fs system_config_path)
       (read_text fs system_cookie_path)
       (map_option (\<lambda>dir. read_text fs (path_join dir ''rebuilderd-auth-cookie'')) (data_dir h))"

section \<open>Setting it up\<close>

definition cookie_path :: "host \<Rightarrow> string" where
  "cookie_path h =
     (case cookie_path_var h of
        Some path \<Rightarrow> path
      | None \<Rightarrow>
          (case data_dir h of
             Some dir \<Rightarrow> path_join dir ''rebuilderd-auth-cookie''
           | None \<Rightarrow> ''./auth-cookie''))"

text \<open>The outcomes of the system calls: creating the directories, opening the file, and a fault of the
  write after some bytes.\<close>

record io_outcome =
  io_create_dirs :: bool
  io_open :: bool
  io_write_fault :: "nat option"

definition setup_auth_cookie ::
  "(string \<Rightarrow> auth_config result) \<Rightarrow> host \<Rightarrow> io_outcome \<Rightarrow> string \<Rightarrow> files \<Rightarrow> string result \<times> files" where
  "setup_auth_cookie toml h sys random fs =
     (let cookie = (case found_cookie toml h fs of Inr c \<Rightarrow> c | Inl _ \<Rightarrow> random);
          path = cookie_path h
      in if has_parent path \<and> \<not> io_create_dirs sys then (Inl LibraryError, fs)
         else if \<not> io_open sys then (Inl LibraryError, fs)
         else (case write_all (io_write_fault sys) (cookie @ [CHR 0x0A]) of
                 (Inl e, text) \<Rightarrow> (Inl e, fs(path \<mapsto> text))
               | (Inr _, text) \<Rightarrow> (Inr cookie, fs(path \<mapsto> text))))"

text \<open>\<open>config::load\<close> of the daemon.\<close>

definition daemon_load ::
  "(string \<Rightarrow> config_file result) \<Rightarrow> (string \<Rightarrow> auth_config result) \<Rightarrow> host \<Rightarrow> io_outcome \<Rightarrow> string \<Rightarrow>
   string option \<Rightarrow> files \<Rightarrow> config result \<times> files" where
  "daemon_load toml toml_auth h sys random path fs =
     (case (case path of
              Some p \<Rightarrow> (case read_text fs p of Inl e \<Rightarrow> Inl e | Inr buf \<Rightarrow> toml buf)
            | None \<Rightarrow> Inr default_config_file) of
        Inl e \<Rightarrow> (Inl e, fs)
      | Inr c \<Rightarrow>
          map_prod (map_sum id (from_struct (http_addr_var h) c)) id
            (setup_auth_cookie toml_auth h sys random fs))"

text \<open>\<open>Client::with_auth_cookie\<close> on this machine.\<close>

definition with_local_cookie :: "(string \<Rightarrow> auth_config result) \<Rightarrow> host \<Rightarrow> files \<Rightarrow> client \<Rightarrow> client result" where
  "with_local_cookie toml h fs c =
     with_auth_cookie (map_option (\<lambda>p. read_cookie_from_file (read_text fs p)) (cookie_path_var h))
       (found_cookie toml h fs) c"

section \<open>Trimming\<close>

lemma dropWhile_id: "s = [] \<or> \<not> P (hd s) \<Longrightarrow> dropWhile P s = s"
  by (cases s) simp_all

lemma trim_outer: "s = [] \<or> \<not> is_space (hd s) \<and> \<not> is_space (last s) \<Longrightarrow> trim s = s"
  by (cases "s = []") (simp_all add: trim_def dropWhile_id hd_rev)

lemma trim_idem [simp]: "trim (trim s) = trim s"
  using trim_nonspace by (intro trim_outer) blast

lemma trim_newline:
  assumes "trim c = c" shows "trim (c @ [CHR 0x0A]) = c"
proof (cases "c = []")
  case False
  with assms have "\<not> is_space (hd c)" "\<not> is_space (last c)" using trim_nonspace[of c] by simp_all
  moreover have "is_space (CHR 0x0A)" by (simp add: is_space_def)
  ultimately show ?thesis using False by (simp add: trim_def dropWhile_id hd_rev)
qed (simp add: trim_def is_space_def)

section \<open>The paths differ\<close>

lemma path_join_last: "name \<noteq> [] \<Longrightarrow> last (path_join dir name) = last name"
  by (simp add: path_join_def)

lemma suffix_path_join: "suffix name (path_join dir name)"
  by (simp add: path_join_def suffix_def)

lemma cookie_file_apart [simp]:
  "path_join dir ''rebuilderd.conf'' \<noteq> path_join dir' ''rebuilderd-auth-cookie''"
  "system_config_path \<noteq> path_join dir' ''rebuilderd-auth-cookie''"
  "system_cookie_path \<noteq> path_join dir' ''rebuilderd-auth-cookie''"
proof -
  show "path_join dir ''rebuilderd.conf'' \<noteq> path_join dir' ''rebuilderd-auth-cookie''"
    using path_join_last[of "''rebuilderd.conf''" dir] path_join_last[of "''rebuilderd-auth-cookie''" dir']
    by auto
  have "last system_config_path \<noteq> last (path_join dir' ''rebuilderd-auth-cookie'')"
    by (simp add: path_join_last system_config_path_def)
  then show "system_config_path \<noteq> path_join dir' ''rebuilderd-auth-cookie''" by metis
  show "system_cookie_path \<noteq> path_join dir' ''rebuilderd-auth-cookie''"
  proof
    assume "system_cookie_path = path_join dir' ''rebuilderd-auth-cookie''"
    then have "suffix ''rebuilderd-auth-cookie'' system_cookie_path"
      using suffix_path_join[of "''rebuilderd-auth-cookie''" dir'] by metis
    then show False by (simp add: system_cookie_path_def suffix_to_prefix)
  qed
qed

section \<open>The cookie is stable\<close>

text \<open>The configuration files that are asked for a cookie can be read, or are not there.\<close>

definition configs_parse :: "(string \<Rightarrow> auth_config result) \<Rightarrow> host \<Rightarrow> files \<Rightarrow> bool" where
  "configs_parse toml h fs \<longleftrightarrow>
     (case config_dir h of
        Some dir \<Rightarrow> \<not> isl (read_cookie_from_config toml fs (path_join dir ''rebuilderd.conf''))
      | None \<Rightarrow> True) \<and>
     \<not> isl (read_cookie_from_config toml fs system_config_path)"

lemma setup_auth_cookie_Inr:
  assumes "setup_auth_cookie toml h sys random fs = (Inr c, fs1)"
  shows "fs1 = fs(cookie_path h \<mapsto> c @ [CHR 0x0A])"
    and "c = (case found_cookie toml h fs of Inr c \<Rightarrow> c | Inl _ \<Rightarrow> random)"
  using assms
  by (auto simp: setup_auth_cookie_def Let_def write_all_def split: if_splits option.splits)

lemma read_written [simp]: "read_text (fs(p \<mapsto> text)) p = Inr text"
  by (simp add: read_text_def)

lemma read_elsewhere [simp]: "p \<noteq> p' \<Longrightarrow> read_text (fs(p' \<mapsto> text)) p = read_text fs p"
  by (simp add: read_text_def)

lemma config_elsewhere [simp]:
  "p \<noteq> p' \<Longrightarrow> read_cookie_from_config toml (fs(p' \<mapsto> text)) p = read_cookie_from_config toml fs p"
  by (simp add: read_cookie_from_config_def)

lemma trimmed_cookie: "read_cookie_from_file r = Inr c \<Longrightarrow> trim c = c"
  by (cases r) (auto simp: read_cookie_from_file_def)

lemma written_cookie: "trim c = c \<Longrightarrow> read_cookie_from_file (Inr (c @ [CHR 0x0A])) = Inr c"
  by (simp add: read_cookie_from_file_def trim_newline)

lemma found_cookie_var:
  "cookie_path_var h = Some p \<Longrightarrow> found_cookie toml h fs = read_cookie_from_file (read_text fs p)"
  by (simp add: found_cookie_def find_auth_cookie_def)

text \<open>What is found before the file of the daemon itself is looked at.\<close>

lemma find_auth_cookie_data:
  assumes "\<forall>e. user \<noteq> Some (Inl e)" "\<forall>e. sys \<noteq> Inl e"
  shows "(\<exists>c. \<forall>r. find_auth_cookie None user sys system (Some r) = Inr c) \<or>
    (\<forall>r. find_auth_cookie None user sys system (Some r) =
      (case read_cookie_from_file r of Inr c \<Rightarrow> Inr c | Inl _ \<Rightarrow> Inl LibraryError))"
proof (cases "\<exists>c. user = Some (Inr (Some c)) \<or> sys = Inr (Some c)")
  case True
  with assms show ?thesis by (auto simp: find_auth_cookie_def split: option.split sum.split)
next
  case False
  with assms have "find_auth_cookie None user sys system (Some r) =
      (case read_cookie_from_file system of Inr c \<Rightarrow> Inr c
       | Inl _ \<Rightarrow> (case read_cookie_from_file r of Inr c \<Rightarrow> Inr c | Inl _ \<Rightarrow> Inl LibraryError))" for r
    by (auto simp: find_auth_cookie_def split: option.split sum.split)
  then show ?thesis by (cases "read_cookie_from_file system") simp_all
qed

lemma found_cookie_data:
  assumes "cookie_path_var h = None" "data_dir h = Some dir" "configs_parse toml h fs"
  obtains (elsewhere) c where
      "\<And>text. found_cookie toml h (fs(path_join dir ''rebuilderd-auth-cookie'' \<mapsto> text)) = Inr c"
      "found_cookie toml h fs = Inr c"
    | (data) "\<And>fs'. fs' = fs \<or> (\<exists>text. fs' = fs(path_join dir ''rebuilderd-auth-cookie'' \<mapsto> text)) \<Longrightarrow>
        found_cookie toml h fs' =
          (case read_cookie_from_file (read_text fs' (path_join dir ''rebuilderd-auth-cookie'')) of
             Inr c \<Rightarrow> Inr c | Inl _ \<Rightarrow> Inl LibraryError)"
proof -
  let ?f = "path_join dir ''rebuilderd-auth-cookie''"
  let ?user = "map_option (\<lambda>dir. read_cookie_from_config toml fs (path_join dir ''rebuilderd.conf''))
    (config_dir h)"
  let ?sys = "read_cookie_from_config toml fs system_config_path"
  let ?system = "read_text fs system_cookie_path"
  have found: "found_cookie toml h fs' = find_auth_cookie None ?user ?sys ?system (Some (read_text fs' ?f))"
    if "fs' = fs \<or> (\<exists>text. fs' = fs(?f \<mapsto> text))" for fs'
    using that assms(1,2) by (auto simp: found_cookie_def)
  have parse: "\<forall>e. ?user \<noteq> Some (Inl e)" "\<forall>e. ?sys \<noteq> Inl e"
    using assms(3) by (auto simp: configs_parse_def split: option.splits)
  from find_auth_cookie_data[OF parse] show thesis
  proof
    assume "\<exists>c. \<forall>r. find_auth_cookie None ?user ?sys ?system (Some r) = Inr c"
    with found elsewhere show thesis by metis
  next
    assume "\<forall>r. find_auth_cookie None ?user ?sys ?system (Some r) =
      (case read_cookie_from_file r of Inr c \<Rightarrow> Inr c | Inl _ \<Rightarrow> Inl LibraryError)"
    with found show thesis by (intro data) simp
  qed
qed

lemma found_after_setup:
  assumes "setup_auth_cookie toml h sys random fs = (Inr c, fs1)"
    and "cookie_path_var h \<noteq> None \<or> data_dir h \<noteq> None \<and> configs_parse toml h fs"
    and "trim random = random"
  shows "found_cookie toml h fs1 = Inr c"
proof (cases "cookie_path_var h")
  case (Some p)
  from setup_auth_cookie_Inr[OF assms(1)] Some assms(3) have "trim c = c"
    by (auto simp: found_cookie_var split: sum.split intro: trimmed_cookie)
  then show ?thesis using Some setup_auth_cookie_Inr(1)[OF assms(1)]
    by (simp add: found_cookie_var cookie_path_def written_cookie)
next
  case None
  with assms(2) obtain dir where dir: "data_dir h = Some dir" and parse: "configs_parse toml h fs" by auto
  let ?f = "path_join dir ''rebuilderd-auth-cookie''"
  have fs1: "fs1 = fs(?f \<mapsto> c @ [CHR 0x0A])"
    using setup_auth_cookie_Inr(1)[OF assms(1)] None dir by (simp add: cookie_path_def)
  from None dir parse show ?thesis
  proof (cases rule: found_cookie_data)
    case (elsewhere c')
    with setup_auth_cookie_Inr(2)[OF assms(1)] show ?thesis by (simp add: fs1)
  next
    case data
    from data[of fs] setup_auth_cookie_Inr(2)[OF assms(1)] assms(3) have "trim c = c"
      by (auto split: sum.splits intro: trimmed_cookie)
    with data[of fs1] show ?thesis by (auto simp: fs1 written_cookie)
  qed
qed

lemma setup_again:
  assumes "setup_auth_cookie toml h sys random fs = (Inr c, fs1)" "found_cookie toml h fs1 = Inr c"
    and "io_create_dirs sys'" "io_open sys'" "io_write_fault sys' = None"
  shows "setup_auth_cookie toml h sys' random' fs1 = (Inr c, fs1)"
  using assms(2-) setup_auth_cookie_Inr(1)[OF assms(1)]
  by (simp add: setup_auth_cookie_def Let_def write_all_def)

lemma daemon_load_Inr:
  assumes "daemon_load toml toml_auth h sys random path fs = (Inr cfg, fs1)"
  shows "setup_auth_cookie toml_auth h sys random fs = (Inr (cfg_auth_cookie cfg), fs1)"
  using assms
  by (cases "setup_auth_cookie toml_auth h sys random fs")
    (auto simp: daemon_load_def from_struct_def map_sum_Inr split: sum.splits)


definition sample_host :: host where
  "sample_host = \<lparr>cookie_path_var = None, http_addr_var = None, config_dir = Some ''/root/.config'',
     data_dir = Some ''/root/.local/share''\<rparr>"

definition sample_client :: client where
  "sample_client = \<lparr>cl_path = [[]], cl_is_default_endpoint = True, cl_auth_cookie = None,
     cl_worker_key = None, cl_signup_secret = None\<rparr>"


end
