(* ===== verification/Commands.thy ===== *)
theory Commands
  imports Rebuildctl Cookie
begin

text \<open>
  rebuildctl as a program (\<open>main\<close> of \<open>tools/src/main.rs\<close>, with \<open>tools/src/args.rs\<close>,
  \<open>tools/src/config.rs\<close> and \<open>tools/src/fancy.rs\<close>): from the command line to the requests it sends and
  what it prints. It reads its configuration and the cookie from the files of the machine; what is at
  the other end of the connection is a parameter that answers HTTP requests and may change a world.
\<close>

section \<open>The command line\<close>

record sync_profile_args =
  spa_print_json :: bool
  spa_profile :: string
  spa_config_file :: string

record stats_collect_args =
  sca_backend :: "string option"
  sca_distribution :: "string option"
  sca_release :: "string option"
  sca_architecture :: "string option"

record peers_check_args =
  pca_config_file :: string
  pca_profile :: "string option"

text \<open>The flag of the lists is \<open>--json\<close>.\<close>

datatype pkgs_command =
    Pkgs_sync pkgs_sync
  | Pkgs_ls pkgs_filter bool
  | Pkgs_requeue pkgs_requeue
  | Pkgs_sync_profile sync_profile_args
  | Pkgs_sync_stdin
  | Pkgs_log pkgs_filter
  | Pkgs_diffoscope pkgs_filter
  | Pkgs_attestation pkgs_filter

datatype queue_command =
    Queue_ls queue_list_args bool
  | Queue_push queue_push_args
  | Queue_delete queue_drop_args

datatype sub_command =
    Sub_status
  | Sub_pkgs pkgs_command
  | Sub_queue queue_command
  | Sub_stats_collect stats_collect_args
  | Sub_peers_check peers_check_args
  | Sub_completions

record ctl_args =
  ca_endpoint :: "string option"
  ca_config :: "string option"
  ca_subcommand :: sub_command

section \<open>What is printed\<close>

text \<open>The texts are those of a terminal without colours; \<open>debug\<close> is the \<open>Debug\<close> form of a string. Of a
  command that fails only the error is kept, not what it printed before.\<close>

definition pad_right :: "nat \<Rightarrow> string \<Rightarrow> string" where
  "pad_right n s = s @ replicate (n - length s) CHR '' ''"

definition fancy_build_status :: "build_status \<Rightarrow> string" where
  "fancy_build_status status = pad_right 5 (build_status_as_str status)"

definition fancy_artifact_status :: "artifact_status \<Rightarrow> string" where
  "fancy_artifact_status status = pad_right 5 (artifact_status_as_str status)"

definition worker_line :: "(string \<Rightarrow> string) \<Rightarrow> worker_view \<Rightarrow> string" where
  "worker_line debug w =
     pad_right 40 (wv_name w @ '' ('' @ wv_address w @ '')'') @ '' => '' @
     (case wv_status w of Some status \<Rightarrow> debug status | None \<Rightarrow> ''idle'')"

datatype ctl_output =
    Printed_workers "string list"
  | Requeued int
  | Synced sync_outcome
  | Submitted
  | Printed_packages bool "binary_package_view list list"
  | Paged string
  | Written bytes
  | Printed_jobs bool "queued_job list list"
  | Pushed
  | Dropped int
  | Captured "stats_snapshot_view list"
  | Peers_asked
  | Printed_completions

section \<open>The machine and the other end\<close>

text \<open>What a command finds on its machine, with the parsers of the crates: \<open>ce_toml_sync\<close> reads the
  profiles of a sync configuration, \<open>ce_stdin\<close> is the report on standard input, \<open>ce_reports\<close> the
  schedulers and \<open>ce_fuel\<close> bounds the pages that are asked for.\<close>

record ctl_env =
  ce_host :: host
  ce_files :: files
  ce_toml :: "string \<Rightarrow> config_file result"
  ce_toml_auth :: "string \<Rightarrow> auth_config result"
  ce_toml_sync :: "string \<Rightarrow> (string \<times> sync_profile) list result"
  ce_parse_url :: "string \<Rightarrow> string list option"
  ce_compile :: "string \<Rightarrow> pattern result"
  ce_debug :: "string \<Rightarrow> string"
  ce_github_token :: "string option"
  ce_stdin :: "package_report result"
  ce_reports :: "pkgs_sync \<Rightarrow> package_report list result"
  ce_fuel :: nat

text \<open>The answers to a request by their types, and the clock.\<close>

record 'w answers =
  an_unit :: "http_call \<Rightarrow> 'w \<Rightarrow> unit result \<times> 'w"
  an_count :: "http_call \<Rightarrow> 'w \<Rightarrow> int result \<times> 'w"
  an_text :: "http_call \<Rightarrow> 'w \<Rightarrow> string result \<times> 'w"
  an_bytes :: "http_call \<Rightarrow> 'w \<Rightarrow> bytes result \<times> 'w"
  an_workers :: "http_call \<Rightarrow> 'w \<Rightarrow> worker_view result_page result \<times> 'w"
  an_packages :: "http_call \<Rightarrow> 'w \<Rightarrow> binary_package_view result_page result \<times> 'w"
  an_jobs :: "http_call \<Rightarrow> 'w \<Rightarrow> queued_job result_page result \<times> 'w"
  an_snapshots :: "http_call \<Rightarrow> 'w \<Rightarrow> stats_snapshot_view list result \<times> 'w"
  an_clock :: "'w \<Rightarrow> time"

text \<open>One call, and what is made of its answer.\<close>

definition and_then :: "'a result \<times> 'w \<Rightarrow> ('a \<Rightarrow> 'w \<Rightarrow> 'b result \<times> 'w) \<Rightarrow> 'b result \<times> 'w" where
  "and_then r f = (case r of (Inl e, w) \<Rightarrow> (Inl e, w) | (Inr x, w) \<Rightarrow> f x w)"

definition ends_with :: "('a \<Rightarrow> 'b) \<Rightarrow> 'a result \<times> 'w \<Rightarrow> 'b result \<times> 'w" where
  "ends_with f r = map_prod (map_sum id f) id r"

definition list_packages ::
  "'w answers \<Rightarrow> client \<Rightarrow> page option \<Rightarrow> origin_filter option \<Rightarrow> binary_identity_filter option \<Rightarrow> 'w \<Rightarrow>
   binary_package_view result_page result \<times> 'w" where
  "list_packages a c pg origin identity =
     an_packages a (call_request c (Call_get_binary_packages pg origin identity))"

text \<open>The jobs of a page are filtered at the time the page arrives.\<close>

definition list_jobs ::
  "'w answers \<Rightarrow> client \<Rightarrow> page option \<Rightarrow> origin_filter option \<Rightarrow> 'w \<Rightarrow>
   (queued_job result_page \<times> time) result \<times> 'w" where
  "list_jobs a c pg origin w =
     and_then (an_jobs a (call_request c (Call_get_queued_jobs pg origin None None)) w)
       (\<lambda>rs w1. (Inr (rs, an_clock a w1), w1))"

section \<open>Starting up\<close>

definition endpoint_cookie :: "config_file \<Rightarrow> string \<Rightarrow> string option" where
  "endpoint_cookie conf endpoint = map_option ec_cookie (cf_endpoints conf endpoint)"

definition ctl_client :: "ctl_env \<Rightarrow> ctl_args \<Rightarrow> client result" where
  "ctl_client e args =
     (case load_files (ce_toml e) (ce_files e) (ce_host e) (ca_config args) of
        Inl err \<Rightarrow> Inl err
      | Inr conf \<Rightarrow>
          new_client (ce_parse_url e) (endpoint_cookie conf) (hc_endpoint (cf_http conf)) (ca_endpoint args))"

definition ctl_cookie :: "ctl_env \<Rightarrow> client \<Rightarrow> client result" where
  "ctl_cookie e = with_local_cookie (ce_toml_auth e) (ce_host e) (ce_files e)"

text \<open>A command that authenticates fails before its first request when there is no cookie.\<close>

definition authenticated_as :: "ctl_env \<Rightarrow> client \<Rightarrow> (client \<Rightarrow> 'w \<Rightarrow> 'b result \<times> 'w) \<Rightarrow> 'w \<Rightarrow> 'b result \<times> 'w" where
  "authenticated_as e c f w = (case ctl_cookie e c of Inl err \<Rightarrow> (Inl err, w) | Inr c1 \<Rightarrow> f c1 w)"

definition load_sync_config :: "ctl_env \<Rightarrow> string \<Rightarrow> (string \<times> sync_profile) list result" where
  "load_sync_config e path =
     (case read_text (ce_files e) path of Inl err \<Rightarrow> Inl err | Inr buf \<Rightarrow> ce_toml_sync e buf)"

section \<open>The commands\<close>

definition run_status :: "ctl_env \<Rightarrow> 'w answers \<Rightarrow> client \<Rightarrow> 'w \<Rightarrow> ctl_output result \<times> 'w" where
  "run_status e a c =
     authenticated_as e c (\<lambda>c1 w.
       ends_with (\<lambda>rs. Printed_workers (map (worker_line (ce_debug e)) (records rs)))
         (an_workers a (call_request c1 (Call_get_workers None)) w))"

definition run_sync :: "ctl_env \<Rightarrow> 'w answers \<Rightarrow> client \<Rightarrow> pkgs_sync \<Rightarrow> 'w \<Rightarrow> ctl_output result \<times> 'w" where
  "run_sync e a c sync =
     authenticated_as e c (\<lambda>c1 w.
       and_then (ctl_sync (ce_reports e) (\<lambda>call. an_unit a (call_request c1 call)) sync w)
         (\<lambda>out w1. (case out of
              Sent_reports (_, Inl err) \<Rightarrow> Inl err
            | _ \<Rightarrow> Inr (Synced out), w1)))"

definition run_sync_profile ::
  "ctl_env \<Rightarrow> 'w answers \<Rightarrow> client \<Rightarrow> sync_profile_args \<Rightarrow> 'w \<Rightarrow> ctl_output result \<times> 'w" where
  "run_sync_profile e a c args w =
     (case load_sync_config e (spa_config_file args) of
        Inl err \<Rightarrow> (Inl err, w)
      | Inr profiles \<Rightarrow>
         (case profile_sync (ce_compile e) (ce_github_token e) (spa_print_json args) profiles
             (spa_profile args) of
            Inl err \<Rightarrow> (Inl err, w)
          | Inr sync \<Rightarrow> run_sync e a c sync w))"

definition run_sync_stdin :: "ctl_env \<Rightarrow> 'w answers \<Rightarrow> client \<Rightarrow> 'w \<Rightarrow> ctl_output result \<times> 'w" where
  "run_sync_stdin e a c w =
     (case ce_stdin e of
        Inl err \<Rightarrow> (Inl err, w)
      | Inr report \<Rightarrow>
          authenticated_as e c (\<lambda>c1 w.
            ends_with (\<lambda>_. Submitted) (an_unit a (call_request c1 (Call_submit_package_report report)) w)) w)"

definition run_requeue :: "ctl_env \<Rightarrow> 'w answers \<Rightarrow> client \<Rightarrow> pkgs_requeue \<Rightarrow> 'w \<Rightarrow> ctl_output result \<times> 'w" where
  "run_requeue e a c args =
     authenticated_as e c (\<lambda>c1 w.
       (case requeue (\<lambda>call. an_count a (call_request c1 call)) args w of
          ((_, requeued), w1) \<Rightarrow> (map_sum id Requeued requeued, w1)))"

text \<open>A list on a full terminal ends early when the reader goes away; here it is read to its end.\<close>

definition run_pkgs_ls ::
  "ctl_env \<Rightarrow> 'w answers \<Rightarrow> client \<Rightarrow> pkgs_filter \<Rightarrow> bool \<Rightarrow> 'w \<Rightarrow> (ctl_output result \<times> 'w) option" where
  "run_pkgs_ls e a c f json w =
     map_option (\<lambda>((pages, r), w1). (map_sum id (\<lambda>_. Printed_packages json pages) r, w1))
       (pkgs_ls (ce_fuel e) (list_packages a c) f w)"

definition run_log :: "'w answers \<Rightarrow> client \<Rightarrow> pkgs_filter \<Rightarrow> 'w \<Rightarrow> ctl_output result \<times> 'w" where
  "run_log a c f w =
     and_then (lookup_package (list_packages a c) f w) (\<lambda>p w1.
       (case log_call p of
          Inl err \<Rightarrow> (Inl err, w1)
        | Inr call \<Rightarrow> ends_with Paged (an_text a (call_request c call) w1)))"

definition run_diffoscope :: "'w answers \<Rightarrow> client \<Rightarrow> pkgs_filter \<Rightarrow> 'w \<Rightarrow> ctl_output result \<times> 'w" where
  "run_diffoscope a c f w =
     and_then (lookup_package (list_packages a c) f w) (\<lambda>p w1.
       (case artifact_call Call_get_build_artifact_diffoscope p of
          Inl err \<Rightarrow> (Inl err, w1)
        | Inr call \<Rightarrow> ends_with Paged (an_text a (call_request c call) w1)))"

definition run_attestation :: "'w answers \<Rightarrow> client \<Rightarrow> pkgs_filter \<Rightarrow> 'w \<Rightarrow> ctl_output result \<times> 'w" where
  "run_attestation a c f w =
     and_then (lookup_package (list_packages a c) f w) (\<lambda>p w1.
       (case artifact_call Call_get_build_artifact_attestation p of
          Inl err \<Rightarrow> (Inl err, w1)
        | Inr call \<Rightarrow> ends_with (\<lambda>bytes. Written (bytes @ [0x0A])) (an_bytes a (call_request c call) w1)))"

definition run_queue_ls ::
  "ctl_env \<Rightarrow> 'w answers \<Rightarrow> client \<Rightarrow> queue_list_args \<Rightarrow> bool \<Rightarrow> 'w \<Rightarrow> (ctl_output result \<times> 'w) option" where
  "run_queue_ls e a c args json w =
     map_option (\<lambda>((pages, r), w1). (map_sum id (\<lambda>_. Printed_jobs json pages) r, w1))
       (queue_ls (ce_fuel e) (list_jobs a c) args w)"

definition run_queue_push :: "ctl_env \<Rightarrow> 'w answers \<Rightarrow> client \<Rightarrow> queue_push_args \<Rightarrow> 'w \<Rightarrow> ctl_output result \<times> 'w" where
  "run_queue_push e a c args =
     authenticated_as e c (\<lambda>c1 w. ends_with (\<lambda>_. Pushed) (an_count a (call_request c1 (queue_push args)) w))"

definition run_queue_delete :: "ctl_env \<Rightarrow> 'w answers \<Rightarrow> client \<Rightarrow> queue_drop_args \<Rightarrow> 'w \<Rightarrow> ctl_output result \<times> 'w" where
  "run_queue_delete e a c args =
     authenticated_as e c (\<lambda>c1 w. ends_with Dropped (an_count a (call_request c1 (queue_drop args)) w))"

definition run_stats_collect ::
  "ctl_env \<Rightarrow> 'w answers \<Rightarrow> client \<Rightarrow> stats_collect_args \<Rightarrow> 'w \<Rightarrow> ctl_output result \<times> 'w" where
  "run_stats_collect e a c args =
     authenticated_as e c (\<lambda>c1 w. ends_with Captured
       (an_snapshots a (call_request c1 (Call_collect_stats
          \<lparr>scr_backend = sca_backend args, scr_distribution = sca_distribution args,
           scr_release = sca_release args, scr_architecture = sca_architecture args\<rparr>)) w))"

definition run_peers_check ::
  "ctl_env \<Rightarrow> 'w answers \<Rightarrow> client \<Rightarrow> peers_check_args \<Rightarrow> 'w \<Rightarrow> ctl_output result \<times> 'w" where
  "run_peers_check e a c args w =
     (case load_sync_config e (pca_config_file args) of
        Inl err \<Rightarrow> (Inl err, w)
      | Inr profiles \<Rightarrow>
          authenticated_as e c (\<lambda>c1 w.
            (case run_calls (\<lambda>call. an_unit a (call_request c1 call))
                (peers_check_calls profiles (pca_profile args)) w of
               ((_, r), w1) \<Rightarrow> (map_sum id (\<lambda>_. Peers_asked) r, w1))) w)"

fun run_pkgs ::
  "ctl_env \<Rightarrow> 'w answers \<Rightarrow> client \<Rightarrow> pkgs_command \<Rightarrow> 'w \<Rightarrow> (ctl_output result \<times> 'w) option" where
  "run_pkgs e a c (Pkgs_sync sync) w = Some (run_sync e a c sync w)"
| "run_pkgs e a c (Pkgs_ls f json) w = run_pkgs_ls e a c f json w"
| "run_pkgs e a c (Pkgs_requeue args) w = Some (run_requeue e a c args w)"
| "run_pkgs e a c (Pkgs_sync_profile args) w = Some (run_sync_profile e a c args w)"
| "run_pkgs e a c Pkgs_sync_stdin w = Some (run_sync_stdin e a c w)"
| "run_pkgs e a c (Pkgs_log f) w = Some (run_log a c f w)"
| "run_pkgs e a c (Pkgs_diffoscope f) w = Some (run_diffoscope a c f w)"
| "run_pkgs e a c (Pkgs_attestation f) w = Some (run_attestation a c f w)"

fun run_queue ::
  "ctl_env \<Rightarrow> 'w answers \<Rightarrow> client \<Rightarrow> queue_command \<Rightarrow> 'w \<Rightarrow> (ctl_output result \<times> 'w) option" where
  "run_queue e a c (Queue_ls args json) w = run_queue_ls e a c args json w"
| "run_queue e a c (Queue_push args) w = Some (run_queue_push e a c args w)"
| "run_queue e a c (Queue_delete args) w = Some (run_queue_delete e a c args w)"

definition ctl_main :: "ctl_env \<Rightarrow> 'w answers \<Rightarrow> ctl_args \<Rightarrow> 'w \<Rightarrow> (ctl_output result \<times> 'w) option" where
  "ctl_main e a args w =
     (case ctl_client e args of
        Inl err \<Rightarrow> Some (Inl err, w)
      | Inr c \<Rightarrow>
         (case ca_subcommand args of
            Sub_status \<Rightarrow> Some (run_status e a c w)
          | Sub_pkgs cmd \<Rightarrow> run_pkgs e a c cmd w
          | Sub_queue cmd \<Rightarrow> run_queue e a c cmd w
          | Sub_stats_collect cmd \<Rightarrow> Some (run_stats_collect e a c cmd w)
          | Sub_peers_check cmd \<Rightarrow> Some (run_peers_check e a c cmd w)
          | Sub_completions \<Rightarrow> Some (Inr Printed_completions, w)))"

end
