(* ===== verification/SyncCommand.thy ===== *)
theory SyncCommand
  imports Commands SyncAgain ClientProps
begin

text \<open>
  \<open>rebuildctl pkgs sync\<close> from the command line to the database: the command finds the cookie of the
  machine, sends one request per report, the daemon routes each to its handler, and what was reported
  is filed.
\<close>

section \<open>Reports in a row\<close>

text \<open>The reports are submitted one after the other; the \<open>n\<close>th request of the daemon is served at
  the time \<open>clock n\<close>.\<close>

fun submitted :: "config \<Rightarrow> http_request \<Rightarrow> (nat \<Rightarrow> time) \<Rightarrow> package_report list \<Rightarrow> nat \<times> db \<Rightarrow> nat \<times> db" where
  "submitted cfg req clock [] w = w"
| "submitted cfg req clock (r # rs) (n, d) =
     submitted cfg req clock rs (Suc n, snd (submit_package_report cfg req (clock n) r d))"

definition report_scope :: "package_report \<Rightarrow> string \<times> string \<times> string" where
  "report_scope r = (pr_distribution r, coalesce_placeholder (pr_release r), coalesce_placeholder (pr_component r))"

definition reported_keys :: "package_report \<Rightarrow> (string \<times> string \<times> string \<times> string \<times> string) set" where
  "reported_keys r = report_key r ` set (pr_packages r)"

lemma submitted_append: "submitted cfg req clock (rs @ rs') w = submitted cfg req clock rs' (submitted cfg req clock rs w)"
  by (induction cfg req clock rs w rule: submitted.induct) simp_all

lemma submitted_count: "fst (submitted cfg req clock rs w) = fst w + length rs"
  by (induction cfg req clock rs w rule: submitted.induct) simp_all

lemma marked_core [simp]:
  "source_core (marked_unseen r d s) = source_core s"
  "source_package_key (marked_unseen r d s) = source_package_key s"
  by (simp_all add: marked_unseen_def source_core_def source_package_key_def)

lemma cores_marked: "db_ok d \<Longrightarrow> cores_kept d (mark_scoped_packages_unseen report d)"
proof -
  assume "db_ok d"
  have "source_core ` set (rows (source_packages (mark_scoped_packages_unseen report d))) =
      source_core ` set (rows (source_packages d))"
    by (simp add: rows_marked_unseen[OF \<open>db_ok d\<close>] image_image)
  moreover have "build_inputs (mark_scoped_packages_unseen report d) = build_inputs d"
    by (simp add: mark_scoped_packages_unseen_def Let_def)
  ultimately show ?thesis by (simp add: cores_kept_def)
qed

text \<open>What one accepted report does.\<close>

lemma one_report:
  assumes "db_ok d" "admin cfg req = Inr ()" "d' = snd (submit_package_report cfg req now r d)"
  shows "submit_package_report cfg req now r d = (NoContent204, d')" "db_ok d'" "cores_kept d d'"
    and "source_package_key ` set (rows (source_packages d')) =
      source_package_key ` set (rows (source_packages d)) \<union> reported_keys r"
    and "\<forall>p\<in>set (pr_packages r). \<exists>s b. filed r p d' s b"
    and "\<forall>q\<in>set (rows (queue d)). q_worker q \<noteq> None \<longrightarrow> q \<in> set (rows (queue d'))"
    and "\<forall>s\<in>set (rows (source_packages d)). source_package_key s \<notin> reported_keys r \<longrightarrow>
      marked_unseen r d s \<in> set (rows (source_packages d'))"
    and "\<forall>p\<in>set (pr_packages r). \<exists>s\<in>set (rows (source_packages d')).
      source_package_key s = report_key r p \<and> sp_seen_in_last_sync s"
proof -
  let ?m = "mark_scoped_packages_unseen r d"
  obtain e where e: "sync_progress ?m e"
    "fold_result (sync_package (cfg_schedule cfg) now r) (pr_packages r) ?m = Inr e"
    "submit_package_report cfg req now r d = (NoContent204, drop_unseen_scoped_jobs r e)"
    by (rule submit_package_report_run[OF assms(1,2), where now = now and report = r]) auto
  then have d': "d' = drop_unseen_scoped_jobs r e" using assms(3) by simp
  have src: "source_packages d' = source_packages e" "build_inputs d' = build_inputs e"
    by (simp_all add: d' drop_unseen_scoped_jobs_def)
  have okm: "db_ok ?m" by (rule db_ok_mark_scoped[OF assms(1)])
  show "submit_package_report cfg req now r d = (NoContent204, d')" using e(3) d' by simp
  show "db_ok d'" unfolding assms(3) by (rule db_ok_submit_package_report[OF assms(1)])
  show "cores_kept d d'"
    using cores_trans[OF cores_marked[OF assms(1)] sync_packages_cores[OF okm e(2)]] src by (simp add: cores_kept_def)
  note * = sync_packages_sources[OF e(2) okm]
  have keys: "source_package_key ` set (rows (source_packages ?m)) = source_package_key ` set (rows (source_packages d))"
    by (simp add: rows_marked_unseen[OF assms(1)] image_image)
  have "source_package_key ` set (rows (source_packages e)) =
      source_package_key ` set (rows (source_packages ?m)) \<union> reported_keys r"
    using * unfolding reported_keys_def by (auto simp: image_iff; metis)
  then show "source_package_key ` set (rows (source_packages d')) =
      source_package_key ` set (rows (source_packages d)) \<union> reported_keys r"
    by (simp only: src keys)
  have "\<forall>p\<in>{} \<union> set (pr_packages r). \<exists>s b. filed r p e s b \<and> attended (cfg_schedule cfg) e b"
    using sync_packages_attend[OF e(2) okm, of "{}"] by simp
  then show "\<forall>p\<in>set (pr_packages r). \<exists>s b. filed r p d' s b"
    by (simp add: filed_def src) blast
  show "\<forall>q\<in>set (rows (queue d)). q_worker q \<noteq> None \<longrightarrow> q \<in> set (rows (queue d'))"
  proof (intro ballI impI)
    fix q assume q: "q \<in> set (rows (queue d))" "q_worker q \<noteq> None"
    then have "q \<in> set (rows (queue e))" using e(1) by (auto simp: sync_progress_def frame_simps)
    with q(2) show "q \<in> set (rows (queue d'))" by (simp add: d' rows_drop_unseen)
  qed
  show "\<forall>s\<in>set (rows (source_packages d)). source_package_key s \<notin> reported_keys r \<longrightarrow>
      marked_unseen r d s \<in> set (rows (source_packages d'))"
  proof (intro ballI impI)
    fix s assume s: "s \<in> set (rows (source_packages d))" "source_package_key s \<notin> reported_keys r"
    have "marked_unseen r d s \<in> set (rows (source_packages ?m))"
      using s(1) by (simp add: rows_marked_unseen[OF assms(1)])
    then show "marked_unseen r d s \<in> set (rows (source_packages d'))"
      using * s(2) by (simp add: src reported_keys_def)
  qed
  show "\<forall>p\<in>set (pr_packages r). \<exists>s\<in>set (rows (source_packages d')).
      source_package_key s = report_key r p \<and> sp_seen_in_last_sync s"
  proof
    fix p assume p: "p \<in> set (pr_packages r)"
    with * obtain s where s: "s \<in> set (rows (source_packages e))" "source_package_key s = report_key r p" by blast
    with p * obtain p' i where "s = source_package_row (new_source_of now r p') i" by blast
    with s show "\<exists>s\<in>set (rows (source_packages d')). source_package_key s = report_key r p \<and> sp_seen_in_last_sync s"
      by (auto simp: src source_package_row_def new_source_of_def)
  qed
qed

section \<open>All of them\<close>

lemma all_reports:
  assumes "db_ok d" "admin cfg req = Inr ()" "d' = snd (submitted cfg req clock rs (n, d))"
  shows "db_ok d' \<and> cores_kept d d' \<and>
    source_package_key ` set (rows (source_packages d')) =
      source_package_key ` set (rows (source_packages d)) \<union> (\<Union>r\<in>set rs. reported_keys r) \<and>
    (\<forall>r\<in>set rs. \<forall>p\<in>set (pr_packages r). \<exists>s b. filed r p d' s b) \<and>
    (\<forall>q\<in>set (rows (queue d)). q_worker q \<noteq> None \<longrightarrow> q \<in> set (rows (queue d')))"
  using assms(1,3)
proof (induction rs arbitrary: n d)
  case Nil
  then show ?case by simp
next
  case (Cons r rs)
  define d1 where "d1 = snd (submit_package_report cfg req (clock n) r d)"
  note one = one_report[OF Cons.prems(1) assms(2) d1_def]
  have d': "d' = snd (submitted cfg req clock rs (Suc n, d1))" using Cons.prems(2) by (simp add: d1_def)
  note IH = Cons.IH[OF one(2) d']
  have "\<exists>s b. filed r p d' s b" if p: "p \<in> set (pr_packages r)" for p
  proof -
    from one(5) p obtain s b where "filed r p d1 s b" by blast
    with IH show ?thesis using filed_kept by metis
  qed
  with IH one cores_trans[OF one(3)] show ?case by (auto simp: Un_assoc)
qed

text \<open>A report leaves alone what is not in its scope.\<close>

lemma in_scope_key:
  "in_scope r (b, s) \<Longrightarrow> (\<exists>name version. source_package_key s =
     (name, version, fst (report_scope r), fst (snd (report_scope r)), snd (snd (report_scope r))))"
  by (auto simp: in_scope_def report_scope_def source_package_key_def)

definition key_scope :: "string \<times> string \<times> string \<times> string \<times> string \<Rightarrow> string \<times> string \<times> string" where
  "key_scope k = snd (snd k)"

lemma reported_scope: "k \<in> reported_keys r \<Longrightarrow> key_scope k = report_scope r"
  by (auto simp: reported_keys_def report_key_def key_scope_def report_scope_def)

lemma in_scope_scope: "in_scope r (b, s) \<Longrightarrow> key_scope (source_package_key s) = report_scope r"
  using in_scope_key by (fastforce simp: key_scope_def)

lemma other_scopes:
  assumes "db_ok d" "admin cfg req = Inr ()" "s \<in> set (rows (source_packages d))"
    and "\<forall>r\<in>set rs. report_scope r \<noteq> key_scope (source_package_key s)"
  shows "s \<in> set (rows (source_packages (snd (submitted cfg req clock rs (n, d)))))"
  using assms(1,3,4)
proof (induction rs arbitrary: n d)
  case (Cons r rs)
  note one = one_report[OF Cons.prems(1) assms(2) refl, where r = r and now = "clock n"]
  have "source_package_key s \<notin> reported_keys r" using Cons.prems(3) reported_scope by fastforce
  moreover have "marked_unseen r d s = s"
    using Cons.prems(3) in_scope_scope by (fastforce simp: marked_unseen_def)
  ultimately have "s \<in> set (rows (source_packages (snd (submit_package_report cfg req (clock n) r d))))"
    using one(7) Cons.prems(2) by fastforce
  then show ?case using Cons.IH[OF one(2)] Cons.prems(3) by simp
qed simp

text \<open>With one report per scope the seen flags afterwards are those of the reports: what is reported is
  seen, and what else was on file for the scope is not, and otherwise unchanged.\<close>

definition flags_agree :: "package_report \<Rightarrow> db \<Rightarrow> db \<Rightarrow> bool" where
  "flags_agree r d d' \<longleftrightarrow>
     (\<forall>p\<in>set (pr_packages r). \<exists>s\<in>set (rows (source_packages d')).
        source_package_key s = report_key r p \<and> sp_seen_in_last_sync s) \<and>
     (\<forall>s\<in>set (rows (source_packages d)). \<forall>b\<in>set (rows (build_inputs d)).
        bi_source_package_id b = sp_id s \<and> in_scope r (b, s) \<and> source_package_key s \<notin> reported_keys r \<longrightarrow>
        s\<lparr>sp_seen_in_last_sync := False\<rparr> \<in> set (rows (source_packages d')))"

lemma flags_of_scope:
  assumes "db_ok d" "admin cfg req = Inr ()" "distinct (map report_scope rs)" "r \<in> set rs"
    and "d' = snd (submitted cfg req clock rs (n, d))"
  shows "flags_agree r d d'"
proof -
  from split_list[OF assms(4)] obtain pre post where rs: "rs = pre @ r # post" by blast
  obtain n1 d1 where d1: "submitted cfg req clock pre (n, d) = (n1, d1)" by fastforce
  define d2 where "d2 = snd (submit_package_report cfg req (clock n1) r d1)"
  have d': "d' = snd (submitted cfg req clock post (Suc n1, d2))"
    using assms(5) by (simp add: rs submitted_append d1 d2_def)
  have all: "db_ok d1" "cores_kept d d1"
    using all_reports[OF assms(1,2), of d1 clock pre n] by (simp_all add: d1)
  note one = one_report[OF all(1) assms(2) d2_def]
  have other: "\<forall>r'\<in>set pre \<union> set post. report_scope r' \<noteq> report_scope r"
    using assms(3) by (auto simp: rs image_iff)
  have after: "s \<in> set (rows (source_packages d'))"
    if "s \<in> set (rows (source_packages d2))" "key_scope (source_package_key s) = report_scope r" for s
    unfolding d' using other_scopes[OF one(2) assms(2) that(1), of post] that(2) other by simp
  have "\<exists>s\<in>set (rows (source_packages d')). source_package_key s = report_key r p \<and> sp_seen_in_last_sync s"
    if p: "p \<in> set (pr_packages r)" for p
  proof -
    from one(8) p obtain s where s: "s \<in> set (rows (source_packages d2))" "source_package_key s = report_key r p"
      "sp_seen_in_last_sync s" by blast
    have "key_scope (source_package_key s) = report_scope r"
      using p s(2) reported_scope[of "report_key r p" r] by (simp add: reported_keys_def)
    from after[OF s(1) this] s(2,3) show ?thesis by blast
  qed
  moreover have "s\<lparr>sp_seen_in_last_sync := False\<rparr> \<in> set (rows (source_packages d'))"
    if s: "s \<in> set (rows (source_packages d))" "b \<in> set (rows (build_inputs d))" "bi_source_package_id b = sp_id s"
      "in_scope r (b, s)" "source_package_key s \<notin> reported_keys r" for s b
  proof -
    note scope = in_scope_scope[OF s(4)]
    have "s \<in> set (rows (source_packages d1))"
      using other_scopes[OF assms(1,2) s(1), of pre clock n] scope other by (simp add: d1)
    moreover obtain b' where "b' \<in> set (rows (build_inputs d1))" "build_input_key b' = build_input_key b"
      using kept_input[OF all(2) s(2)] .
    then have "marked_unseen r d1 s = s\<lparr>sp_seen_in_last_sync := False\<rparr>"
      using s(3,4) by (auto simp: marked_unseen_def in_scope_def build_input_key_def)
    ultimately have "s\<lparr>sp_seen_in_last_sync := False\<rparr> \<in> set (rows (source_packages d2))"
      using one(7) s(5) by fastforce
    moreover have "source_package_key (s\<lparr>sp_seen_in_last_sync := False\<rparr>) = source_package_key s"
      by (simp add: source_package_key_def)
    ultimately show ?thesis using after scope by metis
  qed
  ultimately show ?thesis unfolding flags_agree_def by blast
qed

section \<open>The daemon at the other end\<close>

text \<open>The headers of a request as the handlers see them, and the handler of reports behind the limit on
  the size of a body and the table of routes; \<open>json_size\<close> is the length of a report as JSON.\<close>

definition received :: "http_call \<Rightarrow> http_request" where
  "received r = \<lparr>rq_headers = (\<lambda>k. map_option Text (map_of (hc_headers r) k)), rq_peer_addr = None,
     rq_accepts_zstd = True\<rparr>"

definition serve_report ::
  "config \<Rightarrow> (package_report \<Rightarrow> int) \<Rightarrow> (nat \<Rightarrow> time) \<Rightarrow> http_call \<Rightarrow> nat \<times> db \<Rightarrow> unit result \<times> (nat \<times> db)" where
  "serve_report cfg json_size clock r w =
     (case (route_request (hc_method r) (hc_path r), hc_body r) of
        (Some (H_submit_package_report, _), Some (Body_package_report report)) \<Rightarrow>
          if cfg_post_body_size_limit cfg < json_size report then (Inl LibraryError, Suc (fst w), snd w)
          else (case submit_package_report cfg (received r) (clock (fst w)) report (snd w) of
              (NoContent204, d) \<Rightarrow> (Inr (), Suc (fst w), d)
            | (_, d) \<Rightarrow> (Inl LibraryError, Suc (fst w), d))
      | _ \<Rightarrow> (Inl LibraryError, Suc (fst w), snd w))"

lemma report_routed:
  assumes "cl_path c = [[]]"
  shows "route_request (hc_method (call_request c (Call_submit_package_report r)))
    (hc_path (call_request c (Call_submit_package_report r))) = Some (H_submit_package_report, [])"
  using assms
  by (simp add: client_call_defs call_defs url_join_split split_on_path route_request_def routes_defs)

lemma report_call [simp]:
  "hc_headers (client_submit_package_report c r) = authenticated c @ [(''Content-Encoding'', ''zstd'')]"
  "hc_body (client_submit_package_report c r) = Some (Body_package_report r)"
  by (simp_all add: client_call_defs call_defs)

lemma report_admitted:
  "cl_auth_cookie c = Some (cfg_auth_cookie cfg) \<Longrightarrow>
     admin cfg (received (call_request c (Call_submit_package_report r))) = Inr ()"
  by (simp add: received_def admin_ok header_def authenticated_def)

lemma served_reports:
  assumes "cl_path c = [[]]" "cl_auth_cookie c = Some (cfg_auth_cookie cfg)"
    and "\<forall>r\<in>set rs. json_size r \<le> cfg_post_body_size_limit cfg" "db_ok (snd w)"
    and "req = received (call_request c (Call_submit_package_report undefined))"
  shows "run_calls (\<lambda>call. serve_report cfg json_size clock (call_request c call)) (map Call_submit_package_report rs) w =
    ((map Call_submit_package_report rs, Inr (replicate (length rs) ())), submitted cfg req clock rs w)"
  using assms(3,4)
proof (induction rs arbitrary: w)
  case (Cons r rs)
  obtain n d where w: "w = (n, d)" by fastforce
  have req: "received (call_request c (Call_submit_package_report r)) = req"
    by (simp add: assms(5) received_def)
  have "admin cfg req = Inr ()" unfolding assms(5) by (rule report_admitted[OF assms(2)])
  define d1 where "d1 = snd (submit_package_report cfg req (clock n) r d)"
  note one = one_report[OF Cons.prems(2)[unfolded w snd_conv] \<open>admin cfg req = Inr ()\<close> d1_def]
  have "serve_report cfg json_size clock (call_request c (Call_submit_package_report r)) w = (Inr (), (Suc n, d1))"
    using Cons.prems(1) one(1) by (simp add: serve_report_def report_routed[OF assms(1), simplified] req[simplified] w)
  then show ?case using Cons.IH[of "(Suc n, d1)"] Cons.prems(1) one(2) by (simp add: w d1_def)
qed simp

lemma ctl_client_default:
  "ctl_client e args = Inr c \<Longrightarrow> ca_endpoint args = None \<Longrightarrow> cl_is_default_endpoint c"
  by (auto simp: ctl_client_def new_client_def split: sum.splits option.splits)

lemma local_cookie:
  assumes "setup_auth_cookie toml h sys random fs = (Inr k, fs1)"
    and "cookie_path_var h \<noteq> None \<or> data_dir h \<noteq> None \<and> configs_parse toml h fs" "trim random = random"
    and "cl_is_default_endpoint c"
  shows "with_local_cookie toml h fs1 c = Inr (c\<lparr>cl_auth_cookie := Some k\<rparr>)"
  using assms(4) found_after_setup[OF assms(1-3)]
  by (cases "cookie_path_var h") (simp_all add: with_local_cookie_def with_auth_cookie_def found_cookie_var)


section \<open>A sync of two distributions\<close>

definition sample_env :: "files \<Rightarrow> ctl_env" where
  "sample_env fs = \<lparr>ce_host = sample_host, ce_files = fs, ce_toml = (\<lambda>_. Inl LibraryError),
     ce_toml_auth = (\<lambda>_. Inl LibraryError), ce_toml_sync = (\<lambda>_. Inl LibraryError),
     ce_parse_url = (\<lambda>_. Some [[]]), ce_compile = (\<lambda>_. Inl LibraryError), ce_debug = id,
     ce_github_token = None, ce_stdin = Inl LibraryError,
     ce_reports = (\<lambda>_. Inr [sample_report, sample_report\<lparr>pr_distribution := ''c''\<rparr>]), ce_fuel = 9\<rparr>"

definition sample_answers :: "config \<Rightarrow> (nat \<times> db) answers" where
  "sample_answers cfg = \<lparr>an_unit = serve_report cfg (\<lambda>_. 1) int, an_count = (\<lambda>_ w. (Inl LibraryError, w)),
     an_text = (\<lambda>_ w. (Inl LibraryError, w)), an_bytes = (\<lambda>_ w. (Inl LibraryError, w)),
     an_workers = (\<lambda>_ w. (Inl LibraryError, w)), an_packages = (\<lambda>_ w. (Inl LibraryError, w)),
     an_jobs = (\<lambda>_ w. (Inl LibraryError, w)), an_snapshots = (\<lambda>_ w. (Inl LibraryError, w)),
     an_clock = (\<lambda>w. int (fst w))\<rparr>"

definition sample_sync :: pkgs_sync where
  "sample_sync = \<lparr>ps_distro = ''d'', ps_components = [], ps_source = ''m'', ps_architectures = [],
     ps_print_json = False, ps_maintainers = [], ps_releases = [], ps_pkgs = [], ps_excludes = [],
     ps_sync_method = None, ps_github_token = None\<rparr>"

definition sample_args :: ctl_args where
  "sample_args = \<lparr>ca_endpoint = None, ca_config = None, ca_subcommand = Sub_pkgs (Pkgs_sync sample_sync)\<rparr>"


end
