(* ===== verification/Startup.thy ===== *)
theory Startup
  imports Cookie Attestation Migrations StatsConfig
begin

text \<open>
  The start of the daemon (\<open>daemon/src/main.rs\<close> with \<open>daemon/src/args.rs\<close>, \<open>setup_pool\<close> of
  \<open>daemon/src/db.rs\<close> and \<open>load\<close> of \<open>daemon/src/stats_config.rs\<close>): the configuration and its cookie, the
  signing key, the migrations and the categories of the statistics. A daemon that came up once comes up
  the same after a restart.
\<close>

section \<open>The command line and the disk\<close>

record daemon_args =
  da_check_config :: bool
  da_keygen :: bool
  da_derive_pubkey :: "string option"
  da_config :: "string option"
  da_stats_config :: "string option"
  da_signing_key :: string

text \<open>The text files, the key files and the database.\<close>

record 'd disk =
  dk_files :: files
  dk_keys :: "string \<Rightarrow> bytes option"
  dk_db :: "'d versioned"

text \<open>The parsers, the crates and the outcomes of the system calls.\<close>

record ('m, 's, 'priv, 'pub, 'id, 'd) start_env =
  se_host :: host
  se_toml :: "string \<Rightarrow> config_file result"
  se_toml_auth :: "string \<Rightarrow> auth_config result"
  se_toml_stats :: "string \<Rightarrow> stats_config_file result"
  se_io :: io_outcome
  se_random :: string
  se_in_toto :: "('m, 's, 'priv, 'pub, 'id) in_toto"
  se_pem :: pem_crate
  se_key_create :: bool
  se_key_readable :: bool
  se_key_fault :: "nat option"
  se_fuel :: nat
  se_pending :: "string list \<Rightarrow> 'd migration list result"
  se_compress_logs :: "'d code_migration"
  se_vacuum :: "unit result"
  se_analyze :: "unit result"
  se_pool :: bool

section \<open>The parts\<close>

definition stats_load :: "(string \<Rightarrow> stats_config_file result) \<Rightarrow> files \<Rightarrow> string \<Rightarrow> stats_config_file result" where
  "stats_load toml fs path = (case read_text fs path of Inl e \<Rightarrow> Inl e | Inr buf \<Rightarrow> toml buf)"

definition setup_pool ::
  "('m, 's, 'priv, 'pub, 'id, 'd) start_env \<Rightarrow> 'd versioned \<Rightarrow> (unit result \<times> 'd versioned) option" where
  "setup_pool e c =
     map_option (\<lambda>(r, c1).
         (case r of Inl err \<Rightarrow> Inl err | Inr _ \<Rightarrow> if se_pool e then Inr () else Inl LibraryError, c1))
       (db_setup (se_fuel e) (se_pending e) (se_compress_logs e) (se_vacuum e) (se_analyze e) c)"

definition trim_end_bytes :: "bytes \<Rightarrow> bytes" where
  "trim_end_bytes b = rev (dropWhile (\<lambda>c. c = 0x20 \<or> 9 \<le> c \<and> c \<le> 13) (rev b))"

text \<open>The public keys that are printed, up to the first key that is no key.\<close>

fun derive_pubkeys ::
  "('m, 's, 'priv, 'pub, 'id) in_toto \<Rightarrow> pem_crate \<Rightarrow> 'priv result list \<Rightarrow> bytes list \<times> unit result" where
  "derive_pubkeys it pem [] = ([], Inr ())"
| "derive_pubkeys it pem (k # ks) =
     (case k of
        Inl e \<Rightarrow> ([], Inl e)
      | Inr privkey \<Rightarrow>
         (case pubkey_to_pem it pem (it_public it privkey) of
            Inl e \<Rightarrow> ([], Inl e)
          | Inr pubkey \<Rightarrow> map_prod (Cons (trim_end_bytes pubkey)) id (derive_pubkeys it pem ks)))"

section \<open>The program\<close>

datatype 'priv daemon_outcome =
    Checked config
  | Generated bytes bytes
  | Derived "bytes list" "unit result"
  | Serving config 'priv stats_config_file

definition daemon_serve ::
  "('m, 's, 'priv, 'pub, 'id, 'd) start_env \<Rightarrow> daemon_args \<Rightarrow> config \<Rightarrow> 'd disk \<Rightarrow>
   ('priv daemon_outcome result \<times> 'd disk) option" where
  "daemon_serve e args cfg disk =
     (let path = da_signing_key args in
      case load_or_create_privkey_pem (se_in_toto e) (se_pem e) (se_key_create e) (se_key_readable e)
          (se_key_fault e) (dk_keys disk path) of
        (Inl err, file) \<Rightarrow> Some (Inl err, disk\<lparr>dk_keys := (dk_keys disk)(path := file)\<rparr>)
      | (Inr privkey, file) \<Rightarrow>
          (let disk1 = disk\<lparr>dk_keys := (dk_keys disk)(path := file)\<rparr>
           in map_option (\<lambda>(r, c1).
               (case r of
                  Inl err \<Rightarrow> Inl err
                | Inr _ \<Rightarrow> map_sum id (Serving cfg privkey)
                    (load_or_default (stats_load (se_toml_stats e) (dk_files disk1))
                      (\<lambda>p. dk_files disk1 p \<noteq> None) (da_stats_config args)),
                disk1\<lparr>dk_db := c1\<rparr>))
             (setup_pool e (dk_db disk1))))"

definition daemon_main ::
  "('m, 's, 'priv, 'pub, 'id, 'd) start_env \<Rightarrow> daemon_args \<Rightarrow> 'd disk \<Rightarrow>
   ('priv daemon_outcome result \<times> 'd disk) option" where
  "daemon_main e args disk =
     (case daemon_load (se_toml e) (se_toml_auth e) (se_host e) (se_io e) (se_random e) (da_config args)
         (dk_files disk) of
        (Inl err, fs) \<Rightarrow> Some (Inl err, disk\<lparr>dk_files := fs\<rparr>)
      | (Inr cfg, fs) \<Rightarrow>
          (let disk1 = disk\<lparr>dk_files := fs\<rparr> in
           if da_check_config args then Some (Inr (Checked cfg), disk1)
           else if da_keygen args then
             Some (map_sum id (\<lambda>(privkey, pubkey). Generated (trim_end_bytes privkey) (trim_end_bytes pubkey))
               (keygen_pem (se_in_toto e) (se_pem e)), disk1)
           else (case da_derive_pubkey args of
               Some path \<Rightarrow> Some
                 (case dk_keys disk1 path of
                    None \<Rightarrow> Inl LibraryError
                  | Some buf \<Rightarrow> map_sum id (\<lambda>ks. case_prod Derived (derive_pubkeys (se_in_toto e) (se_pem e) ks))
                      (pem_to_privkeys (se_in_toto e) (se_pem e) buf), disk1)
             | None \<Rightarrow> daemon_serve e args cfg disk1)))"

section \<open>A restart\<close>

lemma unit_result: "(\<forall>e. r \<noteq> Inl e) \<longleftrightarrow> r = Inr ()"
  by (cases r) simp_all

lemma setup_loop_done:
  "setup_loop fuel pend cl changed c = Some (Inr b, c1) \<Longrightarrow> pend (snd c1) = Inr []"
  by (induction fuel arbitrary: changed c) (auto split: sum.splits list.splits prod.splits)

lemma setup_pool_again:
  assumes "setup_pool e c = Some (Inr u, c1)" "se_pending e' = se_pending e" "0 < se_fuel e'" "se_pool e'"
  shows "setup_pool e' c1 = Some (Inr (), c1)"
proof -
  from assms(1) obtain r c2 where run: "db_setup (se_fuel e) (se_pending e) (se_compress_logs e) (se_vacuum e)
      (se_analyze e) c = Some (r, c2)" "c1 = c2" "r = Inr ()"
    by (auto simp: setup_pool_def unit_result split: sum.splits)
  then obtain r1 c3 where "setup_loop (se_fuel e) (se_pending e) (se_compress_logs e) False c = Some (r1, c3)"
    by (auto simp: db_setup_def)
  with run obtain b where "setup_loop (se_fuel e) (se_pending e) (se_compress_logs e) False c = Some (Inr b, c1)"
    by (cases r1) (auto simp: db_setup_def split: if_splits sum.splits)
  from setup_loop_done[OF this] have none: "se_pending e' (snd c1) = Inr []" by (simp only: assms(2))
  obtain f where "se_fuel e' = Suc f" using assms(3) gr0_implies_Suc by blast
  then have "setup_loop (se_fuel e') (se_pending e') (se_compress_logs e') False c1 = Some (Inr False, c1)"
    by (simp add: none)
  with assms(4) show ?thesis by (simp add: setup_pool_def db_setup_def)
qed

lemma key_again:
  assumes "load_or_create_privkey_pem it pem create readable fault file = (Inr k, file1)"
  shows "load_or_create_privkey_pem (it\<lparr>it_keygen := g\<rparr>) pem create' True fault' file1 = (Inr k, file1)"
proof -
  obtain r where r: "load_or_create create readable fault (map_sum id (privkey_to_pem pem) (it_keygen it)) file = (r, file1)"
    using assms by (auto simp: load_or_create_privkey_pem_def split: prod.splits sum.splits)
  with assms obtain data where data: "r = Inr data"
    by (auto simp: load_or_create_privkey_pem_def split: sum.splits)
  with r have "file1 = Some data"
    by (auto simp: load_or_create_def write_all_def split: if_splits sum.splits option.splits)
  moreover have "pem_to_privkeys (it\<lparr>it_keygen := g\<rparr>) pem data = pem_to_privkeys it pem data"
    by (simp add: pem_to_privkeys_def)
  ultimately show ?thesis
    using assms r data by (auto simp: load_or_create_privkey_pem_def load_or_create_def)
qed

lemma load_again:
  assumes "daemon_load toml toml_auth h sys random path fs = (Inr cfg, fs1)" "path \<noteq> Some (cookie_path h)"
    and "cookie_path_var h \<noteq> None \<or> data_dir h \<noteq> None \<and> configs_parse toml_auth h fs" "trim random = random"
    and "io_create_dirs sys'" "io_open sys'" "io_write_fault sys' = None"
  shows "daemon_load toml toml_auth h sys' random' path fs1 = (Inr cfg, fs1)"
proof -
  note started = daemon_load_Inr[OF assms(1)]
  from setup_auth_cookie_Inr(1)[OF started] have fs1: "fs1 p = fs p" if "p \<noteq> cookie_path h" for p
    using that by simp
  have again: "setup_auth_cookie toml_auth h sys' random' fs1 = (Inr (cfg_auth_cookie cfg), fs1)"
    using setup_again[OF started found_after_setup[OF started assms(3,4)]] assms(5-7) by blast
  have "(case path of Some p \<Rightarrow> (case read_text fs1 p of Inl e \<Rightarrow> Inl e | Inr buf \<Rightarrow> toml buf)
      | None \<Rightarrow> Inr default_config_file) =
    (case path of Some p \<Rightarrow> (case read_text fs p of Inl e \<Rightarrow> Inl e | Inr buf \<Rightarrow> toml buf)
      | None \<Rightarrow> Inr default_config_file)"
    using assms(2) fs1 by (cases path) (simp_all add: read_text_def)
  then show ?thesis
    using assms(1) started again by (auto simp: daemon_load_def split: sum.splits)
qed

text \<open>Another start of the same installation: the same host, parsers, crates and migrations, with whatever
  is random or new this time. The system calls of this start succeed.\<close>

definition same_installation ::
  "('m, 's, 'priv, 'pub, 'id, 'd) start_env \<Rightarrow> ('m, 's, 'priv, 'pub, 'id, 'd) start_env \<Rightarrow> bool" where
  "same_installation e e' \<longleftrightarrow>
     se_host e' = se_host e \<and> se_toml e' = se_toml e \<and> se_toml_auth e' = se_toml_auth e \<and>
     se_toml_stats e' = se_toml_stats e \<and> (\<exists>g. se_in_toto e' = (se_in_toto e)\<lparr>it_keygen := g\<rparr>) \<and>
     se_pem e' = se_pem e \<and> se_pending e' = se_pending e \<and>
     io_create_dirs (se_io e') \<and> io_open (se_io e') \<and> io_write_fault (se_io e') = None \<and>
     se_key_readable e' \<and> 0 < se_fuel e' \<and> se_pool e'"

lemma served_config:
  assumes "daemon_serve e args c disk = Some (Inr (Serving cfg key cats), disk1)"
  shows "c = cfg"
  using assms by (auto simp: daemon_serve_def Let_def map_sum_Inr unit_result split: prod.splits sum.splits)

lemma serve_again:
  assumes "daemon_serve e args cfg disk = Some (Inr (Serving cfg key cats), disk1)" "same_installation e e'"
  shows "daemon_serve e' args cfg disk1 = Some (Inr (Serving cfg key cats), disk1) \<and>
    dk_files disk1 = dk_files disk"
proof -
  obtain g where e': "se_toml_stats e' = se_toml_stats e" "se_in_toto e' = (se_in_toto e)\<lparr>it_keygen := g\<rparr>"
      "se_pem e' = se_pem e" "se_pending e' = se_pending e" "se_key_readable e'" "0 < se_fuel e'" "se_pool e'"
    using assms(2) by (auto simp: same_installation_def)
  let ?path = "da_signing_key args"
  obtain kf where kf: "load_or_create_privkey_pem (se_in_toto e) (se_pem e) (se_key_create e) (se_key_readable e)
      (se_key_fault e) (dk_keys disk ?path) = (Inr key, kf)"
    using assms(1) by (auto simp: daemon_serve_def Let_def map_sum_Inr unit_result split: prod.splits sum.splits)
  obtain u c1 where pool: "setup_pool e (dk_db disk) = Some (Inr u, c1)"
      "disk1 = disk\<lparr>dk_keys := (dk_keys disk)(?path := kf), dk_db := c1\<rparr>"
      "load_or_default (stats_load (se_toml_stats e) (dk_files disk)) (\<lambda>p. dk_files disk p \<noteq> None) (da_stats_config args) =
        Inr cats"
    using assms(1) by (auto simp: daemon_serve_def Let_def kf map_sum_Inr unit_result split: prod.splits sum.splits)
  show ?thesis
    using key_again[OF kf, of g "se_key_create e'" "se_key_fault e'"] setup_pool_again[OF pool(1) e'(4,6,7)] pool(3)
    by (simp add: daemon_serve_def Let_def pool(2) e'(1-3,5))
qed


definition sample_start :: "bytes \<Rightarrow> string \<Rightarrow> (nat, nat, bytes, bytes, bytes, nat) start_env" where
  "sample_start key random = \<lparr>se_host = sample_host, se_toml = (\<lambda>_. Inl LibraryError), se_toml_auth = (\<lambda>_. Inl LibraryError),
     se_toml_stats = (\<lambda>_. Inl LibraryError), se_io = \<lparr>io_create_dirs = True, io_open = True, io_write_fault = None\<rparr>,
     se_random = random,
     se_in_toto = \<lparr>it_parse = (\<lambda>_. Inl LibraryError), it_serialize = (\<lambda>_. Inl LibraryError),
       it_new = (\<lambda>_ _. Inl LibraryError), it_sig_key_id = (\<lambda>_. []), it_key_id = id, it_public = id,
       it_keygen = Inr key, it_from_pkcs8 = Inr, it_from_spki = Inr, it_as_spki = Inr\<rparr>,
     se_pem = \<lparr>pem_encode = snd, pem_parse_many = (\<lambda>b. Inr [(pem_private_key, b)])\<rparr>,
     se_key_create = True, se_key_readable = True, se_key_fault = None, se_fuel = 9, se_pending = (\<lambda>_. Inr []),
     se_compress_logs = unit_code_migration, se_vacuum = Inr (), se_analyze = Inr (), se_pool = True\<rparr>"

definition sample_daemon_args :: daemon_args where
  "sample_daemon_args = \<lparr>da_check_config = False, da_keygen = False, da_derive_pubkey = None, da_config = None,
     da_stats_config = None, da_signing_key = ''k''\<rparr>"

definition sample_disk :: "nat disk" where
  "sample_disk = \<lparr>dk_files = Map.empty, dk_keys = (\<lambda>_. None), dk_db = (0, [])\<rparr>"


end
