(* ===== verification/DebianTests.thy ===== *)
theory DebianTests
  imports Debian
begin

text \<open>
  The unit tests of \<open>tools/src/schedule/debian.rs\<close>, run on the model: the indices of the tests line by
  line, and the packages and reports that the tests expect. A text that is not ASCII is its UTF-8
  bytes, and the hash map of reports is in the order in which the model files them. The tests of the three largest indices (courier, buildlog-consultant,
  repro-env) are left out for the time that they take.
\<close>

section \<open>One stanza\<close>

definition sniffglue_stanza :: "string list" where
  "sniffglue_stanza =
    [''Package: sniffglue'',
     ''Source: rust-sniffglue'',
     ''Version: 0.14.0-2'',
     ''Installed-Size: 2344'',
     ''Maintainer: Debian Rust Maintainers <pkg-rust-maintainers@alioth-lists.debian.net>'',
     ''Architecture: amd64'',
     ''Depends: libc6 (>= 2.32), libgcc-s1 (>= 4.2), libpcap0.8 (>= 1.5.1), libseccomp2 (>= 0.0.0~20120605)'',
     ''Description: Secure multithreaded packet sniffer'',
     ''Multi-Arch: allowed'',
     ''Built-Using: rust-nix (= 0.23.0-1), rust-pktparse (= 0.5.0-1), rust-seccomp-sys (= 0.1.3-1), rustc (= 1.56.0+dfsg1-2)'',
     ''Description-md5: e7f1183e49341488d3bd8fbe63b63f37'',
     ''X-Cargo-Built-Using: rust-aho-corasick (= 0.7.10-1), rust-ansi-term (= 0.12.1-1), rust-anyhow (= 1.0.44-2), rust-arrayvec (= 0.5.1-1), rust-atty (= 0.2.14-2), rust-base64 (= 0.13.0-1), rust-bitflags (= 1.2.1-1), rust-block-buffer (= 0.9.0-4), rust-block-padding (= 0.2.1-1), rust-bstr (= 0.2.17-1), rust-byteorder (= 1.4.3-2), rust-cfg-if-0.1 (= 0.1.10-2), rust-cfg-if (= 1.0.0-1), rust-clap (= 2.33.3-1), rust-cpuid-bool (= 0.1.2-4), rust-dhcp4r (= 0.2.0-1), rust-digest (= 0.9.0-1), rust-dirs-next (= 2.0.0-1), rust-dirs-sys-next (= 0.1.1-1), rust-dns-parser (= 0.8.0-1), rust-enum-primitive (= 0.1.1-1), rust-env-logger (= 0.9.0-1), rust-generic-array (= 0.14.4-1), rust-humantime (= 2.1.0-1), rust-itoa (= 0.4.3-1), rust-lazy-static (= 1.4.0-1), rust-lexical-core (= 0.4.8-3), rust-libc (= 0.2.103-1), rust-log (= 0.4.11-2), rust-memchr (= 2.4.1-1), rust-memoffset (= 0.6.4-1), rust-nix (= 0.23.0-1), rust-nom (= 5.0.1-4), rust-num-cpus (= 1.13.0-1), rust-num-traits (= 0.2.14-1), rust-opaque-debug (= 0.3.0-1), rust-pcap-sys (= 0.1.3-2), rust-phf (= 0.8.0-2), rust-phf-shared (= 0.8.0-1), rust-pktparse (= 0.5.0-1), rust-quick-error (= 1.2.3-1), rust-reduce (= 0.1.1-1), rust-regex-automata (= 0.1.8-2), rust-regex (= 1.5.4-1), rust-regex-syntax (= 0.6.25-1), rust-rusticata-macros (= 2.0.4-1), rust-ryu (= 1.0.2-1), rust-seccomp-sys (= 0.1.3-1), rust-serde (= 1.0.130-2), rust-serde-json (= 1.0.41-1), rust-sha2 (= 0.9.2-2), rust-siphasher (= 0.3.1-1), rust-static-assertions (= 1.1.0-1), rust-strsim (= 0.9.3-1), rust-structopt (= 0.3.20-1), rust-strum (= 0.19.2-1), rust-syscallz (= 0.15.0-1), rust-termcolor (= 1.1.0-1), rust-textwrap (= 0.11.0-1), rust-time (= 0.1.42-1), rust-tls-parser (= 0.9.2-3), rust-toml (= 0.5.8-1), rust-typenum (= 1.12.0-1), rust-unicode-width (= 0.1.8-1), rust-users (= 0.11.0-1), rust-vec-map (= 0.8.1-2), rustc (= 1.56.0+dfsg1-2)'',
     ''Section: net'',
     ''Priority: optional'',
     ''Filename: pool/main/r/rust-sniffglue/sniffglue_0.14.0-2_amd64.deb'',
     ''Size: 732980'',
     ''MD5sum: 177f9229266ad5eef3fb42fff0c07345'',
     ''SHA256: 448c781a9e594227bc9f0d6c65b8beba2b3add68d3583020de188d4cfa365b40'',
     '''']"

definition sniffglue_pkgs :: "debian_bin_pkg list" where
  "sniffglue_pkgs =
    [\<lparr>dbp_name = ''sniffglue'',
       dbp_version = ''0.14.0-2'',
       dbp_source = (''rust-sniffglue'', Implicit ''0.14.0-2''),
       dbp_architecture = ''amd64'',
       dbp_filename = ''pool/main/r/rust-sniffglue/sniffglue_0.14.0-2_amd64.deb'',
       dbp_uploaders = []\<rparr>]"

lemma test_parse_bin_pkg_simple:
  "extract_pkgs to_debian_bin empty_debian_pkg (map Inr sniffglue_stanza) = Inr sniffglue_pkgs"
  by code_simp

definition mariadb_stanza :: "string list" where
  "mariadb_stanza =
    [''Package: mariadb-server'',
     ''Source: mariadb-10.5'',
     ''Version: 1:10.5.12-1'',
     ''Installed-Size: 71'',
     ''Maintainer: Debian MySQL Maintainers <pkg-mysql-maint@lists.alioth.debian.org>'',
     ''Architecture: all'',
     ''Depends: mariadb-server-10.5 (>= 1:10.5.12-1)'',
     ''Description: MariaDB database server (metapackage depending on the latest version)'',
     ''Homepage: https://mariadb.org/'',
     ''Description-md5: a887647d25d472f89e220ceda2b6e041'',
     ''Tag: devel::lang:c++, devel::lang:sql, devel::library, implemented-in::c++,'',
     '' interface::commandline, interface::daemon, network::server,'',
     '' protocol::db:mysql, role::devel-lib, role::metapackage, role::program,'',
     '' works-with::db'',
     ''Section: database'',
     ''Priority: optional'',
     ''Filename: pool/main/m/mariadb-10.5/mariadb-server_10.5.12-1_all.deb'',
     ''Size: 34856'',
     ''MD5sum: 0dc2d34ec8673612de925bb516cadc51'',
     ''SHA256: 0db2ae9db7de7cd88b02741a3fb19cf66f0043d56dcb129d91578f269973b286'',
     '''']"

definition mariadb_pkgs :: "debian_bin_pkg list" where
  "mariadb_pkgs =
    [\<lparr>dbp_name = ''mariadb-server'',
       dbp_version = ''1:10.5.12-1'',
       dbp_source = (''mariadb-10.5'', Implicit ''1:10.5.12-1''),
       dbp_architecture = ''all'',
       dbp_filename = ''pool/main/m/mariadb-10.5/mariadb-server_10.5.12-1_all.deb'',
       dbp_uploaders = []\<rparr>]"

lemma test_parse_bin_pkg_with_epoch:
  "extract_pkgs to_debian_bin empty_debian_pkg (map Inr mariadb_stanza) = Inr mariadb_pkgs"
  by code_simp

definition mariadb_source_stanza :: "string list" where
  "mariadb_source_stanza =
    [''Package: mariadb-10.5'',
     ''Binary: libmariadb-dev, libmariadb-dev-compat, libmariadb3, libmariadbd19, libmariadbd-dev, mariadb-common, mariadb-client-core-10.5, mariadb-client-10.5, mariadb-server-core-10.5, mariadb-server-10.5, mariadb-server, mariadb-client, mariadb-backup, mariadb-plugin-connect, mariadb-plugin-s3, mariadb-plugin-rocksdb, mariadb-plugin-oqgraph, mariadb-plugin-mroonga, mariadb-plugin-spider, mariadb-plugin-gssapi-server, mariadb-plugin-gssapi-client, mariadb-plugin-cracklib-password-check, mariadb-test, mariadb-test-data'',
     ''Version: 1:10.5.12-1'',
     ''Maintainer: Debian MySQL Maintainers <pkg-mysql-maint@lists.alioth.debian.org>'',
     (''Uploaders: Otto Kek'' @ [CHR 0xC3, CHR 0xA4] @ ''l'' @ [CHR 0xC3, CHR 0xA4] @ ''inen <otto@debian.org>''),
     ''Build-Depends: bison, cmake, cracklib-runtime <!nocheck>, debhelper (>= 10), dh-exec, gdb <!nocheck>, libaio-dev [linux-any], libboost-dev, libcrack2-dev (>= 2.9.0), libcurl4-openssl-dev | libcurl4-dev, libedit-dev, libedit-dev:native, libjemalloc-dev [linux-any], libjudy-dev, libkrb5-dev, liblz4-dev, libncurses5-dev (>= 5.0-6~), libncurses5-dev:native (>= 5.0-6~), libnuma-dev [linux-any], libpam0g-dev, libpcre2-dev, libsnappy-dev, libssl-dev, libssl-dev:native, libsystemd-dev [linux-any], libxml2-dev, libzstd-dev (>= 1.3.3), lsb-release, perl:any, po-debconf, psmisc, unixodbc-dev, uuid-dev, zlib1g-dev (>= 1:1.1.3-5~)'',
     ''Architecture: any all'',
     ''Standards-Version: 4.5.0'',
     ''Format: 3.0 (quilt)'',
     ''Files:'',
     '' a0aa3e2839d3caf1b17a653968bd315d 4782 mariadb-10.5_10.5.12-1.dsc'',
     '' 2b103e8a462fd1a5ce6fc9dec4c23844 101914615 mariadb-10.5_10.5.12.orig.tar.gz'',
     '' 5c8baca3552e0a2b6400588fba1088d4 195 mariadb-10.5_10.5.12.orig.tar.gz.asc'',
     '' 4e7509cb525aa7a8be9ac405ef53d784 222380 mariadb-10.5_10.5.12-1.debian.tar.xz'',
     ''Vcs-Browser: https://salsa.debian.org/mariadb-team/mariadb-10.5'',
     ''Vcs-Git: https://salsa.debian.org/mariadb-team/mariadb-10.5.git'',
     ''Checksums-Sha256:'',
     '' 0092ed302d547dd00843ada1bc85a783ee0a7aa4f0448b91d744226c6b311d55 4782 mariadb-10.5_10.5.12-1.dsc'',
     '' ab4f1ca69a30c5372e191a68e8b543a74168327680fb1f4067e8cc0a5582e4bd 101914615 mariadb-10.5_10.5.12.orig.tar.gz'',
     '' 0d3b97cfb7998fd0a62cbc6e6d8ae1340d52b616ac12e9eb8f2773a9775f82c6 195 mariadb-10.5_10.5.12.orig.tar.gz.asc'',
     '' 451dbbdaaedb6cf087ba38dd2708de6a31fa88a5333295be90c2323a414dc53c 222380 mariadb-10.5_10.5.12-1.debian.tar.xz'',
     ''Homepage: https://mariadb.org/'',
     ''Package-List:'',
     '' libmariadb-dev deb libdevel optional arch=any'',
     '' libmariadb-dev-compat deb libdevel optional arch=any'',
     '' libmariadb3 deb libs optional arch=any'',
     '' libmariadbd-dev deb libdevel optional arch=any'',
     '' libmariadbd19 deb libs optional arch=any'',
     '' mariadb-backup deb database optional arch=any'',
     '' mariadb-client deb database optional arch=all'',
     '' mariadb-client-10.5 deb database optional arch=any'',
     '' mariadb-client-core-10.5 deb database optional arch=any'',
     '' mariadb-common deb database optional arch=all'',
     '' mariadb-plugin-connect deb database optional arch=any'',
     '' mariadb-plugin-cracklib-password-check deb database optional arch=any'',
     '' mariadb-plugin-gssapi-client deb database optional arch=any'',
     '' mariadb-plugin-gssapi-server deb database optional arch=any'',
     '' mariadb-plugin-mroonga deb database optional arch=any-alpha,any-amd64,any-arm,any-arm64,any-i386,any-ia64,any-mips64el,any-mips64r6el,any-mipsel,any-mipsr6el,any-nios2,any-powerpcel,any-ppc64el,any-sh3,any-sh4,any-tilegx'',
     '' mariadb-plugin-oqgraph deb database optional arch=any'',
     '' mariadb-plugin-rocksdb deb database optional arch=amd64,arm64,mips64el,ppc64el'',
     '' mariadb-plugin-s3 deb database optional arch=any'',
     '' mariadb-plugin-spider deb database optional arch=any'',
     '' mariadb-server deb database optional arch=all'',
     '' mariadb-server-10.5 deb database optional arch=any'',
     '' mariadb-server-core-10.5 deb database optional arch=any'',
     '' mariadb-test deb database optional arch=any'',
     '' mariadb-test-data deb database optional arch=all'',
     ''Testsuite: autopkgtest'',
     ''Testsuite-Triggers: eatmydata'',
     ''Directory: pool/main/m/mariadb-10.5'',
     ''Priority: extra'',
     ''Section: misc'',
     '''']"

definition mariadb_sources :: "debian_source_pkg list" where
  "mariadb_sources =
    [\<lparr>dsp_base = ''mariadb-10.5'',
       dsp_binary = [''libmariadb-dev'',
         ''libmariadb-dev-compat'',
         ''libmariadb3'',
         ''libmariadbd19'',
         ''libmariadbd-dev'',
         ''mariadb-common'',
         ''mariadb-client-core-10.5'',
         ''mariadb-client-10.5'',
         ''mariadb-server-core-10.5'',
         ''mariadb-server-10.5'',
         ''mariadb-server'',
         ''mariadb-client'',
         ''mariadb-backup'',
         ''mariadb-plugin-connect'',
         ''mariadb-plugin-s3'',
         ''mariadb-plugin-rocksdb'',
         ''mariadb-plugin-oqgraph'',
         ''mariadb-plugin-mroonga'',
         ''mariadb-plugin-spider'',
         ''mariadb-plugin-gssapi-server'',
         ''mariadb-plugin-gssapi-client'',
         ''mariadb-plugin-cracklib-password-check'',
         ''mariadb-test'',
         ''mariadb-test-data''],
       dsp_version = ''1:10.5.12-1'',
       dsp_directory = ''pool/main/m/mariadb-10.5'',
       dsp_architecture = ''any all'',
       dsp_uploaders = [(''Otto Kek'' @ [CHR 0xC3, CHR 0xA4] @ ''l'' @ [CHR 0xC3, CHR 0xA4] @ ''inen <otto@debian.org>'')]\<rparr>]"

lemma test_parse_source_pkg:
  "extract_pkgs to_debian_source empty_debian_pkg (map Inr mariadb_source_stanza) = Inr mariadb_sources"
  by code_simp

section \<open>Groups\<close>

definition mariadb_src :: "debian_source_pkg" where
  "mariadb_src =
    \<lparr>dsp_base = ''mariadb-10.5'',
      dsp_binary = [''libmariadb-dev'',
        ''libmariadb-dev-compat'',
        ''libmariadb3'',
        ''libmariadbd19'',
        ''libmariadbd-dev'',
        ''mariadb-common'',
        ''mariadb-client-core-10.5'',
        ''mariadb-client-10.5'',
        ''mariadb-server-core-10.5'',
        ''mariadb-server-10.5'',
        ''mariadb-server'',
        ''mariadb-client'',
        ''mariadb-backup'',
        ''mariadb-plugin-connect'',
        ''mariadb-plugin-s3'',
        ''mariadb-plugin-rocksdb'',
        ''mariadb-plugin-oqgraph'',
        ''mariadb-plugin-mroonga'',
        ''mariadb-plugin-spider'',
        ''mariadb-plugin-gssapi-server'',
        ''mariadb-plugin-gssapi-client'',
        ''mariadb-plugin-cracklib-password-check'',
        ''mariadb-test'',
        ''mariadb-test-data''],
      dsp_version = ''1:10.5.12-1'',
      dsp_directory = ''pool/main/m/mariadb-10.5'',
      dsp_architecture = ''any all'',
      dsp_uploaders = [(''Otto Kek'' @ [CHR 0xC3, CHR 0xA4] @ ''l'' @ [CHR 0xC3, CHR 0xA4] @ ''inen <otto@debian.org>'')]\<rparr>"

definition mariadb_bin :: "debian_bin_pkg" where
  "mariadb_bin =
    \<lparr>dbp_name = ''mariadb-server'',
      dbp_version = ''1:10.5.12-1'',
      dbp_source = (''mariadb-10.5'', Implicit ''1:10.5.12-1''),
      dbp_architecture = ''all'',
      dbp_filename = ''pool/main/m/mariadb-10.5/mariadb-server_10.5.12-1_all.deb'',
      dbp_uploaders = []\<rparr>"

text \<open>\<open>push\<close> for each binary package, all of one source.\<close>

definition push_all :: "debian_source_pkg \<Rightarrow> debian_bin_pkg list \<Rightarrow> sync_state result" where
  "push_all src bins =
     fold_result (\<lambda>bin. sync_state_push src bin ''https://deb.debian.org/debian'' ''sid'' ''main'') bins []"

definition mariadb_reports :: sync_state where
  "mariadb_reports =
    [((''sid'', ''main'', ''all''), \<lparr>pr_distribution = ''debian'',
        pr_release = Some ''sid'',
        pr_component = Some ''main'',
        pr_architecture = ''all'',
        pr_packages = [\<lparr>spr_name = ''mariadb-10.5'',
            spr_version = ''1:10.5.12-1'',
            spr_url = ''https://buildinfos.debian.net/buildinfo-pool/m/mariadb-10.5/mariadb-10.5_10.5.12-1_all.buildinfo'',
            spr_artifacts = [\<lparr>bpr_name = ''mariadb-server'',
                bpr_version = ''1:10.5.12-1'',
                bpr_architecture = ''all'',
                bpr_url = ''https://deb.debian.org/debian/pool/main/m/mariadb-10.5/mariadb-server_10.5.12-1_all.deb''\<rparr>],
            spr_fbsd_ports_top_git_hash = None,
            spr_fbsd_build_timestamp = None,
            spr_fbsd_ports_top_git_timestamp = None\<rparr>]\<rparr>)]"

lemma test_generate_group_mariadb:
  "push_all mariadb_src [mariadb_bin] = Inr mariadb_reports"
  by code_simp

definition sniffglue_index :: "string list" where
  "sniffglue_index =
    [''Package: librust-sniffglue-dev'',
     ''Source: rust-sniffglue'',
     ''Version: 0.14.0-2'',
     ''Installed-Size: 317'',
     ''Maintainer: Debian Rust Maintainers <pkg-rust-maintainers@alioth-lists.debian.net>'',
     ''Architecture: amd64'',
     ''Provides: librust-sniffglue+default-dev (= 0.14.0-2), librust-sniffglue-0+default-dev (= 0.14.0-2), librust-sniffglue-0-dev (= 0.14.0-2), librust-sniffglue-0.14+default-dev (= 0.14.0-2), librust-sniffglue-0.14-dev (= 0.14.0-2), librust-sniffglue-0.14.0+default-dev (= 0.14.0-2), librust-sniffglue-0.14.0-dev (= 0.14.0-2)'',
     ''Depends: librust-ansi-term-0.12+default-dev, librust-anyhow-1+default-dev, librust-atty-0.2+default-dev, librust-base64-0.13+default-dev, librust-bstr-0.2+default-dev (>= 0.2.12-~~), librust-dhcp4r-0.2+default-dev, librust-dirs-next-2+default-dev, librust-dns-parser-0.8+default-dev, librust-env-logger-0.9+default-dev, librust-libc-0.2+default-dev, librust-log-0.4+default-dev, librust-nix-0.23+default-dev, librust-nom-5+default-dev, librust-num-cpus-1+default-dev (>= 1.6-~~), librust-pcap-sys-0.1+default-dev (>= 0.1.3-~~), librust-pktparse-0.5+default-dev, librust-pktparse-0.5+serde-dev, librust-reduce-0.1+default-dev (>= 0.1.1-~~), librust-serde-1+default-dev, librust-serde-derive-1+default-dev, librust-serde-json-1+default-dev, librust-sha2-0.9+default-dev, librust-structopt-0.3+default-dev, librust-syscallz-0.15+default-dev, librust-tls-parser-0.9+default-dev, librust-toml-0.5+default-dev, librust-users-0.11+default-dev'',
     ''Description: Secure multithreaded packet sniffer - Rust source code'',
     ''Multi-Arch: same'',
     ''Description-md5: 81e67bbd8963c4189af0a9414f889972'',
     ''Section: net'',
     ''Priority: optional'',
     ''Filename: pool/main/r/rust-sniffglue/librust-sniffglue-dev_0.14.0-2_amd64.deb'',
     ''Size: 125404'',
     ''MD5sum: 6d57946f2f56b1b58d906eb29d6a021f'',
     ''SHA256: c452054c216359ef44adc9a5d35870d707f47e503051dfcb736f47df17058961'',
     '''',
     ''Package: sniffglue'',
     ''Source: rust-sniffglue'',
     ''Version: 0.14.0-2'',
     ''Installed-Size: 2344'',
     ''Maintainer: Debian Rust Maintainers <pkg-rust-maintainers@alioth-lists.debian.net>'',
     ''Architecture: amd64'',
     ''Depends: libc6 (>= 2.32), libgcc-s1 (>= 4.2), libpcap0.8 (>= 1.5.1), libseccomp2 (>= 0.0.0~20120605)'',
     ''Description: Secure multithreaded packet sniffer'',
     ''Multi-Arch: allowed'',
     ''Built-Using: rust-nix (= 0.23.0-1), rust-pktparse (= 0.5.0-1), rust-seccomp-sys (= 0.1.3-1), rustc (= 1.56.0+dfsg1-2)'',
     ''Description-md5: e7f1183e49341488d3bd8fbe63b63f37'',
     ''X-Cargo-Built-Using: rust-aho-corasick (= 0.7.10-1), rust-ansi-term (= 0.12.1-1), rust-anyhow (= 1.0.44-2), rust-arrayvec (= 0.5.1-1), rust-atty (= 0.2.14-2), rust-base64 (= 0.13.0-1), rust-bitflags (= 1.2.1-1), rust-block-buffer (= 0.9.0-4), rust-block-padding (= 0.2.1-1), rust-bstr (= 0.2.17-1), rust-byteorder (= 1.4.3-2), rust-cfg-if-0.1 (= 0.1.10-2), rust-cfg-if (= 1.0.0-1), rust-clap (= 2.33.3-1), rust-cpuid-bool (= 0.1.2-4), rust-dhcp4r (= 0.2.0-1), rust-digest (= 0.9.0-1), rust-dirs-next (= 2.0.0-1), rust-dirs-sys-next (= 0.1.1-1), rust-dns-parser (= 0.8.0-1), rust-enum-primitive (= 0.1.1-1), rust-env-logger (= 0.9.0-1), rust-generic-array (= 0.14.4-1), rust-humantime (= 2.1.0-1), rust-itoa (= 0.4.3-1), rust-lazy-static (= 1.4.0-1), rust-lexical-core (= 0.4.8-3), rust-libc (= 0.2.103-1), rust-log (= 0.4.11-2), rust-memchr (= 2.4.1-1), rust-memoffset (= 0.6.4-1), rust-nix (= 0.23.0-1), rust-nom (= 5.0.1-4), rust-num-cpus (= 1.13.0-1), rust-num-traits (= 0.2.14-1), rust-opaque-debug (= 0.3.0-1), rust-pcap-sys (= 0.1.3-2), rust-phf (= 0.8.0-2), rust-phf-shared (= 0.8.0-1), rust-pktparse (= 0.5.0-1), rust-quick-error (= 1.2.3-1), rust-reduce (= 0.1.1-1), rust-regex-automata (= 0.1.8-2), rust-regex (= 1.5.4-1), rust-regex-syntax (= 0.6.25-1), rust-rusticata-macros (= 2.0.4-1), rust-ryu (= 1.0.2-1), rust-seccomp-sys (= 0.1.3-1), rust-serde (= 1.0.130-2), rust-serde-json (= 1.0.41-1), rust-sha2 (= 0.9.2-2), rust-siphasher (= 0.3.1-1), rust-static-assertions (= 1.1.0-1), rust-strsim (= 0.9.3-1), rust-structopt (= 0.3.20-1), rust-strum (= 0.19.2-1), rust-syscallz (= 0.15.0-1), rust-termcolor (= 1.1.0-1), rust-textwrap (= 0.11.0-1), rust-time (= 0.1.42-1), rust-tls-parser (= 0.9.2-3), rust-toml (= 0.5.8-1), rust-typenum (= 1.12.0-1), rust-unicode-width (= 0.1.8-1), rust-users (= 0.11.0-1), rust-vec-map (= 0.8.1-2), rustc (= 1.56.0+dfsg1-2)'',
     ''Section: net'',
     ''Priority: optional'',
     ''Filename: pool/main/r/rust-sniffglue/sniffglue_0.14.0-2_amd64.deb'',
     ''Size: 732980'',
     ''MD5sum: 177f9229266ad5eef3fb42fff0c07345'',
     ''SHA256: 448c781a9e594227bc9f0d6c65b8beba2b3add68d3583020de188d4cfa365b40'',
     '''']"

definition sniffglue_source_index :: "string list" where
  "sniffglue_source_index =
    [''Package: rust-sniffglue'',
     ''Binary: librust-sniffglue-dev, sniffglue'',
     ''Version: 0.14.0-2'',
     ''Maintainer: Debian Rust Maintainers <pkg-rust-maintainers@alioth-lists.debian.net>'',
     ''Uploaders: kpcyrd <git@rxv.cc>'',
     ''Build-Depends: debhelper (>= 12), dh-cargo (>= 25), cargo:native, rustc:native, libstd-rust-dev, librust-ansi-term-0.12+default-dev, librust-anyhow-1+default-dev, librust-atty-0.2+default-dev, librust-base64-0.13+default-dev, librust-bstr-0.2+default-dev (>= 0.2.12-~~), librust-dhcp4r-0.2+default-dev, librust-dirs-next-2+default-dev, librust-dns-parser-0.8+default-dev, librust-env-logger-0.9+default-dev, librust-libc-0.2+default-dev, librust-log-0.4+default-dev, librust-nix-0.23+default-dev, librust-nom-5+default-dev, librust-num-cpus-1+default-dev (>= 1.6-~~), librust-pcap-sys-0.1+default-dev (>= 0.1.3-~~), librust-pktparse-0.5+default-dev, librust-pktparse-0.5+serde-dev, librust-reduce-0.1+default-dev (>= 0.1.1-~~), librust-serde-1+default-dev, librust-serde-derive-1+default-dev, librust-serde-json-1+default-dev, librust-sha2-0.9+default-dev, librust-structopt-0.3+default-dev, librust-syscallz-0.15+default-dev, librust-tls-parser-0.9+default-dev, librust-toml-0.5+default-dev, librust-users-0.11+default-dev'',
     ''Architecture: any'',
     ''Standards-Version: 4.5.1'',
     ''Format: 3.0 (quilt)'',
     ''Files:'',
     '' cdb6bf3fb7a8725986b313a65dd3339b 3079 rust-sniffglue_0.14.0-2.dsc'',
     '' 80a7d2ab6becacf69213d9ce57d29274 134805 rust-sniffglue_0.14.0.orig.tar.gz'',
     '' 9902c121e4f5cf268b19ee8b88201979 7816 rust-sniffglue_0.14.0-2.debian.tar.xz'',
     ''Vcs-Browser: https://salsa.debian.org/rust-team/debcargo-conf/tree/master/src/sniffglue'',
     ''Vcs-Git: https://salsa.debian.org/rust-team/debcargo-conf.git [src/sniffglue]'',
     ''Checksums-Sha256:'',
     '' b9a77f9f918769ecded338c07a344257b17d1112918b1597a8c939a719444ea4 3079 rust-sniffglue_0.14.0-2.dsc'',
     '' f056bfa09e8fae5f4cc0e1d4e8ae3619050644b321800d0d6a8cc778eb80aaf3 134805 rust-sniffglue_0.14.0.orig.tar.gz'',
     '' cb3498dd85e18e7b2c7ad5cbef2ac56e4c598df0a0ac5024aa480f97de79b096 7816 rust-sniffglue_0.14.0-2.debian.tar.xz'',
     ''Package-List:'',
     '' librust-sniffglue-dev deb net optional arch=any'',
     '' sniffglue deb net optional arch=any'',
     ''Testsuite: autopkgtest'',
     ''Testsuite-Triggers: dh-cargo'',
     ''Directory: pool/main/r/rust-sniffglue'',
     ''Priority: extra'',
     ''Section: misc'',
     '''']"

definition sniffglue_reports :: sync_state where
  "sniffglue_reports =
    [((''sid'', ''main'', ''amd64''), \<lparr>pr_distribution = ''debian'',
        pr_release = Some ''sid'',
        pr_component = Some ''main'',
        pr_architecture = ''amd64'',
        pr_packages = [\<lparr>spr_name = ''rust-sniffglue'',
            spr_version = ''0.14.0-2'',
            spr_url = ''https://buildinfos.debian.net/buildinfo-pool/r/rust-sniffglue/rust-sniffglue_0.14.0-2_amd64.buildinfo'',
            spr_artifacts = [\<lparr>bpr_name = ''librust-sniffglue-dev'',
                bpr_version = ''0.14.0-2'',
                bpr_architecture = ''amd64'',
                bpr_url = ''https://deb.debian.org/debian/pool/main/r/rust-sniffglue/librust-sniffglue-dev_0.14.0-2_amd64.deb''\<rparr>,
              \<lparr>bpr_name = ''sniffglue'',
                bpr_version = ''0.14.0-2'',
                bpr_architecture = ''amd64'',
                bpr_url = ''https://deb.debian.org/debian/pool/main/r/rust-sniffglue/sniffglue_0.14.0-2_amd64.deb''\<rparr>],
            spr_fbsd_ports_top_git_hash = None,
            spr_fbsd_build_timestamp = None,
            spr_fbsd_ports_top_git_timestamp = None\<rparr>]\<rparr>)]"

lemma test_generate_group_sniffglue:
  "(case (extract_pkgs to_debian_bin empty_debian_pkg (map Inr sniffglue_index),
      extract_pkgs to_debian_source empty_debian_pkg (map Inr sniffglue_source_index)) of
      (Inr bins, Inr (src # _)) \<Rightarrow> push_all src bins
    | _ \<Rightarrow> Inl LibraryError) = Inr sniffglue_reports"
  by code_simp

section \<open>Two releases\<close>

definition novnc_sync :: "pkgs_sync" where
  "novnc_sync =
    \<lparr>ps_distro = ''debian'',
      ps_components = [''main''],
      ps_source = ''http://deb.debian.org/debian'',
      ps_architectures = [''amd64'',
        ''all''],
      ps_print_json = True,
      ps_maintainers = [],
      ps_releases = [''sid'',
        ''testing''],
      ps_pkgs = [],
      ps_excludes = [],
      ps_sync_method = None,
      ps_github_token = None\<rparr>"

definition novnc_sid_sources :: "string list" where
  "novnc_sid_sources =
    [''Package: novnc'',
     ''Binary: novnc, python3-novnc'',
     ''Version: 1:1.6.0-1'',
     ''Maintainer: Debian OpenStack <team+openstack@tracker.debian.org>'',
     ''Uploaders: Thomas Goirand <zigo@debian.org>, Michal Arbet <michal.arbet@ultimum.io>,'',
     ''Build-Depends: debhelper-compat (= 11), dh-python, openstack-pkg-tools, python3-all:any, python3-setuptools'',
     ''Build-Depends-Indep: gettext, node-commander, node-po2json, python3-greenlet'',
     ''Architecture: all'',
     ''Standards-Version: 4.6.0'',
     ''Format: 3.0 (quilt)'',
     ''Files:'',
     '' 602d3ac601a5b8a86fdee458db309ffe 2138 novnc_1.6.0-1.dsc'',
     '' 776338137022afc9f7017e92713def0a 622076 novnc_1.6.0.orig.tar.xz'',
     '' a231e8f85a415ae25aed045b443ac79d 37840 novnc_1.6.0-1.debian.tar.xz'',
     ''Vcs-Browser: https://salsa.debian.org/openstack-team/third-party/novnc'',
     ''Vcs-Git: https://salsa.debian.org/openstack-team/third-party/novnc.git'',
     ''Checksums-Sha256:'',
     '' 47de3f653e63123770c1c45b34b7da476fd6c2aa0e258dffbac60eb307859b97 2138 novnc_1.6.0-1.dsc'',
     '' 136fb59977cdc7eab902097a16ccd94669b32d5c34dc035c52eae9b4ab8d77f6 622076 novnc_1.6.0.orig.tar.xz'',
     '' df38150ece65f2c726edcfe56d65d70c30d313450a2ef84b735be82b196ef768 37840 novnc_1.6.0-1.debian.tar.xz'',
     ''Homepage: https://github.com/novnc/noVNC'',
     ''Package-List:'',
     '' novnc deb web optional arch=all'',
     '' python3-novnc deb python optional arch=all'',
     ''Directory: pool/main/n/novnc'',
     ''Priority: source'',
     ''Section: web'',
     '''',
     ''Package: novnc'',
     ''Binary: novnc'',
     ''Version: 1:1.6.0-2'',
     ''Maintainer: Debian OpenStack <team+openstack@tracker.debian.org>'',
     ''Uploaders: Thomas Goirand <zigo@debian.org>, Michal Arbet <michal.arbet@ultimum.io>,'',
     ''Build-Depends: debhelper-compat (= 11), dh-python, openstack-pkg-tools'',
     ''Build-Depends-Indep: gettext, node-commander, node-po2json'',
     ''Architecture: all'',
     ''Standards-Version: 4.6.0'',
     ''Format: 3.0 (quilt)'',
     ''Files:'',
     '' fd3c71dc3356432dfd98d71e7f873ff6 2024 novnc_1.6.0-2.dsc'',
     '' 776338137022afc9f7017e92713def0a 622076 novnc_1.6.0.orig.tar.xz'',
     '' 250801b18122eb4bb139477a95adb887 37728 novnc_1.6.0-2.debian.tar.xz'',
     ''Vcs-Browser: https://salsa.debian.org/openstack-team/third-party/novnc'',
     ''Vcs-Git: https://salsa.debian.org/openstack-team/third-party/novnc.git'',
     ''Checksums-Sha256:'',
     '' 15e5606aa4f05d0d6c721b18e96e1d5fab4853cb8fbd28e0d0b4687e5a6f81b7 2024 novnc_1.6.0-2.dsc'',
     '' 136fb59977cdc7eab902097a16ccd94669b32d5c34dc035c52eae9b4ab8d77f6 622076 novnc_1.6.0.orig.tar.xz'',
     '' 6bcfffafd44a02344d25f16adb367a9f65d9d2105564ef2356284485a84e98a0 37728 novnc_1.6.0-2.debian.tar.xz'',
     ''Homepage: https://github.com/novnc/noVNC'',
     ''Package-List:'',
     '' novnc deb web optional arch=all'',
     ''Directory: pool/main/n/novnc'',
     ''Priority: source'',
     ''Section: web'',
     '''']"

definition novnc_sid_index :: "string list" where
  "novnc_sid_index =
    [''Package: novnc'',
     ''Version: 1:1.6.0-2'',
     ''Installed-Size: 1444'',
     ''Maintainer: Debian OpenStack <team+openstack@tracker.debian.org>'',
     ''Architecture: all'',
     ''Depends: adduser, nodejs, net-tools, websockify'',
     ''Suggests: python-nova'',
     ''Description: HTML5 VNC client - daemon and programs'',
     ''Homepage: https://github.com/novnc/noVNC'',
     ''Description-md5: 3ea408da6df8fcf109db7d2cceeba20a'',
     ''Section: web'',
     ''Priority: optional'',
     ''Filename: pool/main/n/novnc/novnc_1.6.0-2_all.deb'',
     ''Size: 280152'',
     ''MD5sum: 4feccfc563133e7345f02382fc5534d9'',
     ''SHA256: 7943751137815b9b98c7b424413de78aefa8a1045129ac06c001e9e68e0de98e'',
     '''',
     ''Package: python3-novnc'',
     ''Source: novnc'',
     ''Version: 1:1.6.0-1'',
     ''Installed-Size: 49'',
     ''Maintainer: Debian OpenStack <team+openstack@tracker.debian.org>'',
     ''Architecture: all'',
     ''Depends: python3-oslo.config, python3-pil, python3:any'',
     ''Suggests: python3-nova'',
     ''Description: HTML5 VNC client - Python 3.x libraries'',
     ''Homepage: https://github.com/novnc/noVNC'',
     ''Description-md5: b0c6a6afac84b7f718cfbd184ca21a58'',
     ''Section: python'',
     ''Priority: optional'',
     ''Filename: pool/main/n/novnc/python3-novnc_1.6.0-1_all.deb'',
     ''Size: 12664'',
     ''MD5sum: e088e49616de39f4cfa162959335340e'',
     ''SHA256: 89c378d37058ea2a6c5d4bb2c1d47c4810f7504bde9e4d8142ac9781ce9df002'',
     '''']"

definition novnc_testing_sources :: "string list" where
  "novnc_testing_sources =
    [''Package: novnc'',
     ''Binary: novnc, python3-novnc'',
     ''Version: 1:1.6.0-1'',
     ''Maintainer: Debian OpenStack <team+openstack@tracker.debian.org>'',
     ''Uploaders: Thomas Goirand <zigo@debian.org>, Michal Arbet <michal.arbet@ultimum.io>,'',
     ''Build-Depends: debhelper-compat (= 11), dh-python, openstack-pkg-tools, python3-all:any, python3-setuptools'',
     ''Build-Depends-Indep: gettext, node-commander, node-po2json, python3-greenlet'',
     ''Architecture: all'',
     ''Standards-Version: 4.6.0'',
     ''Format: 3.0 (quilt)'',
     ''Files:'',
     '' 602d3ac601a5b8a86fdee458db309ffe 2138 novnc_1.6.0-1.dsc'',
     '' 776338137022afc9f7017e92713def0a 622076 novnc_1.6.0.orig.tar.xz'',
     '' a231e8f85a415ae25aed045b443ac79d 37840 novnc_1.6.0-1.debian.tar.xz'',
     ''Vcs-Browser: https://salsa.debian.org/openstack-team/third-party/novnc'',
     ''Vcs-Git: https://salsa.debian.org/openstack-team/third-party/novnc.git'',
     ''Checksums-Sha256:'',
     '' 47de3f653e63123770c1c45b34b7da476fd6c2aa0e258dffbac60eb307859b97 2138 novnc_1.6.0-1.dsc'',
     '' 136fb59977cdc7eab902097a16ccd94669b32d5c34dc035c52eae9b4ab8d77f6 622076 novnc_1.6.0.orig.tar.xz'',
     '' df38150ece65f2c726edcfe56d65d70c30d313450a2ef84b735be82b196ef768 37840 novnc_1.6.0-1.debian.tar.xz'',
     ''Homepage: https://github.com/novnc/noVNC'',
     ''Package-List:'',
     '' novnc deb web optional arch=all'',
     '' python3-novnc deb python optional arch=all'',
     ''Directory: pool/main/n/novnc'',
     ''Priority: source'',
     ''Section: web'',
     '''']"

definition novnc_testing_index :: "string list" where
  "novnc_testing_index =
    [''Package: novnc'',
     ''Version: 1:1.6.0-1'',
     ''Installed-Size: 1444'',
     ''Maintainer: Debian OpenStack <team+openstack@tracker.debian.org>'',
     ''Architecture: all'',
     ''Depends: adduser, nodejs, net-tools, python3-novnc, python3-numpy, websockify'',
     ''Suggests: python-nova'',
     ''Description: HTML5 VNC client - daemon and programs'',
     ''Homepage: https://github.com/novnc/noVNC'',
     ''Description-md5: 3ea408da6df8fcf109db7d2cceeba20a'',
     ''Section: web'',
     ''Priority: optional'',
     ''Filename: pool/main/n/novnc/novnc_1.6.0-1_all.deb'',
     ''Size: 280008'',
     ''MD5sum: e5dfdf48658a966ed211a5acbbf30cc2'',
     ''SHA256: 8fe336a27f2054d4763969395de893406bf06b5c34a46b72cb1de1928511ad02'',
     '''',
     ''Package: python3-novnc'',
     ''Source: novnc'',
     ''Version: 1:1.6.0-1'',
     ''Installed-Size: 49'',
     ''Maintainer: Debian OpenStack <team+openstack@tracker.debian.org>'',
     ''Architecture: all'',
     ''Depends: python3-oslo.config, python3-pil, python3:any'',
     ''Suggests: python3-nova'',
     ''Description: HTML5 VNC client - Python 3.x libraries'',
     ''Homepage: https://github.com/novnc/noVNC'',
     ''Description-md5: b0c6a6afac84b7f718cfbd184ca21a58'',
     ''Section: python'',
     ''Priority: optional'',
     ''Filename: pool/main/n/novnc/python3-novnc_1.6.0-1_all.deb'',
     ''Size: 12664'',
     ''MD5sum: e088e49616de39f4cfa162959335340e'',
     ''SHA256: 89c378d37058ea2a6c5d4bb2c1d47c4810f7504bde9e4d8142ac9781ce9df002'',
     '''']"

definition novnc_reports :: sync_state where
  "novnc_reports =
    [((''sid'', ''main'', ''amd64''), \<lparr>pr_distribution = ''debian'',
        pr_release = Some ''sid'',
        pr_component = Some ''main'',
        pr_architecture = ''amd64'',
        pr_packages = []\<rparr>),
     ((''sid'', ''main'', ''all''), \<lparr>pr_distribution = ''debian'',
        pr_release = Some ''sid'',
        pr_component = Some ''main'',
        pr_architecture = ''all'',
        pr_packages = [\<lparr>spr_name = ''novnc'',
            spr_version = ''1:1.6.0-2'',
            spr_url = ''https://buildinfos.debian.net/buildinfo-pool/n/novnc/novnc_1.6.0-2_all.buildinfo'',
            spr_artifacts = [\<lparr>bpr_name = ''novnc'',
                bpr_version = ''1:1.6.0-2'',
                bpr_architecture = ''all'',
                bpr_url = ''http://deb.debian.org/debian/pool/main/n/novnc/novnc_1.6.0-2_all.deb''\<rparr>],
            spr_fbsd_ports_top_git_hash = None,
            spr_fbsd_build_timestamp = None,
            spr_fbsd_ports_top_git_timestamp = None\<rparr>,
          \<lparr>spr_name = ''novnc'',
            spr_version = ''1:1.6.0-1'',
            spr_url = ''https://buildinfos.debian.net/buildinfo-pool/n/novnc/novnc_1.6.0-1_all.buildinfo'',
            spr_artifacts = [\<lparr>bpr_name = ''python3-novnc'',
                bpr_version = ''1:1.6.0-1'',
                bpr_architecture = ''all'',
                bpr_url = ''http://deb.debian.org/debian/pool/main/n/novnc/python3-novnc_1.6.0-1_all.deb''\<rparr>],
            spr_fbsd_ports_top_git_hash = None,
            spr_fbsd_build_timestamp = None,
            spr_fbsd_ports_top_git_timestamp = None\<rparr>]\<rparr>),
     ((''testing'', ''main'', ''amd64''), \<lparr>pr_distribution = ''debian'',
        pr_release = Some ''testing'',
        pr_component = Some ''main'',
        pr_architecture = ''amd64'',
        pr_packages = []\<rparr>),
     ((''testing'', ''main'', ''all''), \<lparr>pr_distribution = ''debian'',
        pr_release = Some ''testing'',
        pr_component = Some ''main'',
        pr_architecture = ''all'',
        pr_packages = [\<lparr>spr_name = ''novnc'',
            spr_version = ''1:1.6.0-1'',
            spr_url = ''https://buildinfos.debian.net/buildinfo-pool/n/novnc/novnc_1.6.0-1_all.buildinfo'',
            spr_artifacts = [\<lparr>bpr_name = ''novnc'',
                bpr_version = ''1:1.6.0-1'',
                bpr_architecture = ''all'',
                bpr_url = ''http://deb.debian.org/debian/pool/main/n/novnc/novnc_1.6.0-1_all.deb''\<rparr>,
              \<lparr>bpr_name = ''python3-novnc'',
                bpr_version = ''1:1.6.0-1'',
                bpr_architecture = ''all'',
                bpr_url = ''http://deb.debian.org/debian/pool/main/n/novnc/python3-novnc_1.6.0-1_all.deb''\<rparr>],
            spr_fbsd_ports_top_git_hash = None,
            spr_fbsd_build_timestamp = None,
            spr_fbsd_ports_top_git_timestamp = None\<rparr>]\<rparr>)]"

definition import_novnc :: "string \<Rightarrow> string list \<Rightarrow> string list \<Rightarrow> sync_state \<Rightarrow> sync_state result" where
  "import_novnc release sources index state =
     (case import_sources (\<lambda>_. map Inr sources) [] Map.empty of
        Inl e \<Rightarrow> Inl e
      | Inr bucket \<Rightarrow> import_binary_package_file (\<lambda>_. map Inr index) [] bucket release ''main'' novnc_sync state)"

lemma test_novnc_partially_pending_decruft:
  "(case import_novnc ''sid'' novnc_sid_sources novnc_sid_index [] of
      Inl e \<Rightarrow> Inl e
    | Inr state \<Rightarrow> import_novnc ''testing'' novnc_testing_sources novnc_testing_index state) = Inr novnc_reports"
  by code_simp

end
